(* ===== verification/Py_Base.thy ===== *)
theory Py_Base
  imports Complex_Main "HOL-Library.AList" "HOL-Library.Char_ord"
begin

section \<open>Python foundations shared by every component\<close>

text \<open>
  The prelude of the development: the exceptions the service raises, the effect type
  of its coroutines (exceptions with a state that survives them), the loops and
  handlers built on it, the string, integer and dictionary operations of the standard
  library the code calls, and JSON values.

  A Python \<open>str\<close> is a \<open>string\<close> whose characters are the code points U+0000 to U+00FF;
  a Python \<open>bytes\<close> is a \<open>string\<close> whose characters are the byte values. UTF-8 encoding
  and the case and white-space tables are those of Python on that range.
\<close>

named_theorems io_simps \<open>unfolding rules for the effect combinators\<close>
named_theorems wp_simps \<open>weakest-precondition rules\<close>
named_theorems keeps_intros \<open>rules for value-aware invariants of effectful code\<close>
named_theorems emit_intros \<open>rules for the events an effectful operation appends\<close>


subsection \<open>Exceptions\<close>

text \<open>
  One constructor per exception class the service raises or catches; the argument is the
  message. \<open>HTTPError\<close> is an \<open>httpx.HTTPError\<close> for the status of a response and
  \<open>TransportError\<close> its subclass \<open>httpx.TransportError\<close>; \<open>ValidationError\<close> is pydantic's, the
  two violation errors are asyncpg's.
\<close>

datatype error =
    ValueError string
  | DiffValidationError string
  | ValidationError string
  | JSONDecodeError string
  | UpstreamError string
  | NotFoundError string
  | ConflictError string
  | UnicodeDecodeError string
  | HTTPError string
  | TransportError string
  | TimeoutError string
  | OpenAIReviewError string
  | RetryableResponseError string
  | FatalResponseError string
  | KeyError string
  | LookupError string
  | IndexError string
  | TypeError string
  | AttributeError string
  | PermissionError string
  | RuntimeError string
  | UniqueViolationError string
  | ForeignKeyViolationError string
  | OSError string
  | SchemaError string
  | OutputLimitExceededError string
  | HTTPException int string

fun is_value_error :: "error \<Rightarrow> bool" where
  "is_value_error (ValueError _) = True"
| "is_value_error (DiffValidationError _) = True"
| "is_value_error (ValidationError _) = True"
| "is_value_error (JSONDecodeError _) = True"
| "is_value_error (UnicodeDecodeError _) = True"
| "is_value_error _ = False"

fun is_upstream_error :: "error \<Rightarrow> bool" where
  "is_upstream_error (UpstreamError _) = True"
| "is_upstream_error _ = False"

fun is_http_error :: "error \<Rightarrow> bool" where
  "is_http_error (HTTPError _) = True"
| "is_http_error (TransportError _) = True"
| "is_http_error _ = False"

text \<open>\<open>str(exc)\<close> and \<open>type(exc).__name__\<close>.\<close>

fun error_message :: "error \<Rightarrow> string" where
  "error_message (ValueError m) = m"
| "error_message (DiffValidationError m) = m"
| "error_message (ValidationError m) = m"
| "error_message (JSONDecodeError m) = m"
| "error_message (UpstreamError m) = m"
| "error_message (NotFoundError m) = m"
| "error_message (ConflictError m) = m"
| "error_message (HTTPError m) = m"
| "error_message (UnicodeDecodeError m) = m"
| "error_message (TransportError m) = m"
| "error_message (TimeoutError m) = m"
| "error_message (OpenAIReviewError m) = m"
| "error_message (RetryableResponseError m) = m"
| "error_message (FatalResponseError m) = m"
| "error_message (KeyError m) = m"
| "error_message (LookupError m) = m"
| "error_message (IndexError m) = m"
| "error_message (TypeError m) = m"
| "error_message (AttributeError m) = m"
| "error_message (PermissionError m) = m"
| "error_message (RuntimeError m) = m"
| "error_message (UniqueViolationError m) = m"
| "error_message (ForeignKeyViolationError m) = m"
| "error_message (OSError m) = m"
| "error_message (SchemaError m) = m"
| "error_message (OutputLimitExceededError m) = m"
| "error_message (HTTPException _ m) = m"

fun error_type_name :: "error \<Rightarrow> string" where
  "error_type_name (ValueError _) = ''ValueError''"
| "error_type_name (DiffValidationError _) = ''DiffValidationError''"
| "error_type_name (ValidationError _) = ''ValidationError''"
| "error_type_name (JSONDecodeError _) = ''JSONDecodeError''"
| "error_type_name (UpstreamError _) = ''UpstreamError''"
| "error_type_name (NotFoundError _) = ''NotFoundError''"
| "error_type_name (ConflictError _) = ''ConflictError''"
| "error_type_name (HTTPError _) = ''HTTPError''"
| "error_type_name (UnicodeDecodeError _) = ''UnicodeDecodeError''"
| "error_type_name (TransportError _) = ''TransportError''"
| "error_type_name (TimeoutError _) = ''TimeoutError''"
| "error_type_name (OpenAIReviewError _) = ''OpenAIReviewError''"
| "error_type_name (RetryableResponseError _) = ''_RetryableResponseError''"
| "error_type_name (FatalResponseError _) = ''_FatalResponseError''"
| "error_type_name (KeyError _) = ''KeyError''"
| "error_type_name (LookupError _) = ''LookupError''"
| "error_type_name (IndexError _) = ''IndexError''"
| "error_type_name (TypeError _) = ''TypeError''"
| "error_type_name (AttributeError _) = ''AttributeError''"
| "error_type_name (PermissionError _) = ''PermissionError''"
| "error_type_name (RuntimeError _) = ''RuntimeError''"
| "error_type_name (UniqueViolationError _) = ''UniqueViolationError''"
| "error_type_name (ForeignKeyViolationError _) = ''ForeignKeyViolationError''"
| "error_type_name (OSError _) = ''OSError''"
| "error_type_name (SchemaError _) = ''SchemaError''"
| "error_type_name (OutputLimitExceededError _) = ''OutputLimitExceededError''"
| "error_type_name (HTTPException _ _) = ''HTTPException''"

lemma value_error_not_upstream [simp]:
  "is_value_error e \<Longrightarrow> \<not> is_upstream_error e"
  by (cases e) auto


subsection \<open>Effects: a state that outlives an exception\<close>

text \<open>
  A coroutine run to completion takes a state and returns either its exception or its
  result, together with the state it leaves. A raised exception does not undo the
  effects that came before it.
\<close>

type_synonym 'a outcome = "error + 'a"
type_synonym ('s, 'a) io = "'s \<Rightarrow> 'a outcome \<times> 's"

definition return_io :: "'a \<Rightarrow> ('s, 'a) io" where
  "return_io x = (\<lambda>s. (Inr x, s))"

definition raise_io :: "error \<Rightarrow> ('s, 'a) io" where
  "raise_io e = (\<lambda>s. (Inl e, s))"

definition lift_io :: "'a outcome \<Rightarrow> ('s, 'a) io" where
  "lift_io r = (\<lambda>s. (r, s))"

definition bind_io :: "('s, 'a) io \<Rightarrow> ('a \<Rightarrow> ('s, 'b) io) \<Rightarrow> ('s, 'b) io" where
  "bind_io m k = (\<lambda>s. case m s of (Inl e, s') \<Rightarrow> (Inl e, s') | (Inr x, s') \<Rightarrow> k x s')"

definition seq_io :: "('s, 'a) io \<Rightarrow> ('s, 'b) io \<Rightarrow> ('s, 'b) io" where
  "seq_io m k = bind_io m (\<lambda>_. k)"

text \<open>\<open>try: m / except E as exc: h(exc)\<close>: the predicate says which exceptions \<open>E\<close> catches.\<close>

definition catch_io ::
    "('s, 'a) io \<Rightarrow> (error \<Rightarrow> bool) \<Rightarrow> (error \<Rightarrow> ('s, 'a) io) \<Rightarrow> ('s, 'a) io" where
  "catch_io m p h = (\<lambda>s. case m s of
      (Inl e, s') \<Rightarrow> if p e then h e s' else (Inl e, s')
    | (Inr x, s') \<Rightarrow> (Inr x, s'))"

text \<open>\<open>try: m / finally: f\<close> for an \<open>f\<close> that does not raise.\<close>

definition finally_io :: "('s, 'a) io \<Rightarrow> ('s \<Rightarrow> 's) \<Rightarrow> ('s, 'a) io" where
  "finally_io m f = (\<lambda>s. case m s of (r, s') \<Rightarrow> (r, f s'))"

definition get_io :: "('s \<Rightarrow> 'a) \<Rightarrow> ('s, 'a) io" where
  "get_io f = (\<lambda>s. (Inr (f s), s))"

definition update_io :: "('s \<Rightarrow> 's) \<Rightarrow> ('s, unit) io" where
  "update_io f = (\<lambda>s. (Inr (), f s))"

text \<open>\<open>for x in xs: f(x)\<close>, stopping at the first exception.\<close>

fun for_io :: "'a list \<Rightarrow> ('a \<Rightarrow> ('s, unit) io) \<Rightarrow> ('s, unit) io" where
  "for_io [] f = return_io ()"
| "for_io (x # xs) f = seq_io (f x) (for_io xs f)"

fun map_io :: "('a \<Rightarrow> ('s, 'b) io) \<Rightarrow> 'a list \<Rightarrow> ('s, 'b list) io" where
  "map_io f [] = return_io []"
| "map_io f (x # xs) = bind_io (f x) (\<lambda>y. bind_io (map_io f xs) (\<lambda>ys. return_io (y # ys)))"

lemmas io_defs = return_io_def raise_io_def lift_io_def bind_io_def seq_io_def
  catch_io_def finally_io_def get_io_def update_io_def

lemma run_return [io_simps]: "return_io x s = (Inr x, s)"
  by (simp add: return_io_def)

lemma run_raise [io_simps]: "raise_io e s = (Inl e, s)"
  by (simp add: raise_io_def)

lemma run_lift [io_simps]: "lift_io r s = (r, s)"
  by (simp add: lift_io_def)

lemma run_get [io_simps]: "get_io f s = (Inr (f s), s)"
  by (simp add: get_io_def)

lemma run_update [io_simps]: "update_io f s = (Inr (), f s)"
  by (simp add: update_io_def)

lemma run_bind [io_simps]:
  "bind_io m k s = (case m s of (Inl e, s') \<Rightarrow> (Inl e, s') | (Inr x, s') \<Rightarrow> k x s')"
  by (simp add: bind_io_def)

lemma run_seq [io_simps]:
  "seq_io m k s = (case m s of (Inl e, s') \<Rightarrow> (Inl e, s') | (Inr x, s') \<Rightarrow> k s')"
  by (simp add: seq_io_def bind_io_def)

lemma run_catch [io_simps]:
  "catch_io m p h s = (case m s of
      (Inl e, s') \<Rightarrow> if p e then h e s' else (Inl e, s') | (Inr x, s') \<Rightarrow> (Inr x, s'))"
  by (simp add: catch_io_def)

lemma run_finally [io_simps]: "finally_io m f s = (case m s of (r, s') \<Rightarrow> (r, f s'))"
  by (simp add: finally_io_def)

text \<open>
  Case analysis for a run of \<open>bind_io\<close>: it failed in the first half, or the first half
  returned and the run continued.
\<close>

lemma bind_io_cases [consumes 1, case_names raised returned]:
  assumes "bind_io m k s = (r, s')"
  obtains e where "m s = (Inl e, s')" and "r = Inl e"
        | x t where "m s = (Inr x, t)" and "k x t = (r, s')"
  using assms by (auto simp: bind_io_def split: prod.splits sum.splits)

lemma bind_io_InrE:
  assumes "bind_io m k s = (Inr y, s')"
  obtains x t where "m s = (Inr x, t)" and "k x t = (Inr y, s')"
  using assms by (auto simp: bind_io_def split: prod.splits sum.splits)

lemma seq_io_InrE:
  assumes "seq_io m k s = (Inr y, s')"
  obtains x t where "m s = (Inr x, t)" and "k t = (Inr y, s')"
  using assms by (auto simp: seq_io_def bind_io_def split: prod.splits sum.splits)


subsection \<open>Weakest preconditions\<close>

text \<open>
  \<open>wp m Q R s\<close>: from \<open>s\<close>, \<open>m\<close> returns a result and a state satisfying \<open>Q\<close>, or raises an
  exception and leaves a state satisfying \<open>R\<close>. Runs always end, so this is total
  correctness.
\<close>

definition wp ::
    "('s, 'a) io \<Rightarrow> ('a \<Rightarrow> 's \<Rightarrow> bool) \<Rightarrow> (error \<Rightarrow> 's \<Rightarrow> bool) \<Rightarrow> 's \<Rightarrow> bool" where
  "wp m Q R s = (case m s of (Inr x, s') \<Rightarrow> Q x s' | (Inl e, s') \<Rightarrow> R e s')"

lemma wp_return [wp_simps]: "wp (return_io x) Q R s = Q x s"
  by (simp add: wp_def return_io_def)

lemma wp_raise [wp_simps]: "wp (raise_io e) Q R s = R e s"
  by (simp add: wp_def raise_io_def)

lemma wp_lift [wp_simps]:
  "wp (lift_io r) Q R s = (case r of Inl e \<Rightarrow> R e s | Inr x \<Rightarrow> Q x s)"
  by (simp add: wp_def lift_io_def split: sum.splits)

lemma wp_get [wp_simps]: "wp (get_io f) Q R s = Q (f s) s"
  by (simp add: wp_def get_io_def)

lemma wp_update [wp_simps]: "wp (update_io f) Q R s = Q () (f s)"
  by (simp add: wp_def update_io_def)

lemma wp_bind [wp_simps]: "wp (bind_io m k) Q R s = wp m (\<lambda>x. wp (k x) Q R) R s"
  by (simp add: wp_def bind_io_def split: prod.splits sum.splits)

lemma wp_seq [wp_simps]: "wp (seq_io m k) Q R s = wp m (\<lambda>_. wp k Q R) R s"
  by (simp add: seq_io_def wp_bind)

lemma wp_catch [wp_simps]:
  "wp (catch_io m p h) Q R s = wp m Q (\<lambda>e t. if p e then wp (h e) Q R t else R e t) s"
  by (simp add: wp_def catch_io_def split: prod.splits sum.splits)

lemma wp_finally [wp_simps]:
  "wp (finally_io m f) Q R s = wp m (\<lambda>x t. Q x (f t)) (\<lambda>e t. R e (f t)) s"
  by (simp add: wp_def finally_io_def split: prod.splits sum.splits)

lemma wp_mono:
  assumes "wp m Q R s"
    and "\<And>x t. m s = (Inr x, t) \<Longrightarrow> Q x t \<Longrightarrow> Q' x t"
    and "\<And>e t. m s = (Inl e, t) \<Longrightarrow> R e t \<Longrightarrow> R' e t"
  shows "wp m Q' R' s"
  using assms by (auto simp: wp_def split: prod.splits sum.splits)

lemma wpI:
  assumes "\<And>x t. m s = (Inr x, t) \<Longrightarrow> Q x t"
    and "\<And>e t. m s = (Inl e, t) \<Longrightarrow> R e t"
  shows "wp m Q R s"
  using assms by (auto simp: wp_def split: prod.splits sum.splits)

lemma wp_InrD: "wp m Q R s \<Longrightarrow> m s = (Inr x, t) \<Longrightarrow> Q x t"
  by (simp add: wp_def)

lemma wp_InlD: "wp m Q R s \<Longrightarrow> m s = (Inl e, t) \<Longrightarrow> R e t"
  by (simp add: wp_def)


subsection \<open>Invariants of effectful code\<close>

text \<open>
  \<open>keeps I m Q\<close>: run from a state satisfying \<open>I\<close>, \<open>m\<close> leaves a state satisfying \<open>I\<close>
  whether it raises or not, and a value it returns satisfies \<open>Q\<close>.
\<close>

definition keeps :: "('s \<Rightarrow> bool) \<Rightarrow> ('s, 'a) io \<Rightarrow> ('a \<Rightarrow> bool) \<Rightarrow> bool" where
  "keeps I m Q = (\<forall>s. I s \<longrightarrow> wp m (\<lambda>x t. I t \<and> Q x) (\<lambda>_ t. I t) s)"

lemma keepsD:
  assumes "keeps I m Q" and "I s"
  shows "I (snd (m s))"
proof -
  obtain r t where "m s = (r, t)" by (cases "m s")
  moreover from assms have "wp m (\<lambda>x t. I t \<and> Q x) (\<lambda>_ t. I t) s"
    by (simp add: keeps_def)
  ultimately show ?thesis by (cases r) (simp_all add: wp_def)
qed

lemma keeps_InrD: "keeps I m Q \<Longrightarrow> I s \<Longrightarrow> m s = (Inr x, t) \<Longrightarrow> I t \<and> Q x"
  by (auto simp: keeps_def wp_def dest!: spec[of _ s])

lemma keeps_weaken: "keeps I m Q \<Longrightarrow> (\<And>x. Q x \<Longrightarrow> Q' x) \<Longrightarrow> keeps I m Q'"
  unfolding keeps_def by (blast intro: wp_mono)

lemma keeps_any: "keeps I m Q \<Longrightarrow> keeps I m (\<lambda>_. True)"
  by (rule keeps_weaken) auto

lemma keeps_return [keeps_intros]: "Q x \<Longrightarrow> keeps I (return_io x) Q"
  by (simp add: keeps_def wp_return)

lemma keeps_raise [keeps_intros]: "keeps I (raise_io e) Q"
  by (simp add: keeps_def wp_raise)

lemma keeps_lift [keeps_intros]: "(\<And>x. r = Inr x \<Longrightarrow> Q x) \<Longrightarrow> keeps I (lift_io r) Q"
  by (simp add: keeps_def wp_lift split: sum.splits)

lemma keeps_get: "(\<And>s. I s \<Longrightarrow> Q (f s)) \<Longrightarrow> keeps I (get_io f) Q"
  by (simp add: keeps_def wp_get)

lemma keeps_update: "(\<And>s. I s \<Longrightarrow> I (f s)) \<Longrightarrow> keeps I (update_io f) (\<lambda>_. True)"
  by (simp add: keeps_def wp_update)

lemma keeps_bind:
  assumes "keeps I m Q" and "\<And>x. Q x \<Longrightarrow> keeps I (k x) Q'"
  shows "keeps I (bind_io m k) Q'"
  unfolding keeps_def
proof (intro allI impI)
  fix s
  assume "I s"
  with assms(1) have "wp m (\<lambda>x t. I t \<and> Q x) (\<lambda>_ t. I t) s"
    by (simp add: keeps_def)
  then show "wp (bind_io m k) (\<lambda>x t. I t \<and> Q' x) (\<lambda>_ t. I t) s"
    unfolding wp_bind by (rule wp_mono) (use assms(2) in \<open>auto simp: keeps_def\<close>)
qed

lemma keeps_seq:
  assumes "keeps I m Q" and "keeps I k Q'"
  shows "keeps I (seq_io m k) Q'"
  unfolding seq_io_def by (rule keeps_bind [OF assms(1)]) (rule assms(2))

lemma keeps_catch:
  assumes "keeps I m Q" and "\<And>e. p e \<Longrightarrow> keeps I (h e) Q"
  shows "keeps I (catch_io m p h) Q"
  unfolding keeps_def
proof (intro allI impI)
  fix s
  assume "I s"
  with assms(1) have "wp m (\<lambda>x t. I t \<and> Q x) (\<lambda>_ t. I t) s"
    by (simp add: keeps_def)
  then show "wp (catch_io m p h) (\<lambda>x t. I t \<and> Q x) (\<lambda>_ t. I t) s"
    unfolding wp_catch by (rule wp_mono) (use assms(2) in \<open>auto simp: keeps_def\<close>)
qed

lemma keeps_finally:
  assumes "keeps I m Q" and "\<And>s. I s \<Longrightarrow> I (f s)"
  shows "keeps I (finally_io m f) Q"
  using assms unfolding keeps_def wp_finally by (blast intro: wp_mono)

lemma keeps_for:
  assumes "\<And>x. x \<in> set xs \<Longrightarrow> keeps I (f x) (\<lambda>_. True)"
  shows "keeps I (for_io xs f) (\<lambda>_. True)"
  using assms by (induction xs) (auto intro: keeps_return keeps_seq)

lemma keeps_map:
  assumes "\<And>x. x \<in> set xs \<Longrightarrow> keeps I (f x) Q"
  shows "keeps I (map_io f xs) (list_all Q)"
  using assms by (induction xs) (auto intro!: keeps_return keeps_bind)

lemma keeps_if [keeps_intros]:
  "(b \<Longrightarrow> keeps I m Q) \<Longrightarrow> (\<not> b \<Longrightarrow> keeps I n Q) \<Longrightarrow> keeps I (if b then m else n) Q"
  by simp

lemma keeps_option [keeps_intros]:
  "(x = None \<Longrightarrow> keeps I m Q) \<Longrightarrow> (\<And>y. x = Some y \<Longrightarrow> keeps I (k y) Q) \<Longrightarrow>
   keeps I (case x of None \<Rightarrow> m | Some y \<Rightarrow> k y) Q"
  by (cases x) auto

lemma keeps_let [keeps_intros]: "keeps I (f x) Q \<Longrightarrow> keeps I (let y = x in f y) Q"
  by simp

text \<open>A projection of the state no run changes.\<close>

definition leaves :: "('s \<Rightarrow> 'p) \<Rightarrow> ('s, 'a) io \<Rightarrow> bool" where
  "leaves f m = (\<forall>s. f (snd (m s)) = f s)"

lemma leavesD: "leaves f m \<Longrightarrow> m s = (r, t) \<Longrightarrow> f t = f s"
  unfolding leaves_def by (metis snd_conv)

lemma leavesI:
  assumes "\<And>s. wp m (\<lambda>_ t. f t = f s) (\<lambda>_ t. f t = f s) s"
  shows "leaves f m"
  unfolding leaves_def
proof
  fix s
  obtain r t where "m s = (r, t)" by (cases "m s")
  with assms[of s] show "f (snd (m s)) = f s" by (cases r) (simp_all add: wp_def)
qed

lemma leaves_wp: "leaves f m \<Longrightarrow> wp m (\<lambda>_ t. f t = f s) (\<lambda>_ t. f t = f s) s"
  by (rule wpI) (erule (1) leavesD)+

lemma leaves_keeps: "leaves f m \<Longrightarrow> keeps (\<lambda>s. P (f s)) m (\<lambda>_. True)"
  unfolding keeps_def by (auto elim!: wp_mono [OF leaves_wp])

lemma leaves_return [keeps_intros]: "leaves f (return_io x)"
  by (simp add: leaves_def return_io_def)

lemma leaves_raise [keeps_intros]: "leaves f (raise_io e)"
  by (simp add: leaves_def raise_io_def)

lemma leaves_lift [keeps_intros]: "leaves f (lift_io r)"
  by (simp add: leaves_def lift_io_def)

lemma leaves_get [keeps_intros]: "leaves f (get_io g)"
  by (simp add: leaves_def get_io_def)

lemma leaves_update: "(\<And>s. f (g s) = f s) \<Longrightarrow> leaves f (update_io g)"
  by (simp add: leaves_def update_io_def)

lemma leaves_bind [keeps_intros]:
  assumes "leaves f m" and "\<And>x. leaves f (k x)"
  shows "leaves f (bind_io m k)"
proof (rule leavesI)
  fix s
  show "wp (bind_io m k) (\<lambda>_ t. f t = f s) (\<lambda>_ t. f t = f s) s"
    unfolding wp_bind
    by (rule wp_mono [OF leaves_wp [OF assms(1)]])
      (auto intro!: wp_mono [OF leaves_wp [OF assms(2)]])
qed

lemma leaves_seq [keeps_intros]:
  "leaves f m \<Longrightarrow> leaves f k \<Longrightarrow> leaves f (seq_io m k)"
  unfolding seq_io_def by (rule leaves_bind)

lemma leaves_catch [keeps_intros]:
  assumes "leaves f m" and "\<And>e. leaves f (h e)"
  shows "leaves f (catch_io m p h)"
proof (rule leavesI)
  fix s
  show "wp (catch_io m p h) (\<lambda>_ t. f t = f s) (\<lambda>_ t. f t = f s) s"
    unfolding wp_catch
    by (rule wp_mono [OF leaves_wp [OF assms(1)]])
      (auto intro!: wp_mono [OF leaves_wp [OF assms(2)]])
qed

lemma leaves_finally:
  assumes "leaves f m" and g: "\<And>t. f (g t) = f t"
  shows "leaves f (finally_io m g)"
proof (rule leavesI)
  fix s
  obtain r t where ms: "m s = (r, t)" by (cases "m s")
  have ft: "f t = f s" using assms(1) ms by (rule leavesD)
  have "f (g t) = f s" unfolding g by (rule ft)
  then show "wp (finally_io m g) (\<lambda>_ t. f t = f s) (\<lambda>_ t. f t = f s) s"
    by (cases r) (simp_all only: wp_def finally_io_def ms prod.case sum.case)
qed

lemma leaves_for [keeps_intros]: "(\<And>x. leaves f (g x)) \<Longrightarrow> leaves f (for_io xs g)"
  by (induction xs) (auto intro: leaves_return leaves_seq)

lemma leaves_if [keeps_intros]:
  "leaves f m \<Longrightarrow> leaves f n \<Longrightarrow> leaves f (if b then m else n)"
  by simp

lemma leaves_option [keeps_intros]:
  "leaves f m \<Longrightarrow> (\<And>y. leaves f (k y)) \<Longrightarrow> leaves f (case x of None \<Rightarrow> m | Some y \<Rightarrow> k y)"
  by (cases x) auto

lemma leaves_let [keeps_intros]: "leaves f (g x) \<Longrightarrow> leaves f (let y = x in g y)"
  by simp

lemma leaves_sum [keeps_intros]:
  "(\<And>y. leaves f (h y)) \<Longrightarrow> (\<And>y. leaves f (k y)) \<Longrightarrow>
   leaves f (case x of Inl y \<Rightarrow> h y | Inr y \<Rightarrow> k y)"
  by (cases x) auto

lemma leaves_prod [keeps_intros]:
  "(\<And>y z. leaves f (k y z)) \<Longrightarrow> leaves f (case x of (y, z) \<Rightarrow> k y z)"
  by (cases x) auto


subsection \<open>Events an operation appends\<close>

text \<open>
  \<open>emits f P m\<close>: a run of \<open>m\<close> only appends to the list \<open>f\<close> of the state, and every
  element it appends satisfies \<open>P\<close>.
\<close>

definition emits :: "('s \<Rightarrow> 'e list) \<Rightarrow> ('e \<Rightarrow> bool) \<Rightarrow> ('s, 'a) io \<Rightarrow> bool" where
  "emits f P m = (\<forall>s. \<exists>es. f (snd (m s)) = f s @ es \<and> list_all P es)"

lemma emitsD: "emits f P m \<Longrightarrow> \<exists>es. f (snd (m s)) = f s @ es \<and> list_all P es"
  by (simp add: emits_def)

lemma emits_weaken: "emits f P m \<Longrightarrow> (\<And>e. P e \<Longrightarrow> Q e) \<Longrightarrow> emits f Q m"
  unfolding emits_def by (fastforce simp: list_all_iff)

lemma emits_leaves [emit_intros]: "leaves f m \<Longrightarrow> emits f P m"
  by (simp add: emits_def leaves_def)

lemma emits_bind [emit_intros]:
  assumes "emits f P m" and "\<And>x. emits f P (k x)"
  shows "emits f P (bind_io m k)"
  unfolding emits_def
proof
  fix s
  obtain r t where mt: "m s = (r, t)" by (cases "m s")
  obtain es where es: "f t = f s @ es" "list_all P es"
    using assms(1) mt unfolding emits_def by (metis snd_conv)
  show "\<exists>es. f (snd (bind_io m k s)) = f s @ es \<and> list_all P es"
  proof (cases r)
    case (Inl e)
    then show ?thesis using mt es by (auto simp: bind_io_def)
  next
    case (Inr x)
    obtain fs where "f (snd (k x t)) = f t @ fs" "list_all P fs"
      using assms(2) unfolding emits_def by metis
    then show ?thesis using Inr mt es by (auto simp: bind_io_def)
  qed
qed

lemma emits_seq [emit_intros]:
  "emits f P m \<Longrightarrow> emits f P k \<Longrightarrow> emits f P (seq_io m k)"
  unfolding seq_io_def by (rule emits_bind)

lemma emits_catch [emit_intros]:
  assumes "emits f P m" and "\<And>e. emits f P (h e)"
  shows "emits f P (catch_io m p h)"
  unfolding emits_def
proof
  fix s
  obtain r t where mt: "m s = (r, t)" by (cases "m s")
  obtain es where es: "f t = f s @ es" "list_all P es"
    using assms(1) mt unfolding emits_def by (metis snd_conv)
  show "\<exists>es. f (snd (catch_io m p h s)) = f s @ es \<and> list_all P es"
  proof (cases "\<exists>e. r = Inl e \<and> p e")
    case True
    then obtain e where e: "r = Inl e" "p e" by blast
    obtain fs where "f (snd (h e t)) = f t @ fs" "list_all P fs"
      using assms(2) unfolding emits_def by metis
    then show ?thesis using e mt es by (auto simp: catch_io_def)
  next
    case False
    then show ?thesis using mt es by (auto simp: catch_io_def split: sum.splits)
  qed
qed

lemma emits_update: "(\<And>s. \<exists>es. f (g s) = f s @ es \<and> list_all P es) \<Longrightarrow> emits f P (update_io g)"
  by (simp add: emits_def update_io_def)

lemma emits_for [emit_intros]: "(\<And>x. emits f P (g x)) \<Longrightarrow> emits f P (for_io xs g)"
  by (induction xs) (auto intro: emits_leaves leaves_return emits_seq)

lemma emits_if [emit_intros]:
  "(b \<Longrightarrow> emits f P m) \<Longrightarrow> (\<not> b \<Longrightarrow> emits f P n) \<Longrightarrow> emits f P (if b then m else n)"
  by simp

lemma emits_option [emit_intros]:
  "(x = None \<Longrightarrow> emits f P m) \<Longrightarrow> (\<And>y. x = Some y \<Longrightarrow> emits f P (k y)) \<Longrightarrow>
   emits f P (case x of None \<Rightarrow> m | Some y \<Rightarrow> k y)"
  by (cases x) auto

lemma emits_let [emit_intros]: "emits f P (g x) \<Longrightarrow> emits f P (let y = x in g y)"
  by simp

lemma emits_sum [emit_intros]:
  "(\<And>y. emits f P (h y)) \<Longrightarrow> (\<And>y. emits f P (k y)) \<Longrightarrow>
   emits f P (case x of Inl y \<Rightarrow> h y | Inr y \<Rightarrow> k y)"
  by (cases x) auto

lemma emits_prod [emit_intros]:
  "(\<And>y z. emits f P (k y z)) \<Longrightarrow> emits f P (case x of (y, z) \<Rightarrow> k y z)"
  by (cases x) auto


subsection \<open>Which exceptions a run raises\<close>

text \<open>\<open>raises E m\<close>: every exception of a run satisfies \<open>E\<close>.\<close>

definition raises :: "(error \<Rightarrow> bool) \<Rightarrow> ('s, 'a) io \<Rightarrow> bool" where
  "raises E m = (\<forall>s e t. m s = (Inl e, t) \<longrightarrow> E e)"

named_theorems raises_intros \<open>which exceptions an operation raises\<close>

lemma raisesD: "raises E m \<Longrightarrow> m s = (Inl e, t) \<Longrightarrow> E e"
  unfolding raises_def by blast

lemma raisesI: "(\<And>s e t. m s = (Inl e, t) \<Longrightarrow> E e) \<Longrightarrow> raises E m"
  by (simp add: raises_def)

lemma raises_weaken: "raises F m \<Longrightarrow> (\<And>e. F e \<Longrightarrow> E e) \<Longrightarrow> raises E m"
  by (auto simp: raises_def)

lemma raises_return [raises_intros]: "raises E (return_io x)"
  by (simp add: raises_def run_return)

lemma raises_raise [raises_intros]: "E e \<Longrightarrow> raises E (raise_io e)"
  by (simp add: raises_def run_raise)

lemma raises_lift [raises_intros]: "(\<And>e. r = Inl e \<Longrightarrow> E e) \<Longrightarrow> raises E (lift_io r)"
  by (simp add: raises_def run_lift)

lemma raises_get [raises_intros]: "raises E (get_io f)"
  by (simp add: raises_def run_get)

lemma raises_update [raises_intros]: "raises E (update_io f)"
  by (simp add: raises_def run_update)

lemma raises_bind [raises_intros]: "raises E m \<Longrightarrow> (\<And>x. raises E (k x)) \<Longrightarrow> raises E (bind_io m k)"
  by (fastforce simp: raises_def run_bind split: prod.splits sum.splits)

lemma raises_seq [raises_intros]: "raises E m \<Longrightarrow> raises E k \<Longrightarrow> raises E (seq_io m k)"
  unfolding seq_io_def by (rule raises_bind)

lemma raises_catch:
  assumes "raises F m" and "\<And>e. F e \<Longrightarrow> h e \<Longrightarrow> raises E (k e)" and "\<And>e. F e \<Longrightarrow> \<not> h e \<Longrightarrow> E e"
  shows "raises E (catch_io m h k)"
  using assms by (fastforce simp: raises_def run_catch split: prod.splits sum.splits if_splits)

lemma raises_if [raises_intros]: "(b \<Longrightarrow> raises E m) \<Longrightarrow> (\<not> b \<Longrightarrow> raises E n) \<Longrightarrow> raises E (if b then m else n)"
  by simp

lemma raises_option [raises_intros]:
  "raises E m \<Longrightarrow> (\<And>y. x = Some y \<Longrightarrow> raises E (k y)) \<Longrightarrow> raises E (case x of None \<Rightarrow> m | Some y \<Rightarrow> k y)"
  by (cases x) auto

end
