(* ===== verification/Py_Data.thy ===== *)
theory Py_Data
  imports Py_Base
begin

section \<open>Strings, integers, dictionaries and JSON values\<close>

text \<open>
  The standard-library operations the service uses on \<open>str\<close>, \<open>bytes\<close>, \<open>int\<close>, \<open>dict\<close> and
  parsed JSON, each named after the Python operation, with the algebraic lemmas the
  component theories share.
\<close>

named_theorems str_simps \<open>definitions to evaluate string operations on literals\<close>


subsection \<open>Characters\<close>

definition py_lower_char :: "char \<Rightarrow> char" where
  "py_lower_char c = (let n = (of_char c :: nat) in
     if (65 \<le> n \<and> n \<le> 90) \<or> (192 \<le> n \<and> n \<le> 222 \<and> n \<noteq> 215)
     then char_of (n + 32) else c)"

definition is_digit :: "char \<Rightarrow> bool" where
  "is_digit c = (let n = (of_char c :: nat) in 48 \<le> n \<and> n \<le> 57)"

definition is_alpha :: "char \<Rightarrow> bool" where
  "is_alpha c = (let n = (of_char c :: nat) in (65 \<le> n \<and> n \<le> 90) \<or> (97 \<le> n \<and> n \<le> 122))"

definition is_alnum :: "char \<Rightarrow> bool" where
  "is_alnum c = (is_alpha c \<or> is_digit c)"

definition is_hex :: "char \<Rightarrow> bool" where
  "is_hex c = (let n = (of_char c :: nat) in
     (48 \<le> n \<and> n \<le> 57) \<or> (65 \<le> n \<and> n \<le> 70) \<or> (97 \<le> n \<and> n \<le> 102))"

definition is_lower_hex :: "char \<Rightarrow> bool" where
  "is_lower_hex c = (let n = (of_char c :: nat) in (48 \<le> n \<and> n \<le> 57) \<or> (97 \<le> n \<and> n \<le> 102))"

text \<open>\<open>str.isspace\<close> on the range of the model.\<close>

definition is_space :: "char \<Rightarrow> bool" where
  "is_space c = (let n = (of_char c :: nat) in
     (9 \<le> n \<and> n \<le> 13) \<or> (28 \<le> n \<and> n \<le> 32) \<or> n = 133 \<or> n = 160)"

lemma of_char_less [simp]: "(of_char c :: nat) < 256"
  using of_char_mod_256 [of c, where ?'a = nat] by (metis mod_less_divisor zero_less_numeral)

lemma lower_hex_is_hex: "is_lower_hex c \<Longrightarrow> is_hex c"
  by (auto simp: is_lower_hex_def is_hex_def Let_def)

lemma digit_is_alnum [simp]: "is_digit c \<Longrightarrow> is_alnum c"
  by (simp add: is_alnum_def)


subsection \<open>Strings\<close>

definition py_lower :: "string \<Rightarrow> string" where
  "py_lower s = map py_lower_char s"

text \<open>
  \<open>str.upper\<close>: the sharp s becomes two letters; the letters whose upper case lies past U+00FF
  (the micro sign and y with diaeresis) stay as they are.
\<close>

definition py_upper_char :: "char \<Rightarrow> string" where
  "py_upper_char c = (let n = (of_char c :: nat) in
     if n = 223 then ''SS''
     else if (97 \<le> n \<and> n \<le> 122) \<or> (224 \<le> n \<and> n \<le> 254 \<and> n \<noteq> 247) then [char_of (n - 32)]
     else [c])"

definition py_upper :: "string \<Rightarrow> string" where
  "py_upper s = concat (map py_upper_char s)"

definition startswith :: "string \<Rightarrow> string \<Rightarrow> bool" where
  "startswith s p = (take (length p) s = p)"

definition endswith :: "string \<Rightarrow> string \<Rightarrow> bool" where
  "endswith s p = startswith (rev s) (rev p)"

fun py_contains :: "string \<Rightarrow> string \<Rightarrow> bool" where
  "py_contains [] p = (p = [])"
| "py_contains (c # s) p = (startswith (c # s) p \<or> py_contains s p)"

text \<open>\<open>s.split(c)\<close> for a one-character separator, \<open>c.join(parts)\<close>.\<close>

fun py_split :: "char \<Rightarrow> string \<Rightarrow> string list" where
  "py_split c [] = [[]]"
| "py_split c (x # xs) =
     (if x = c then [] # py_split c xs
      else (case py_split c xs of [] \<Rightarrow> [[x]] | p # ps \<Rightarrow> (x # p) # ps))"

fun py_join :: "string \<Rightarrow> string list \<Rightarrow> string" where
  "py_join sep [] = []"
| "py_join sep [p] = p"
| "py_join sep (p # q # ps) = p @ sep @ py_join sep (q # ps)"

text \<open>\<open>s.replace(c, r)\<close> for a one-character \<open>c\<close>.\<close>

definition py_replace :: "char \<Rightarrow> string \<Rightarrow> string \<Rightarrow> string" where
  "py_replace c r s = concat (map (\<lambda>x. if x = c then r else [x]) s)"

definition py_lstrip :: "string \<Rightarrow> string" where
  "py_lstrip s = dropWhile is_space s"

definition py_strip :: "string \<Rightarrow> string" where
  "py_strip s = rev (dropWhile is_space (rev (dropWhile is_space s)))"

definition rstrip_char :: "char \<Rightarrow> string \<Rightarrow> string" where
  "rstrip_char c s = rev (dropWhile (\<lambda>x. x = c) (rev s))"

text \<open>\<open>s.partition(c)\<close>: the text before the first \<open>c\<close>, whether there is one, the text after it.\<close>

definition py_partition :: "char \<Rightarrow> string \<Rightarrow> string \<times> bool \<times> string" where
  "py_partition c s = (let p = takeWhile (\<lambda>x. x \<noteq> c) s; r = dropWhile (\<lambda>x. x \<noteq> c) s
     in case r of [] \<Rightarrow> (s, False, []) | _ # t \<Rightarrow> (p, True, t))"

text \<open>\<open>s.rsplit(c, 1)[1]\<close>, which is an \<open>IndexError\<close> when \<open>c\<close> does not occur.\<close>

definition rsplit_last :: "char \<Rightarrow> string \<Rightarrow> string option" where
  "rsplit_last c s = (if c \<in> set s then Some (rev (takeWhile (\<lambda>x. x \<noteq> c) (rev s))) else None)"

text \<open>\<open>s.encode("utf-8")\<close>.\<close>

definition utf8_encode :: "string \<Rightarrow> string" where
  "utf8_encode s = concat (map (\<lambda>c. let n = (of_char c :: nat) in
     if n < 128 then [c] else [char_of (192 + n div 64), char_of (128 + n mod 64)]) s)"

text \<open>
  \<open>b.decode("utf-8")\<close> onto the range of the model: \<open>None\<close> where it raises \<open>UnicodeDecodeError\<close>
  (and for code points past U+00FF, which the model's strings cannot hold).
\<close>

fun utf8_decode :: "string \<Rightarrow> string option" where
  "utf8_decode [] = Some []"
| "utf8_decode (c # s) =
     (let n = (of_char c :: nat) in
      if n < 128 then map_option (Cons c) (utf8_decode s)
      else (case s of [] \<Rightarrow> None | d # t \<Rightarrow>
        (let m = (of_char d :: nat) in
         if (n = 194 \<or> n = 195) \<and> 128 \<le> m \<and> m < 192
         then map_option (Cons (char_of ((n - 192) * 64 + (m - 128)))) (utf8_decode t)
         else None)))"

text \<open>\<open>base64.b64encode\<close> on bytes.\<close>

definition b64_char :: "nat \<Rightarrow> char" where
  "b64_char n = ''ABCDEFGHIJKLMNOPQRSTUVWXYZabcdefghijklmnopqrstuvwxyz0123456789+/'' ! n"

fun b64encode :: "string \<Rightarrow> string" where
  "b64encode [] = []"
| "b64encode [a] = (let n = of_char a * 16 in
     [b64_char (n div 64), b64_char (n mod 64), CHR ''='', CHR ''=''])"
| "b64encode [a, b] = (let n = (of_char a * 256 + of_char b) * 4 in
     [b64_char (n div 4096), b64_char (n div 64 mod 64), b64_char (n mod 64), CHR ''=''])"
| "b64encode (a # b # c # s) = (let n = of_char a * 65536 + of_char b * 256 + of_char c in
     [b64_char (n div 262144), b64_char (n div 4096 mod 64), b64_char (n div 64 mod 64),
      b64_char (n mod 64)] @ b64encode s)"

lemma utf8_decode_encode: "utf8_decode (utf8_encode s) = Some s"
proof (induction s)
  case Nil
  then show ?case by (simp add: utf8_encode_def)
next
  case (Cons c s)
  let ?n = "of_char c :: nat"
  have step: "utf8_encode (c # s) =
      (if ?n < 128 then [c] else [char_of (192 + ?n div 64), char_of (128 + ?n mod 64)]) @ utf8_encode s"
    by (simp add: utf8_encode_def Let_def)
  show ?case
  proof (cases "?n < 128")
    case True
    with Cons step show ?thesis by simp
  next
    case False
    have "?n < 256" by simp
    with False have "?n div 64 = 2 \<or> ?n div 64 = 3" by linarith
    moreover have "utf8_decode (char_of (192 + d) # char_of (128 + m) # t) =
        map_option (Cons (char_of (d * 64 + m))) (utf8_decode t)" if "d = 2 \<or> d = 3" "m < 64" for d m :: nat and t
      using that by (auto simp: of_char_of)
    moreover have "char_of (?n div 64 * 64 + ?n mod 64) = c" by simp
    ultimately show ?thesis using Cons step False by (simp del: utf8_decode.simps mult_div_mod_eq div_mult_mod_eq)
  qed
qed

lemma py_split_nonempty [simp]: "py_split c s \<noteq> []"
  by (induction s) (auto split: list.splits)

lemma py_join_cons: "ps \<noteq> [] \<Longrightarrow> py_join sep (p # ps) = p @ sep @ py_join sep ps"
  by (cases ps) auto

lemma py_join_split: "py_join [c] (py_split c s) = s"
proof (induction s)
  case Nil
  then show ?case by simp
next
  case (Cons x xs)
  obtain p ps where "py_split c xs = p # ps" by (cases "py_split c xs") auto
  with Cons show ?case by (cases ps) (auto simp: py_join_cons)
qed

lemma py_split_no_sep: "p \<in> set (py_split c s) \<Longrightarrow> c \<notin> set p"
  by (induction s arbitrary: p) (auto split: if_splits list.splits)

lemma py_split_free [simp]: "c \<notin> set s \<Longrightarrow> py_split c s = [s]"
  by (induction s) auto

lemma py_split_append:
  "c \<notin> set p \<Longrightarrow> py_split c (p @ c # s) = p # py_split c s"
  by (induction p) auto

lemma length_py_lower [simp]: "length (py_lower s) = length s"
  by (simp add: py_lower_def)

lemma startswith_append [simp]: "startswith (p @ s) p"
  by (simp add: startswith_def)

lemma startswith_iff: "startswith s p = (\<exists>t. s = p @ t)"
  unfolding startswith_def by (metis append_eq_conv_conj append_take_drop_id)

lemma length_utf8_encode: "length s \<le> length (utf8_encode s)"
  by (induction s) (auto simp: utf8_encode_def Let_def)

text \<open>
  \<open>str.splitlines()\<close>: a line ends at a line feed, a carriage return with or without a
  line feed after it, a vertical tab, a form feed, one of the separators 0x1C to 0x1E or
  0x85; the text after the last boundary is a line unless it is empty.
\<close>

definition is_line_break :: "char \<Rightarrow> bool" where
  "is_line_break c = (let n = (of_char c :: nat) in
     (10 \<le> n \<and> n \<le> 13) \<or> (28 \<le> n \<and> n \<le> 30) \<or> n = 133)"

fun splitlines_from :: "string \<Rightarrow> string \<Rightarrow> string list" where
  "splitlines_from acc [] = (if acc = [] then [] else [rev acc])"
| "splitlines_from acc [c] =
     (if is_line_break c then [rev acc] else [rev (c # acc)])"
| "splitlines_from acc (c # d # s) =
     (if c = CHR 0x0D \<and> d = CHR 0x0A then rev acc # splitlines_from [] s
      else if is_line_break c then rev acc # splitlines_from [] (d # s)
      else splitlines_from (c # acc) (d # s))"

definition splitlines :: "string \<Rightarrow> string list" where
  "splitlines s = splitlines_from [] s"

definition no_line_break :: "string \<Rightarrow> bool" where
  "no_line_break s = list_all (\<lambda>c. \<not> is_line_break c) s"

lemma line_feed_breaks [simp]: "is_line_break (CHR 0x0A)"
  by (simp add: is_line_break_def)

lemma splitlines_from_line:
  "no_line_break l \<Longrightarrow>
   splitlines_from acc (l @ CHR 0x0A # rest) = (rev acc @ l) # splitlines_from [] rest"
proof (induction l arbitrary: acc)
  case Nil
  show ?case by (cases rest) (simp_all add: is_line_break_def)
next
  case (Cons c l)
  then have "c \<noteq> CHR 0x0D" "\<not> is_line_break c" "no_line_break l"
    by (auto simp: no_line_break_def is_line_break_def)
  with Cons.IH [of "c # acc"] show ?case by (cases l) simp_all
qed

text \<open>Lines that hold no boundary survive being written with line feeds and split again.\<close>

lemma splitlines_unlines:
  "list_all no_line_break ls \<Longrightarrow>
   splitlines (concat (map (\<lambda>l. l @ [CHR 0x0A]) ls)) = ls"
  by (induction ls) (simp_all add: splitlines_def splitlines_from_line)


subsection \<open>Integers as text\<close>

fun str_nat :: "nat \<Rightarrow> string" where
  "str_nat n = (if n < 10 then [char_of (48 + n)] else str_nat (n div 10) @ [char_of (48 + n mod 10)])"

declare str_nat.simps [simp del]

definition str_int :: "int \<Rightarrow> string" where
  "str_int i = (if i < 0 then ''-'' @ str_nat (nat (- i)) else str_nat (nat i))"

definition digit_value :: "char \<Rightarrow> nat" where
  "digit_value c = of_char c - 48"

definition nat_of_digits :: "string \<Rightarrow> nat" where
  "nat_of_digits s = foldl (\<lambda>acc c. 10 * acc + digit_value c) 0 s"

lemma char_digit [simp]:
  "d < 10 \<Longrightarrow> is_digit (char_of (48 + d))" "d < 10 \<Longrightarrow> digit_value (char_of (48 + d)) = d"
  by (simp_all add: is_digit_def digit_value_def of_char_of)

lemma str_nat_digits: "list_all is_digit (str_nat n)"
proof (induction n rule: str_nat.induct)
  case (1 n)
  then show ?case by (subst str_nat.simps) auto
qed

lemma str_nat_nonempty [simp]: "str_nat n \<noteq> []"
  by (subst str_nat.simps) simp

lemma nat_of_str_nat [simp]: "nat_of_digits (str_nat n) = n"
proof (induction n rule: str_nat.induct)
  case (1 n)
  show ?case
  proof (cases "n < 10")
    case True
    then show ?thesis by (subst str_nat.simps) (simp add: nat_of_digits_def)
  next
    case False
    with 1 have "nat_of_digits (str_nat (n div 10)) = n div 10" by simp
    moreover have "nat_of_digits (str_nat n) =
        10 * nat_of_digits (str_nat (n div 10)) + n mod 10"
      by (subst str_nat.simps) (simp add: False nat_of_digits_def)
    ultimately show ?thesis by simp
  qed
qed

lemma str_nat_inj: "str_nat m = str_nat n \<Longrightarrow> m = n"
  by (metis nat_of_str_nat)

lemma length_str_nat: "n < 10 ^ k \<Longrightarrow> 0 < k \<Longrightarrow> length (str_nat n) \<le> k"
proof (induction k arbitrary: n)
  case 0
  then show ?case by simp
next
  case (Suc k)
  show ?case
  proof (cases "n < 10")
    case True
    then show ?thesis by (subst str_nat.simps) simp
  next
    case False
    with Suc.prems have "n div 10 < 10 ^ k" by (simp add: less_mult_imp_div_less mult.commute)
    moreover have "0 < k" using False Suc.prems by (cases k) auto
    ultimately have "length (str_nat (n div 10)) \<le> k" by (rule Suc.IH)
    with False show ?thesis by (subst str_nat.simps) simp
  qed
qed

text \<open>
  \<open>int(text)\<close>: surrounding white space, an optional sign, digits with single underscores
  between them, at most 4300 digits; anything else is a \<open>ValueError\<close>.
\<close>

fun digit_groups :: "string \<Rightarrow> bool" where
  "digit_groups [] = False"
| "digit_groups [c] = is_digit c"
| "digit_groups (c # d # s) =
     (is_digit c \<and> (if d = CHR ''_'' then digit_groups s else digit_groups (d # s)))"

definition py_int_digits :: "string \<Rightarrow> int outcome" where
  "py_int_digits s =
     (if digit_groups s then
        (let ds = filter is_digit s in
         if length ds \<le> 4300 then Inr (int (nat_of_digits ds))
         else Inl (ValueError ''Exceeds the limit (4300 digits) for integer string conversion''))
      else Inl (ValueError ''invalid literal for int() with base 10''))"

definition py_int :: "string \<Rightarrow> int outcome" where
  "py_int s = (case py_strip s of
      [] \<Rightarrow> Inl (ValueError ''invalid literal for int() with base 10'')
    | c # t \<Rightarrow>
        if c = CHR ''-'' then map_sum id uminus (py_int_digits t)
        else if c = CHR ''+'' then py_int_digits t
        else py_int_digits (c # t))"

lemma digit_groups_all: "s \<noteq> [] \<Longrightarrow> list_all is_digit s \<Longrightarrow> digit_groups s"
proof (induction s rule: digit_groups.induct)
  case (3 c d s)
  have "d \<noteq> CHR ''_''" using 3 by (auto simp: is_digit_def)
  with 3 show ?case by auto
qed auto

text \<open>The first number whose text is too long to read back.\<close>

definition int_text_limit :: nat where
  "int_text_limit = 10 ^ 4300"

lemma py_int_digits_str_nat: "n < int_text_limit \<Longrightarrow> py_int_digits (str_nat n) = Inr (int n)"
proof -
  assume n: "n < int_text_limit"
  have "filter is_digit (str_nat n) = str_nat n"
    using str_nat_digits[of n] by (simp add: filter_id_conv list_all_iff)
  moreover have "length (str_nat n) \<le> 4300"
    using n unfolding int_text_limit_def by (rule length_str_nat) simp
  ultimately show ?thesis
    using str_nat_digits[of n]
    by (simp add: py_int_digits_def digit_groups_all)
qed


subsection \<open>Dictionaries\<close>

text \<open>
  A \<open>dict\<close> is an association list with distinct keys in insertion order: storing under an
  existing key keeps its position, a new key goes last. Lookup is \<open>map_of\<close>.
\<close>

abbreviation dget :: "('k \<times> 'v) list \<Rightarrow> 'k \<Rightarrow> 'v option" where
  "dget d k \<equiv> map_of d k"

abbreviation dset :: "'k \<Rightarrow> 'v \<Rightarrow> ('k \<times> 'v) list \<Rightarrow> ('k \<times> 'v) list" where
  "dset k v d \<equiv> AList.update k v d"

abbreviation ddel :: "'k \<Rightarrow> ('k \<times> 'v) list \<Rightarrow> ('k \<times> 'v) list" where
  "ddel k d \<equiv> AList.delete k d"

abbreviation dkeys :: "('k \<times> 'v) list \<Rightarrow> 'k list" where
  "dkeys d \<equiv> map fst d"

abbreviation dvalues :: "('k \<times> 'v) list \<Rightarrow> 'v list" where
  "dvalues d \<equiv> map snd d"

lemma dget_dset [simp]: "dget (dset k v d) k' = (if k' = k then Some v else dget d k')"
  by (simp add: AList.update_conv')

lemma dget_ddel [simp]: "dget (ddel k d) k' = (if k' = k then None else dget d k')"
  by (simp add: AList.delete_conv')

lemma distinct_dset [simp]: "distinct (dkeys d) \<Longrightarrow> distinct (dkeys (dset k v d))"
  by (rule AList.distinct_update)

lemma distinct_ddel [simp]: "distinct (dkeys d) \<Longrightarrow> distinct (dkeys (ddel k d))"
  by (rule AList.distinct_delete)

lemma dset_new: "k \<notin> set (dkeys d) \<Longrightarrow> dset k v d = d @ [(k, v)]"
  by (induction d) auto

lemma dkeys_dset: "set (dkeys (dset k v d)) = insert k (set (dkeys d))"
  by (simp add: AList.dom_update)

lemma dget_None_keys: "(dget d k = None) = (k \<notin> set (dkeys d))"
  by (simp add: map_of_eq_None_iff)

lemma dget_Some_keys: "dget d k = Some v \<Longrightarrow> k \<in> set (dkeys d)"
  by (force dest: map_of_SomeD)

lemma set_dset_subset: "set (dset k v d) \<subseteq> insert (k, v) (set d)"
  by (induction d) auto

lemma set_ddel_subset: "set (ddel k d) \<subseteq> set d"
  by (induction d) auto

lemma dget_map_values: "dget (map (\<lambda>(k, v). (k, f k v)) d) k = map_option (f k) (dget d k)"
  by (induction d) auto

lemma dkeys_map_values: "dkeys (map (\<lambda>(k, v). (k, f k v)) d) = dkeys d"
  by (induction d) auto

lemma dget_filter_keys:
  "distinct (dkeys d) \<Longrightarrow>
   dget (filter (\<lambda>(k, v). P k v) d) k = (case dget d k of None \<Rightarrow> None | Some v \<Rightarrow> if P k v then Some v else None)"
  by (induction d) (auto split: option.splits simp: dget_None_keys)

lemma distinct_filter_keys: "distinct (dkeys d) \<Longrightarrow> distinct (dkeys (filter P d))"
  by (induction d) auto

text \<open>\<open>sorted(xs, key=f, reverse=True)\<close>: stable, so equal keys keep their order.\<close>

definition sort_desc :: "('a \<Rightarrow> int) \<Rightarrow> 'a list \<Rightarrow> 'a list" where
  "sort_desc f xs = sort_key (\<lambda>x. - f x) xs"

lemma set_sort_desc [simp]: "set (sort_desc f xs) = set xs"
  by (simp add: sort_desc_def)

lemma length_sort_desc [simp]: "length (sort_desc f xs) = length xs"
  by (simp add: sort_desc_def)

lemma sorted_sort_desc: "sorted_wrt (\<lambda>x y. f y \<le> f x) (sort_desc f xs)"
proof -
  have "sorted (map (\<lambda>x. - f x) (sort_desc f xs))" by (simp add: sort_desc_def)
  then show ?thesis by (simp add: sorted_map)
qed


subsection \<open>JSON values\<close>

text \<open>
  What \<open>json.loads\<close> returns: objects keep their members in order. A JSON number with a
  fraction or exponent is a \<open>float\<close>.
\<close>

datatype json =
    JNull
  | JBool bool
  | JInt int
  | JFloat rat
  | JStr string
  | JList "json list"
  | JObj "(string \<times> json) list"

type_synonym jobj = "(string \<times> json) list"

text \<open>Truth value of a Python object.\<close>

fun py_truthy :: "json \<Rightarrow> bool" where
  "py_truthy JNull = False"
| "py_truthy (JBool b) = b"
| "py_truthy (JInt i) = (i \<noteq> 0)"
| "py_truthy (JFloat r) = (r \<noteq> 0)"
| "py_truthy (JStr s) = (s \<noteq> [])"
| "py_truthy (JList xs) = (xs \<noteq> [])"
| "py_truthy (JObj kvs) = (kvs \<noteq> [])"

text \<open>
  \<open>isinstance\<close> tests. A \<open>bool\<close> is an \<open>int\<close> in Python, so \<open>as_int\<close> accepts it with the
  value 0 or 1.
\<close>

fun as_str :: "json \<Rightarrow> string option" where
  "as_str (JStr s) = Some s"
| "as_str _ = None"

fun as_obj :: "json \<Rightarrow> jobj option" where
  "as_obj (JObj kvs) = Some kvs"
| "as_obj _ = None"

fun as_list :: "json \<Rightarrow> json list option" where
  "as_list (JList xs) = Some xs"
| "as_list _ = None"

fun is_bool :: "json \<Rightarrow> bool" where
  "is_bool (JBool _) = True"
| "is_bool _ = False"

fun as_int :: "json \<Rightarrow> int option" where
  "as_int (JInt i) = Some i"
| "as_int (JBool b) = Some (if b then 1 else 0)"
| "as_int _ = None"

text \<open>\<open>d.get(k)\<close> and \<open>d.get(k, default)\<close> on a parsed object: a missing key is \<open>None\<close>.\<close>

definition jget :: "jobj \<Rightarrow> string \<Rightarrow> json" where
  "jget d k = (case map_of d k of None \<Rightarrow> JNull | Some v \<Rightarrow> v)"

definition jget_default :: "jobj \<Rightarrow> string \<Rightarrow> json \<Rightarrow> json" where
  "jget_default d k v = (case map_of d k of None \<Rightarrow> v | Some w \<Rightarrow> w)"

text \<open>\<open>value[k]\<close> on a parsed value: only an object has string keys.\<close>

fun jindex :: "json \<Rightarrow> string \<Rightarrow> json outcome" where
  "jindex (JObj kvs) k = (case map_of kvs k of None \<Rightarrow> Inl (KeyError k) | Some v \<Rightarrow> Inr v)"
| "jindex _ k = Inl (TypeError ''value is not subscriptable by a string'')"

text \<open>\<open>value.get(k)\<close> on a parsed value: only an object has the method.\<close>

fun jmethod_get :: "json \<Rightarrow> string \<Rightarrow> json outcome" where
  "jmethod_get (JObj kvs) k = Inr (jget kvs k)"
| "jmethod_get _ k = Inl (AttributeError ''object has no attribute get'')"

end
