(* ===== verification/Py_Hash.thy ===== *)
theory Py_Hash
  imports Py_Data "HOL-Library.Word"
begin

unbundle bit_operations_syntax

section \<open>hashlib and hmac\<close>

text \<open>
  The digests the service computes with the standard library: SHA-256 (FIPS 180-4) over
  32-bit words, its hexadecimal form, HMAC-SHA-256 (RFC 2104) and the constant-time
  comparison, which is equality of its arguments.
\<close>


subsection \<open>SHA-256\<close>

type_synonym word32 = "32 word"

definition sha_initial :: "word32 list" where
  "sha_initial =
    [
     1779033703, 3144134277, 1013904242, 2773480762,
     1359893119, 2600822924, 528734635, 1541459225
    ]"

definition sha_constants :: "word32 list" where
  "sha_constants =
    [
     1116352408, 1899447441, 3049323471, 3921009573, 961987163, 1508970993,
     2453635748, 2870763221, 3624381080, 310598401, 607225278, 1426881987,
     1925078388, 2162078206, 2614888103, 3248222580, 3835390401, 4022224774,
     264347078, 604807628, 770255983, 1249150122, 1555081692, 1996064986,
     2554220882, 2821834349, 2952996808, 3210313671, 3336571891, 3584528711,
     113926993, 338241895, 666307205, 773529912, 1294757372, 1396182291,
     1695183700, 1986661051, 2177026350, 2456956037, 2730485921, 2820302411,
     3259730800, 3345764771, 3516065817, 3600352804, 4094571909, 275423344,
     430227734, 506948616, 659060556, 883997877, 958139571, 1322822218,
     1537002063, 1747873779, 1955562222, 2024104815, 2227730452, 2361852424,
     2428436474, 2756734187, 3204031479, 3329325298
    ]"

definition rotr :: "nat \<Rightarrow> word32 \<Rightarrow> word32" where
  "rotr n x = (drop_bit n x OR push_bit (32 - n) x)"

definition big_sigma0 :: "word32 \<Rightarrow> word32" where
  "big_sigma0 x = rotr 2 x XOR rotr 13 x XOR rotr 22 x"

definition big_sigma1 :: "word32 \<Rightarrow> word32" where
  "big_sigma1 x = rotr 6 x XOR rotr 11 x XOR rotr 25 x"

definition small_sigma0 :: "word32 \<Rightarrow> word32" where
  "small_sigma0 x = rotr 7 x XOR rotr 18 x XOR drop_bit 3 x"

definition small_sigma1 :: "word32 \<Rightarrow> word32" where
  "small_sigma1 x = rotr 17 x XOR rotr 19 x XOR drop_bit 10 x"

definition sha_choose :: "word32 \<Rightarrow> word32 \<Rightarrow> word32 \<Rightarrow> word32" where
  "sha_choose x y z = (x AND y) XOR (NOT x AND z)"

definition sha_majority :: "word32 \<Rightarrow> word32 \<Rightarrow> word32 \<Rightarrow> word32" where
  "sha_majority x y z = (x AND y) XOR (x AND z) XOR (y AND z)"

text \<open>A byte string as big-endian words; a length in bits as eight bytes.\<close>

fun words_of_bytes :: "string \<Rightarrow> word32 list" where
  "words_of_bytes (a # b # c # d # s) =
     (word_of_nat (((of_char a * 256 + of_char b) * 256 + of_char c) * 256 + of_char d)) #
     words_of_bytes s"
| "words_of_bytes _ = []"

definition bytes_of_nat :: "nat \<Rightarrow> nat \<Rightarrow> string" where
  "bytes_of_nat k n = map (\<lambda>i. char_of (n div 256 ^ (k - 1 - i))) [0..<k]"

definition sha_pad :: "string \<Rightarrow> string" where
  "sha_pad s = s @ char_of (128::nat) #
     replicate ((119 - length s mod 64) mod 64) (char_of (0::nat)) @
     bytes_of_nat 8 (8 * length s)"

text \<open>The message schedule, most recent word first, from the block's sixteen words reversed.\<close>

fun sha_schedule :: "nat \<Rightarrow> word32 list \<Rightarrow> word32 list" where
  "sha_schedule 0 ws = rev ws"
| "sha_schedule (Suc n) ws =
     sha_schedule n ((small_sigma1 (ws ! 1) + ws ! 6 + small_sigma0 (ws ! 14) + ws ! 15) # ws)"

fun sha_round :: "word32 list \<Rightarrow> word32 \<times> word32 \<Rightarrow> word32 list" where
  "sha_round [a, b, c, d, e, f, g, h] (k, w) =
     (let t1 = h + big_sigma1 e + sha_choose e f g + k + w;
          t2 = big_sigma0 a + sha_majority a b c
      in [t1 + t2, a, b, c, d + t1, e, f, g])"
| "sha_round vs _ = vs"

definition sha_compress :: "word32 list \<Rightarrow> word32 list \<Rightarrow> word32 list" where
  "sha_compress hs block =
     map2 (+) hs (foldl sha_round hs (zip sha_constants (sha_schedule 48 (rev block))))"

function sha_blocks :: "word32 list \<Rightarrow> word32 list \<Rightarrow> word32 list" where
  "sha_blocks hs ws = (if length ws < 16 then hs
     else sha_blocks (sha_compress hs (take 16 ws)) (drop 16 ws))"
  by pat_completeness auto
termination
  by (relation "measure (\<lambda>(hs, ws). length ws)") auto

declare sha_blocks.simps [simp del]

text \<open>\<open>hashlib.sha256(data).digest()\<close> and \<open>.hexdigest()\<close>, \<open>bytes.fromhex\<close>.\<close>

definition sha256 :: "string \<Rightarrow> string" where
  "sha256 s = concat (map (\<lambda>w. bytes_of_nat 4 (unat w))
     (sha_blocks sha_initial (words_of_bytes (sha_pad s))))"

definition hex_digit :: "nat \<Rightarrow> char" where
  "hex_digit n = (if n < 10 then char_of (48 + n) else char_of (87 + n))"

definition hex_byte :: "char \<Rightarrow> string" where
  "hex_byte c = [hex_digit (of_char c div 16), hex_digit (of_char c mod 16)]"

definition to_hex :: "string \<Rightarrow> string" where
  "to_hex s = concat (map hex_byte s)"

definition sha256_hex :: "string \<Rightarrow> string" where
  "sha256_hex s = to_hex (sha256 s)"

definition hex_value :: "char \<Rightarrow> nat" where
  "hex_value c = (let n = (of_char c :: nat) in
     if n \<le> 57 then n - 48 else if n \<le> 70 then n - 55 else n - 87)"

text \<open>\<open>bytes.fromhex\<close> skips ASCII white space between bytes and refuses anything else.\<close>

fun from_hex :: "string \<Rightarrow> string outcome" where
  "from_hex [] = Inr []"
| "from_hex [c] = (if c \<in> {CHR 0x20, CHR 0x09, CHR 0x0A, CHR 0x0B, CHR 0x0C, CHR 0x0D} then Inr []
     else Inl (ValueError ''non-hexadecimal number found in fromhex() arg''))"
| "from_hex (c # d # s) =
     (if c \<in> {CHR 0x20, CHR 0x09, CHR 0x0A, CHR 0x0B, CHR 0x0C, CHR 0x0D} then from_hex (d # s)
      else if is_hex c \<and> is_hex d
      then map_sum id ((#) (char_of (16 * hex_value c + hex_value d))) (from_hex s)
      else Inl (ValueError ''non-hexadecimal number found in fromhex() arg''))"


subsection \<open>HMAC\<close>

definition xor_byte :: "nat \<Rightarrow> char \<Rightarrow> char" where
  "xor_byte k c = char_of (k XOR (of_char c :: nat))"

definition hmac_sha256 :: "string \<Rightarrow> string \<Rightarrow> string" where
  "hmac_sha256 key msg =
     (let k0 = (if length key > 64 then sha256 key else key);
          k = k0 @ replicate (64 - length k0) (char_of (0::nat))
      in sha256 (map (xor_byte 92) k @ sha256 (map (xor_byte 54) k @ msg)))"

definition hmac_hex :: "string \<Rightarrow> string \<Rightarrow> string" where
  "hmac_hex key msg = to_hex (hmac_sha256 key msg)"

text \<open>\<open>hmac.compare_digest\<close> and \<open>secrets.compare_digest\<close>.\<close>

definition compare_digest :: "string \<Rightarrow> string \<Rightarrow> bool" where
  "compare_digest a b = (a = b)"


subsection \<open>Shape of a digest\<close>

lemma length_sha_round [simp]: "length (sha_round vs kw) = length vs"
  by (induction vs kw rule: sha_round.induct) (simp_all add: Let_def)

lemma length_foldl_sha_round [simp]: "length (foldl sha_round vs kws) = length vs"
  by (induction kws arbitrary: vs) simp_all

lemma length_sha_blocks [simp]: "length (sha_blocks hs ws) = length hs"
proof (induction hs ws rule: sha_blocks.induct)
  case (1 hs ws)
  then show ?case by (subst sha_blocks.simps) (simp add: sha_compress_def)
qed

lemma length_bytes_of_nat [simp]: "length (bytes_of_nat k n) = k"
  by (simp add: bytes_of_nat_def)

lemma length_sha256 [simp]: "length (sha256 s) = 32"
proof -
  have "length (concat (map (\<lambda>w. bytes_of_nat 4 (unat w)) ws)) = 4 * length ws" for ws :: "word32 list"
    by (induction ws) simp_all
  then show ?thesis by (simp add: sha256_def sha_initial_def)
qed

lemma length_to_hex [simp]: "length (to_hex s) = 2 * length s"
  by (induction s) (simp_all add: to_hex_def hex_byte_def)

lemma length_sha256_hex [simp]: "length (sha256_hex s) = 64"
  by (simp add: sha256_hex_def)

lemma hex_digit_lower [simp]: "n < 16 \<Longrightarrow> is_lower_hex (hex_digit n)"
  by (auto simp: hex_digit_def is_lower_hex_def Let_def of_char_of)

lemma to_hex_lower: "list_all is_lower_hex (to_hex s)"
proof (induction s)
  case Nil
  then show ?case by (simp add: to_hex_def)
next
  case (Cons c s)
  have "(of_char c :: nat) < 16 * 16" using of_char_less [of c] by simp
  then have "(of_char c :: nat) div 16 < 16" by (rule less_mult_imp_div_less)
  then show ?case using Cons by (simp add: to_hex_def hex_byte_def)
qed

lemma sha256_hex_lower: "list_all is_lower_hex (sha256_hex s)"
  by (simp add: sha256_hex_def to_hex_lower)

text \<open>Hexadecimal text loses nothing: \<open>bytes.fromhex(b.hex()) == b\<close>.\<close>

lemma hex_value_digit [simp]: "n < 16 \<Longrightarrow> hex_value (hex_digit n) = n"
  by (auto simp: hex_value_def hex_digit_def Let_def of_char_of)

lemma hex_digit_not_space [simp]:
  "n < 16 \<Longrightarrow> hex_digit n \<notin> {CHR 0x20, CHR 0x09, CHR 0x0A, CHR 0x0B, CHR 0x0C, CHR 0x0D}"
  by (drule hex_digit_lower) (auto simp: is_lower_hex_def)

lemma from_to_hex: "from_hex (to_hex s) = Inr s"
proof (induction s)
  case Nil
  then show ?case by (simp add: to_hex_def)
next
  case (Cons c s)
  have n: "(of_char c :: nat) < 16 * 16" using of_char_less [of c] by simp
  then have d: "(of_char c :: nat) div 16 < 16" by (rule less_mult_imp_div_less)
  have "char_of (16 * ((of_char c :: nat) div 16) + of_char c mod 16) = c"
    by (metis mult.commute div_mult_mod_eq char_of_char)
  moreover have "to_hex (c # s) = hex_digit (of_char c div 16) # hex_digit (of_char c mod 16) # to_hex s"
    by (simp add: to_hex_def hex_byte_def)
  ultimately show ?case
    using Cons d hex_digit_not_space[OF d] lower_hex_is_hex[OF hex_digit_lower[OF d]]
      lower_hex_is_hex[OF hex_digit_lower[of "of_char c mod 16"]]
    by simp
qed

lemma to_hex_inj: "to_hex s = to_hex t \<Longrightarrow> s = t"
  by (metis from_to_hex sum.inject(2))

end
