(* ===== verification/Models.thy ===== *)
theory Models
  imports Py_Hash
begin

section \<open>models.py: the data model and its validators\<close>

text \<open>
  One record per pydantic model and one datatype per \<open>Literal\<close> or \<open>StrEnum\<close>, with the
  field constraints as predicates \<open>valid_...\<close>. Constructing a model validates it:
  \<open>validated\<close> raises \<open>ValidationError\<close> when a constraint fails. Assigning a field or
  \<open>model_copy(update=...)\<close> does not validate, so those are plain record updates. A
  \<open>datetime\<close> is the number of microseconds since the epoch; a \<open>UUID\<close> is its 128-bit value.
\<close>


subsection \<open>UUIDs\<close>

type_synonym uuid = "128 word"

text \<open>\<open>str(uuid)\<close>: thirty-two hexadecimal digits in groups of 8, 4, 4, 4 and 12.\<close>

definition uuid_hex :: "uuid \<Rightarrow> string" where
  "uuid_hex u = map (\<lambda>i. hex_digit (unat u div 16 ^ (31 - i) mod 16)) [0..<32]"

definition str_uuid :: "uuid \<Rightarrow> string" where
  "str_uuid u = (let h = uuid_hex u in
     take 8 h @ ''-'' @ take 4 (drop 8 h) @ ''-'' @ take 4 (drop 12 h) @ ''-'' @
     take 4 (drop 16 h) @ ''-'' @ drop 20 h)"

text \<open>\<open>s.replace(p, "")\<close> for a non-empty \<open>p\<close>.\<close>

function py_remove :: "string \<Rightarrow> string \<Rightarrow> string" where
  "py_remove p [] = []"
| "py_remove p (c # s) =
     (if p \<noteq> [] \<and> startswith (c # s) p then py_remove p (drop (length p) (c # s))
      else c # py_remove p s)"
  by pat_completeness auto
termination
  by (relation "measure (\<lambda>(p, s). length s)") auto

text \<open>\<open>int(s, 16)\<close>: white space, a sign, a \<open>0x\<close> prefix, digits with single underscores.\<close>

fun hex_groups :: "string \<Rightarrow> bool" where
  "hex_groups [] = False"
| "hex_groups [c] = is_hex c"
| "hex_groups (c # d # s) =
     (is_hex c \<and> (if d = CHR ''_'' then hex_groups s else hex_groups (d # s)))"

definition py_int_hex_digits :: "string \<Rightarrow> int option" where
  "py_int_hex_digits s =
     (let t = (if startswith (py_lower s) ''0x'' then
                 (case drop 2 s of [] \<Rightarrow> [] | c # r \<Rightarrow> if c = CHR ''_'' then r else c # r)
               else s)
      in if hex_groups t
         then Some (int (foldl (\<lambda>a c. 16 * a + hex_value c) 0 (filter is_hex t))) else None)"

definition py_int_hex :: "string \<Rightarrow> int option" where
  "py_int_hex s = (case py_strip s of
      [] \<Rightarrow> None
    | c # t \<Rightarrow>
        if c = CHR ''-'' then map_option uminus (py_int_hex_digits t)
        else if c = CHR ''+'' then py_int_hex_digits t
        else py_int_hex_digits (c # t))"

text \<open>\<open>UUID(text)\<close>.\<close>

definition parse_uuid :: "string \<Rightarrow> uuid outcome" where
  "parse_uuid s =
     (let brace = (\<lambda>c. c = CHR ''{'' \<or> c = CHR ''}'');
          t = py_remove ''uuid:'' (py_remove ''urn:'' s);
          h = filter (\<lambda>c. c \<noteq> CHR ''-'') (rev (dropWhile brace (rev (dropWhile brace t))))
      in if length h \<noteq> 32 then Inl (ValueError ''badly formed hexadecimal UUID string'')
         else (case py_int_hex h of
             None \<Rightarrow> Inl (ValueError ''invalid literal for int() with base 16'')
           | Some i \<Rightarrow>
               if 0 \<le> i \<and> i < 2 ^ 128 then Inr (word_of_int i)
               else Inl (ValueError ''int is out of range (need a 128-bit value)'')))"


subsection \<open>Names, paths and digests\<close>

text \<open>\<open>validate_branch_name\<close>: the characters, then Git's own restrictions.\<close>

definition branch_char :: "char \<Rightarrow> bool" where
  "branch_char c = (is_alnum c \<or> c \<in> set ''._/-'')"

definition branch_pattern :: "string \<Rightarrow> bool" where
  "branch_pattern s = (case s of [] \<Rightarrow> False
     | c # t \<Rightarrow> is_alnum c \<and> list_all branch_char t \<and> length t \<le> 254)"

definition validate_branch_name :: "string \<Rightarrow> string outcome" where
  "validate_branch_name value =
     (if \<not> branch_pattern value
      then Inl (ValueError ''default_branch contains unsupported characters'')
      else if value = ''HEAD''
        \<or> py_contains value ''..''
        \<or> py_contains value (''@'' @ ''{'')
        \<or> py_contains value ''//''
        \<or> endswith value ''/'' \<or> endswith value ''.'' \<or> endswith value ''.lock''
        \<or> list_ex (\<lambda>part. startswith part ''.'') (py_split (CHR ''/'') value)
      then Inl (ValueError ''default_branch is not a safe Git branch name'')
      else Inr value)"

definition safe_branch :: "string \<Rightarrow> bool" where
  "safe_branch s = (validate_branch_name s = Inr s)"

definition safe_branch_option :: "string option \<Rightarrow> bool" where
  "safe_branch_option b = (case b of None \<Rightarrow> True | Some s \<Rightarrow> safe_branch s)"

text \<open>\<open>PurePosixPath\<close>: absolute when it starts with a slash; empty and \<open>.\<close> parts are dropped.\<close>

definition path_is_absolute :: "string \<Rightarrow> bool" where
  "path_is_absolute s = startswith s ''/''"

definition path_parts :: "string \<Rightarrow> string list" where
  "path_parts s = filter (\<lambda>p. p \<noteq> [] \<and> p \<noteq> ''.'') (py_split (CHR ''/'') s)"

definition validate_relative_path :: "string \<Rightarrow> string outcome" where
  "validate_relative_path value =
     (if value = [] then Inl (ValueError ''path must not be empty'')
      else if path_is_absolute value \<or> ''..'' \<in> set (path_parts value) \<or> CHR 0x5C \<in> set value
      then Inl (ValueError ''path must be relative and may not traverse parent directories'')
      else Inr value)"

definition safe_relative_path :: "string \<Rightarrow> bool" where
  "safe_relative_path s = (validate_relative_path s = Inr s)"

definition is_sha40 :: "string \<Rightarrow> bool" where
  "is_sha40 s = (length s = 40 \<and> list_all is_hex s)"

definition is_sha40_option :: "string option \<Rightarrow> bool" where
  "is_sha40_option x = (case x of None \<Rightarrow> True | Some s \<Rightarrow> is_sha40 s)"

definition name_char :: "char \<Rightarrow> bool" where
  "name_char c = (is_alnum c \<or> c \<in> set ''_.-'')"

definition validated :: "('a \<Rightarrow> bool) \<Rightarrow> string \<Rightarrow> 'a \<Rightarrow> 'a outcome" where
  "validated ok model x = (if ok x then Inr x else Inl (ValidationError model))"

lemma validated_Inr [simp]: "(validated ok m x = Inr y) = (ok x \<and> y = x)"
  by (auto simp: validated_def)

lemma validate_branch_name_Inr: "validate_branch_name s = Inr t \<Longrightarrow> t = s \<and> safe_branch s"
  by (auto simp: validate_branch_name_def safe_branch_def split: if_splits)

lemma validate_relative_path_Inr:
  "validate_relative_path s = Inr t \<Longrightarrow> t = s \<and> safe_relative_path s"
  by (auto simp: validate_relative_path_def safe_relative_path_def split: if_splits)


subsection \<open>Scopes and principals\<close>

datatype scope = Read | Operate | Extend | Admin

text \<open>\<open>SCOPE_IMPLICATIONS\<close>.\<close>

fun scope_implications :: "scope \<Rightarrow> scope set" where
  "scope_implications Read = {Read}"
| "scope_implications Operate = {Read, Operate}"
| "scope_implications Extend = {Read, Extend}"
| "scope_implications Admin = {Read, Operate, Extend, Admin}"

fun scope_name :: "scope \<Rightarrow> string" where
  "scope_name Read = ''read''"
| "scope_name Operate = ''operate''"
| "scope_name Extend = ''extend''"
| "scope_name Admin = ''admin''"

record principal =
  token_id :: string
  scopes :: "scope set"

definition permits :: "principal \<Rightarrow> scope \<Rightarrow> bool" where
  "permits p required = (\<exists>s\<in>scopes p. required \<in> scope_implications s)"


subsection \<open>Repositories\<close>

text \<open>\<open>Repository\<close> extends \<open>RepositoryCreate\<close>, as the class does.\<close>

record repository_create =
  repo_owner :: string
  repo_name :: string
  repo_default_branch :: string
  repo_enabled :: bool

record repository = repository_create +
  repo_id :: uuid
  repo_created_at :: int
  repo_updated_at :: int

record repository_update =
  upd_default_branch :: "string option"
  upd_enabled :: "bool option"

definition full_name :: "'z repository_create_scheme \<Rightarrow> string" where
  "full_name r = repo_owner r @ ''/'' @ repo_name r"

definition valid_repo_part :: "string \<Rightarrow> bool" where
  "valid_repo_part s = (s \<noteq> [] \<and> list_all name_char s)"

definition valid_repository_create :: "'z repository_create_scheme \<Rightarrow> bool" where
  "valid_repository_create r =
     (valid_repo_part (repo_owner r) \<and> valid_repo_part (repo_name r)
      \<and> safe_branch (repo_default_branch r))"

definition valid_repository_update :: "repository_update \<Rightarrow> bool" where
  "valid_repository_update u = safe_branch_option (upd_default_branch u)"

text \<open>\<open>current.model_copy(update=value.model_dump(exclude_none=True))\<close>.\<close>

definition apply_update :: "repository_update \<Rightarrow> repository \<Rightarrow> repository" where
  "apply_update u r =
     (let r1 = (case upd_default_branch u of None \<Rightarrow> r | Some b \<Rightarrow> r\<lparr>repo_default_branch := b\<rparr>)
      in case upd_enabled u of None \<Rightarrow> r1 | Some e \<Rightarrow> r1\<lparr>repo_enabled := e\<rparr>)"

lemma apply_update_simps [simp]:
  "repo_id (apply_update u r) = repo_id r"
  "full_name (apply_update u r) = full_name r"
  "repo_owner (apply_update u r) = repo_owner r"
  "repo_name (apply_update u r) = repo_name r"
  "repo_created_at (apply_update u r) = repo_created_at r"
  by (auto simp: apply_update_def full_name_def Let_def split: option.splits)


subsection \<open>Review policy and review log\<close>

record review_policy =
  rp_enabled :: bool
  rp_pull_requests_only :: bool
  rp_critical_severities :: "string list"
  rp_max_diff_bytes :: int

definition default_review_policy :: review_policy where
  "default_review_policy = \<lparr>rp_enabled = True, rp_pull_requests_only = True,
     rp_critical_severities = [''critical''], rp_max_diff_bytes = 200000\<rparr>"

definition valid_review_policy :: "review_policy \<Rightarrow> bool" where
  "valid_review_policy p =
     (rp_pull_requests_only p \<and> rp_critical_severities p = [''critical'']
      \<and> 1024 \<le> rp_max_diff_bytes p \<and> rp_max_diff_bytes p \<le> 1000000)"

datatype review_action_kind = GithubPullRequestReview | GithubCommitStatus
datatype review_action_status = Performed | NotPerformed | ActionFailed
datatype review_outcome = OutcomePassed | OutcomeFailed | OutcomeSkipped

record ai_review_action =
  act_action :: review_action_kind
  act_status :: review_action_status
  act_detail :: string
  act_response_id :: "string option"

record ai_review_log =
  log_build_id :: uuid
  log_review_run_id :: uuid
  log_repository :: string
  log_pull_request :: "int option"
  log_base_sha :: "string option"
  log_head_sha :: string
  log_model :: string
  log_prompt_version :: string
  log_outcome :: review_outcome
  log_summary :: string
  log_findings :: "jobj list"
  log_actions :: "ai_review_action list"
  log_failure_reason :: "string option"
  log_started_at :: int
  log_completed_at :: int

definition valid_ai_review_action :: "ai_review_action \<Rightarrow> bool" where
  "valid_ai_review_action a =
     (1 \<le> length (act_detail a) \<and> length (act_detail a) \<le> 500
      \<and> (case act_response_id a of None \<Rightarrow> True | Some r \<Rightarrow> length r \<le> 200))"

definition positive_option :: "int option \<Rightarrow> bool" where
  "positive_option x = (case x of None \<Rightarrow> True | Some i \<Rightarrow> 1 \<le> i)"

definition valid_ai_review_log :: "ai_review_log \<Rightarrow> bool" where
  "valid_ai_review_log l =
     (positive_option (log_pull_request l) \<and> is_sha40_option (log_base_sha l)
      \<and> is_sha40 (log_head_sha l)
      \<and> 1 \<le> length (log_summary l) \<and> length (log_summary l) \<le> 4000
      \<and> length (log_findings l) \<le> 50
      \<and> length (log_actions l) \<le> 20 \<and> list_all valid_ai_review_action (log_actions l)
      \<and> (case log_failure_reason l of None \<Rightarrow> True | Some r \<Rightarrow> length r \<le> 2000))"


subsection \<open>Queue items, checks, artifacts, results and builds\<close>

datatype queue_state = QQueued | QStarted | QReused | QCancelled | QFailed
datatype check_status = CheckPassed | CheckFailed | CheckWarning | CheckSkipped
datatype build_status = Queued | Running | Passed | Failed | Cancelled

fun status_name :: "build_status \<Rightarrow> string" where
  "status_name Queued = ''queued''"
| "status_name Running = ''running''"
| "status_name Passed = ''passed''"
| "status_name Failed = ''failed''"
| "status_name Cancelled = ''cancelled''"

fun outcome_name :: "review_outcome \<Rightarrow> string" where
  "outcome_name OutcomePassed = ''passed''"
| "outcome_name OutcomeFailed = ''failed''"
| "outcome_name OutcomeSkipped = ''skipped''"

text \<open>A review outcome used as a check status: \<open>CheckResult(status=log.outcome)\<close>.\<close>

fun outcome_check :: "review_outcome \<Rightarrow> check_status" where
  "outcome_check OutcomePassed = CheckPassed"
| "outcome_check OutcomeFailed = CheckFailed"
| "outcome_check OutcomeSkipped = CheckSkipped"

record queue_item =
  queue_id :: uuid
  queue_repository_id :: uuid
  queue_build_id :: "uuid option"
  queue_jenkins_id :: "int option"
  queue_state :: queue_state
  queue_commit_sha :: string
  queue_base_sha :: "string option"
  queue_branch :: "string option"
  queue_pull_request :: "int option"
  queue_created_at :: int

definition valid_queue_item :: "queue_item \<Rightarrow> bool" where
  "valid_queue_item q = (is_sha40_option (queue_base_sha q) \<and> safe_branch_option (queue_branch q))"

record check_result =
  check_id :: string
  check_name :: string
  check_status :: check_status
  check_required :: bool
  check_exit_code :: "int option"
  check_duration_seconds :: rat
  check_reports :: "string list"

definition valid_check_result :: "check_result \<Rightarrow> bool" where
  "valid_check_result c =
     (0 \<le> check_duration_seconds c \<and> list_all safe_relative_path (check_reports c))"

record artifact =
  art_name :: string
  art_path :: string
  art_sha256 :: string
  art_size :: int
  art_download_url :: "string option"

definition valid_artifact :: "artifact \<Rightarrow> bool" where
  "valid_artifact a =
     (safe_relative_path (art_path a) \<and> length (art_sha256 a) = 64
      \<and> list_all is_lower_hex (art_sha256 a) \<and> 0 \<le> art_size a)"

record pipeline_result =
  res_repository :: string
  res_commit_sha :: string
  res_trusted_sha :: "string option"
  res_base_sha :: "string option"
  res_build_id :: "uuid option"
  res_pull_request :: "int option"
  res_status :: build_status
  res_started_at :: "int option"
  res_completed_at :: "int option"
  res_checks :: "check_result list"
  res_artifacts :: "artifact list"
  res_extension_runs :: "uuid list"

definition valid_pipeline_result :: "pipeline_result \<Rightarrow> bool" where
  "valid_pipeline_result r =
     (is_sha40 (res_commit_sha r) \<and> is_sha40_option (res_trusted_sha r)
      \<and> is_sha40_option (res_base_sha r)
      \<and> list_all valid_check_result (res_checks r)
      \<and> list_all valid_artifact (res_artifacts r))"

record build =
  build_id :: uuid
  build_repository_id :: uuid
  build_jenkins_job :: string
  build_queue_item_id :: "uuid option"
  build_jenkins_queue_id :: "int option"
  build_jenkins_build_number :: "int option"
  build_branch :: "string option"
  build_reused_from :: "uuid option"
  build_review_policy :: "review_policy option"
  build_ai_review_log :: "ai_review_log option"
  build_result :: pipeline_result
  build_created_at :: int
  build_updated_at :: int

definition valid_build :: "build \<Rightarrow> bool" where
  "valid_build b =
     (safe_branch_option (build_branch b)
      \<and> (case build_review_policy b of None \<Rightarrow> True | Some p \<Rightarrow> valid_review_policy p)
      \<and> (case build_ai_review_log b of None \<Rightarrow> True | Some l \<Rightarrow> valid_ai_review_log l)
      \<and> valid_pipeline_result (build_result b))"

definition is_terminal :: "build_status \<Rightarrow> bool" where
  "is_terminal s = (s \<in> {Passed, Failed, Cancelled})"


subsection \<open>Requests\<close>

record contract_validation =
  cv_valid :: bool
  cv_errors :: "string list"
  cv_normalized :: "jobj option"

datatype contract_format = Yaml | JsonFormat

record contract_validation_request =
  cvr_content :: string
  cvr_format :: contract_format

record trigger_request =
  trig_repository_id :: uuid
  trig_commit_sha :: string
  trig_base_sha :: "string option"
  trig_branch :: "string option"
  trig_pull_request :: "int option"

definition valid_trigger_request :: "trigger_request \<Rightarrow> bool" where
  "valid_trigger_request t =
     (is_sha40 (trig_commit_sha t) \<and> is_sha40_option (trig_base_sha t)
      \<and> safe_branch_option (trig_branch t) \<and> positive_option (trig_pull_request t))"

record build_completion =
  cmp_callback_id :: string
  cmp_timestamp :: int
  cmp_build_id :: uuid
  cmp_result :: pipeline_result
  cmp_review :: review_policy
  cmp_diff :: "string option"

definition callback_char :: "char \<Rightarrow> bool" where
  "callback_char c = (is_alnum c \<or> c \<in> set ''_.:-'')"

definition valid_build_completion :: "build_completion \<Rightarrow> bool" where
  "valid_build_completion c =
     (8 \<le> length (cmp_callback_id c) \<and> length (cmp_callback_id c) \<le> 200
      \<and> list_all callback_char (cmp_callback_id c) \<and> 0 \<le> cmp_timestamp c
      \<and> valid_pipeline_result (cmp_result c) \<and> valid_review_policy (cmp_review c)
      \<and> (case cmp_diff c of None \<Rightarrow> True | Some d \<Rightarrow> length d \<le> 1000000))"

record extension_action_request =
  ear_extension_id :: string
  ear_action :: string
  ear_repository_id :: uuid
  ear_build_id :: "uuid option"
  ear_inputs :: jobj
  ear_idempotency_key :: string

definition valid_extension_action_request :: "extension_action_request \<Rightarrow> bool" where
  "valid_extension_action_request r =
     (8 \<le> length (ear_idempotency_key r) \<and> length (ear_idempotency_key r) \<le> 200)"


subsection \<open>Extensions, webhooks and audit\<close>

record extension_manifest =
  man_id :: string
  man_image :: string
  man_compatible_contracts :: "string list"
  man_actions :: "string list"
  man_input_schema :: string
  man_output_schema :: string
  man_github_actions :: "string list"
  man_required_secrets :: "string list"
  man_timeout_seconds :: int
  man_memory_mb :: int
  man_cpus :: rat

definition lower_alnum :: "char \<Rightarrow> bool" where
  "lower_alnum c = (is_alnum c \<and> py_lower_char c = c)"

definition manifest_id_pattern :: "string \<Rightarrow> bool" where
  "manifest_id_pattern s = (case s of [] \<Rightarrow> False
     | c # t \<Rightarrow> lower_alnum c \<and> list_all (\<lambda>c. lower_alnum c \<or> c = CHR ''-'') t
         \<and> 1 \<le> length t \<and> length t \<le> 62)"

definition schema_file_pattern :: "string \<Rightarrow> bool" where
  "schema_file_pattern s =
     (list_all name_char s \<and> endswith s ''.json'' \<and> 5 < length s)"

text \<open>\<open>immutable_image\<close>: a name, \<open>@sha256:\<close> and sixty-four lower-case hexadecimal digits.\<close>

definition image_char :: "char \<Rightarrow> bool" where
  "image_char c = (is_alnum c \<or> c \<in> set ''._/:+-'')"

definition immutable_image :: "string \<Rightarrow> bool" where
  "immutable_image s =
     (72 < length s \<and> (let n = length s - 72; name = take n s; rest = drop n s in
        name \<noteq> [] \<and> is_alnum (hd name) \<and> list_all image_char (tl name)
        \<and> startswith rest ''@sha256:'' \<and> list_all is_lower_hex (drop 8 rest)))"

definition valid_extension_manifest :: "extension_manifest \<Rightarrow> bool" where
  "valid_extension_manifest m =
     (manifest_id_pattern (man_id m) \<and> immutable_image (man_image m)
      \<and> list_all (\<lambda>c. c = ''ci.jenkinsservice.dev/v1'') (man_compatible_contracts m)
      \<and> schema_file_pattern (man_input_schema m) \<and> schema_file_pattern (man_output_schema m)
      \<and> list_all (\<lambda>a. a \<in> {''review_comment'', ''issue_comment'', ''check_run'', ''status''})
          (man_github_actions m)
      \<and> 1 \<le> man_timeout_seconds m \<and> man_timeout_seconds m \<le> 900
      \<and> 64 \<le> man_memory_mb m \<and> man_memory_mb m \<le> 4096
      \<and> 0 < man_cpus m \<and> man_cpus m \<le> 4)"

record extension_output =
  out_findings :: "jobj list"
  out_requested_github_actions :: "jobj list"
  out_review_log :: "ai_review_log option"

definition empty_extension_output :: extension_output where
  "empty_extension_output =
     \<lparr>out_findings = [], out_requested_github_actions = [], out_review_log = None\<rparr>"

definition valid_extension_output :: "extension_output \<Rightarrow> bool" where
  "valid_extension_output x =
     (length (out_findings x) \<le> 500 \<and> length (out_requested_github_actions x) \<le> 100
      \<and> (case out_review_log x of None \<Rightarrow> True | Some l \<Rightarrow> valid_ai_review_log l))"

datatype run_status = RunRunning | RunSucceeded | RunFailed | RunSkipped

record extension_run =
  run_id :: uuid
  run_extension_id :: string
  run_image_digest :: string
  run_action :: string
  run_target :: string
  run_idempotency_key :: string
  run_status :: run_status
  run_output :: "extension_output option"
  run_created_at :: int
  run_completed_at :: "int option"

definition valid_extension_run :: "extension_run \<Rightarrow> bool" where
  "valid_extension_run r =
     (case run_output r of None \<Rightarrow> True | Some x \<Rightarrow> valid_extension_output x)"

record webhook_delivery =
  hook_delivery_id :: string
  hook_event :: string
  hook_repository :: string
  hook_accepted :: bool
  hook_reason :: "string option"
  hook_received_at :: int

datatype audit_outcome = AuditAccepted | AuditRejected | AuditSucceeded | AuditFailed

record audit_record =
  audit_id :: uuid
  audit_actor :: string
  audit_action :: string
  audit_target :: string
  audit_request_id :: string
  audit_outcome :: audit_outcome
  audit_detail :: jobj
  audit_created_at :: int

record operation_accepted =
  accepted_id :: string
  accepted_detail :: string

record service_capabilities =
  cap_service_version :: string
  cap_contract_versions :: "string list"
  cap_operations :: "string list"


subsection \<open>What the validators promise\<close>

lemmas valid_model_defs = valid_build_def valid_pipeline_result_def valid_artifact_def
  valid_check_result_def valid_queue_item_def

lemma is_terminal_iff: "is_terminal s = (s \<noteq> Queued \<and> s \<noteq> Running)"
  by (cases s) (simp_all add: is_terminal_def)

text \<open>A validated path cannot name anything above the directory it is resolved in.\<close>

fun resolve_parts :: "string list \<Rightarrow> string list \<Rightarrow> string list" where
  "resolve_parts dir [] = dir"
| "resolve_parts dir (p # ps) =
     (if p = ''..'' then resolve_parts (butlast dir) ps else resolve_parts (dir @ [p]) ps)"

lemma resolve_without_dotdot: "''..'' \<notin> set ps \<Longrightarrow> resolve_parts dir ps = dir @ ps"
  by (induction ps arbitrary: dir) auto

lemma py_contains_append: "py_contains (s @ p @ t) p"
proof (induction s)
  case Nil
  show ?case by (cases "p @ t") (auto simp: startswith_def, metis append_eq_conv_conj)
next
  case (Cons c s)
  then show ?case by simp
qed

end
