(* ===== verification/Store_Spec.thy ===== *)
theory Store_Spec
  imports Models
begin

section \<open>The contracts of the Store protocol\<close>

text \<open>
  \<open>store.py\<close> declares a \<open>Store\<close> protocol and two classes that implement it. The service
  relies on three promises of it, one locale each: a table keyed by identifier returns what
  was last stored (\<open>keyed_table\<close>); a delivery is recorded once (\<open>once_log\<close>); the first
  extension run saved under an idempotency key is the one every later caller gets
  (\<open>run_registry\<close>). \<open>service_store\<close> puts them together over one state.
\<close>

subsection \<open>Tables filed under their own identifiers\<close>

text \<open>Keys are distinct and every entry is filed under the identifier \<open>f\<close> reads off it.\<close>

definition filed_under :: "('v \<Rightarrow> 'k) \<Rightarrow> ('k \<times> 'v) list \<Rightarrow> bool" where
  "filed_under f d = (distinct (dkeys d) \<and> (\<forall>(k, v)\<in>set d. f v = k))"

lemma filed_under_dset [simp]: "filed_under f d \<Longrightarrow> f v = k \<Longrightarrow> filed_under f (dset k v d)"
  unfolding filed_under_def using set_dset_subset [of k v d] by fastforce

lemma filed_under_ddel [simp]: "filed_under f d \<Longrightarrow> filed_under f (ddel k d)"
  unfolding filed_under_def using set_ddel_subset [of k d] by fastforce

lemma filed_underD: "filed_under f d \<Longrightarrow> dget d k = Some v \<Longrightarrow> f v = k"
  unfolding filed_under_def by (drule map_of_SomeD) auto

lemma filed_under_map:
  assumes "filed_under f d" and "\<And>k v. f (g k v) = f v"
  shows "filed_under f (map (\<lambda>(k, v). (k, g k v)) d)"
proof -
  have "distinct (dkeys (map (\<lambda>(k, v). (k, g k v)) d))"
    using assms(1) unfolding dkeys_map_values filed_under_def by simp
  with assms show ?thesis by (force simp: filed_under_def)
qed

lemma set_dset: "distinct (dkeys d) \<Longrightarrow> set (dset k v d) = insert (k, v) {(a, b) \<in> set d. a \<noteq> k}"
proof (induction d)
  case Nil
  then show ?case by simp
next
  case (Cons x d)
  then show ?case by (cases x) (force simp: image_iff)
qed

lemma set_ddel: "set (ddel k d) = {(a, b) \<in> set d. a \<noteq> k}"
  by (induction d) auto

lemma dget_set: "distinct (dkeys d) \<Longrightarrow> (dget d k = Some v) = ((k, v) \<in> set d)"
  by simp


subsection \<open>The protocol's promises\<close>

locale keyed_table =
  fixes put :: "'v \<Rightarrow> ('s, 'v) io"
    and fetch :: "uuid \<Rightarrow> ('s, 'v) io"
    and ident :: "'v \<Rightarrow> uuid"
    and storable :: "'v \<Rightarrow> 's \<Rightarrow> bool"
    and inv :: "'s \<Rightarrow> bool"
  assumes put_accepts: "inv s \<Longrightarrow> storable v s \<Longrightarrow> fst (put v s) = Inr v"
    and put_result: "inv s \<Longrightarrow> put v s = (Inr w, t) \<Longrightarrow> w = v"
    and put_inv: "inv s \<Longrightarrow> inv (snd (put v s))"
    and put_refuses: "put v s = (Inl e, t) \<Longrightarrow> t = s"
    and fetch_put: "inv s \<Longrightarrow> put v s = (Inr w, t) \<Longrightarrow> fetch (ident v) t = (Inr v, t)"
    and fetch_other: "inv s \<Longrightarrow> i \<noteq> ident v \<Longrightarrow> fst (fetch i (snd (put v s))) = fst (fetch i s)"
    and fetch_pure: "snd (fetch i s) = s"
begin

text \<open>The last write to an identifier wins, whatever was written in between elsewhere.\<close>

lemma last_write_wins:
  assumes "inv s" and "put v s = (Inr v', t)" and "put w t = (Inr w', u)" and "ident w \<noteq> ident v"
  shows "fst (fetch (ident v) u) = Inr v"
proof -
  have "inv t" using put_inv [OF assms(1), of v] assms(2) by simp
  then have "fst (fetch (ident v) u) = fst (fetch (ident v) t)"
    using fetch_other [of t "ident v" w] assms(3,4) by simp
  with fetch_put [OF assms(1,2)] show ?thesis by simp
qed

lemma overwrite:
  assumes "inv s" and "put v s = (Inr v', t)" and "put w t = (Inr w', u)" and "ident w = ident v"
  shows "fst (fetch (ident v) u) = Inr w"
proof -
  have "inv t" using put_inv [OF assms(1), of v] assms(2) by simp
  from fetch_put [OF this assms(3)] show ?thesis by (simp add: assms(4))
qed

text \<open>A run of writes: each identifier holds the last value written under it.\<close>

lemma put_all_inv: "inv s \<Longrightarrow> inv (snd (for_io vs (\<lambda>v. bind_io (put v) (\<lambda>_. return_io ())) s))"
proof (induction vs arbitrary: s)
  case Nil
  then show ?case by (simp add: run_return)
next
  case (Cons v vs)
  obtain r t where put: "put v s = (r, t)" by (cases "put v s")
  have "inv t" using put_inv [OF Cons.prems, of v] put by simp
  with Cons.IH show ?case by (cases r) (simp_all add: io_simps put)
qed

lemma unwritten_kept:
  assumes "inv s" and "i \<notin> ident ` set vs"
  shows "fst (fetch i (snd (for_io vs (\<lambda>v. bind_io (put v) (\<lambda>_. return_io ())) s))) = fst (fetch i s)"
  using assms
proof (induction vs arbitrary: s)
  case Nil
  then show ?case by (simp add: run_return)
next
  case (Cons v vs)
  obtain r t where put: "put v s = (r, t)" by (cases "put v s")
  have "inv t" using put_inv [OF Cons.prems(1), of v] put by simp
  moreover have "fst (fetch i t) = fst (fetch i s)"
    using fetch_other [OF Cons.prems(1), of i v] Cons.prems(2) put by simp
  ultimately show ?case using Cons.IH [of t] Cons.prems(2) by (cases r) (simp_all add: io_simps put)
qed

end

locale once_log =
  fixes record_once :: "'d \<Rightarrow> ('s, bool) io"
    and seen :: "string \<Rightarrow> 's \<Rightarrow> bool"
    and key :: "'d \<Rightarrow> string"
  assumes record_fresh: "\<not> seen (key d) s \<Longrightarrow> fst (record_once d s) = Inr True"
    and record_marks: "seen k (snd (record_once d s)) = (k = key d \<or> seen k s)"
    and record_duplicate: "seen (key d) s \<Longrightarrow> record_once d s = (Inr False, s)"
begin

lemma record_returns: "fst (record_once d s) = Inr (\<not> seen (key d) s)"
  by (cases "seen (key d) s") (simp_all add: record_fresh record_duplicate)

text \<open>The deliveries of a sequence that were accepted, in order.\<close>

fun accepted :: "'d list \<Rightarrow> 's \<Rightarrow> 'd list" where
  "accepted [] s = []"
| "accepted (d # ds) s =
     (if fst (record_once d s) = Inr True then d # accepted ds (snd (record_once d s))
      else accepted ds (snd (record_once d s)))"

lemma accepted_unseen: "d \<in> set (accepted ds s) \<Longrightarrow> \<not> seen (key d) s"
proof (induction ds arbitrary: s)
  case Nil
  then show ?case by simp
next
  case (Cons c ds)
  from Cons.IH [of "snd (record_once c s)"] Cons.prems show ?case
    by (auto simp only: accepted.simps record_returns record_marks sum.inject set_simps split: if_splits)
qed

text \<open>However often a delivery arrives, it is accepted at most once.\<close>

lemma accepted_distinct: "distinct (map key (accepted ds s))"
proof (induction ds arbitrary: s)
  case Nil
  then show ?case by simp
next
  case (Cons c ds)
  have "key c \<notin> key ` set (accepted ds (snd (record_once c s)))"
    by (metis accepted_unseen imageE record_marks)
  then show ?case using Cons.IH by simp
qed

text \<open>No delivery is lost: every key that arrives is seen at the end.\<close>

lemma accepted_complete:
  "\<not> seen (key d) s \<Longrightarrow> d \<in> set ds \<Longrightarrow> key d \<in> key ` set (accepted ds s)"
proof (induction ds arbitrary: s)
  case Nil
  then show ?case by simp
next
  case (Cons c ds)
  show ?case
  proof (cases "key c = key d")
    case True
    with Cons.prems show ?thesis by (auto simp: record_returns)
  next
    case False
    with Cons.prems have "\<not> seen (key d) (snd (record_once c s))" "d \<in> set ds"
      by (auto simp: record_marks)
    from Cons.IH [OF this] show ?thesis by auto
  qed
qed

end

locale run_registry =
  fixes save :: "extension_run \<Rightarrow> ('s, extension_run) io"
    and by_key :: "string \<Rightarrow> ('s, extension_run option) io"
    and registered :: "string \<Rightarrow> 's \<Rightarrow> extension_run option"
    and fresh_id :: "uuid \<Rightarrow> 's \<Rightarrow> bool"
    and inv :: "'s \<Rightarrow> bool"
  assumes by_key_registered: "inv s \<Longrightarrow> by_key k s = (Inr (registered k s), s)"
    and save_inv: "inv s \<Longrightarrow> fresh_id (run_id r) s \<or> registered (run_idempotency_key r) s \<noteq> None \<Longrightarrow>
        inv (snd (save r s))"
    and save_new: "inv s \<Longrightarrow> registered (run_idempotency_key r) s = None \<Longrightarrow> fresh_id (run_id r) s \<Longrightarrow>
        fst (save r s) = Inr r \<and> registered (run_idempotency_key r) (snd (save r s)) = Some r"
    and save_own: "inv s \<Longrightarrow> registered (run_idempotency_key r) s = Some q \<Longrightarrow> run_id q = run_id r \<Longrightarrow>
        fst (save r s) = Inr r \<and> registered (run_idempotency_key r) (snd (save r s)) = Some r"
    and save_loser: "inv s \<Longrightarrow> registered (run_idempotency_key r) s = Some q \<Longrightarrow> run_id q \<noteq> run_id r \<Longrightarrow>
        save r s = (Inr q, s)"
    and save_other: "inv s \<Longrightarrow> k \<noteq> run_idempotency_key r \<Longrightarrow> fresh_id (run_id r) s
        \<or> registered (run_idempotency_key r) s \<noteq> None \<Longrightarrow>
        registered k (snd (save r s)) = registered k s"
begin

text \<open>
  Two callers race to save a run under one key: the one that comes second is given the
  first one's run and leaves it in place.
\<close>

lemma first_writer_wins:
  assumes "inv s" and "registered (run_idempotency_key r) s = None" and "fresh_id (run_id r) s"
    and "run_idempotency_key q = run_idempotency_key r" and "run_id q \<noteq> run_id r"
  shows "save q (snd (save r s)) = (Inr r, snd (save r s))"
proof -
  have "inv (snd (save r s))" by (rule save_inv [OF assms(1)]) (simp add: assms(3))
  moreover have "registered (run_idempotency_key q) (snd (save r s)) = Some r"
    using save_new [OF assms(1-3)] assms(4) by simp
  ultimately show ?thesis by (rule save_loser) (use assms(5) in simp)
qed

text \<open>Once a key is registered, no sequence of saves changes which run it belongs to.\<close>

lemma owner_stable:
  assumes "inv s" and "registered k s = Some q"
    and "\<And>r. r \<in> set rs \<Longrightarrow> run_idempotency_key r = k"
  shows "\<exists>p. registered k (snd (for_io rs (\<lambda>r. bind_io (save r) (\<lambda>_. return_io ())) s)) = Some p
    \<and> run_id p = run_id q"
  using assms
proof (induction rs arbitrary: s q)
  case Nil
  then show ?case by (simp add: run_return)
next
  case (Cons r rs)
  have k: "run_idempotency_key r = k" using Cons.prems(3) by simp
  obtain x t where save: "save r s = (Inr x, t)" and inv: "inv t"
    and reg: "\<exists>p. registered k t = Some p \<and> run_id p = run_id q"
  proof (cases "run_id q = run_id r")
    case True
    with save_own [OF Cons.prems(1), of r q] save_inv [OF Cons.prems(1), of r] Cons.prems(2) k
    show ?thesis by (intro that [of r "snd (save r s)"]) (auto simp: prod_eq_iff)
  next
    case False
    with save_loser [OF Cons.prems(1), of r q] Cons.prems k
    show ?thesis by (intro that [of q s]) auto
  qed
  then obtain p where p: "registered k t = Some p" "run_id p = run_id q" by blast
  from Cons.IH [OF inv p(1)] Cons.prems(3) p(2) show ?case by (simp add: io_simps save)
qed

end

locale service_store =
  builds: keyed_table put_build get_build build_id build_storable inv +
  queue: keyed_table put_queue get_queue queue_id queue_storable inv +
  hooks: once_log record_hook hook_seen hook_delivery_id +
  runs: run_registry save_run run_by_key run_registered run_fresh inv
  for put_build :: "build \<Rightarrow> ('s, build) io" and get_build and build_storable
    and put_queue :: "queue_item \<Rightarrow> ('s, queue_item) io" and get_queue and queue_storable
    and record_hook :: "webhook_delivery \<Rightarrow> ('s, bool) io" and hook_seen
    and save_run :: "extension_run \<Rightarrow> ('s, extension_run) io" and run_by_key and run_registered
    and run_fresh and inv +
  assumes hook_keeps_builds: "inv s \<Longrightarrow> fst (get_build i (snd (record_hook d s))) = fst (get_build i s)"
    and hook_inv: "inv s \<Longrightarrow> inv (snd (record_hook d s))"
    and build_keeps_hooks: "hook_seen k (snd (put_build b s)) = hook_seen k s"
    and queue_keeps_builds: "inv s \<Longrightarrow> fst (get_build i (snd (put_queue q s))) = fst (get_build i s)"
    and run_keeps_builds: "inv s \<Longrightarrow> fst (get_build i (snd (save_run r s))) = fst (get_build i s)"
begin

text \<open>
  The completion protocol over any store: store the build, record the callback. A build
  stored before its callback was recorded is still there afterwards, and the same callback
  is refused from then on.
\<close>

lemma completion_protocol:
  assumes "inv s" and "put_build b s = (Inr b', t)" and "\<not> hook_seen (hook_delivery_id d) s"
  shows "fst (record_hook d t) = Inr True"
    and "fst (get_build (build_id b) (snd (record_hook d t))) = Inr b"
    and "fst (record_hook d (snd (record_hook d t))) = Inr False"
proof -
  have inv: "inv t" using builds.put_inv [OF assms(1), of b] assms(2) by simp
  have "\<not> hook_seen (hook_delivery_id d) t"
    using build_keeps_hooks [of "hook_delivery_id d" b s] assms(2,3) by simp
  then show "fst (record_hook d t) = Inr True" by (rule hooks.record_fresh)
  show "fst (get_build (build_id b) (snd (record_hook d t))) = Inr b"
    using hook_keeps_builds [OF inv] builds.fetch_put [OF assms(1,2)] by simp
  show "fst (record_hook d (snd (record_hook d t))) = Inr False"
    by (simp add: hooks.record_returns hooks.record_marks)
qed

end

end
