(* ===== verification/Store_Memory.thy ===== *)
theory Store_Memory
  imports Store_Spec "HOL-Library.List_Lexorder"
begin

section \<open>MemoryStore\<close>

text \<open>
  The dictionaries of \<open>MemoryStore\<close> and its methods, as state-passing operations. The
  values handed out are copies; the class hands out the stored object itself, so a caller
  that mutates it before saving changes the store early. The service model runs over
  \<open>PostgresStore\<close>, which decodes a fresh object on every read.
\<close>

record mem_store =
  mem_repositories :: "(uuid \<times> repository) list"
  mem_queue_items :: "(uuid \<times> queue_item) list"
  mem_builds :: "(uuid \<times> build) list"
  mem_webhooks :: "(string \<times> webhook_delivery) list"
  mem_extension_runs :: "(uuid \<times> extension_run) list"
  mem_extension_keys :: "(string \<times> uuid) list"
  mem_audit :: "audit_record list"

definition mem_empty :: mem_store where
  "mem_empty = \<lparr>mem_repositories = [], mem_queue_items = [], mem_builds = [], mem_webhooks = [],
     mem_extension_runs = [], mem_extension_keys = [], mem_audit = []\<rparr>"

text \<open>
  A new registration gets a fresh identifier and the current time from the environment;
  the caller passes them as \<open>i\<close>, \<open>created\<close> and \<open>updated\<close>.
\<close>

definition new_repository :: "repository_create \<Rightarrow> uuid \<Rightarrow> int \<Rightarrow> int \<Rightarrow> repository" where
  "new_repository v i created updated =
     \<lparr>repo_owner = repo_owner v, repo_name = repo_name v,
      repo_default_branch = repo_default_branch v, repo_enabled = repo_enabled v,
      repo_id = i, repo_created_at = created, repo_updated_at = updated\<rparr>"

definition mem_create_repository ::
    "repository_create \<Rightarrow> uuid \<Rightarrow> int \<Rightarrow> int \<Rightarrow> (mem_store, repository) io" where
  "mem_create_repository value i created updated = (\<lambda>s.
     if list_ex (\<lambda>item. py_lower (full_name item) = py_lower (full_name value))
          (dvalues (mem_repositories s))
     then (Inl (ConflictError (''repository already registered: '' @ full_name value)), s)
     else let result = new_repository value i created updated in
       (Inr result, s\<lparr>mem_repositories := dset (repo_id result) result (mem_repositories s)\<rparr>))"

definition mem_list_repositories :: "mem_store \<Rightarrow> repository list" where
  "mem_list_repositories s =
     sort_key (\<lambda>item. py_lower (full_name item)) (dvalues (mem_repositories s))"

definition mem_get_repository :: "uuid \<Rightarrow> (mem_store, repository) io" where
  "mem_get_repository i = (\<lambda>s. case dget (mem_repositories s) i of
      None \<Rightarrow> (Inl (NotFoundError (''repository not found: '' @ str_uuid i)), s)
    | Some r \<Rightarrow> (Inr r, s))"

definition mem_update_repository ::
    "uuid \<Rightarrow> repository_update \<Rightarrow> int \<Rightarrow> (mem_store, repository) io" where
  "mem_update_repository i value now =
     bind_io (mem_get_repository i) (\<lambda>current.
       let updated = (apply_update value current)\<lparr>repo_updated_at := now\<rparr> in
       seq_io (update_io (\<lambda>s. s\<lparr>mem_repositories := dset i updated (mem_repositories s)\<rparr>))
         (return_io updated))"

definition mem_delete_repository :: "uuid \<Rightarrow> (mem_store, unit) io" where
  "mem_delete_repository i = (\<lambda>s. case dget (mem_repositories s) i of
      None \<Rightarrow> (Inl (NotFoundError (''repository not found: '' @ str_uuid i)), s)
    | Some _ \<Rightarrow> (Inr (), s\<lparr>mem_repositories := ddel i (mem_repositories s)\<rparr>))"

definition mem_save_queue_item :: "queue_item \<Rightarrow> (mem_store, queue_item) io" where
  "mem_save_queue_item value =
     (\<lambda>s. (Inr value, s\<lparr>mem_queue_items := dset (queue_id value) value (mem_queue_items s)\<rparr>))"

definition mem_list_queue_items :: "mem_store \<Rightarrow> queue_item list" where
  "mem_list_queue_items s = sort_desc queue_created_at (dvalues (mem_queue_items s))"

definition mem_get_queue_item :: "uuid \<Rightarrow> (mem_store, queue_item) io" where
  "mem_get_queue_item i = (\<lambda>s. case dget (mem_queue_items s) i of
      None \<Rightarrow> (Inl (NotFoundError (''queue item not found: '' @ str_uuid i)), s)
    | Some q \<Rightarrow> (Inr q, s))"

definition mem_save_build :: "build \<Rightarrow> (mem_store, build) io" where
  "mem_save_build value =
     (\<lambda>s. (Inr value, s\<lparr>mem_builds := dset (build_id value) value (mem_builds s)\<rparr>))"

definition mem_get_build :: "uuid \<Rightarrow> (mem_store, build) io" where
  "mem_get_build i = (\<lambda>s. case dget (mem_builds s) i of
      None \<Rightarrow> (Inl (NotFoundError (''build not found: '' @ str_uuid i)), s)
    | Some b \<Rightarrow> (Inr b, s))"

definition mem_list_builds :: "mem_store \<Rightarrow> build list" where
  "mem_list_builds s = sort_desc build_created_at (dvalues (mem_builds s))"

definition mem_rebind_jenkins_job :: "uuid \<Rightarrow> string \<Rightarrow> string \<Rightarrow> (mem_store, unit) io" where
  "mem_rebind_jenkins_job repository old_job new_job =
     (\<lambda>s. (Inr (), s\<lparr>mem_builds := map (\<lambda>(i, b).
        (i, if build_repository_id b = repository \<and> build_jenkins_job b = old_job
            then b\<lparr>build_jenkins_job := new_job\<rparr> else b)) (mem_builds s)\<rparr>))"

definition mem_record_webhook_once :: "webhook_delivery \<Rightarrow> (mem_store, bool) io" where
  "mem_record_webhook_once value = (\<lambda>s.
     if dget (mem_webhooks s) (hook_delivery_id value) \<noteq> None then (Inr False, s)
     else (Inr True, s\<lparr>mem_webhooks := dset (hook_delivery_id value) value (mem_webhooks s)\<rparr>))"

definition mem_list_webhooks :: "mem_store \<Rightarrow> webhook_delivery list" where
  "mem_list_webhooks s = sort_desc hook_received_at (dvalues (mem_webhooks s))"

text \<open>The two dictionaries of extension runs; \<open>self.extension_runs[existing_id]\<close> is a \<open>KeyError\<close> if absent.\<close>

definition mem_save_extension_run :: "extension_run \<Rightarrow> (mem_store, extension_run) io" where
  "mem_save_extension_run value = (\<lambda>s.
     let store = (Inr value, s\<lparr>
           mem_extension_runs := dset (run_id value) value (mem_extension_runs s),
           mem_extension_keys := dset (run_idempotency_key value) (run_id value) (mem_extension_keys s)\<rparr>)
     in case dget (mem_extension_keys s) (run_idempotency_key value) of
         None \<Rightarrow> store
       | Some existing \<Rightarrow>
           if existing \<noteq> run_id value then
             (case dget (mem_extension_runs s) existing of
                None \<Rightarrow> (Inl (KeyError (str_uuid existing)), s)
              | Some r \<Rightarrow> (Inr r, s))
           else store)"

definition mem_get_extension_run :: "uuid \<Rightarrow> (mem_store, extension_run) io" where
  "mem_get_extension_run i = (\<lambda>s. case dget (mem_extension_runs s) i of
      None \<Rightarrow> (Inl (NotFoundError (''extension run not found: '' @ str_uuid i)), s)
    | Some r \<Rightarrow> (Inr r, s))"

definition mem_run_by_key :: "string \<Rightarrow> mem_store \<Rightarrow> extension_run option" where
  "mem_run_by_key k s = (case dget (mem_extension_keys s) k of
      None \<Rightarrow> None | Some i \<Rightarrow> dget (mem_extension_runs s) i)"

definition mem_get_extension_run_by_key :: "string \<Rightarrow> (mem_store, extension_run option) io" where
  "mem_get_extension_run_by_key k = get_io (mem_run_by_key k)"

definition mem_list_extension_runs :: "mem_store \<Rightarrow> extension_run list" where
  "mem_list_extension_runs s = sort_desc run_created_at (dvalues (mem_extension_runs s))"

definition mem_record_audit :: "audit_record \<Rightarrow> (mem_store, unit) io" where
  "mem_record_audit value = update_io (\<lambda>s. s\<lparr>mem_audit := mem_audit s @ [value]\<rparr>)"

definition mem_list_audit :: "mem_store \<Rightarrow> audit_record list" where
  "mem_list_audit s = sort_desc audit_created_at (mem_audit s)"


subsection \<open>Its invariant and its contract\<close>

text \<open>
  Keys are distinct, every entry is filed under its own identifier, and the two
  dictionaries of extension runs agree.
\<close>

text \<open>
  Two views of the extension runs, by key and by identifier, agree when each entry of one
  is found through the other.
\<close>

definition views_agree ::
    "(string \<Rightarrow> uuid option) \<Rightarrow> (uuid \<Rightarrow> extension_run option) \<Rightarrow> bool" where
  "views_agree ks rs =
     ((\<forall>k i. ks k = Some i \<longrightarrow> (\<exists>r. rs i = Some r \<and> run_idempotency_key r = k))
      \<and> (\<forall>i r. rs i = Some r \<longrightarrow> ks (run_idempotency_key r) = Some i))"

lemma views_agree_update:
  assumes "views_agree ks rs"
    and "ks (run_idempotency_key r) = None \<and> rs (run_id r) = None
      \<or> ks (run_idempotency_key r) = Some (run_id r)"
  shows "views_agree (ks(run_idempotency_key r \<mapsto> run_id r)) (rs(run_id r \<mapsto> r))"
  using assms unfolding views_agree_def by (auto split: if_splits; metis option.inject option.distinct(1))

definition mem_inv :: "mem_store \<Rightarrow> bool" where
  "mem_inv s =
     (filed_under repo_id (mem_repositories s) \<and> filed_under queue_id (mem_queue_items s)
      \<and> filed_under build_id (mem_builds s) \<and> filed_under hook_delivery_id (mem_webhooks s)
      \<and> filed_under run_id (mem_extension_runs s) \<and> distinct (dkeys (mem_extension_keys s))
      \<and> views_agree (map_of (mem_extension_keys s)) (map_of (mem_extension_runs s)))"

definition mem_hook_seen :: "string \<Rightarrow> mem_store \<Rightarrow> bool" where
  "mem_hook_seen k s = (dget (mem_webhooks s) k \<noteq> None)"

definition mem_run_fresh :: "uuid \<Rightarrow> mem_store \<Rightarrow> bool" where
  "mem_run_fresh i s = (dget (mem_extension_runs s) i = None)"

lemma mem_inv_empty: "mem_inv mem_empty"
  by (simp add: mem_inv_def mem_empty_def filed_under_def views_agree_def)

lemma mem_save_run_inv:
  assumes "mem_inv s"
    and "mem_run_fresh (run_id r) s \<or> mem_run_by_key (run_idempotency_key r) s \<noteq> None"
  shows "mem_inv (snd (mem_save_extension_run r s))"
proof (cases "dget (mem_extension_keys s) (run_idempotency_key r) = None
    \<or> dget (mem_extension_keys s) (run_idempotency_key r) = Some (run_id r)")
  case True
  then have "views_agree ((map_of (mem_extension_keys s))(run_idempotency_key r \<mapsto> run_id r))
      ((map_of (mem_extension_runs s))(run_id r \<mapsto> r))"
    using assms by (intro views_agree_update)
      (auto simp: mem_inv_def mem_run_by_key_def mem_run_fresh_def simp del: map_of_eq_Some_iff)
  with True assms(1) show ?thesis
    by (auto simp: mem_inv_def mem_save_extension_run_def AList.update_conv' simp del: dget_dset map_of_eq_Some_iff)
next
  case False
  with assms(1) show ?thesis
    by (auto simp: mem_save_extension_run_def simp del: map_of_eq_Some_iff split: option.splits)
qed

lemma mem_run_key:
  "mem_inv s \<Longrightarrow> mem_run_by_key k s = Some r \<Longrightarrow>
   run_idempotency_key r = k \<and> dget (mem_extension_keys s) k = Some (run_id r)"
  unfolding mem_inv_def mem_run_by_key_def views_agree_def
  by (fastforce simp del: map_of_eq_Some_iff split: option.splits dest: filed_underD)

lemma mem_key_run:
  "mem_inv s \<Longrightarrow> dget (mem_extension_keys s) k = Some i \<Longrightarrow> \<exists>r. mem_run_by_key k s = Some r \<and> run_id r = i"
  unfolding mem_inv_def mem_run_by_key_def views_agree_def
  by (fastforce simp del: map_of_eq_Some_iff dest: filed_underD)

lemmas mem_op_defs = mem_save_build_def mem_get_build_def mem_save_queue_item_def
  mem_get_queue_item_def mem_record_webhook_once_def mem_hook_seen_def
  mem_get_extension_run_by_key_def run_get

lemma mem_save_run_cases:
  assumes "mem_inv s"
  shows "mem_run_by_key (run_idempotency_key r) s = None \<Longrightarrow> fst (mem_save_extension_run r s) = Inr r
      \<and> mem_run_by_key (run_idempotency_key r) (snd (mem_save_extension_run r s)) = Some r"
    and "mem_run_by_key (run_idempotency_key r) s = Some q \<Longrightarrow> run_id q = run_id r \<Longrightarrow>
      fst (mem_save_extension_run r s) = Inr r
      \<and> mem_run_by_key (run_idempotency_key r) (snd (mem_save_extension_run r s)) = Some r"
    and "mem_run_by_key (run_idempotency_key r) s = Some q \<Longrightarrow> run_id q \<noteq> run_id r \<Longrightarrow>
      mem_save_extension_run r s = (Inr q, s)"
proof -
  assume none: "mem_run_by_key (run_idempotency_key r) s = None"
  then have "dget (mem_extension_keys s) (run_idempotency_key r) = None"
    using mem_key_run [OF assms] by (metis not_None_eq option.distinct(1))
  then show "fst (mem_save_extension_run r s) = Inr r
      \<and> mem_run_by_key (run_idempotency_key r) (snd (mem_save_extension_run r s)) = Some r"
    by (simp add: mem_save_extension_run_def mem_run_by_key_def)
next
  assume "mem_run_by_key (run_idempotency_key r) s = Some q" "run_id q = run_id r"
  with mem_run_key [OF assms this(1)] show "fst (mem_save_extension_run r s) = Inr r
      \<and> mem_run_by_key (run_idempotency_key r) (snd (mem_save_extension_run r s)) = Some r"
    by (simp add: mem_save_extension_run_def mem_run_by_key_def)
next
  assume "mem_run_by_key (run_idempotency_key r) s = Some q" "run_id q \<noteq> run_id r"
  with mem_run_key [OF assms this(1)] show "mem_save_extension_run r s = (Inr q, s)"
    by (simp add: mem_save_extension_run_def mem_run_by_key_def)
qed

lemma mem_save_run_other:
  assumes "mem_inv s" and "k \<noteq> run_idempotency_key r"
    and "mem_run_fresh (run_id r) s \<or> mem_run_by_key (run_idempotency_key r) s \<noteq> None"
  shows "mem_run_by_key k (snd (mem_save_extension_run r s)) = mem_run_by_key k s"
proof (cases "mem_run_by_key (run_idempotency_key r) s")
  case None
  with assms(3) have "mem_run_fresh (run_id r) s" by simp
  moreover have "dget (mem_extension_keys s) (run_idempotency_key r) = None"
    using mem_key_run [OF assms(1)] None by (metis not_None_eq option.distinct(1))
  moreover have "dget (mem_extension_keys s) k \<noteq> Some (run_id r)"
    using mem_key_run [OF assms(1), of k "run_id r"] calculation(1)
    by (auto simp: mem_run_by_key_def mem_run_fresh_def simp del: map_of_eq_Some_iff)
  ultimately show ?thesis using assms(2)
    by (auto simp: mem_save_extension_run_def mem_run_by_key_def simp del: map_of_eq_Some_iff
        split: option.splits)
next
  case (Some q)
  show ?thesis
  proof (cases "run_id q = run_id r")
    case True
    have "dget (mem_extension_keys s) k \<noteq> Some (run_id r)"
      using mem_run_key [OF assms(1) Some] mem_key_run [OF assms(1), of k "run_id r"] Some True assms(2)
      by (metis mem_run_by_key_def mem_run_key [OF assms(1)] option.case(2))
    with True mem_run_key [OF assms(1) Some] assms(2) show ?thesis
      by (auto simp: mem_save_extension_run_def mem_run_by_key_def simp del: map_of_eq_Some_iff
          split: option.splits)
  next
    case False
    with mem_save_run_cases(3) [OF assms(1) Some] show ?thesis by simp
  qed
qed

lemma mem_save_run_frame [simp]:
  "mem_builds (snd (mem_save_extension_run r s)) = mem_builds s"
  by (auto simp: mem_save_extension_run_def Let_def split: option.splits)

lemma mem_inv_writes:
  "mem_inv s \<Longrightarrow> mem_inv (s\<lparr>mem_builds := dset (build_id b) b (mem_builds s)\<rparr>)"
  "mem_inv s \<Longrightarrow> mem_inv (s\<lparr>mem_queue_items := dset (queue_id q) q (mem_queue_items s)\<rparr>)"
  "mem_inv s \<Longrightarrow> mem_inv (s\<lparr>mem_webhooks := dset (hook_delivery_id d) d (mem_webhooks s)\<rparr>)"
  by (simp_all add: mem_inv_def)

text \<open>\<open>MemoryStore\<close> keeps every promise of the protocol; it accepts every build and queue item.\<close>

interpretation mem: service_store mem_save_build mem_get_build "\<lambda>_ _. True"
  mem_save_queue_item mem_get_queue_item "\<lambda>_ _. True"
  mem_record_webhook_once mem_hook_seen
  mem_save_extension_run mem_get_extension_run_by_key mem_run_by_key mem_run_fresh mem_inv
  by unfold_locales
    (auto simp: mem_op_defs mem_inv_writes
      mem_save_run_inv mem_save_run_cases mem_save_run_other
      simp del: not_None_eq split: option.splits)

end
