(* ===== verification/Store_Postgres.thy ===== *)
theory Store_Postgres
  imports Store_Memory
begin

section \<open>PostgresStore\<close>

text \<open>
  The tables of \<open>migrations/0001_initial.sql\<close> and the statements \<open>PostgresStore\<close> runs on
  them. A table is a list of rows under their primary key; a row holds the columns the
  statements write and, for the \<open>jsonb\<close> column, the model value it encodes. Each statement
  is one atomic step. What a statement may raise is part of it: a unique or foreign key
  violation leaves the tables as they were. \<open>ORDER BY ... LIMIT n\<close> returns the first
  \<open>n\<close> rows; rows with equal keys keep their table order.
\<close>

record repository_row =
  rr_full_name :: string
  rr_data :: repository

record queue_row =
  qr_repository_id :: uuid
  qr_data :: queue_item
  qr_created_at :: int

record build_row =
  br_repository_id :: uuid
  br_data :: build
  br_created_at :: int
  br_updated_at :: int

record webhook_row =
  wr_data :: webhook_delivery
  wr_received_at :: int

record run_row =
  er_idempotency_key :: string
  er_data :: extension_run
  er_created_at :: int

record audit_row =
  ar_actor :: string
  ar_action :: string
  ar_target :: string
  ar_data :: audit_record
  ar_created_at :: int

record pg_store =
  pg_repositories :: "(uuid \<times> repository_row) list"
  pg_queue_items :: "(uuid \<times> queue_row) list"
  pg_builds :: "(uuid \<times> build_row) list"
  pg_webhooks :: "(string \<times> webhook_row) list"
  pg_extension_runs :: "(uuid \<times> run_row) list"
  pg_audit :: "(uuid \<times> audit_row) list"

definition pg_empty :: pg_store where
  "pg_empty = \<lparr>pg_repositories = [], pg_queue_items = [], pg_builds = [], pg_webhooks = [],
     pg_extension_runs = [], pg_audit = []\<rparr>"


subsection \<open>Repositories\<close>

definition pg_create_repository ::
    "repository_create \<Rightarrow> uuid \<Rightarrow> int \<Rightarrow> int \<Rightarrow> (pg_store, repository) io" where
  "pg_create_repository value i created updated = (\<lambda>s.
     let result = new_repository value i created updated;
         column = py_lower (full_name result)
     in if dget (pg_repositories s) i \<noteq> None
          \<or> list_ex (\<lambda>row. rr_full_name row = column) (dvalues (pg_repositories s))
        then (Inl (ConflictError (''repository already registered: '' @ full_name value)), s)
        else (Inr result, s\<lparr>pg_repositories :=
          pg_repositories s @ [(i, \<lparr>rr_full_name = column, rr_data = result\<rparr>)]\<rparr>))"

definition pg_list_repositories :: "pg_store \<Rightarrow> repository list" where
  "pg_list_repositories s = map rr_data (sort_key rr_full_name (dvalues (pg_repositories s)))"

definition pg_get_repository :: "uuid \<Rightarrow> (pg_store, repository) io" where
  "pg_get_repository i = (\<lambda>s. case dget (pg_repositories s) i of
      None \<Rightarrow> (Inl (NotFoundError (''repository not found: '' @ str_uuid i)), s)
    | Some row \<Rightarrow> (Inr (rr_data row), s))"

text \<open>\<open>UPDATE repositories SET data\<close>: no row updated is \<open>NotFoundError\<close>.\<close>

definition pg_update_repository ::
    "uuid \<Rightarrow> repository_update \<Rightarrow> int \<Rightarrow> (pg_store, repository) io" where
  "pg_update_repository i value now =
     bind_io (pg_get_repository i) (\<lambda>current.
       let result = (apply_update value current)\<lparr>repo_updated_at := now\<rparr> in (\<lambda>s.
       case dget (pg_repositories s) i of
         None \<Rightarrow> (Inl (NotFoundError (''repository not found: '' @ str_uuid i)), s)
       | Some row \<Rightarrow> (Inr result,
           s\<lparr>pg_repositories := dset i (row\<lparr>rr_data := result\<rparr>) (pg_repositories s)\<rparr>)))"

text \<open>Deleting a repository deletes the queue items and builds that reference it.\<close>

definition pg_delete_repository :: "uuid \<Rightarrow> (pg_store, unit) io" where
  "pg_delete_repository i = (\<lambda>s. case dget (pg_repositories s) i of
      None \<Rightarrow> (Inl (NotFoundError (''repository not found: '' @ str_uuid i)), s)
    | Some _ \<Rightarrow> (Inr (), s\<lparr>pg_repositories := ddel i (pg_repositories s),
        pg_queue_items := filter (\<lambda>(_, row). qr_repository_id row \<noteq> i) (pg_queue_items s),
        pg_builds := filter (\<lambda>(_, row). br_repository_id row \<noteq> i) (pg_builds s)\<rparr>))"


subsection \<open>Queue items and builds\<close>

text \<open>\<open>INSERT ... ON CONFLICT (id) DO UPDATE\<close>: the conflict branch leaves \<open>repository_id\<close> alone.\<close>

definition pg_save_queue_item :: "queue_item \<Rightarrow> (pg_store, queue_item) io" where
  "pg_save_queue_item value = (\<lambda>s. case dget (pg_queue_items s) (queue_id value) of
      Some row \<Rightarrow> (Inr value, s\<lparr>pg_queue_items := dset (queue_id value)
          (row\<lparr>qr_data := value, qr_created_at := queue_created_at value\<rparr>) (pg_queue_items s)\<rparr>)
    | None \<Rightarrow>
        if dget (pg_repositories s) (queue_repository_id value) = None
        then (Inl (ForeignKeyViolationError ''queue_items_repository_id_fkey''), s)
        else (Inr value, s\<lparr>pg_queue_items := pg_queue_items s @ [(queue_id value,
          \<lparr>qr_repository_id = queue_repository_id value, qr_data = value,
           qr_created_at = queue_created_at value\<rparr>)]\<rparr>))"

definition pg_list_queue_items :: "pg_store \<Rightarrow> queue_item list" where
  "pg_list_queue_items s =
     map qr_data (take 500 (sort_desc qr_created_at (dvalues (pg_queue_items s))))"

definition pg_get_queue_item :: "uuid \<Rightarrow> (pg_store, queue_item) io" where
  "pg_get_queue_item i = (\<lambda>s. case dget (pg_queue_items s) i of
      None \<Rightarrow> (Inl (NotFoundError (''queue item not found: '' @ str_uuid i)), s)
    | Some row \<Rightarrow> (Inr (qr_data row), s))"

definition pg_save_build :: "build \<Rightarrow> (pg_store, build) io" where
  "pg_save_build value = (\<lambda>s. case dget (pg_builds s) (build_id value) of
      Some row \<Rightarrow> (Inr value, s\<lparr>pg_builds := dset (build_id value)
          (row\<lparr>br_data := value, br_created_at := build_created_at value,
               br_updated_at := build_updated_at value\<rparr>) (pg_builds s)\<rparr>)
    | None \<Rightarrow>
        if dget (pg_repositories s) (build_repository_id value) = None
        then (Inl (ForeignKeyViolationError ''builds_repository_id_fkey''), s)
        else (Inr value, s\<lparr>pg_builds := pg_builds s @ [(build_id value,
          \<lparr>br_repository_id = build_repository_id value, br_data = value,
           br_created_at = build_created_at value, br_updated_at = build_updated_at value\<rparr>)]\<rparr>))"

definition pg_get_build :: "uuid \<Rightarrow> (pg_store, build) io" where
  "pg_get_build i = (\<lambda>s. case dget (pg_builds s) i of
      None \<Rightarrow> (Inl (NotFoundError (''build not found: '' @ str_uuid i)), s)
    | Some row \<Rightarrow> (Inr (br_data row), s))"

definition pg_list_builds :: "pg_store \<Rightarrow> build list" where
  "pg_list_builds s = map br_data (take 500 (sort_desc br_created_at (dvalues (pg_builds s))))"

text \<open>\<open>jsonb_set(data, '{jenkins_job}', ...)\<close> where the column and the stored job match.\<close>

definition pg_rebind_jenkins_job :: "uuid \<Rightarrow> string \<Rightarrow> string \<Rightarrow> (pg_store, unit) io" where
  "pg_rebind_jenkins_job repository old_job new_job =
     (\<lambda>s. (Inr (), s\<lparr>pg_builds := map (\<lambda>(i, row).
        (i, if br_repository_id row = repository \<and> build_jenkins_job (br_data row) = old_job
            then row\<lparr>br_data := (br_data row)\<lparr>build_jenkins_job := new_job\<rparr>\<rparr>
            else row)) (pg_builds s)\<rparr>))"


subsection \<open>Webhooks, extension runs and audit records\<close>

text \<open>\<open>ON CONFLICT (delivery_id) DO NOTHING RETURNING delivery_id\<close>.\<close>

definition pg_record_webhook_once :: "webhook_delivery \<Rightarrow> (pg_store, bool) io" where
  "pg_record_webhook_once value = (\<lambda>s.
     if dget (pg_webhooks s) (hook_delivery_id value) \<noteq> None then (Inr False, s)
     else (Inr True, s\<lparr>pg_webhooks := pg_webhooks s @
       [(hook_delivery_id value,
         \<lparr>wr_data = value, wr_received_at = hook_received_at value\<rparr>)]\<rparr>))"

definition pg_list_webhooks :: "pg_store \<Rightarrow> webhook_delivery list" where
  "pg_list_webhooks s = map wr_data (take 500 (sort_desc wr_received_at (dvalues (pg_webhooks s))))"

definition pg_run_row :: "string \<Rightarrow> pg_store \<Rightarrow> (uuid \<times> run_row) option" where
  "pg_run_row k s = find (\<lambda>(_, row). er_idempotency_key row = k) (pg_extension_runs s)"

text \<open>
  \<open>ON CONFLICT (idempotency_key) DO UPDATE\<close> keeps the stored data unless the row is the
  caller's own; the row as it then stands is returned. An identifier already taken under
  another key violates the primary key.
\<close>

definition pg_save_extension_run :: "extension_run \<Rightarrow> (pg_store, extension_run) io" where
  "pg_save_extension_run value = (\<lambda>s. case pg_run_row (run_idempotency_key value) s of
      Some (i, row) \<Rightarrow>
        if i = run_id value
        then (Inr value, s\<lparr>pg_extension_runs := dset i
          (row\<lparr>er_data := value, er_created_at := run_created_at value\<rparr>) (pg_extension_runs s)\<rparr>)
        else (Inr (er_data row), s)
    | None \<Rightarrow>
        if dget (pg_extension_runs s) (run_id value) \<noteq> None
        then (Inl (UniqueViolationError ''extension_runs_pkey''), s)
        else (Inr value, s\<lparr>pg_extension_runs := pg_extension_runs s @
          [(run_id value, \<lparr>er_idempotency_key = run_idempotency_key value, er_data = value,
             er_created_at = run_created_at value\<rparr>)]\<rparr>))"

definition pg_get_extension_run :: "uuid \<Rightarrow> (pg_store, extension_run) io" where
  "pg_get_extension_run i = (\<lambda>s. case dget (pg_extension_runs s) i of
      None \<Rightarrow> (Inl (NotFoundError (''extension run not found: '' @ str_uuid i)), s)
    | Some row \<Rightarrow> (Inr (er_data row), s))"

definition pg_run_by_key :: "string \<Rightarrow> pg_store \<Rightarrow> extension_run option" where
  "pg_run_by_key k s = map_option (\<lambda>(_, row). er_data row) (pg_run_row k s)"

definition pg_get_extension_run_by_key :: "string \<Rightarrow> (pg_store, extension_run option) io" where
  "pg_get_extension_run_by_key k = get_io (pg_run_by_key k)"

definition pg_list_extension_runs :: "pg_store \<Rightarrow> extension_run list" where
  "pg_list_extension_runs s =
     map er_data (take 500 (sort_desc er_created_at (dvalues (pg_extension_runs s))))"

definition pg_record_audit :: "audit_record \<Rightarrow> (pg_store, unit) io" where
  "pg_record_audit value = (\<lambda>s.
     if dget (pg_audit s) (audit_id value) \<noteq> None
     then (Inl (UniqueViolationError ''audit_records_pkey''), s)
     else (Inr (), s\<lparr>pg_audit := pg_audit s @ [(audit_id value,
       \<lparr>ar_actor = audit_actor value, ar_action = audit_action value,
        ar_target = audit_target value, ar_data = value,
        ar_created_at = audit_created_at value\<rparr>)]\<rparr>))"

definition pg_list_audit :: "pg_store \<Rightarrow> audit_record list" where
  "pg_list_audit s = map ar_data (take 1000 (sort_desc ar_created_at (dvalues (pg_audit s))))"


subsection \<open>The schema's constraints as an invariant\<close>

text \<open>
  Primary keys are distinct and match the encoded value, the unique columns are unique,
  every queue item and build references a registered repository.
\<close>

definition pg_repository_of :: "uuid \<Rightarrow> pg_store \<Rightarrow> bool" where
  "pg_repository_of i s = (dget (pg_repositories s) i \<noteq> None)"

definition unique_column :: "('r \<Rightarrow> 'c) \<Rightarrow> (uuid \<times> 'r) list \<Rightarrow> bool" where
  "unique_column c t = (\<forall>(i, p)\<in>set t. \<forall>(j, q)\<in>set t. c p = c q \<longrightarrow> i = j)"

definition pg_inv :: "pg_store \<Rightarrow> bool" where
  "pg_inv s =
     (filed_under (\<lambda>row. repo_id (rr_data row)) (pg_repositories s)
      \<and> unique_column rr_full_name (pg_repositories s)
      \<and> (\<forall>(_, row)\<in>set (pg_repositories s). rr_full_name row = py_lower (full_name (rr_data row)))
      \<and> filed_under (\<lambda>row. queue_id (qr_data row)) (pg_queue_items s)
      \<and> (\<forall>(_, row)\<in>set (pg_queue_items s). pg_repository_of (qr_repository_id row) s)
      \<and> filed_under (\<lambda>row. build_id (br_data row)) (pg_builds s)
      \<and> (\<forall>(_, row)\<in>set (pg_builds s). pg_repository_of (br_repository_id row) s)
      \<and> filed_under (\<lambda>row. hook_delivery_id (wr_data row)) (pg_webhooks s)
      \<and> filed_under (\<lambda>row. run_id (er_data row)) (pg_extension_runs s)
      \<and> unique_column er_idempotency_key (pg_extension_runs s)
      \<and> (\<forall>(_, row)\<in>set (pg_extension_runs s). er_idempotency_key row = run_idempotency_key (er_data row))
      \<and> filed_under (\<lambda>row. audit_id (ar_data row)) (pg_audit s))"

lemma pg_inv_empty: "pg_inv pg_empty"
  by (simp add: pg_inv_def pg_empty_def filed_under_def unique_column_def)

lemma filed_under_snoc:
  "filed_under f t \<Longrightarrow> dget t k = None \<Longrightarrow> f v = k \<Longrightarrow> filed_under f (t @ [(k, v)])"
  by (auto simp: filed_under_def dget_None_keys)

lemma filed_under_filter: "filed_under f t \<Longrightarrow> filed_under f (filter P t)"
  by (auto simp: filed_under_def distinct_filter_keys)

lemma filed_under_distinct: "filed_under f t \<Longrightarrow> distinct (dkeys t)"
  by (simp add: filed_under_def)

lemma unique_column_snoc:
  "unique_column c t \<Longrightarrow> (\<forall>row\<in>set (dvalues t). c row \<noteq> c r) \<Longrightarrow> unique_column c (t @ [(i, r)])"
  unfolding unique_column_def by (fastforce simp: eq_commute)

lemma unique_column_dset:
  "unique_column c t \<Longrightarrow> distinct (dkeys t) \<Longrightarrow> dget t i = Some r \<Longrightarrow> c r' = c r \<Longrightarrow>
   unique_column c (dset i r' t)"
  unfolding unique_column_def by (auto simp: set_dset)

lemma unique_column_ddel: "unique_column c t \<Longrightarrow> unique_column c (ddel i t)"
  unfolding unique_column_def by (auto simp: set_ddel)


subsection \<open>Every statement keeps the constraints\<close>

text \<open>
  \<open>pg_ok\<close> adds what reading back needs: every stored value passes its model's validation,
  so decoding a row never fails.
\<close>

definition pg_valid :: "pg_store \<Rightarrow> bool" where
  "pg_valid s =
     ((\<forall>row\<in>set (dvalues (pg_repositories s)). valid_repository_create (rr_data row))
      \<and> (\<forall>row\<in>set (dvalues (pg_queue_items s)). valid_queue_item (qr_data row))
      \<and> (\<forall>row\<in>set (dvalues (pg_builds s)). valid_build (br_data row))
      \<and> (\<forall>row\<in>set (dvalues (pg_extension_runs s)). valid_extension_run (er_data row)))"

definition pg_ok :: "pg_store \<Rightarrow> bool" where
  "pg_ok s = (pg_inv s \<and> pg_valid s)"

lemma pg_ok_empty: "pg_ok pg_empty"
  by (simp add: pg_ok_def pg_inv_empty pg_valid_def) (simp add: pg_empty_def)

lemma pg_inv_parts:
  assumes "pg_inv s"
  shows "distinct (dkeys (pg_repositories s))" and "distinct (dkeys (pg_queue_items s))"
    and "distinct (dkeys (pg_builds s))" and "distinct (dkeys (pg_extension_runs s))"
  using assms by (auto simp: pg_inv_def filed_under_def)

lemma dset_values: "row \<in> set (dvalues (dset k v t)) \<Longrightarrow> row = v \<or> row \<in> set (dvalues t)"
  using set_dset_subset [of k v t] by auto

lemma dget_value: "dget t k = Some v \<Longrightarrow> v \<in> set (dvalues t)"
  by (force dest: map_of_SomeD)

lemma pg_repository_of_dset:
  "dget (pg_repositories s) i = Some row \<Longrightarrow>
   pg_repository_of j (s\<lparr>pg_repositories := dset i row' (pg_repositories s)\<rparr>) = pg_repository_of j s"
  by (simp add: pg_repository_of_def)

lemma pg_create_repository_inv:
  "pg_inv s \<Longrightarrow> pg_inv (snd (pg_create_repository v i c u s))"
  unfolding pg_create_repository_def Let_def
  by (auto simp: pg_inv_def new_repository_def pg_repository_of_def list_ex_iff full_name_def
      intro!: filed_under_snoc unique_column_snoc)

lemma pg_update_repository_inv:
  assumes "pg_inv s"
  shows "pg_inv (snd (pg_update_repository i u now s))"
proof (cases "dget (pg_repositories s) i")
  case None
  then show ?thesis using assms by (simp add: pg_update_repository_def pg_get_repository_def run_bind)
next
  case (Some row)
  let ?r = "(apply_update u (rr_data row))\<lparr>repo_updated_at := now\<rparr>"
  have id: "repo_id (rr_data row) = i" and col: "rr_full_name row = py_lower (full_name (rr_data row))"
    using assms Some by (auto simp: pg_inv_def dest: filed_underD map_of_SomeD)
  have name: "full_name ?r = full_name (rr_data row)"
    using apply_update_simps(2) [of u "rr_data row"] by (simp only: full_name_def) simp
  have unique: "unique_column rr_full_name (dset i (row\<lparr>rr_data := ?r\<rparr>) (pg_repositories s))"
    by (rule unique_column_dset [OF _ pg_inv_parts(1) [OF assms] Some])
      (use assms in \<open>simp_all add: pg_inv_def\<close>)
  have names: "\<forall>(_, q)\<in>set (dset i (row\<lparr>rr_data := ?r\<rparr>) (pg_repositories s)).
      rr_full_name q = py_lower (full_name (rr_data q))"
    using assms pg_inv_parts(1) [OF assms] by (auto simp: set_dset pg_inv_def col name)
  have "pg_inv (s\<lparr>pg_repositories := dset i (row\<lparr>rr_data := ?r\<rparr>) (pg_repositories s)\<rparr>)"
    using assms id unique names
    by (simp add: pg_inv_def pg_repository_of_dset [OF Some])
  with Some show ?thesis
    by (simp add: pg_update_repository_def pg_get_repository_def run_bind Let_def)
qed

lemma pg_repository_of_frame [simp]:
  "pg_repository_of i (s\<lparr>pg_queue_items := q\<rparr>) = pg_repository_of i s"
  "pg_repository_of i (s\<lparr>pg_builds := b\<rparr>) = pg_repository_of i s"
  "pg_repository_of i (s\<lparr>pg_webhooks := h\<rparr>) = pg_repository_of i s"
  "pg_repository_of i (s\<lparr>pg_extension_runs := e\<rparr>) = pg_repository_of i s"
  "pg_repository_of i (s\<lparr>pg_audit := a\<rparr>) = pg_repository_of i s"
  by (simp_all add: pg_repository_of_def)

lemma pg_delete_repository_inv:
  assumes "pg_inv s"
  shows "pg_inv (snd (pg_delete_repository i s))"
proof (cases "dget (pg_repositories s) i")
  case None
  then show ?thesis using assms by (simp add: pg_delete_repository_def)
next
  case (Some row)
  have "pg_repository_of j (snd (pg_delete_repository i s)) = (j \<noteq> i \<and> pg_repository_of j s)" for j
    using Some by (simp add: pg_delete_repository_def pg_repository_of_def del: not_None_eq)
  with Some assms show ?thesis
    by (auto simp: pg_delete_repository_def pg_inv_def set_ddel
        intro!: filed_under_ddel filed_under_filter unique_column_ddel)
qed

lemma pg_save_queue_item_inv:
  assumes "pg_inv s"
  shows "pg_inv (snd (pg_save_queue_item q s))"
proof (cases "dget (pg_queue_items s) (queue_id q)")
  case None
  have "dget (pg_repositories s) (queue_repository_id q) \<noteq> None \<Longrightarrow>
      pg_repository_of (queue_repository_id q) s" by (simp add: pg_repository_of_def)
  with None assms show ?thesis
    by (auto simp: pg_save_queue_item_def pg_inv_def intro!: filed_under_snoc)
next
  case (Some row)
  then have "(queue_id q, row) \<in> set (pg_queue_items s)" by (rule map_of_SomeD)
  with Some assms pg_inv_parts(2) [OF assms] show ?thesis
    by (auto simp: pg_save_queue_item_def pg_inv_def set_dset)
qed

lemma pg_save_build_inv:
  assumes "pg_inv s"
  shows "pg_inv (snd (pg_save_build b s))"
proof (cases "dget (pg_builds s) (build_id b)")
  case None
  have "dget (pg_repositories s) (build_repository_id b) \<noteq> None \<Longrightarrow>
      pg_repository_of (build_repository_id b) s" by (simp add: pg_repository_of_def)
  with None assms show ?thesis
    by (auto simp: pg_save_build_def pg_inv_def intro!: filed_under_snoc)
next
  case (Some row)
  then have "(build_id b, row) \<in> set (pg_builds s)" by (rule map_of_SomeD)
  with Some assms pg_inv_parts(3) [OF assms] show ?thesis
    by (auto simp: pg_save_build_def pg_inv_def set_dset)
qed

lemma pg_rebind_inv:
  assumes "pg_inv s"
  shows "pg_inv (snd (pg_rebind_jenkins_job r old new s))"
  using assms
  by (auto simp: pg_rebind_jenkins_job_def pg_inv_def
      intro!: filed_under_map split: if_splits)

lemma pg_record_webhook_inv:
  assumes "pg_inv s"
  shows "pg_inv (snd (pg_record_webhook_once d s))"
  using assms
  by (auto simp: pg_record_webhook_once_def pg_inv_def intro!: filed_under_snoc)

lemma pg_record_audit_inv:
  assumes "pg_inv s"
  shows "pg_inv (snd (pg_record_audit a s))"
  using assms
  by (auto simp: pg_record_audit_def pg_inv_def intro!: filed_under_snoc)

lemma pg_run_row_Some: "pg_run_row k s = Some (i, row) \<Longrightarrow>
    (i, row) \<in> set (pg_extension_runs s) \<and> er_idempotency_key row = k"
  unfolding pg_run_row_def by (auto simp: find_Some_iff) (metis nth_mem)

lemma pg_run_row_None: "pg_run_row k s = None \<Longrightarrow>
    \<forall>row\<in>set (dvalues (pg_extension_runs s)). er_idempotency_key row \<noteq> k"
  unfolding pg_run_row_def find_None_iff by fastforce

lemma pg_run_column:
  "pg_inv s \<Longrightarrow> dget (pg_extension_runs s) i = Some row \<Longrightarrow>
   er_idempotency_key row = run_idempotency_key (er_data row)"
  unfolding pg_inv_def by (drule map_of_SomeD) fastforce

lemma pg_run_row_iff:
  assumes "pg_inv s"
  shows "(pg_run_row k s = Some (i, row)) =
    ((i, row) \<in> set (pg_extension_runs s) \<and> er_idempotency_key row = k)"
proof
  assume "pg_run_row k s = Some (i, row)"
  then show "(i, row) \<in> set (pg_extension_runs s) \<and> er_idempotency_key row = k"
    by (rule pg_run_row_Some)
next
  assume r: "(i, row) \<in> set (pg_extension_runs s) \<and> er_idempotency_key row = k"
  moreover from r have "row \<in> set (dvalues (pg_extension_runs s))" by (force simp: image_iff)
  ultimately obtain j q where jq: "pg_run_row k s = Some (j, q)"
    using pg_run_row_None [of k s] by (cases "pg_run_row k s") (blast, fastforce simp del: set_map)
  have "j = i"
    using assms r pg_run_row_Some [OF jq] by (auto simp: pg_inv_def unique_column_def)
  moreover have "q = row"
    using r pg_run_row_Some [OF jq] calculation pg_inv_parts(4) [OF assms]
    by (metis eq_key_imp_eq_value)
  ultimately show "pg_run_row k s = Some (i, row)" using jq by simp
qed

lemma pg_save_extension_run_inv:
  assumes "pg_inv s"
  shows "pg_inv (snd (pg_save_extension_run r s))"
proof (cases "pg_run_row (run_idempotency_key r) s")
  case None
  with assms pg_run_row_None [OF None] show ?thesis
    by (auto simp: pg_save_extension_run_def pg_inv_def
        intro!: filed_under_snoc unique_column_snoc)
next
  case (Some p)
  obtain i row where p: "p = (i, row)" by (cases p)
  have row: "(i, row) \<in> set (pg_extension_runs s)" "er_idempotency_key row = run_idempotency_key r"
    using pg_run_row_Some Some p by auto
  then have "dget (pg_extension_runs s) i = Some row"
    using pg_inv_parts(4) [OF assms] by simp
  with Some p assms row show ?thesis
    by (auto simp: pg_save_extension_run_def pg_inv_def set_dset
        filed_under_distinct intro!: filed_under_dset unique_column_dset)
qed


text \<open>The same with the values: the rules the service's invariant proof applies.\<close>

lemma pg_valid_values:
  assumes "pg_valid s"
  shows "dget (pg_repositories s) i = Some r \<Longrightarrow> valid_repository_create (rr_data r)"
    and "dget (pg_queue_items s) i = Some q \<Longrightarrow> valid_queue_item (qr_data q)"
    and "dget (pg_builds s) i = Some b \<Longrightarrow> valid_build (br_data b)"
    and "dget (pg_extension_runs s) i = Some e \<Longrightarrow> valid_extension_run (er_data e)"
  using assms by (auto simp del: set_map simp: pg_valid_def dest!: dget_value)

lemma pg_inv_idents:
  assumes "pg_inv s"
  shows "dget (pg_repositories s) i = Some r \<Longrightarrow> repo_id (rr_data r) = i"
    and "dget (pg_queue_items s) i = Some q \<Longrightarrow> queue_id (qr_data q) = i"
    and "dget (pg_builds s) i = Some b \<Longrightarrow> build_id (br_data b) = i"
    and "dget (pg_extension_runs s) i = Some e \<Longrightarrow> run_id (er_data e) = i"
  using assms unfolding pg_inv_def by (blast dest: filed_underD)+

lemma keeps_pg_get_repository:
  "keeps pg_ok (pg_get_repository i) (\<lambda>r. valid_repository_create r \<and> repo_id r = i)"
  by (auto simp: keeps_def wp_def pg_get_repository_def pg_ok_def pg_valid_values pg_inv_idents
      split: option.splits)

lemma keeps_pg_get_queue_item:
  "keeps pg_ok (pg_get_queue_item i) (\<lambda>q. valid_queue_item q \<and> queue_id q = i)"
  by (auto simp: keeps_def wp_def pg_get_queue_item_def pg_ok_def pg_valid_values pg_inv_idents
      split: option.splits)

lemma keeps_pg_get_build: "keeps pg_ok (pg_get_build i) (\<lambda>b. valid_build b \<and> build_id b = i)"
  by (auto simp: keeps_def wp_def pg_get_build_def pg_ok_def pg_valid_values pg_inv_idents
      split: option.splits)

lemma keeps_pg_get_extension_run:
  "keeps pg_ok (pg_get_extension_run i) (\<lambda>r. valid_extension_run r \<and> run_id r = i)"
  by (auto simp: keeps_def wp_def pg_get_extension_run_def pg_ok_def pg_valid_values pg_inv_idents
      split: option.splits)

lemma keepsI_inv:
  assumes "\<And>s. pg_inv s \<Longrightarrow> pg_inv (snd (m s))"
    and "\<And>s. pg_ok s \<Longrightarrow> pg_valid (snd (m s))"
    and "\<And>s x t. pg_ok s \<Longrightarrow> m s = (Inr x, t) \<Longrightarrow> Q x"
  shows "keeps pg_ok m Q"
  unfolding keeps_def
proof (intro allI impI wpI)
  fix s x t
  assume s: "pg_ok s" and m: "m s = (Inr x, t)"
  show "pg_ok t \<and> Q x" using assms(1,2) [of s] assms(3) [OF s m] s m by (simp add: pg_ok_def)
next
  fix s e t
  assume s: "pg_ok s" and m: "m s = (Inl e, t)"
  show "pg_ok t" using assms(1,2) [of s] s m by (simp add: pg_ok_def)
qed

lemma keeps_pg_create_repository:
  assumes "valid_repository_create v"
  shows "keeps pg_ok (pg_create_repository v i c u) valid_repository_create"
proof (rule keepsI_inv)
  have v: "valid_repository_create (new_repository v i c u)"
    using assms by (simp add: valid_repository_create_def new_repository_def)
  show "pg_ok s \<Longrightarrow> pg_valid (snd (pg_create_repository v i c u s))" for s
    using v by (auto simp: pg_create_repository_def pg_ok_def pg_valid_def Let_def)
  show "pg_create_repository v i c u s = (Inr x, t) \<Longrightarrow> valid_repository_create x" for s x t
    using v by (auto simp: pg_create_repository_def Let_def split: if_splits)
qed (rule pg_create_repository_inv)

lemma valid_apply_update:
  "valid_repository_create r \<Longrightarrow> valid_repository_update u \<Longrightarrow>
   valid_repository_create ((apply_update u r)\<lparr>repo_updated_at := now\<rparr>)"
  by (auto simp: valid_repository_create_def valid_repository_update_def apply_update_def
      safe_branch_option_def Let_def split: option.splits)

lemma keeps_pg_update_repository:
  assumes "valid_repository_update u"
  shows "keeps pg_ok (pg_update_repository i u now) valid_repository_create"
proof (rule keepsI_inv)
  show "pg_ok s \<Longrightarrow> pg_valid (snd (pg_update_repository i u now s))" for s
    using assms pg_valid_values(1) [of s i]
    by (auto simp del: set_map simp: pg_update_repository_def pg_get_repository_def run_bind Let_def pg_ok_def
        pg_valid_def valid_apply_update dest!: dset_values split: option.splits)
  show "pg_ok s \<Longrightarrow> pg_update_repository i u now s = (Inr x, t) \<Longrightarrow> valid_repository_create x" for s x t
    using assms pg_valid_values(1) [of s i]
    by (auto simp: pg_update_repository_def pg_get_repository_def run_bind Let_def pg_ok_def
        valid_apply_update split: option.splits)
qed (rule pg_update_repository_inv)

lemma keeps_pg_delete_repository: "keeps pg_ok (pg_delete_repository i) (\<lambda>_. True)"
proof (rule keepsI_inv)
  show "pg_ok s \<Longrightarrow> pg_valid (snd (pg_delete_repository i s))" for s
    by (auto simp: pg_delete_repository_def pg_ok_def pg_valid_def set_ddel split: option.splits)
qed (simp_all add: pg_delete_repository_inv)

lemma keeps_pg_save_queue_item:
  "valid_queue_item q \<Longrightarrow> keeps pg_ok (pg_save_queue_item q) (\<lambda>r. r = q)"
  by (rule keepsI_inv [OF pg_save_queue_item_inv])
    (auto simp del: set_map simp: pg_save_queue_item_def pg_ok_def pg_valid_def dest!: dset_values
      split: option.splits if_splits)

lemma keeps_pg_save_build: "valid_build b \<Longrightarrow> keeps pg_ok (pg_save_build b) (\<lambda>r. r = b)"
  by (rule keepsI_inv [OF pg_save_build_inv])
    (auto simp del: set_map simp: pg_save_build_def pg_ok_def pg_valid_def dest!: dset_values
      split: option.splits if_splits)

lemma keeps_pg_rebind: "keeps pg_ok (pg_rebind_jenkins_job r old new) (\<lambda>_. True)"
  by (rule keepsI_inv [OF pg_rebind_inv])
    (auto simp: pg_rebind_jenkins_job_def pg_ok_def pg_valid_def valid_build_def)

lemma keeps_pg_record_webhook: "keeps pg_ok (pg_record_webhook_once d) (\<lambda>_. True)"
  by (rule keepsI_inv [OF pg_record_webhook_inv])
    (auto simp: pg_record_webhook_once_def pg_ok_def pg_valid_def)

lemma keeps_pg_record_audit: "keeps pg_ok (pg_record_audit a) (\<lambda>_. True)"
  by (rule keepsI_inv [OF pg_record_audit_inv])
    (auto simp: pg_record_audit_def pg_ok_def pg_valid_def)

lemma pg_run_row_dget:
  "pg_inv s \<Longrightarrow> pg_run_row k s = Some (i, row) \<Longrightarrow>
   dget (pg_extension_runs s) i = Some row \<and> er_idempotency_key row = k"
  using pg_run_row_Some [of k s i row] pg_inv_parts(4) [of s] by simp

lemma keeps_pg_save_extension_run:
  assumes "valid_extension_run r"
  shows "keeps pg_ok (pg_save_extension_run r)
    (\<lambda>q. valid_extension_run q \<and> run_idempotency_key q = run_idempotency_key r)"
proof (rule keepsI_inv)
  show "pg_ok s \<Longrightarrow> pg_valid (snd (pg_save_extension_run r s))" for s
    using assms by (auto simp del: set_map simp: pg_save_extension_run_def pg_ok_def pg_valid_def
      dest!: dset_values split: option.splits if_splits)
  fix s x t
  assume s: "pg_ok s" and x: "pg_save_extension_run r s = (Inr x, t)"
  show "valid_extension_run x \<and> run_idempotency_key x = run_idempotency_key r"
  proof (cases "pg_run_row (run_idempotency_key r) s")
    case None
    with x assms show ?thesis by (auto simp: pg_save_extension_run_def split: if_splits)
  next
    case (Some p)
    obtain i row where p: "p = (i, row)" by (cases p)
    from s have inv: "pg_inv s" and val: "pg_valid s" by (simp_all add: pg_ok_def)
    note row = pg_run_row_dget [OF inv Some [unfolded p]]
    have "er_idempotency_key row = run_idempotency_key (er_data row)"
      using pg_run_column [OF inv] row by blast
    with x assms Some p row pg_valid_values(4) [OF val, of i row] show ?thesis
      by (auto simp: pg_save_extension_run_def split: if_splits)
  qed
qed (rule pg_save_extension_run_inv)

lemma pg_run_by_key_ok:
  assumes "pg_ok s" and "pg_run_by_key k s = Some r"
  shows "valid_extension_run r \<and> run_idempotency_key r = k \<and> dget (pg_extension_runs s) (run_id r) \<noteq> None"
proof -
  from assms(2) obtain i row where row: "pg_run_row k s = Some (i, row)" "r = er_data row"
    by (auto simp: pg_run_by_key_def)
  from assms(1) have inv: "pg_inv s" and val: "pg_valid s" by (simp_all add: pg_ok_def)
  note d = pg_run_row_dget [OF inv row(1)]
  have "er_idempotency_key row = run_idempotency_key (er_data row)"
    using pg_run_column [OF inv] d by blast
  with d row(2) pg_valid_values(4) [OF val] pg_inv_idents(4) [OF inv] show ?thesis by auto
qed

lemma keeps_pg_run_by_key:
  "keeps pg_ok (pg_get_extension_run_by_key k)
     (\<lambda>x. \<forall>r. x = Some r \<longrightarrow> valid_extension_run r \<and> run_idempotency_key r = k)"
  unfolding pg_get_extension_run_by_key_def
  by (rule keeps_get) (auto dest: pg_run_by_key_ok)

lemma list_all_take_sort: "list_all P (map g (take n (sort_desc f xs)))" if "\<forall>x\<in>set xs. P (g x)"
  using that by (auto simp: list_all_iff dest!: in_set_takeD)

lemma pg_list_builds_valid: "pg_ok s \<Longrightarrow> list_all valid_build (pg_list_builds s)"
  unfolding pg_list_builds_def by (rule list_all_take_sort) (simp add: pg_ok_def pg_valid_def)

lemma pg_list_runs_valid: "pg_ok s \<Longrightarrow> list_all valid_extension_run (pg_list_extension_runs s)"
  unfolding pg_list_extension_runs_def
  by (rule list_all_take_sort) (simp add: pg_ok_def pg_valid_def)


subsection \<open>PostgresStore keeps the promises of the protocol\<close>

definition pg_hook_seen :: "string \<Rightarrow> pg_store \<Rightarrow> bool" where
  "pg_hook_seen k s = (dget (pg_webhooks s) k \<noteq> None)"

definition pg_run_fresh :: "uuid \<Rightarrow> pg_store \<Rightarrow> bool" where
  "pg_run_fresh i s = (dget (pg_extension_runs s) i = None)"

definition pg_build_storable :: "build \<Rightarrow> pg_store \<Rightarrow> bool" where
  "pg_build_storable b s =
     (dget (pg_builds s) (build_id b) \<noteq> None \<or> pg_repository_of (build_repository_id b) s)"

definition pg_queue_storable :: "queue_item \<Rightarrow> pg_store \<Rightarrow> bool" where
  "pg_queue_storable q s =
     (dget (pg_queue_items s) (queue_id q) \<noteq> None \<or> pg_repository_of (queue_repository_id q) s)"

lemma dget_snoc: "dget (t @ [(k, v)]) i = (case dget t i of Some x \<Rightarrow> Some x | None \<Rightarrow> if i = k then Some v else None)"
  by (induction t) auto

lemma find_snoc:
  "find P (t @ [x]) = (case find P t of Some y \<Rightarrow> Some y | None \<Rightarrow> if P x then Some x else None)"
  by (induction t) auto

lemma pg_run_row_snoc:
  "pg_run_row k (s\<lparr>pg_extension_runs := pg_extension_runs s @ [(i, row)]\<rparr>) =
   (case pg_run_row k s of Some p \<Rightarrow> Some p
    | None \<Rightarrow> if er_idempotency_key row = k then Some (i, row) else None)"
  by (simp add: pg_run_row_def find_snoc split: option.splits)

lemma pg_run_row_dset:
  assumes "pg_inv s" and row: "dget (pg_extension_runs s) i = Some row"
    and key: "er_idempotency_key row' = er_idempotency_key row"
  shows "pg_run_row k (s\<lparr>pg_extension_runs := dset i row' (pg_extension_runs s)\<rparr>) =
    (if k = er_idempotency_key row then Some (i, row') else pg_run_row k s)"
proof -
  have "find (\<lambda>(_, q). er_idempotency_key q = k) (dset i row' t) =
      (if k = er_idempotency_key row then Some (i, row') else find (\<lambda>(_, q). er_idempotency_key q = k) t)"
    if "dget t i = Some row" "unique_column er_idempotency_key t" "distinct (dkeys t)" for t
    using that
  proof (induction t)
    case Nil
    then show ?case by simp
  next
    case (Cons p t)
    obtain j q where p: "p = (j, q)" by (cases p)
    show ?case
    proof (cases "j = i")
      case True
      with Cons.prems p key show ?thesis by simp
    next
      case False
      with Cons.prems p have t: "dget t i = Some row" "unique_column er_idempotency_key t" "distinct (dkeys t)"
        by (auto simp: unique_column_def)
      from t(1) have "(i, row) \<in> set t" by (rule map_of_SomeD)
      with Cons.prems(2) p False have "er_idempotency_key q \<noteq> er_idempotency_key row"
        unfolding unique_column_def by fastforce
      with Cons.IH [OF t] p False show ?thesis by (cases "k = er_idempotency_key row") auto
    qed
  qed
  from this [of "pg_extension_runs s"] assms show ?thesis
    by (simp add: pg_run_row_def pg_inv_def pg_inv_parts(4))
qed

lemma pg_save_run_new:
  assumes "pg_inv s" and "pg_run_by_key (run_idempotency_key r) s = None" and "pg_run_fresh (run_id r) s"
  shows "fst (pg_save_extension_run r s) = Inr r"
    and "pg_run_by_key k (snd (pg_save_extension_run r s)) =
      (if k = run_idempotency_key r then Some r else pg_run_by_key k s)"
  using assms
  by (auto simp: pg_save_extension_run_def pg_run_by_key_def pg_run_fresh_def pg_run_row_snoc
      split: option.splits)

lemma pg_save_run_known:
  assumes "pg_inv s" and "pg_run_by_key (run_idempotency_key r) s = Some q"
  shows "run_id q = run_id r \<Longrightarrow> fst (pg_save_extension_run r s) = Inr r"
    and "run_id q = run_id r \<Longrightarrow> pg_run_by_key k (snd (pg_save_extension_run r s)) =
      (if k = run_idempotency_key r then Some r else pg_run_by_key k s)"
    and "run_id q \<noteq> run_id r \<Longrightarrow> pg_save_extension_run r s = (Inr q, s)"
proof -
  from assms(2) obtain i row where row: "pg_run_row (run_idempotency_key r) s = Some (i, row)" "q = er_data row"
    by (auto simp: pg_run_by_key_def)
  note d = pg_run_row_dget [OF assms(1) row(1)]
  have i: "run_id q = i" using pg_inv_idents(4) [OF assms(1)] d row(2) by blast
  show "run_id q = run_id r \<Longrightarrow> fst (pg_save_extension_run r s) = Inr r"
    using row i by (simp add: pg_save_extension_run_def)
  show "run_id q \<noteq> run_id r \<Longrightarrow> pg_save_extension_run r s = (Inr q, s)"
    using row i by (simp add: pg_save_extension_run_def)
  show "run_id q = run_id r \<Longrightarrow> pg_run_by_key k (snd (pg_save_extension_run r s)) =
      (if k = run_idempotency_key r then Some r else pg_run_by_key k s)"
    using row i d pg_run_row_dset [OF assms(1), of i row]
    by (simp add: pg_save_extension_run_def pg_run_by_key_def)
qed

lemmas pg_op_defs = pg_save_build_def pg_get_build_def pg_save_queue_item_def
  pg_get_queue_item_def pg_record_webhook_once_def pg_hook_seen_def

lemma pg_save_build_cases:
  "pg_save_build b s =
     (if pg_build_storable b s
      then (Inr b, s\<lparr>pg_builds := pg_builds (snd (pg_save_build b s))\<rparr>)
      else (Inl (ForeignKeyViolationError ''builds_repository_id_fkey''), s))"
  by (auto simp: pg_save_build_def pg_build_storable_def pg_repository_of_def split: option.splits)

lemma pg_save_build_fetch:
  "pg_build_storable b s \<Longrightarrow>
   pg_get_build i (snd (pg_save_build b s)) =
     (if i = build_id b then (Inr b, snd (pg_save_build b s))
      else (fst (pg_get_build i s), snd (pg_save_build b s)))"
  by (auto simp: pg_save_build_def pg_get_build_def pg_build_storable_def pg_repository_of_def dget_snoc
      split: option.splits)

lemma pg_save_queue_cases:
  "pg_save_queue_item q s =
     (if pg_queue_storable q s
      then (Inr q, s\<lparr>pg_queue_items := pg_queue_items (snd (pg_save_queue_item q s))\<rparr>)
      else (Inl (ForeignKeyViolationError ''queue_items_repository_id_fkey''), s))"
  by (auto simp: pg_save_queue_item_def pg_queue_storable_def pg_repository_of_def split: option.splits)

lemma pg_save_queue_fetch:
  "pg_queue_storable q s \<Longrightarrow>
   pg_get_queue_item i (snd (pg_save_queue_item q s)) =
     (if i = queue_id q then (Inr q, snd (pg_save_queue_item q s))
      else (fst (pg_get_queue_item i s), snd (pg_save_queue_item q s)))"
  by (auto simp: pg_save_queue_item_def pg_get_queue_item_def pg_queue_storable_def pg_repository_of_def dget_snoc
      split: option.splits)

interpretation pg_builds: keyed_table pg_save_build pg_get_build build_id pg_build_storable pg_inv
proof
  fix s :: pg_store and t v w e i
  show "pg_build_storable v s \<Longrightarrow> fst (pg_save_build v s) = Inr v"
    by (subst pg_save_build_cases) simp
  show "pg_save_build v s = (Inr w, t) \<Longrightarrow> w = v"
    by (subst (asm) pg_save_build_cases) (simp split: if_splits)
  show "pg_save_build v s = (Inl e, t) \<Longrightarrow> t = s"
    by (subst (asm) pg_save_build_cases) (simp split: if_splits)
  show "pg_save_build v s = (Inr w, t) \<Longrightarrow> pg_get_build (build_id v) t = (Inr v, t)"
    using pg_save_build_fetch [of v s "build_id v"] pg_save_build_cases [of v s] by (auto split: if_splits)
  show "i \<noteq> build_id v \<Longrightarrow> fst (pg_get_build i (snd (pg_save_build v s))) = fst (pg_get_build i s)"
    using pg_save_build_fetch [of v s i] pg_save_build_cases [of v s] by (auto split: if_splits)
  show "snd (pg_get_build i s) = s" by (simp add: pg_get_build_def split: option.splits)
qed (rule pg_save_build_inv)

interpretation pg_queue: keyed_table pg_save_queue_item pg_get_queue_item queue_id pg_queue_storable pg_inv
proof
  fix s :: pg_store and t v w e i
  show "pg_queue_storable v s \<Longrightarrow> fst (pg_save_queue_item v s) = Inr v"
    by (subst pg_save_queue_cases) simp
  show "pg_save_queue_item v s = (Inr w, t) \<Longrightarrow> w = v"
    by (subst (asm) pg_save_queue_cases) (simp split: if_splits)
  show "pg_save_queue_item v s = (Inl e, t) \<Longrightarrow> t = s"
    by (subst (asm) pg_save_queue_cases) (simp split: if_splits)
  show "pg_save_queue_item v s = (Inr w, t) \<Longrightarrow> pg_get_queue_item (queue_id v) t = (Inr v, t)"
    using pg_save_queue_fetch [of v s "queue_id v"] pg_save_queue_cases [of v s] by (auto split: if_splits)
  show "i \<noteq> queue_id v \<Longrightarrow> fst (pg_get_queue_item i (snd (pg_save_queue_item v s))) = fst (pg_get_queue_item i s)"
    using pg_save_queue_fetch [of v s i] pg_save_queue_cases [of v s] by (auto split: if_splits)
  show "snd (pg_get_queue_item i s) = s" by (simp add: pg_get_queue_item_def split: option.splits)
qed (rule pg_save_queue_item_inv)

interpretation pg_runs: run_registry pg_save_extension_run pg_get_extension_run_by_key pg_run_by_key
  pg_run_fresh pg_inv
proof
  fix s :: pg_store and k r q
  show "pg_get_extension_run_by_key k s = (Inr (pg_run_by_key k s), s)"
    by (simp add: pg_get_extension_run_by_key_def run_get)
  assume s: "pg_inv s"
  show "pg_inv (snd (pg_save_extension_run r s))" by (rule pg_save_extension_run_inv [OF s])
  show "pg_run_by_key (run_idempotency_key r) s = None \<Longrightarrow> pg_run_fresh (run_id r) s \<Longrightarrow>
      fst (pg_save_extension_run r s) = Inr r
      \<and> pg_run_by_key (run_idempotency_key r) (snd (pg_save_extension_run r s)) = Some r"
    using pg_save_run_new [OF s] by simp
  show "pg_run_by_key (run_idempotency_key r) s = Some q \<Longrightarrow> run_id q = run_id r \<Longrightarrow>
      fst (pg_save_extension_run r s) = Inr r
      \<and> pg_run_by_key (run_idempotency_key r) (snd (pg_save_extension_run r s)) = Some r"
    using pg_save_run_known [OF s] by simp
  show "pg_run_by_key (run_idempotency_key r) s = Some q \<Longrightarrow> run_id q \<noteq> run_id r \<Longrightarrow>
      pg_save_extension_run r s = (Inr q, s)"
    by (rule pg_save_run_known(3) [OF s])
  show "k \<noteq> run_idempotency_key r \<Longrightarrow> pg_run_fresh (run_id r) s \<or> pg_run_by_key (run_idempotency_key r) s \<noteq> None \<Longrightarrow>
      pg_run_by_key k (snd (pg_save_extension_run r s)) = pg_run_by_key k s"
    using pg_save_run_new(2) [OF s] pg_save_run_known(2,3) [OF s]
    by (cases "pg_run_by_key (run_idempotency_key r) s") (fastforce, metis snd_conv)
qed

lemma pg_run_builds [simp]: "pg_builds (snd (pg_save_extension_run r s)) = pg_builds s"
  by (auto simp: pg_save_extension_run_def split: option.splits)

lemma pg_get_build_cong: "pg_builds t = pg_builds s \<Longrightarrow> fst (pg_get_build i t) = fst (pg_get_build i s)"
  by (simp add: pg_get_build_def split: option.splits)

interpretation pg: service_store pg_save_build pg_get_build pg_build_storable
  pg_save_queue_item pg_get_queue_item pg_queue_storable
  pg_record_webhook_once pg_hook_seen
  pg_save_extension_run pg_get_extension_run_by_key pg_run_by_key pg_run_fresh pg_inv
proof
  fix s :: pg_store and d :: webhook_delivery and k i b q r
  show "\<not> pg_hook_seen (hook_delivery_id d) s \<Longrightarrow> fst (pg_record_webhook_once d s) = Inr True"
    by (simp add: pg_record_webhook_once_def pg_hook_seen_def)
  show "pg_hook_seen k (snd (pg_record_webhook_once d s)) = (k = hook_delivery_id d \<or> pg_hook_seen k s)"
    by (auto simp: pg_record_webhook_once_def pg_hook_seen_def dget_snoc simp del: map_of_append
        split: option.splits)
  show "pg_hook_seen (hook_delivery_id d) s \<Longrightarrow> pg_record_webhook_once d s = (Inr False, s)"
    by (simp add: pg_record_webhook_once_def pg_hook_seen_def)
  show "fst (pg_get_build i (snd (pg_record_webhook_once d s))) = fst (pg_get_build i s)"
    by (rule pg_get_build_cong) (simp add: pg_record_webhook_once_def)
  show "pg_inv s \<Longrightarrow> pg_inv (snd (pg_record_webhook_once d s))" by (rule pg_record_webhook_inv)
  show "pg_hook_seen k (snd (pg_save_build b s)) = pg_hook_seen k s"
    by (subst pg_save_build_cases) (simp add: pg_hook_seen_def)
  show "fst (pg_get_build i (snd (pg_save_queue_item q s))) = fst (pg_get_build i s)"
    by (rule pg_get_build_cong) (subst pg_save_queue_cases, simp)
  show "fst (pg_get_build i (snd (pg_save_extension_run r s))) = fst (pg_get_build i s)"
    by (rule pg_get_build_cong) simp
qed

end
