(* ===== verification/World.thy ===== *)
theory World
  imports Store_Postgres
begin

section \<open>The world the coroutines run in\<close>

text \<open>
  The state every coroutine of the service threads: the tables of the store, the log of
  what the process did to the outside, and how often it asked the outside for a time or an
  identifier. What the outside answers is the \<open>env\<close>, a record of functions: the clock,
  the UUID generator, the peers behind HTTP (a reply may depend on everything done before
  it), and the decoders of the two result models. Nothing in the model fixes them.
\<close>

datatype http_method = GET | POST

datatype http_body = NoBody | JsonBody json | TextBody string

record http_request =
  req_method :: http_method
  req_url :: string
  req_headers :: "(string \<times> string) list"
  req_params :: "(string \<times> string) list"
  req_auth :: "(string \<times> string) option"
  req_body :: http_body

text \<open>
  A response: header names in lower case, the decoded text, the body as JSON (\<open>None\<close> when
  it is not JSON), the body as the chunks a stream delivers and whether the stream breaks
  after the last of them.
\<close>

record http_response =
  resp_status :: int
  resp_headers :: "(string \<times> string) list"
  resp_text :: string
  resp_json :: "json option"
  resp_chunks :: "string list"
  resp_breaks :: bool

datatype http_reply = Reply http_response | Unreachable string

datatype event =
    Request http_request
  | Sleep rat
  | Acquire string
  | Release string

datatype severity = Critical | High | Medium | Low

record review_finding =
  find_severity :: severity
  find_title :: string
  find_body :: string
  find_path :: string
  find_line :: int

record review_result =
  rev_summary :: string
  rev_findings :: "review_finding list"

record env =
  env_time :: "nat \<Rightarrow> int"
  env_uuid :: "nat \<Rightarrow> uuid"
  env_net :: "event list \<Rightarrow> http_request \<Rightarrow> http_reply"
  env_pipeline_result :: "string \<Rightarrow> pipeline_result option"
  env_review_result :: "json \<Rightarrow> review_result option"
  env_review_text :: "string \<Rightarrow> review_result option"
  env_review_schema :: json
  env_deadline :: "event list \<Rightarrow> bool"
  env_json :: "string \<Rightarrow> json option"
  env_extension_output :: "string \<Rightarrow> extension_output option"
  env_http_url :: "string \<Rightarrow> string option"
  env_iso :: "int \<Rightarrow> string"
  env_text_of_json :: "json \<Rightarrow> string"
  env_str_of_json :: "json \<Rightarrow> string"
  env_text_of_float :: "rat \<Rightarrow> string"

record world =
  w_env :: env
  w_db :: pg_store
  w_events :: "event list"
  w_ticks :: nat
  w_uuids :: nat
  w_request_id :: string

type_synonym 'a task = "(world, 'a) io"


subsection \<open>What a coroutine can do to it\<close>

definition now_utc :: "int task" where
  "now_utc = (\<lambda>w. (Inr (env_time (w_env w) (w_ticks w)), w\<lparr>w_ticks := w_ticks w + 1\<rparr>))"

definition uuid4 :: "uuid task" where
  "uuid4 = (\<lambda>w. (Inr (env_uuid (w_env w) (w_uuids w)), w\<lparr>w_uuids := w_uuids w + 1\<rparr>))"

definition log_event :: "event \<Rightarrow> unit task" where
  "log_event e = update_io (\<lambda>w. w\<lparr>w_events := w_events w @ [e]\<rparr>)"

definition sleep :: "rat \<Rightarrow> unit task" where
  "sleep d = log_event (Sleep d)"

text \<open>One HTTP exchange; an unreachable peer raises \<open>httpx.TransportError\<close>.\<close>

definition http :: "http_request \<Rightarrow> http_response task" where
  "http r = (\<lambda>w.
     let w' = w\<lparr>w_events := w_events w @ [Request r]\<rparr>
     in case env_net (w_env w) (w_events w) r of
          Unreachable m \<Rightarrow> (Inl (TransportError m), w')
        | Reply response \<Rightarrow> (Inr response, w'))"

text \<open>\<open>response.raise_for_status()\<close>: anything but a 2xx status raises.\<close>

definition raise_for_status :: "http_response \<Rightarrow> 's \<Rightarrow> unit outcome \<times> 's" where
  "raise_for_status response =
     (if 200 \<le> resp_status response \<and> resp_status response < 300 then return_io ()
      else raise_io (HTTPError (str_int (resp_status response))))"

definition response_json :: "http_response \<Rightarrow> ('s, json) io" where
  "response_json response = (case resp_json response of
      None \<Rightarrow> raise_io (JSONDecodeError ''Expecting value'')
    | Some j \<Rightarrow> return_io j)"

definition header_of :: "http_response \<Rightarrow> string \<Rightarrow> string option" where
  "header_of response k = dget (resp_headers response) k"

text \<open>
  \<open>async for chunk in response.aiter_bytes()\<close> collecting into a buffer that may not exceed
  \<open>limit\<close> bytes; \<open>over\<close> is what exceeding it raises.
\<close>

fun collect_chunks :: "nat \<Rightarrow> error \<Rightarrow> string \<Rightarrow> string list \<Rightarrow> string outcome" where
  "collect_chunks limit over acc [] = Inr acc"
| "collect_chunks limit over acc (c # cs) =
     (if limit < length (acc @ c) then Inl over else collect_chunks limit over (acc @ c) cs)"

definition read_stream :: "int \<Rightarrow> error \<Rightarrow> http_response \<Rightarrow> ('s, string) io" where
  "read_stream limit over response =
     bind_io (lift_io (if limit < 0 \<and> resp_chunks response \<noteq> [] then Inl over
         else collect_chunks (nat limit) over [] (resp_chunks response))) (\<lambda>content.
     if resp_breaks response then raise_io (TransportError ''stream interrupted'')
     else return_io content)"

text \<open>\<open>async with lock\<close>.\<close>

definition with_lock :: "string \<Rightarrow> 'a task \<Rightarrow> 'a task" where
  "with_lock k m = seq_io (log_event (Acquire k))
     (finally_io m (\<lambda>w. w\<lparr>w_events := w_events w @ [Release k]\<rparr>))"

text \<open>\<open>async with asyncio.timeout(...)\<close>: the environment says whether the deadline passes first.\<close>

definition with_timeout :: "'a task \<Rightarrow> 'a task" where
  "with_timeout m = (\<lambda>w. let (r, t) = m w in
     if env_deadline (w_env w) (w_events w) then (Inl (TimeoutError []), t) else (r, t))"

text \<open>A statement of the store; it reaches nothing else.\<close>

definition db :: "(pg_store, 'a) io \<Rightarrow> 'a task" where
  "db m = (\<lambda>w. case m (w_db w) of (r, s) \<Rightarrow> (r, w\<lparr>w_db := s\<rparr>))"


subsection \<open>Rules\<close>

lemma run_db [io_simps]: "db m w = (fst (m (w_db w)), w\<lparr>w_db := snd (m (w_db w))\<rparr>)"
  by (simp add: db_def split: prod.splits)

lemma wp_db [wp_simps]:
  "wp (db m) Q R w = wp m (\<lambda>x s. Q x (w\<lparr>w_db := s\<rparr>)) (\<lambda>e s. R e (w\<lparr>w_db := s\<rparr>)) (w_db w)"
  by (simp add: wp_def db_def split: prod.splits sum.splits)

lemma wp_now [wp_simps]:
  "wp now_utc Q R w = Q (env_time (w_env w) (w_ticks w)) (w\<lparr>w_ticks := w_ticks w + 1\<rparr>)"
  by (simp add: wp_def now_utc_def)

lemma wp_uuid4 [wp_simps]:
  "wp uuid4 Q R w = Q (env_uuid (w_env w) (w_uuids w)) (w\<lparr>w_uuids := w_uuids w + 1\<rparr>)"
  by (simp add: wp_def uuid4_def)

lemma wp_log_event [wp_simps]: "wp (log_event e) Q R w = Q () (w\<lparr>w_events := w_events w @ [e]\<rparr>)"
  by (simp add: log_event_def wp_update)

lemma wp_sleep [wp_simps]: "wp (sleep d) Q R w = Q () (w\<lparr>w_events := w_events w @ [Sleep d]\<rparr>)"
  by (simp add: sleep_def wp_log_event)

lemma wp_raise_for_status [wp_simps]:
  "wp (raise_for_status r) Q R s =
   (if 200 \<le> resp_status r \<and> resp_status r < 300 then Q () s else R (HTTPError (str_int (resp_status r))) s)"
  by (simp add: raise_for_status_def wp_return wp_raise)

lemma wp_response_json [wp_simps]:
  "wp (response_json r) Q R s =
   (case resp_json r of None \<Rightarrow> R (JSONDecodeError ''Expecting value'') s | Some j \<Rightarrow> Q j s)"
  by (simp add: response_json_def wp_return wp_raise split: option.splits)

text \<open>Which part of the world each operation leaves alone.\<close>

named_theorems world_frame \<open>frame rules of the operations on the world\<close>

lemma leaves_now [world_frame]:
  "leaves w_db now_utc" "leaves w_events now_utc" "leaves w_env now_utc"
  by (simp_all add: leaves_def now_utc_def)

lemma leaves_uuid4 [world_frame]:
  "leaves w_db uuid4" "leaves w_events uuid4" "leaves w_env uuid4"
  by (simp_all add: leaves_def uuid4_def)

lemma leaves_log_event [world_frame]: "leaves w_db (log_event e)" "leaves w_env (log_event e)"
  by (simp_all add: leaves_def log_event_def update_io_def)

lemma leaves_sleep [world_frame]: "leaves w_db (sleep d)" "leaves w_env (sleep d)"
  by (simp_all add: sleep_def leaves_log_event)

lemma leaves_http [world_frame]: "leaves w_db (http r)" "leaves w_env (http r)"
  by (simp_all add: leaves_def http_def Let_def split: http_reply.splits)

lemma leaves_raise_for_status [world_frame]: "leaves f (raise_for_status r)"
  unfolding raise_for_status_def by (intro leaves_if leaves_return leaves_raise)

lemma leaves_response_json [world_frame]: "leaves f (response_json r)"
  unfolding response_json_def by (intro leaves_option leaves_return leaves_raise)

lemma leaves_read_stream [world_frame]: "leaves f (read_stream l e r)"
  unfolding read_stream_def by (intro keeps_intros)

lemma leaves_with_lock [world_frame]:
  assumes "leaves w_db m"
  shows "leaves w_db (with_lock k m)"
  unfolding with_lock_def
  by (rule leaves_seq [OF leaves_log_event(1) leaves_finally [OF assms]]) simp

lemma leaves_with_lock_env [world_frame]:
  assumes "leaves w_env m"
  shows "leaves w_env (with_lock k m)"
  unfolding with_lock_def
  by (rule leaves_seq [OF leaves_log_event(2) leaves_finally [OF assms]]) simp

lemma leaves_with_timeout [world_frame]: "leaves f m \<Longrightarrow> leaves f (with_timeout m)"
  by (simp add: leaves_def with_timeout_def case_prod_beta)

lemma leaves_db [world_frame]: "leaves w_events (db m)" "leaves w_env (db m)"
  by (simp_all add: leaves_def db_def split: prod.splits)

lemma leaves_db_table: "leaves g m \<Longrightarrow> leaves (\<lambda>w. g (w_db w)) (db m)"
  by (auto simp: leaves_def db_def split: prod.splits) (metis snd_conv)

lemma leaves_table: "leaves w_db m \<Longrightarrow> leaves (\<lambda>w. g (w_db w)) m"
  by (simp add: leaves_def)

lemma raises_http [raises_intros]: "(\<And>m. E (TransportError m)) \<Longrightarrow> raises E (http r)"
  by (rule raisesI) (auto simp: http_def Let_def split: http_reply.splits)

lemma raises_with_timeout [raises_intros]: "E (TimeoutError []) \<Longrightarrow> raises E m \<Longrightarrow> raises E (with_timeout m)"
  by (rule raisesI) (auto simp: with_timeout_def Let_def split: prod.splits if_splits dest: raisesD)

lemma collect_chunks_error: "collect_chunks limit over acc cs = Inl e \<Longrightarrow> e = over"
  by (induction cs arbitrary: acc) (auto split: if_splits)

lemma raises_read_stream [raises_intros]:
  "E over \<Longrightarrow> (\<And>m. E (TransportError m)) \<Longrightarrow> raises E (read_stream limit over r)"
  unfolding read_stream_def
  by (intro raises_intros) (auto split: if_splits dest: collect_chunks_error)

lemma emits_http: "P (Request r) \<Longrightarrow> emits w_events P (http r)"
  by (auto simp: emits_def http_def Let_def split: http_reply.splits)

lemma emits_log_event: "P e \<Longrightarrow> emits w_events P (log_event e)"
  by (auto simp: emits_def log_event_def update_io_def)

lemma emits_sleep: "P (Sleep d) \<Longrightarrow> emits w_events P (sleep d)"
  by (simp add: sleep_def emits_log_event)

lemma collect_chunks_Inr:
  "collect_chunks limit over acc cs = Inr x \<Longrightarrow> length acc \<le> limit \<Longrightarrow>
   x = acc @ concat cs \<and> length x \<le> limit"
  by (induction cs arbitrary: acc) (fastforce split: if_splits)+


text \<open>\<open>spends n m\<close>: a run of \<open>m\<close> performs at most \<open>n\<close> HTTP exchanges.\<close>

fun is_request :: "event \<Rightarrow> bool" where
  "is_request (Request _) = True"
| "is_request _ = False"

definition exchanges :: "event list \<Rightarrow> nat" where
  "exchanges es = length (filter is_request es)"

definition spends :: "nat \<Rightarrow> 'a task \<Rightarrow> bool" where
  "spends n m = (\<forall>w. exchanges (w_events (snd (m w))) \<le> exchanges (w_events w) + n)"

named_theorems spend_intros \<open>rules for counting exchanges\<close>

lemma spendsD: "spends n m \<Longrightarrow> m w = (r, t) \<Longrightarrow> exchanges (w_events t) \<le> exchanges (w_events w) + n"
  unfolding spends_def by (metis snd_conv)

lemma spends_leaves: "leaves w_events m \<Longrightarrow> spends n m"
  by (simp add: spends_def leaves_def)

lemma spends_mono: "spends m x \<Longrightarrow> m \<le> n \<Longrightarrow> spends n x"
  unfolding spends_def by (meson add_left_mono le_trans)

lemma spends_http: "spends 1 (http r)"
  by (auto simp: spends_def http_def exchanges_def Let_def split: http_reply.splits)

lemma spends_sleep: "spends 0 (sleep d)"
  by (simp add: spends_def sleep_def log_event_def update_io_def exchanges_def)

lemma spends_bind:
  assumes "spends a m" and "\<And>x. spends b (k x)"
  shows "spends (a + b) (bind_io m k)"
  unfolding spends_def
proof
  fix w
  obtain r t where m: "m w = (r, t)" by (cases "m w")
  have t: "exchanges (w_events t) \<le> exchanges (w_events w) + a" using assms(1) m by (rule spendsD)
  show "exchanges (w_events (snd (bind_io m k w))) \<le> exchanges (w_events w) + (a + b)"
  proof (cases r)
    case (Inl e)
    with m t show ?thesis by (simp add: run_bind)
  next
    case (Inr x)
    obtain q u where k: "k x t = (q, u)" by (cases "k x t")
    from spendsD [OF assms(2) k] t Inr m k show ?thesis by (simp add: run_bind)
  qed
qed

lemma spends_seq: "spends a m \<Longrightarrow> spends b k \<Longrightarrow> spends (a + b) (seq_io m k)"
  unfolding seq_io_def by (rule spends_bind)

lemma spends_catch:
  assumes "spends a m" and "\<And>e. p e \<Longrightarrow> spends b (h e)"
  shows "spends (a + b) (catch_io m p h)"
  unfolding spends_def
proof
  fix w
  obtain r t where m: "m w = (r, t)" by (cases "m w")
  have t: "exchanges (w_events t) \<le> exchanges (w_events w) + a" using assms(1) m by (rule spendsD)
  show "exchanges (w_events (snd (catch_io m p h w))) \<le> exchanges (w_events w) + (a + b)"
  proof (cases "\<exists>e. r = Inl e \<and> p e")
    case True
    then obtain e where e: "r = Inl e" "p e" by blast
    obtain q u where h: "h e t = (q, u)" by (cases "h e t")
    from spendsD [OF assms(2) [OF e(2)] h] t e m h show ?thesis by (simp add: run_catch)
  next
    case False
    with m t show ?thesis by (auto simp: run_catch split: sum.splits)
  qed
qed

lemma spends_if: "spends n m \<Longrightarrow> spends n k \<Longrightarrow> spends n (if b then m else k)"
  by simp

lemma spends_with_timeout: "spends n m \<Longrightarrow> spends n (with_timeout m)"
  by (simp add: spends_def with_timeout_def case_prod_beta)


subsection \<open>The invariant of the world\<close>

text \<open>
  \<open>world_ok\<close>: the store satisfies its constraints, and the decoders only return values that
  pass their models' validation, which is what \<open>model_validate\<close> means.
\<close>

definition valid_review_finding :: "review_finding \<Rightarrow> bool" where
  "valid_review_finding f =
     (1 \<le> length (find_title f) \<and> length (find_title f) \<le> 160
      \<and> 1 \<le> length (find_body f) \<and> length (find_body f) \<le> 2000
      \<and> 1 \<le> length (find_path f) \<and> length (find_path f) \<le> 4096 \<and> 1 \<le> find_line f)"

definition valid_review_result :: "review_result \<Rightarrow> bool" where
  "valid_review_result r =
     (1 \<le> length (rev_summary r) \<and> length (rev_summary r) \<le> 4000
      \<and> length (rev_findings r) \<le> 50 \<and> list_all valid_review_finding (rev_findings r))"

definition env_ok :: "env \<Rightarrow> bool" where
  "env_ok e =
     ((\<forall>b r. env_pipeline_result e b = Some r \<longrightarrow> valid_pipeline_result r)
      \<and> (\<forall>j r. env_review_result e j = Some r \<longrightarrow> valid_review_result r)
      \<and> (\<forall>t r. env_review_text e t = Some r \<longrightarrow> valid_review_result r)
      \<and> (\<forall>j x. env_extension_output e j = Some x \<longrightarrow> valid_extension_output x))"

definition world_ok :: "world \<Rightarrow> bool" where
  "world_ok w = (pg_ok (w_db w) \<and> env_ok (w_env w))"

lemma keeps_db:
  assumes "keeps pg_ok m Q"
  shows "keeps world_ok (db m) Q"
  unfolding keeps_def
proof (intro allI impI)
  fix w
  assume w: "world_ok w"
  with assms have "wp m (\<lambda>x t. pg_ok t \<and> Q x) (\<lambda>_ t. pg_ok t) (w_db w)"
    by (simp add: keeps_def world_ok_def)
  then show "wp (db m) (\<lambda>x t. world_ok t \<and> Q x) (\<lambda>_ t. world_ok t) w"
    unfolding wp_db by (rule wp_mono) (use w in \<open>simp_all add: world_ok_def\<close>)
qed

lemma keeps_world_leaves:
  assumes "leaves w_db m" and "leaves w_env m"
  shows "keeps world_ok m (\<lambda>_. True)"
  unfolding keeps_def
proof (intro allI impI wpI)
  have ok: "world_ok t" if "world_ok w" "m w = (r, t)" for w r t
  proof -
    have "w_db t = w_db w" using assms(1) that(2) by (rule leavesD)
    moreover have "w_env t = w_env w" using assms(2) that(2) by (rule leavesD)
    ultimately show ?thesis using that(1) by (simp only: world_ok_def)
  qed
  show "world_ok t \<and> True" if "world_ok w" "m w = (Inr r, t)" for w r t
    using ok [OF that] by simp
  show "world_ok t" if "world_ok w" "m w = (Inl e, t)" for w e t
    using ok [OF that] .
qed

end
