(* ===== verification/Review_Diff.thy ===== *)
theory Review_Diff
  imports World
begin

section \<open>review.py: unified diffs and the review model\<close>

text \<open>
  The review result and its check against a diff, the parser of unified diffs and the
  client of the Responses API with its retry loop. The parser is one step per line over a
  record of its local variables; a line that cannot belong to a complete diff is a
  \<open>DiffValidationError\<close>.
\<close>

definition has_critical_findings :: "review_result \<Rightarrow> bool" where
  "has_critical_findings r = list_ex (\<lambda>f. find_severity f = Critical) (rev_findings r)"


subsection \<open>Checking findings against the added lines\<close>

type_synonym parsed_diff = "(string \<times> int set) list"

definition is_added_line :: "parsed_diff \<Rightarrow> review_finding \<Rightarrow> bool" where
  "is_added_line d f = (case dget d (find_path f) of
      None \<Rightarrow> False | Some lines \<Rightarrow> find_line f \<in> lines)"

fun validate_findings :: "parsed_diff \<Rightarrow> review_finding list \<Rightarrow> unit outcome" where
  "validate_findings d [] = Inr ()"
| "validate_findings d (f # fs) =
     (if is_added_line d f then validate_findings d fs
      else Inl (DiffValidationError (''finding location is not an added line: '' @
        find_path f @ '':'' @ str_int (find_line f))))"

definition validate_result :: "parsed_diff \<Rightarrow> review_result \<Rightarrow> unit outcome" where
  "validate_result d r = validate_findings d (rev_findings r)"

lemma validate_findings_Inr: "(validate_findings d fs = Inr u) = list_all (is_added_line d) fs"
  by (induction fs) auto

lemma validate_result_Inr: "(validate_result d r = Inr u) = list_all (is_added_line d) (rev_findings r)"
  by (simp add: validate_result_def validate_findings_Inr)

lemma validate_findings_error: "validate_findings d fs = Inl e \<Longrightarrow> \<exists>m. e = DiffValidationError m"
  by (induction fs) (auto split: if_splits)


subsection \<open>The parser\<close>

text \<open>The scanner for \<open>_HUNK_HEADER\<close>: the old count, the new start and the new count.\<close>

definition strip_prefix :: "string \<Rightarrow> string \<Rightarrow> string option" where
  "strip_prefix p s = (if startswith s p then Some (drop (length p) s) else None)"

definition scan_count :: "string \<Rightarrow> string option \<times> string" where
  "scan_count s = (case s of [] \<Rightarrow> (None, s)
     | c # r \<Rightarrow> if c = CHR '','' \<and> takeWhile is_digit r \<noteq> []
               then (Some (takeWhile is_digit r), dropWhile is_digit r) else (None, s))"

definition scan_range :: "string \<Rightarrow> (string \<times> string option \<times> string) option" where
  "scan_range s = (if takeWhile is_digit s = [] then None
     else let (c, r) = scan_count (dropWhile is_digit s) in Some (takeWhile is_digit s, c, r))"

definition hunk_header :: "string \<Rightarrow> (string option \<times> string \<times> string option) option" where
  "hunk_header s =
     (case strip_prefix ''@@ -'' s of None \<Rightarrow> None | Some s1 \<Rightarrow>
     (case scan_range s1 of None \<Rightarrow> None | Some (_, old_count, s2) \<Rightarrow>
     (case strip_prefix '' +'' s2 of None \<Rightarrow> None | Some s3 \<Rightarrow>
     (case scan_range s3 of None \<Rightarrow> None | Some (new_start, new_count, s4) \<Rightarrow>
     (case strip_prefix '' @@'' s4 of None \<Rightarrow> None | Some s5 \<Rightarrow>
       if s5 = [] \<or> startswith s5 '' '' then Some (old_count, new_start, new_count) else None)))))"

text \<open>\<open>part in {"", ".", ".."}\<close>.\<close>

definition dot_part :: "string \<Rightarrow> bool" where
  "dot_part part = (part = [] \<or> part = ''.'' \<or> part = ''..'')"

definition right_side_path :: "string \<Rightarrow> string outcome" where
  "right_side_path header =
     (let raw = hd (py_split (CHR 0x09) header) in
      if raw = ''/dev/null''
      then Inl (DiffValidationError ''deleted files cannot receive right-side comments'')
      else if startswith raw [CHR 0x22]
      then Inl (DiffValidationError ''quoted diff paths are not supported'')
      else if \<not> startswith raw ''b/''
      then Inl (DiffValidationError ''right-side diff path must start with b/'')
      else let path = drop 2 raw in
      if path = [] \<or> startswith path ''/'' \<or> CHR 0x00 \<in> set path
        \<or> list_ex dot_part (py_split (CHR ''/'') path)
      then Inl (DiffValidationError ''unsafe right-side diff path'')
      else Inr path)"

record parse_state =
  ps_added :: parsed_diff
  ps_path :: "string option"
  ps_old :: int
  ps_new :: int
  ps_line :: int
  ps_in_hunk :: bool

definition parse_start :: parse_state where
  "parse_start = \<lparr>ps_added = [], ps_path = None, ps_old = 0, ps_new = 0, ps_line = 0,
     ps_in_hunk = False\<rparr>"

definition finish_hunk :: "parse_state \<Rightarrow> parse_state outcome" where
  "finish_hunk s =
     (if ps_in_hunk s \<and> (ps_old s \<noteq> 0 \<or> ps_new s \<noteq> 0)
      then Inl (DiffValidationError ''hunk body does not match its declared line counts'')
      else Inr (s\<lparr>ps_in_hunk := False\<rparr>))"

definition bind_sum :: "'a outcome \<Rightarrow> ('a \<Rightarrow> 'b outcome) \<Rightarrow> 'b outcome" where
  "bind_sum r k = (case r of Inl e \<Rightarrow> Inl e | Inr x \<Rightarrow> k x)"

text \<open>\<open>int(match.group(...) or "1")\<close>.\<close>

definition count_value :: "string option \<Rightarrow> int outcome" where
  "count_value c = py_int_digits (case c of None \<Rightarrow> ''1'' | Some d \<Rightarrow> d)"

text \<open>\<open>added.setdefault(path, set())\<close> and \<open>added[path].add(n)\<close>.\<close>

definition add_path :: "string \<Rightarrow> parsed_diff \<Rightarrow> parsed_diff" where
  "add_path p d = (if dget d p = None then dset p {} d else d)"

definition add_line :: "string \<Rightarrow> int \<Rightarrow> parsed_diff \<Rightarrow> parsed_diff" where
  "add_line p n d = (case dget d p of None \<Rightarrow> d | Some lines \<Rightarrow> dset p (insert n lines) d)"

definition parse_header :: "string \<Rightarrow> parse_state \<Rightarrow> parse_state outcome" where
  "parse_header line s =
     bind_sum (finish_hunk s) (\<lambda>s.
     case ps_path s of
       None \<Rightarrow> Inl (DiffValidationError ''hunk appeared before a right-side file path'')
     | Some _ \<Rightarrow> (case hunk_header line of
         None \<Rightarrow> Inl (DiffValidationError ''malformed unified diff hunk header'')
       | Some (old_count, new_start, new_count) \<Rightarrow>
           bind_sum (count_value old_count) (\<lambda>old.
           bind_sum (count_value new_count) (\<lambda>new.
           bind_sum (py_int_digits new_start) (\<lambda>start.
             Inr (s\<lparr>ps_old := old, ps_new := new, ps_line := start, ps_in_hunk := True\<rparr>))))))"

definition parse_body :: "string \<Rightarrow> parse_state \<Rightarrow> parse_state outcome" where
  "parse_body line s =
     (let marker = hd line;
          moved = (if marker = CHR '' '' then
              Inr (s\<lparr>ps_old := ps_old s - 1, ps_new := ps_new s - 1, ps_line := ps_line s + 1\<rparr>)
            else if marker = CHR ''-'' then Inr (s\<lparr>ps_old := ps_old s - 1\<rparr>)
            else if marker = CHR ''+'' then
              (case ps_path s of
                 None \<Rightarrow> Inl (DiffValidationError ''added line has no right-side path'')
               | Some p \<Rightarrow>
                   if ps_new s \<le> 0
                   then Inl (DiffValidationError ''hunk contains too many right-side lines'')
                   else Inr (s\<lparr>ps_added := add_line p (ps_line s) (ps_added s),
                          ps_new := ps_new s - 1, ps_line := ps_line s + 1\<rparr>))
            else Inl (DiffValidationError ''malformed unified diff hunk body''))
      in bind_sum moved (\<lambda>s.
        if ps_old s < 0 \<or> ps_new s < 0
        then Inl (DiffValidationError ''hunk contains more lines than declared'') else Inr s))"

definition parse_line :: "string \<Rightarrow> parse_state \<Rightarrow> parse_state outcome" where
  "parse_line line s =
     (if startswith line ''diff --git '' then
        bind_sum (finish_hunk s) (\<lambda>s. Inr (s\<lparr>ps_path := None\<rparr>))
      else if \<not> ps_in_hunk s \<and> startswith line ''+++ '' then
        bind_sum (right_side_path (drop 4 line)) (\<lambda>p.
          Inr (s\<lparr>ps_path := Some p, ps_added := add_path p (ps_added s)\<rparr>))
      else if startswith line ''@@ '' then parse_header line s
      else if \<not> ps_in_hunk s then Inr s
      else if startswith line (CHR 0x5C # '' No newline at end of file'') then Inr s
      else if line = [] then Inl (DiffValidationError ''malformed empty hunk line'')
      else parse_body line s)"

fun parse_lines :: "string list \<Rightarrow> parse_state \<Rightarrow> parse_state outcome" where
  "parse_lines [] s = Inr s"
| "parse_lines (l # ls) s = bind_sum (parse_line l s) (parse_lines ls)"

definition parse_unified_diff :: "string \<Rightarrow> parsed_diff outcome" where
  "parse_unified_diff diff =
     bind_sum (parse_lines (splitlines diff) parse_start) (\<lambda>s.
     bind_sum (finish_hunk s) (\<lambda>s. Inr (ps_added s)))"

lemma bind_sum_Inr [simp]: "bind_sum (Inr x) k = k x"
  by (simp add: bind_sum_def)

lemma bind_sum_Inl [simp]: "bind_sum (Inl e) k = Inl e"
  by (simp add: bind_sum_def)

lemma bind_sum_InrE:
  assumes "bind_sum r k = Inr y"
  obtains x where "r = Inr x" and "k x = Inr y"
  using assms by (cases r) auto

lemma parse_lines_append: "parse_lines (xs @ ys) s = bind_sum (parse_lines xs s) (parse_lines ys)"
  by (induction xs arbitrary: s) (auto simp: bind_sum_def split: sum.splits)


subsection \<open>What the parser accepts\<close>

text \<open>Every path it reports is relative, has no parent reference and no NUL.\<close>

definition safe_diff_path :: "string \<Rightarrow> bool" where
  "safe_diff_path p = (p \<noteq> [] \<and> \<not> startswith p ''/'' \<and> CHR 0x00 \<notin> set p
     \<and> \<not> list_ex dot_part (py_split (CHR ''/'') p))"

lemma right_side_path_safe: "right_side_path h = Inr p \<Longrightarrow> safe_diff_path p"
  unfolding right_side_path_def safe_diff_path_def Let_def by (auto split: if_splits)

definition diff_ok :: "parsed_diff \<Rightarrow> bool" where
  "diff_ok d = (distinct (dkeys d) \<and> (\<forall>(p, ns)\<in>set d. safe_diff_path p \<and> (\<forall>n\<in>ns. 0 \<le> n)))"

definition parse_inv :: "parse_state \<Rightarrow> bool" where
  "parse_inv s =
     (diff_ok (ps_added s) \<and> (\<forall>p. ps_path s = Some p \<longrightarrow> safe_diff_path p) \<and> 0 \<le> ps_line s)"

lemma parse_inv_start: "parse_inv parse_start"
  by (simp add: parse_inv_def parse_start_def diff_ok_def)

lemma py_int_digits_nonneg: "py_int_digits d = Inr i \<Longrightarrow> 0 \<le> i"
  by (auto simp: py_int_digits_def Let_def split: if_splits)

lemma finish_hunk_Inr: "finish_hunk s = Inr t \<Longrightarrow> t = s\<lparr>ps_in_hunk := False\<rparr>"
  by (auto simp: finish_hunk_def split: if_splits)

lemma finish_hunk_inv: "parse_inv s \<Longrightarrow> finish_hunk s = Inr t \<Longrightarrow> parse_inv t"
  by (drule finish_hunk_Inr) (simp add: parse_inv_def)

lemma parse_header_inv:
  assumes "parse_inv s" and "parse_header l s = Inr t"
  shows "parse_inv t"
proof -
  from assms(2) obtain u where u: "finish_hunk s = Inr u"
    unfolding parse_header_def by (elim bind_sum_InrE)
  from finish_hunk_inv [OF assms(1) u] assms(2) u show ?thesis
    by (auto simp: parse_header_def parse_inv_def dest: py_int_digits_nonneg elim!: bind_sum_InrE
        split: option.splits)
qed

lemma add_line_ok: "diff_ok d \<Longrightarrow> 0 \<le> n \<Longrightarrow> diff_ok (add_line p n d)"
  by (auto simp: add_line_def diff_ok_def set_dset split: option.splits)

lemma add_path_ok: "diff_ok d \<Longrightarrow> safe_diff_path p \<Longrightarrow> diff_ok (add_path p d)"
  by (auto simp: add_path_def diff_ok_def set_dset)

lemma parse_body_inv:
  assumes "parse_inv s" and "parse_body l s = Inr t"
  shows "parse_inv t"
  using assms unfolding parse_body_def Let_def
  by (auto simp: parse_inv_def add_line_ok elim!: bind_sum_InrE split: if_splits option.splits)

lemma parse_line_cases:
  assumes "parse_line l s = Inr t"
  obtains u where "finish_hunk s = Inr u" and "t = u\<lparr>ps_path := None\<rparr>"
    | p where "right_side_path (drop 4 l) = Inr p"
        and "t = s\<lparr>ps_path := Some p, ps_added := add_path p (ps_added s)\<rparr>"
    | "parse_header l s = Inr t" | "t = s" | "parse_body l s = Inr t"
proof -
  have "(\<exists>u. finish_hunk s = Inr u \<and> t = u\<lparr>ps_path := None\<rparr>)
      \<or> (\<exists>p. right_side_path (drop 4 l) = Inr p
          \<and> t = s\<lparr>ps_path := Some p, ps_added := add_path p (ps_added s)\<rparr>)
      \<or> parse_header l s = Inr t \<or> t = s \<or> parse_body l s = Inr t"
    using assms unfolding parse_line_def bind_sum_def by (simp split: if_splits sum.splits)
  with that show thesis by blast
qed

lemma parse_line_inv:
  assumes "parse_inv s" and "parse_line l s = Inr t"
  shows "parse_inv t"
  using assms(2)
proof (cases rule: parse_line_cases)
  case (1 u)
  with finish_hunk_inv [OF assms(1)] show ?thesis by (simp add: parse_inv_def)
next
  case (2 p)
  with assms(1) right_side_path_safe [of "drop 4 l" p] show ?thesis
    by (simp add: parse_inv_def add_path_ok)
qed (use assms(1) in \<open>auto intro: parse_header_inv parse_body_inv\<close>)

lemma parse_lines_inv: "parse_inv s \<Longrightarrow> parse_lines ls s = Inr t \<Longrightarrow> parse_inv t"
  by (induction ls arbitrary: s) (auto elim!: bind_sum_InrE intro: parse_line_inv)

lemma parse_unified_diff_ok: "parse_unified_diff diff = Inr d \<Longrightarrow> diff_ok d"
  unfolding parse_unified_diff_def
  by (auto elim!: bind_sum_InrE dest!: finish_hunk_Inr parse_lines_inv [OF parse_inv_start]
      simp: parse_inv_def)


subsection \<open>The parser reads back what a diff writes\<close>

text \<open>
  A diff as data: for every file a list of hunks, for every hunk where it starts on each
  side and its lines. \<open>render_diff\<close> writes it the way \<open>git diff\<close> does, \<open>added_in\<close> says which
  right-side line numbers its added lines have.
\<close>

datatype hunk_line = Context string | Removed string | Added string

record hunk =
  hunk_old_start :: nat
  hunk_new_start :: nat
  hunk_lines :: "hunk_line list"

fun line_text :: "hunk_line \<Rightarrow> string" where
  "line_text (Context t) = t"
| "line_text (Removed t) = t"
| "line_text (Added t) = t"

fun render_line :: "hunk_line \<Rightarrow> string" where
  "render_line (Context t) = CHR '' '' # t"
| "render_line (Removed t) = CHR ''-'' # t"
| "render_line (Added t) = CHR ''+'' # t"

fun old_count :: "hunk_line list \<Rightarrow> nat" where
  "old_count [] = 0"
| "old_count (Added _ # ls) = old_count ls"
| "old_count (_ # ls) = Suc (old_count ls)"

fun new_count :: "hunk_line list \<Rightarrow> nat" where
  "new_count [] = 0"
| "new_count (Removed _ # ls) = new_count ls"
| "new_count (_ # ls) = Suc (new_count ls)"

fun added_in :: "int \<Rightarrow> hunk_line list \<Rightarrow> int set" where
  "added_in n [] = {}"
| "added_in n (Context _ # ls) = added_in (n + 1) ls"
| "added_in n (Removed _ # ls) = added_in n ls"
| "added_in n (Added _ # ls) = insert n (added_in (n + 1) ls)"

definition render_header :: "hunk \<Rightarrow> string" where
  "render_header h = ''@@ -'' @ str_nat (hunk_old_start h) @ '','' @ str_nat (old_count (hunk_lines h))
     @ '' +'' @ str_nat (hunk_new_start h) @ '','' @ str_nat (new_count (hunk_lines h)) @ '' @@''"

definition render_hunk :: "hunk \<Rightarrow> string list" where
  "render_hunk h = render_header h # map render_line (hunk_lines h)"

definition render_file :: "string \<times> hunk list \<Rightarrow> string list" where
  "render_file f = (case f of (p, hs) \<Rightarrow>
     [''diff --git a/'' @ p @ '' b/'' @ p, ''--- a/'' @ p, ''+++ b/'' @ p] @ concat (map render_hunk hs))"

definition render_diff :: "(string \<times> hunk list) list \<Rightarrow> string" where
  "render_diff fs = concat (map (\<lambda>l. l @ [CHR 0x0A]) (concat (map render_file fs)))"

definition add_lines :: "string \<Rightarrow> int set \<Rightarrow> parsed_diff \<Rightarrow> parsed_diff" where
  "add_lines p ns d = (case dget d p of None \<Rightarrow> d | Some lines \<Rightarrow> dset p (lines \<union> ns) d)"

definition hunk_added :: "hunk \<Rightarrow> int set" where
  "hunk_added h = added_in (int (hunk_new_start h)) (hunk_lines h)"

definition file_added :: "string \<times> hunk list \<Rightarrow> parsed_diff \<Rightarrow> parsed_diff" where
  "file_added f d = (case f of (p, hs) \<Rightarrow> foldl (\<lambda>d h. add_lines p (hunk_added h) d) (add_path p d) hs)"

definition diff_added :: "(string \<times> hunk list) list \<Rightarrow> parsed_diff" where
  "diff_added fs = foldl (\<lambda>d f. file_added f d) [] fs"

text \<open>Diffs whose text is faithful: safe paths, no line boundary inside a line, counts \<open>int\<close> reads.\<close>

definition plain_hunk :: "hunk \<Rightarrow> bool" where
  "plain_hunk h = (hunk_old_start h < int_text_limit \<and> hunk_new_start h < int_text_limit
     \<and> length (hunk_lines h) < int_text_limit
     \<and> list_all (\<lambda>l. no_line_break (line_text l)) (hunk_lines h))"

definition plain_file :: "string \<times> hunk list \<Rightarrow> bool" where
  "plain_file f = (case f of (p, hs) \<Rightarrow>
     safe_diff_path p \<and> no_line_break p \<and> CHR 0x09 \<notin> set p \<and> list_all plain_hunk hs)"

lemma counts_le: "old_count ls \<le> length ls" "new_count ls \<le> length ls"
  by (induction ls rule: old_count.induct) auto

lemma add_line_lines:
  "add_lines p ns (add_line p n d) = add_lines p (insert n ns) d"
  "add_lines p {} d = d \<or> dget d p \<noteq> None"
  by (auto simp: add_line_def add_lines_def AList.update_last split: option.splits)

lemma dset_same: "dget d k = Some v \<Longrightarrow> dset k v d = d"
  by (induction d) auto

lemma add_lines_empty [simp]: "add_lines p {} d = d"
  by (auto simp: add_lines_def dset_same split: option.splits)

lemma dget_add_line [simp]: "(dget (add_line q n d) p = None) = (dget d p = None)"
  by (auto simp: add_line_def split: option.splits)

lemma dget_add_lines [simp]: "(dget (add_lines q ns d) p = None) = (dget d p = None)"
  by (auto simp: add_lines_def split: option.splits)

lemma parse_rendered_line:
  "ps_in_hunk s \<Longrightarrow> c \<in> set '' -+'' \<Longrightarrow> parse_line (c # t) s = parse_body (c # t) s"
  by (auto simp: parse_line_def startswith_def)

lemma parse_rendered_body:
  assumes "ps_in_hunk s" and "ps_path s = Some p"
    and "ps_old s = int (old_count ls) + a" and "ps_new s = int (new_count ls) + b"
    and "0 \<le> a" and "0 \<le> b"
  shows "parse_lines (map render_line ls) s =
    Inr (s\<lparr>ps_added := add_lines p (added_in (ps_line s) ls) (ps_added s),
      ps_old := a, ps_new := b, ps_line := ps_line s + int (new_count ls)\<rparr>)"
  using assms(1-4)
proof (induction ls arbitrary: s)
  case Nil
  then show ?case by simp
next
  case (Cons l ls)
  note in_hunk = Cons.prems(1)
  show ?case
  proof (cases l)
    case (Context t)
    let ?s = "s\<lparr>ps_old := ps_old s - 1, ps_new := ps_new s - 1, ps_line := ps_line s + 1\<rparr>"
    have "parse_line (render_line l) s = Inr ?s"
      using Cons.prems assms(5,6) Context
      by (simp add: parse_rendered_line parse_body_def Let_def)
    with Cons.IH [of ?s] Cons.prems Context show ?thesis by simp
  next
    case (Removed t)
    let ?s = "s\<lparr>ps_old := ps_old s - 1\<rparr>"
    have "parse_line (render_line l) s = Inr ?s"
      using Cons.prems assms(5,6) Removed
      by (simp add: parse_rendered_line parse_body_def Let_def)
    with Cons.IH [of ?s] Cons.prems Removed show ?thesis by simp
  next
    case (Added t)
    let ?s = "s\<lparr>ps_added := add_line p (ps_line s) (ps_added s), ps_new := ps_new s - 1,
      ps_line := ps_line s + 1\<rparr>"
    have "parse_line (render_line l) s = Inr ?s"
      using Cons.prems assms(5,6) Added
      by (simp add: parse_rendered_line parse_body_def Let_def)
    with Cons.IH [of ?s] Cons.prems Added show ?thesis by (simp add: add_line_lines)
  qed
qed

lemma strip_prefix_append [simp]: "strip_prefix p (p @ s) = Some s"
  by (simp add: strip_prefix_def)

lemma take_str_nat:
  "r = [] \<or> \<not> is_digit (hd r) \<Longrightarrow> takeWhile is_digit (str_nat n @ r) = str_nat n"
  "r = [] \<or> \<not> is_digit (hd r) \<Longrightarrow> dropWhile is_digit (str_nat n @ r) = r"
  using str_nat_digits [of n] by (cases r; simp add: list_all_iff takeWhile_append dropWhile_append)+

lemma scan_rendered_range:
  assumes "r = [] \<or> \<not> is_digit (hd r)"
  shows "scan_range (str_nat a @ CHR '','' # str_nat b @ r) = Some (str_nat a, Some (str_nat b), r)"
proof -
  have "\<not> is_digit (CHR '','')" by (simp add: is_digit_def)
  with take_str_nat [of "CHR '','' # str_nat b @ r" a] take_str_nat [OF assms, of b]
  show ?thesis by (simp add: scan_range_def scan_count_def)
qed

lemma hunk_header_rendered:
  "hunk_header (render_header h) = Some (Some (str_nat (old_count (hunk_lines h))),
     str_nat (hunk_new_start h), Some (str_nat (new_count (hunk_lines h))))"
proof -
  have "\<not> is_digit (CHR '' '')" by (simp add: is_digit_def)
  then show ?thesis
    by (simp add: hunk_header_def render_header_def strip_prefix_def startswith_def scan_rendered_range)
qed

lemma parse_rendered_hunk:
  assumes "plain_hunk h" and "ps_path s = Some p" and "finish_hunk s = Inr t"
  shows "\<exists>u. parse_lines (render_hunk h) s = Inr u \<and> ps_path u = Some p \<and> finish_hunk u = Inr (u\<lparr>ps_in_hunk := False\<rparr>)
    \<and> ps_added u = add_lines p (hunk_added h) (ps_added s)"
proof -
  let ?s = "t\<lparr>ps_old := int (old_count (hunk_lines h)), ps_new := int (new_count (hunk_lines h)),
     ps_line := int (hunk_new_start h), ps_in_hunk := True\<rparr>"
  have t: "t = s\<lparr>ps_in_hunk := False\<rparr>" by (rule finish_hunk_Inr [OF assms(3)])
  have small: "old_count (hunk_lines h) < int_text_limit" "new_count (hunk_lines h) < int_text_limit"
    "hunk_new_start h < int_text_limit"
    using assms(1) counts_le [of "hunk_lines h"] by (auto simp: plain_hunk_def)
  have "parse_line (render_header h) s = parse_header (render_header h) s"
    by (simp add: parse_line_def render_header_def startswith_def)
  also have "\<dots> = Inr ?s"
    using assms(2,3) t small
    by (simp add: parse_header_def hunk_header_rendered count_value_def py_int_digits_str_nat)
  finally have "parse_line (render_header h) s = Inr ?s" .
  moreover have "parse_lines (map render_line (hunk_lines h)) ?s =
      Inr (?s\<lparr>ps_added := add_lines p (hunk_added h) (ps_added s), ps_old := 0, ps_new := 0,
        ps_line := int (hunk_new_start h) + int (new_count (hunk_lines h))\<rparr>)"
    using parse_rendered_body [of ?s p "hunk_lines h" 0 0] assms(2) t by (simp add: hunk_added_def)
  ultimately show ?thesis
    using t assms(2) by (simp add: render_hunk_def finish_hunk_def)
qed

lemma parse_rendered_hunks:
  assumes "list_all plain_hunk hs" and "ps_path s = Some p" and "finish_hunk s = Inr (s\<lparr>ps_in_hunk := False\<rparr>)"
  shows "\<exists>u. parse_lines (concat (map render_hunk hs)) s = Inr u \<and> finish_hunk u = Inr (u\<lparr>ps_in_hunk := False\<rparr>)
    \<and> ps_added u = foldl (\<lambda>d h. add_lines p (hunk_added h) d) (ps_added s) hs"
  using assms
proof (induction hs arbitrary: s)
  case Nil
  then show ?case by simp
next
  case (Cons h hs)
  then obtain u where u: "parse_lines (render_hunk h) s = Inr u" "ps_path u = Some p"
      "finish_hunk u = Inr (u\<lparr>ps_in_hunk := False\<rparr>)" "ps_added u = add_lines p (hunk_added h) (ps_added s)"
    using parse_rendered_hunk [of h s p] by auto
  from Cons.IH [OF _ u(2,3)] Cons.prems(1) u(1,4) show ?case by (simp add: parse_lines_append)
qed

lemma right_side_path_rendered:
  assumes "safe_diff_path p" and "CHR 0x09 \<notin> set p"
  shows "right_side_path (''b/'' @ p) = Inr p"
  using assms by (simp add: right_side_path_def safe_diff_path_def startswith_def)

lemma parse_rendered_file:
  assumes "plain_file f" and "finish_hunk s = Inr (s\<lparr>ps_in_hunk := False\<rparr>)"
  shows "\<exists>u. parse_lines (render_file f) s = Inr u \<and> finish_hunk u = Inr (u\<lparr>ps_in_hunk := False\<rparr>)
    \<and> ps_added u = file_added f (ps_added s)"
proof -
  obtain p hs where f: "f = (p, hs)" by (cases f)
  let ?s1 = "s\<lparr>ps_in_hunk := False, ps_path := None\<rparr>"
  let ?s2 = "s\<lparr>ps_in_hunk := False, ps_path := Some p, ps_added := add_path p (ps_added s)\<rparr>"
  have 1: "parse_line (''diff --git a/'' @ p @ '' b/'' @ p) s = Inr ?s1"
    using assms(2) by (simp add: parse_line_def startswith_def)
  have 2: "parse_line (''--- a/'' @ p) ?s1 = Inr ?s1" by (simp add: parse_line_def startswith_def)
  have 3: "parse_line (''+++ b/'' @ p) ?s1 = Inr ?s2"
    using assms(1) right_side_path_rendered [of p]
    by (simp add: f plain_file_def parse_line_def startswith_def)
  obtain u where "parse_lines (concat (map render_hunk hs)) ?s2 = Inr u"
      "finish_hunk u = Inr (u\<lparr>ps_in_hunk := False\<rparr>)"
      "ps_added u = foldl (\<lambda>d h. add_lines p (hunk_added h) d) (ps_added ?s2) hs"
    using parse_rendered_hunks [of hs ?s2 p] assms(1) by (auto simp: f plain_file_def finish_hunk_def)
  with 1 2 3 show ?thesis by (simp add: f render_file_def file_added_def)
qed

lemma parse_rendered_files:
  assumes "list_all plain_file fs" and "finish_hunk s = Inr (s\<lparr>ps_in_hunk := False\<rparr>)"
  shows "\<exists>u. parse_lines (concat (map render_file fs)) s = Inr u \<and> finish_hunk u = Inr (u\<lparr>ps_in_hunk := False\<rparr>)
    \<and> ps_added u = foldl (\<lambda>d f. file_added f d) (ps_added s) fs"
  using assms
proof (induction fs arbitrary: s)
  case Nil
  then show ?case by simp
next
  case (Cons f fs)
  then obtain u where "parse_lines (render_file f) s = Inr u" "finish_hunk u = Inr (u\<lparr>ps_in_hunk := False\<rparr>)"
      "ps_added u = file_added f (ps_added s)"
    using parse_rendered_file [of f s] by auto
  with Cons.IH [of u] Cons.prems(1) show ?case by (simp add: parse_lines_append)
qed

lemma no_line_break_digits: "list_all is_digit s \<Longrightarrow> no_line_break s"
  by (auto simp: no_line_break_def is_line_break_def is_digit_def Let_def list_all_iff)

lemma no_line_break_append [simp]: "no_line_break (s @ t) = (no_line_break s \<and> no_line_break t)"
  by (simp add: no_line_break_def)

lemma no_line_break_Cons: "no_line_break (c # t) = (\<not> is_line_break c \<and> no_line_break t)"
  by (simp add: no_line_break_def)

lemma rendered_no_break: "plain_file f \<Longrightarrow> list_all no_line_break (render_file f)"
proof -
  assume f: "plain_file f"
  have num: "no_line_break (str_nat n)" for n
    using str_nat_digits by (rule no_line_break_digits)
  have line: "no_line_break (render_line l) = no_line_break (line_text l)" for l
    by (cases l) (simp_all add: no_line_break_Cons is_line_break_def)
  have header: "no_line_break (render_header h)" for h
    using num by (simp add: render_header_def no_line_break_Cons is_line_break_def no_line_break_def [of "[]"])
  obtain p hs where p: "f = (p, hs)" by (cases f)
  have "list_all no_line_break (render_hunk h)" if "h \<in> set hs" for h
    using f that header by (auto simp: p plain_file_def render_hunk_def plain_hunk_def list_all_iff line)
  then have "list_all no_line_break (concat (map render_hunk hs))"
    by (auto simp: list_all_iff)
  moreover have "no_line_break p" using f by (simp add: p plain_file_def)
  ultimately show ?thesis
    by (simp add: p render_file_def no_line_break_Cons is_line_break_def)
qed

text \<open>The parser inverts the printer: it reports exactly the added lines of the diff.\<close>

lemma parse_render_diff: "list_all plain_file fs \<Longrightarrow> parse_unified_diff (render_diff fs) = Inr (diff_added fs)"
proof -
  assume fs: "list_all plain_file fs"
  then have "list_all no_line_break (concat (map render_file fs))"
    by (induction fs) (simp_all add: rendered_no_break)
  then have "splitlines (render_diff fs) = concat (map render_file fs)"
    unfolding render_diff_def by (rule splitlines_unlines)
  with parse_rendered_files [OF fs, of parse_start] show ?thesis
    by (auto simp: parse_unified_diff_def diff_added_def finish_hunk_def parse_start_def)
qed

end
