(* ===== verification/Clients.thy ===== *)
theory Clients
  imports Review_Client
begin

section \<open>clients.py: Jenkins, the review broker and GitHub over HTTP\<close>

text \<open>
  The three clients at the level of the requests they send: which URL, which parameters and
  body, which statuses and payloads they accept, and which exception each failure becomes.
  A transport error is an \<open>UpstreamError\<close> only where the code's \<open>try\<close> covers the call that
  sends the request; elsewhere it escapes as it is.
\<close>

subsection \<open>Quoting\<close>

text \<open>\<open>urllib.parse.quote(part, safe="")\<close>.\<close>

definition unreserved :: "char \<Rightarrow> bool" where
  "unreserved c = (is_alnum c \<or> c \<in> set ''_.-~'')"

definition upper_hex :: "nat \<Rightarrow> char" where
  "upper_hex n = ''0123456789ABCDEF'' ! n"

definition quote_byte :: "char \<Rightarrow> string" where
  "quote_byte c = (if unreserved c then [c]
     else [CHR ''%'', upper_hex (of_char c div 16), upper_hex (of_char c mod 16)])"

definition quote_part :: "string \<Rightarrow> string" where
  "quote_part s = concat (map quote_byte (utf8_encode s))"

text \<open>\<open>html.escape\<close>.\<close>

definition escape_char :: "char \<Rightarrow> string" where
  "escape_char c = (if c = CHR ''&'' then ''&amp;'' else if c = CHR ''<'' then ''&lt;''
     else if c = CHR ''>'' then ''&gt;'' else if c = CHR 0x22 then ''&quot;''
     else if c = CHR 0x27 then ''&#x27;'' else [c])"

definition html_escape :: "string \<Rightarrow> string" where
  "html_escape s = concat (map escape_char s)"

definition groovy_single_quoted :: "string \<Rightarrow> string" where
  "groovy_single_quoted value =
     py_replace (CHR 0x27) [CHR 0x5C, CHR 0x27] (py_replace (CHR 0x5C) [CHR 0x5C, CHR 0x5C] value)"


subsection \<open>Jenkins: names and paths\<close>

definition job_name :: "string \<Rightarrow> string \<Rightarrow> string" where
  "job_name owner name = owner @ ''--'' @ name"

definition legacy_job_name :: "string \<Rightarrow> string \<Rightarrow> string" where
  "legacy_job_name owner name = job_name owner name @ ''--legacy''"

definition branch_job_name :: "string \<Rightarrow> int option \<Rightarrow> string" where
  "branch_job_name branch pull_request = (case pull_request of
      Some p \<Rightarrow> ''PR-'' @ str_int p
    | None \<Rightarrow>
        (let slug = take 120 (py_replace (CHR ''/'') ''-'' branch);
             digest = take 16 (sha256_hex (utf8_encode branch))
         in ''branch-'' @ slug @ ''-'' @ digest))"

definition managed_job_path :: "string \<Rightarrow> string \<Rightarrow> string \<Rightarrow> int option \<Rightarrow> string" where
  "managed_job_path owner name branch pull_request =
     ''repositories/'' @ job_name owner name @ ''/'' @ branch_job_name branch pull_request"

definition legacy_job_path :: "string \<Rightarrow> string \<Rightarrow> string" where
  "legacy_job_path owner name = ''repositories/'' @ legacy_job_name owner name"

definition encoded_job_path :: "string \<Rightarrow> string" where
  "encoded_job_path job = py_join ''/job/'' (map quote_part (py_split (CHR ''/'') job))"


subsection \<open>Jenkins: requests\<close>

record jenkins_client =
  jk_base_url :: string
  jk_auth :: "string \<times> string"
  jk_github_web_url :: string
  jk_reconcile_delay :: rat

definition new_jenkins_client :: "string \<Rightarrow> string \<Rightarrow> string \<Rightarrow> string \<Rightarrow> rat \<Rightarrow> jenkins_client" where
  "new_jenkins_client base_url username token web_url delay =
     \<lparr>jk_base_url = rstrip_char (CHR ''/'') base_url, jk_auth = (username, token),
      jk_github_web_url = rstrip_char (CHR ''/'') web_url, jk_reconcile_delay = delay\<rparr>"

definition jenkins_get :: "jenkins_client \<Rightarrow> string \<Rightarrow> (string \<times> string) list \<Rightarrow> http_response task" where
  "jenkins_get c path params = http \<lparr>req_method = GET, req_url = jk_base_url c @ path,
     req_headers = [], req_params = params, req_auth = Some (jk_auth c), req_body = NoBody\<rparr>"

definition header_text :: "json \<Rightarrow> ('s, string) io" where
  "header_text j = (case as_str j of
      None \<Rightarrow> raise_io (TypeError ''Header value must be str or bytes'') | Some s \<Rightarrow> return_io s)"

definition crumb :: "jenkins_client \<Rightarrow> (string \<times> string) list task" where
  "crumb c =
     bind_io (jenkins_get c ''/crumbIssuer/api/json'' []) (\<lambda>response.
     if resp_status response = 404 then return_io []
     else seq_io (raise_for_status response) (
       bind_io (response_json response) (\<lambda>value.
       bind_io (lift_io (jindex value ''crumbRequestField'')) (\<lambda>f.
       bind_io (lift_io (jindex value ''crumb'')) (\<lambda>v.
       bind_io (header_text f) (\<lambda>field.
       bind_io (header_text v) (\<lambda>token. return_io [(field, token)])))))))"

definition jenkins_send ::
    "jenkins_client \<Rightarrow> string \<Rightarrow> (string \<times> string) list \<Rightarrow> (string \<times> string) list \<Rightarrow> http_body
     \<Rightarrow> http_response task" where
  "jenkins_send c path headers params body =
     bind_io (http \<lparr>req_method = POST, req_url = jk_base_url c @ path, req_headers = headers,
       req_params = params, req_auth = Some (jk_auth c), req_body = body\<rparr>) (\<lambda>response.
     seq_io (raise_for_status response) (return_io response))"

definition jenkins_post :: "jenkins_client \<Rightarrow> string \<Rightarrow> (string \<times> string) list \<Rightarrow> http_response task" where
  "jenkins_post c path params =
     catch_io (bind_io (crumb c) (\<lambda>headers. jenkins_send c path headers params NoBody))
       is_http_error (\<lambda>_. raise_io (UpstreamError (''Jenkins request failed: '' @ path)))"

definition jenkins_item :: "jenkins_client \<Rightarrow> string \<Rightarrow> http_response task" where
  "jenkins_item c path =
     jenkins_get c (''/job/'' @ encoded_job_path path @ ''/api/json'') [(''tree'', ''_class'')]"

definition item_class :: "jenkins_client \<Rightarrow> string \<Rightarrow> string option task" where
  "item_class c path =
     bind_io (jenkins_item c path) (\<lambda>response.
     if resp_status response = 404 then return_io None
     else bind_io
       (catch_io
         (seq_io (raise_for_status response)
           (bind_io (response_json response) (\<lambda>j. lift_io (jmethod_get j ''_class''))))
         (\<lambda>e. is_http_error e \<or> is_value_error e \<or> (\<exists>m. e = AttributeError m))
         (\<lambda>_. raise_io (UpstreamError (''Jenkins item state is unavailable: '' @ path))))
       (\<lambda>cls. case as_str cls of
          None \<Rightarrow> raise_io (UpstreamError (''Jenkins item has no class metadata: '' @ path))
        | Some s \<Rightarrow>
            if s = [] then raise_io (UpstreamError (''Jenkins item has no class metadata: '' @ path))
            else return_io (Some s)))"

definition reconcile_pause :: "jenkins_client \<Rightarrow> nat \<Rightarrow> unit task" where
  "reconcile_pause c attempt =
     (if 0 < jk_reconcile_delay c then sleep (jk_reconcile_delay c * 2 ^ attempt) else return_io ())"

definition create_item :: "jenkins_client \<Rightarrow> string \<Rightarrow> string \<Rightarrow> string \<Rightarrow> unit task" where
  "create_item c parent name xml =
     bind_io (crumb c) (\<lambda>headers.
     bind_io (jenkins_send c (''/job/'' @ encoded_job_path parent @ ''/createItem'')
       (dset ''Content-Type'' ''application/xml'' headers) [(''name'', name)] (TextBody xml)) (\<lambda>_.
     return_io ()))"

definition folder_class :: string where
  "folder_class = ''com.cloudbees.hudson.plugins.folder.Folder''"

definition workflow_class :: string where
  "workflow_class = ''org.jenkinsci.plugins.workflow.job.WorkflowJob''"

definition reconcile_attempts :: nat where
  "reconcile_attempts = 6"

definition folder_xml :: string where
  "folder_xml =
     ''<?xml version='' @ [CHR 0x27] @ ''1.1'' @ [CHR 0x27] @ '' encoding='' @ [CHR 0x27] @ ''UTF-8'' @ [CHR 0x27] @ ''?>'' @
     ''<com.cloudbees.hudson.plugins.folder.Folder plugin='' @ [CHR 0x27] @ ''cloudbees-folder'' @ [CHR 0x27] @ ''>'' @
     ''<actions/><description>Managed repository branches. Do not edit.</description>'' @
     ''<properties/><folderViews class='' @ [CHR 0x27] @ ''com.cloudbees.hudson.plugins.folder.views.DefaultFolderViewHolder'' @ [CHR 0x27] @ ''>'' @
     ''<views><hudson.model.AllView><owner class='' @ [CHR 0x27] @ ''com.cloudbees.hudson.plugins.folder.Folder'' @ [CHR 0x27] @
     '' reference='' @ [CHR 0x27] @ ''../../../..'' @ [CHR 0x27] @ ''/>'' @
     ''<name>All</name><filterExecutors>false</filterExecutors>'' @
     ''<filterQueue>false</filterQueue><properties class='' @ [CHR 0x27] @ ''hudson.model.View$PropertyList'' @ [CHR 0x27] @ ''/>'' @
     ''</hudson.model.AllView></views>'' @
     ''<tabBar class='' @ [CHR 0x27] @ ''hudson.views.DefaultViewsTabBar'' @ [CHR 0x27] @ ''/></folderViews>'' @
     ''<healthMetrics/><icon class='' @ [CHR 0x27] @ ''com.cloudbees.hudson.plugins.folder.icons.StockFolderIcon'' @ [CHR 0x27] @
     ''/></com.cloudbees.hudson.plugins.folder.Folder>''"

text \<open>
  The wait for a renamed job: \<open>True\<close> when the folder turned up, \<open>False\<close> when the path is
  free and the job is at its legacy path; the loop's \<open>else\<close> raises.
\<close>

fun await_migration :: "jenkins_client \<Rightarrow> string \<Rightarrow> string \<Rightarrow> nat \<Rightarrow> nat \<Rightarrow> bool task" where
  "await_migration c owner name attempt 0 = raise_io (UpstreamError
     (''Jenkins legacy job migration did not settle for '' @ owner @ ''/'' @ name))"
| "await_migration c owner name attempt (Suc remaining) =
     (let repository_path = ''repositories/'' @ job_name owner name;
          legacy_path = ''repositories/'' @ legacy_job_name owner name in
      bind_io (item_class c repository_path) (\<lambda>current.
      bind_io (item_class c legacy_path) (\<lambda>legacy.
        if current = Some folder_class then return_io True
        else if current = None \<and> legacy = Some workflow_class then return_io False
        else if current \<notin> {None, Some workflow_class} then raise_io (UpstreamError
          (''repository Jenkins path changed to an unexpected item type: '' @ repository_path))
        else if legacy \<notin> {None, Some workflow_class} then raise_io (UpstreamError
          (''legacy Jenkins path changed to an unexpected item type: '' @ legacy_path))
        else seq_io (reconcile_pause c attempt) (await_migration c owner name (attempt + 1) remaining))))"

fun create_folder :: "jenkins_client \<Rightarrow> string \<Rightarrow> string \<Rightarrow> nat \<Rightarrow> nat \<Rightarrow> unit task" where
  "create_folder c owner name attempt 0 =
     bind_io (item_class c (''repositories/'' @ job_name owner name)) (\<lambda>current.
       if current = Some folder_class then return_io ()
       else raise_io (UpstreamError
         (''failed to reconcile Jenkins repository folder for '' @ owner @ ''/'' @ name)))"
| "create_folder c owner name attempt (Suc remaining) =
     (let repository_path = ''repositories/'' @ job_name owner name in
      bind_io (item_class c repository_path) (\<lambda>current.
        if current = Some folder_class then return_io ()
        else if current \<noteq> None then raise_io (UpstreamError
          (''repository Jenkins path changed to an unexpected item type: '' @ repository_path))
        else seq_io (catch_io (create_item c ''repositories'' (job_name owner name) folder_xml)
               is_http_error (\<lambda>_. return_io ()))
             (seq_io (reconcile_pause c attempt) (create_folder c owner name (attempt + 1) remaining))))"

definition ensure_repository_folder :: "jenkins_client \<Rightarrow> string \<Rightarrow> string \<Rightarrow> unit task" where
  "ensure_repository_folder c owner name =
     (let repository_path = ''repositories/'' @ job_name owner name;
          legacy_path = ''repositories/'' @ legacy_job_name owner name in
      bind_io (item_class c repository_path) (\<lambda>current.
        if current = Some folder_class then return_io ()
        else if current \<notin> {None, Some workflow_class} then raise_io (UpstreamError
          (''repository Jenkins path has an unexpected item type: '' @ repository_path))
        else if current = Some workflow_class then
          bind_io (item_class c legacy_path) (\<lambda>legacy.
            if legacy \<notin> {None, Some workflow_class} then raise_io (UpstreamError
              (''legacy Jenkins path has an unexpected item type: '' @ legacy_path))
            else seq_io
              (if legacy = None
               then bind_io (jenkins_post c (''/job/'' @ encoded_job_path repository_path @ ''/doRename'')
                      [(''newName'', legacy_job_name owner name)]) (\<lambda>_. return_io ())
               else return_io ())
              (bind_io (await_migration c owner name 0 reconcile_attempts) (\<lambda>folder_exists.
                if folder_exists then return_io ()
                else create_folder c owner name 0 reconcile_attempts)))
        else create_folder c owner name 0 reconcile_attempts))"

definition pipeline_script :: "jenkins_client \<Rightarrow> string \<Rightarrow> string \<Rightarrow> string \<Rightarrow> string" where
  "pipeline_script c owner name default_branch =
     ''@Library('' @ [CHR 0x27] @ ''jenkins-service-contract'' @ [CHR 0x27] @ '') _'' @ [CHR 0x0A] @
     ''jenkinsServicePipeline('' @
     ''repositoryUrl: '' @ [CHR 0x27] @
       groovy_single_quoted (jk_github_web_url c @ ''/'' @ owner @ ''/'' @ name @ ''.git'') @ [CHR 0x27] @ '', '' @
     ''trustedBranch: '' @ [CHR 0x27] @ groovy_single_quoted default_branch @ [CHR 0x27] @ '', '' @
     ''repository: '' @ [CHR 0x27] @ groovy_single_quoted (owner @ ''/'' @ name) @ [CHR 0x27] @
     '')'' @ [CHR 0x0A]"

definition string_parameter_xml :: "string \<Rightarrow> string" where
  "string_parameter_xml name =
     ''<hudson.model.StringParameterDefinition><name>'' @ name @
     ''</name><defaultValue></defaultValue><trim>true</trim></hudson.model.StringParameterDefinition>''"

definition job_xml :: "string \<Rightarrow> string \<Rightarrow> string" where
  "job_xml display_name script =
     ''<?xml version='' @ [CHR 0x27] @ ''1.1'' @ [CHR 0x27] @ '' encoding='' @ [CHR 0x27] @ ''UTF-8'' @ [CHR 0x27] @ ''?>'' @
     ''<flow-definition plugin='' @ [CHR 0x27] @ ''workflow-job'' @ [CHR 0x27] @ ''>'' @
     ''<actions/><description>Managed '' @ html_escape display_name @ '' pipeline. Do not edit.</description>'' @
     ''<displayName>'' @ html_escape display_name @ ''</displayName>'' @
     ''<keepDependencies>false</keepDependencies><properties>'' @
     ''<hudson.model.ParametersDefinitionProperty><parameterDefinitions>'' @
     string_parameter_xml ''COMMIT_SHA'' @ string_parameter_xml ''PULL_REQUEST'' @
     string_parameter_xml ''BASE_SHA'' @ string_parameter_xml ''BUILD_ID'' @
     ''</parameterDefinitions></hudson.model.ParametersDefinitionProperty></properties>'' @
     ''<definition class='' @ [CHR 0x27] @ ''org.jenkinsci.plugins.workflow.cps.CpsFlowDefinition'' @ [CHR 0x27] @
     '' plugin='' @ [CHR 0x27] @ ''workflow-cps'' @ [CHR 0x27] @ ''>'' @
     ''<script>'' @ html_escape script @ ''</script><sandbox>true</sandbox>'' @
     ''</definition><triggers/><disabled>false</disabled></flow-definition>''"

definition ensure_job ::
    "jenkins_client \<Rightarrow> string \<Rightarrow> string \<Rightarrow> string \<Rightarrow> string option \<Rightarrow> int option \<Rightarrow> unit task" where
  "ensure_job c owner name default_branch branch_arg pull_request =
     (let branch = (case branch_arg of None \<Rightarrow> default_branch
            | Some b \<Rightarrow> if b = [] then default_branch else b);
          repository_name = job_name owner name;
          child_name = branch_job_name branch pull_request;
          display_name = (case pull_request of Some p \<Rightarrow> ''PR-'' @ str_int p | None \<Rightarrow> branch);
          xml = job_xml display_name (pipeline_script c owner name default_branch);
          job_path = ''repositories/'' @ repository_name @ ''/'' @ child_name in
      seq_io (with_lock (py_lower owner @ ''/'' @ py_lower name) (ensure_repository_folder c owner name)) (
      bind_io (jenkins_item c job_path) (\<lambda>existing.
      bind_io (crumb c) (\<lambda>fields.
      bind_io
        (if resp_status existing = 404
         then return_io (''/job/'' @ encoded_job_path (''repositories/'' @ repository_name) @ ''/createItem'',
                [(''name'', child_name)])
         else seq_io (raise_for_status existing) (
           bind_io (response_json existing) (\<lambda>j.
           bind_io (lift_io (jmethod_get j ''_class'')) (\<lambda>cls.
             if cls \<noteq> JStr workflow_class then raise_io (UpstreamError
               (''managed Jenkins branch path has an unexpected item type: '' @ job_path))
             else return_io (''/job/'' @ encoded_job_path job_path @ ''/config.xml'', [])))))
        (\<lambda>(path, params).
          catch_io
            (bind_io (jenkins_send c path (dset ''Content-Type'' ''application/xml'' fields) params
               (TextBody xml)) (\<lambda>_. return_io ()))
            is_http_error
            (\<lambda>_. raise_io (UpstreamError (''failed to reconcile Jenkins job for '' @ owner @ ''/'' @ name @
               '' '' @ display_name))))))))"

definition delete_job :: "jenkins_client \<Rightarrow> string \<Rightarrow> string \<Rightarrow> unit task" where
  "delete_job c owner name =
     for_io [''repositories/'' @ job_name owner name, legacy_job_path owner name] (\<lambda>path.
       bind_io (jenkins_item c path) (\<lambda>existing.
         if resp_status existing = 404 then return_io ()
         else seq_io (raise_for_status existing)
           (bind_io (jenkins_post c (''/job/'' @ encoded_job_path path @ ''/doDelete'') []) (\<lambda>_. return_io ()))))"

definition jenkins_scan :: "jenkins_client \<Rightarrow> string \<Rightarrow> string \<Rightarrow> string \<Rightarrow> unit task" where
  "jenkins_scan c owner name default_branch = ensure_job c owner name default_branch None None"

text \<open>The number at the end of the queue item's location.\<close>

definition queue_location_id :: "string \<Rightarrow> int outcome" where
  "queue_location_id location = (case rsplit_last (CHR ''/'') (rstrip_char (CHR ''/'') location) of
      None \<Rightarrow> Inl (UpstreamError ''Jenkins did not return a valid queue item location'')
    | Some tail \<Rightarrow> (case py_int tail of
          Inl _ \<Rightarrow> Inl (UpstreamError ''Jenkins did not return a valid queue item location'')
        | Inr n \<Rightarrow> Inr n))"

definition text_or_empty :: "string option \<Rightarrow> string" where
  "text_or_empty x = (case x of None \<Rightarrow> [] | Some s \<Rightarrow> s)"

definition jenkins_trigger ::
    "jenkins_client \<Rightarrow> string \<Rightarrow> string \<Rightarrow> string \<Rightarrow> int option \<Rightarrow> string option \<Rightarrow> string option
     \<Rightarrow> string option \<Rightarrow> int task" where
  "jenkins_trigger c owner name commit_sha pull_request base_sha bid branch = (case branch of
      None \<Rightarrow> raise_io (ValueError ''branch is required when triggering a managed Jenkins job'')
    | Some b \<Rightarrow>
        bind_io (jenkins_post c
          (''/job/'' @ encoded_job_path (managed_job_path owner name b pull_request) @ ''/buildWithParameters'')
          [(''COMMIT_SHA'', commit_sha),
           (''PULL_REQUEST'', case pull_request of None \<Rightarrow> [] | Some p \<Rightarrow> if p = 0 then [] else str_int p),
           (''BASE_SHA'', text_or_empty base_sha), (''BUILD_ID'', text_or_empty bid)]) (\<lambda>response.
        lift_io (queue_location_id (text_or_empty (header_of response ''location'')))))"

definition jenkins_cancel :: "jenkins_client \<Rightarrow> string \<Rightarrow> int \<Rightarrow> unit task" where
  "jenkins_cancel c job number =
     bind_io (jenkins_post c (''/job/'' @ encoded_job_path job @ ''/'' @ str_int number @ ''/stop'') [])
       (\<lambda>_. return_io ())"

definition jenkins_cancel_queue :: "jenkins_client \<Rightarrow> int \<Rightarrow> unit task" where
  "jenkins_cancel_queue c qid =
     bind_io (jenkins_post c ''/queue/cancelItem'' [(''id'', str_int qid)]) (\<lambda>_. return_io ())"

text \<open>A read that is \<open>None\<close> on 404 and an \<open>UpstreamError\<close> when Jenkins fails.\<close>

definition jenkins_read ::
    "jenkins_client \<Rightarrow> string \<Rightarrow> (string \<times> string) list \<Rightarrow> string \<Rightarrow> json option task" where
  "jenkins_read c path params failure =
     catch_io
       (bind_io (jenkins_get c path params) (\<lambda>response.
        if resp_status response = 404 then return_io None
        else seq_io (raise_for_status response)
          (bind_io (response_json response) (\<lambda>j. return_io (Some j)))))
       is_http_error (\<lambda>_. raise_io (UpstreamError failure))"

definition jenkins_queue_status :: "jenkins_client \<Rightarrow> int \<Rightarrow> json option task" where
  "jenkins_queue_status c qid =
     jenkins_read c (''/queue/item/'' @ str_int qid @ ''/api/json'')
       [(''tree'', ''cancelled,executable[number]'')]
       (''failed to read Jenkins queue item '' @ str_int qid)"

definition jenkins_build_status :: "jenkins_client \<Rightarrow> string \<Rightarrow> int \<Rightarrow> json option task" where
  "jenkins_build_status c job number =
     jenkins_read c (''/job/'' @ encoded_job_path job @ ''/'' @ str_int number @ ''/api/json'')
       [(''tree'', ''building,result,timestamp,duration'')]
       (''failed to read Jenkins build '' @ job @ '' #'' @ str_int number)"

definition declared_length :: "http_response \<Rightarrow> int \<Rightarrow> error \<Rightarrow> ('s, unit) io" where
  "declared_length response limit over = (case header_of response ''content-length'' of
      None \<Rightarrow> return_io ()
    | Some d \<Rightarrow> bind_io (lift_io (py_int d)) (\<lambda>n.
        if n > limit then raise_io over else return_io ()))"

definition jenkins_pipeline_result :: "jenkins_client \<Rightarrow> string \<Rightarrow> int \<Rightarrow> int \<Rightarrow> string option task" where
  "jenkins_pipeline_result c job number max_bytes =
     (let over = UpstreamError ''Jenkins pipeline result exceeds configured limit'' in
      catch_io
        (bind_io (jenkins_get c (''/job/'' @ encoded_job_path job @ ''/'' @ str_int number @
            ''/artifact/artifacts/pipeline-result.json'') []) (\<lambda>response.
         if resp_status response = 404 then return_io None
         else seq_io (raise_for_status response) (
           seq_io (declared_length response max_bytes over) (
           bind_io (read_stream max_bytes over response) (\<lambda>content. return_io (Some content))))))
        (\<lambda>e. is_http_error e \<or> is_value_error e)
        (\<lambda>_. raise_io (UpstreamError (''failed to read Jenkins pipeline result for '' @ job @ '' #'' @
           str_int number))))"

definition jenkins_progressive_log ::
    "jenkins_client \<Rightarrow> string \<Rightarrow> int \<Rightarrow> int \<Rightarrow> (string \<times> int \<times> bool) task" where
  "jenkins_progressive_log c job number start =
     catch_io
       (bind_io (jenkins_get c (''/job/'' @ encoded_job_path job @ ''/'' @ str_int number @
           ''/logText/progressiveText'') [(''start'', str_int start)]) (\<lambda>response.
        seq_io (raise_for_status response) (
        bind_io (lift_io (case header_of response ''x-text-size'' of
            None \<Rightarrow> Inr start | Some v \<Rightarrow> py_int v)) (\<lambda>size.
        return_io (resp_text response, size,
          py_lower (case header_of response ''x-more-data'' of None \<Rightarrow> ''false'' | Some v \<Rightarrow> v) = ''true'')))))
       (\<lambda>e. is_http_error e \<or> is_value_error e)
       (\<lambda>_. raise_io (UpstreamError (''failed to read Jenkins log for '' @ job @ '' #'' @ str_int number)))"


subsection \<open>The review broker\<close>

record broker_client =
  bc_base_url :: string
  bc_headers :: "(string \<times> string) list"

definition new_broker_client :: "string \<Rightarrow> string \<Rightarrow> broker_client" where
  "new_broker_client base_url token = \<lparr>bc_base_url = rstrip_char (CHR ''/'') base_url,
     bc_headers = [(''Authorization'', ''Bearer '' @ token)]\<rparr>"

record broker_review =
  br_model :: string
  br_prompt_version :: string
  br_blocking :: bool
  br_review :: review_result

definition py_str :: "env \<Rightarrow> json \<Rightarrow> string" where
  "py_str e j = (case j of JStr s \<Rightarrow> s | _ \<Rightarrow> env_str_of_json e j)"

definition broker_body :: "string \<Rightarrow> int \<Rightarrow> string \<Rightarrow> string \<Rightarrow> string \<Rightarrow> string \<Rightarrow> json" where
  "broker_body repository pull_request base_sha head_sha diff context =
     JObj [(''repository'', JStr repository), (''pull_request'', JInt pull_request),
       (''base_sha'', JStr (py_lower base_sha)), (''head_sha'', JStr (py_lower head_sha)),
       (''diff'', JStr diff), (''relevant_context'', JStr context)]"

definition read_broker_review :: "env \<Rightarrow> json \<Rightarrow> broker_review outcome" where
  "read_broker_review e payload =
     bind_sum (jindex payload ''model'') (\<lambda>model.
     bind_sum (jindex payload ''prompt_version'') (\<lambda>version.
     bind_sum (jindex payload ''blocking'') (\<lambda>blocking.
     bind_sum (jindex payload ''review'') (\<lambda>review.
       case env_review_result e review of
         None \<Rightarrow> Inl (ValidationError ''ReviewResult'')
       | Some r \<Rightarrow> Inr \<lparr>br_model = py_str e model, br_prompt_version = py_str e version,
           br_blocking = py_truthy blocking, br_review = r\<rparr>))))"

fun is_shape_error :: "error \<Rightarrow> bool" where
  "is_shape_error (KeyError _) = True"
| "is_shape_error (TypeError _) = True"
| "is_shape_error e = (is_http_error e \<or> is_value_error e)"

definition broker_review_call ::
    "broker_client \<Rightarrow> string \<Rightarrow> int \<Rightarrow> string \<Rightarrow> string \<Rightarrow> string \<Rightarrow> string \<Rightarrow> broker_review task" where
  "broker_review_call c repository pull_request base_sha head_sha diff context =
     catch_io
       (bind_io (http \<lparr>req_method = POST, req_url = bc_base_url c @ ''/internal/v1/review'',
          req_headers = bc_headers c, req_params = [], req_auth = None,
          req_body = JsonBody (broker_body repository pull_request base_sha head_sha diff context)\<rparr>)
        (\<lambda>response. seq_io (raise_for_status response) (
          bind_io (response_json response) (\<lambda>payload.
          bind_io (get_io w_env) (\<lambda>e. lift_io (read_broker_review e payload))))))
       is_shape_error
       (\<lambda>_. raise_io (UpstreamError ''review broker returned no valid review''))"


subsection \<open>GitHub\<close>

record github_client =
  gh_api_url :: string
  gh_headers :: "(string \<times> string) list"

definition new_github_client :: "string \<Rightarrow> string \<Rightarrow> github_client" where
  "new_github_client api_url write_token =
     \<lparr>gh_api_url = rstrip_char (CHR ''/'') api_url,
      gh_headers = [(''Authorization'', ''Basic '' @ b64encode (utf8_encode (''x-access-token:'' @ write_token))),
        (''Accept'', ''application/vnd.github+json''), (''X-GitHub-Api-Version'', ''2022-11-28'')]\<rparr>"

definition github_allowed_actions :: "string set" where
  "github_allowed_actions = {''review_comment'', ''issue_comment'', ''check_run'', ''status''}"

definition github_request :: "github_client \<Rightarrow> string \<Rightarrow> json \<Rightarrow> http_request" where
  "github_request c path body = \<lparr>req_method = POST, req_url = gh_api_url c @ path,
     req_headers = gh_headers c, req_params = [], req_auth = None, req_body = JsonBody body\<rparr>"

definition status_body :: "string \<Rightarrow> string \<Rightarrow> string \<Rightarrow> string option \<Rightarrow> json" where
  "status_body context state description target_url =
     JObj ([(''state'', JStr state), (''context'', JStr context),
       (''description'', JStr (take 140 description))] @
       (case target_url of None \<Rightarrow> [] | Some u \<Rightarrow> if u = [] then [] else [(''target_url'', JStr u)]))"

definition review_body :: "string \<Rightarrow> string \<Rightarrow> jobj list \<Rightarrow> json" where
  "review_body commit_sha body comments =
     JObj [(''commit_id'', JStr commit_sha), (''event'', JStr ''COMMENT''), (''body'', JStr body),
       (''comments'', JList (map JObj comments))]"

text \<open>The \<open>POST\<close> is outside the \<open>try\<close>: only a bad status becomes an \<open>UpstreamError\<close>.\<close>

definition github_post :: "github_client \<Rightarrow> string \<Rightarrow> json \<Rightarrow> string \<Rightarrow> json task" where
  "github_post c path body failure =
     bind_io (http (github_request c path body)) (\<lambda>response.
     seq_io (catch_io (raise_for_status response) is_http_error
       (\<lambda>_. raise_io (UpstreamError failure))) (response_json response))"

definition set_status ::
    "github_client \<Rightarrow> string \<Rightarrow> string \<Rightarrow> string \<Rightarrow> string \<Rightarrow> string \<Rightarrow> string option \<Rightarrow> json task" where
  "set_status c repository sha context state description target_url =
     (if state \<notin> {''pending'', ''success'', ''failure'', ''error''}
      then raise_io (ValueError (''unsupported GitHub status state: '' @ state))
      else github_post c (''/repos/'' @ repository @ ''/statuses/'' @ sha)
        (status_body context state description target_url)
        (''GitHub status publication failed: '' @ context))"

definition create_review ::
    "github_client \<Rightarrow> string \<Rightarrow> int \<Rightarrow> string \<Rightarrow> string \<Rightarrow> jobj list \<Rightarrow> json task" where
  "create_review c repository pull_number commit_sha body comments =
     (if pull_number < 1 then raise_io (ValueError ''pull_number must be positive'')
      else github_post c (''/repos/'' @ repository @ ''/pulls/'' @ str_int pull_number @ ''/reviews'')
        (review_body commit_sha body comments)
        ''GitHub batched review publication failed'')"

definition github_get :: "github_client \<Rightarrow> string \<Rightarrow> (string \<times> string) list \<Rightarrow> http_response task" where
  "github_get c path headers = http \<lparr>req_method = GET, req_url = gh_api_url c @ path,
     req_headers = headers, req_params = [], req_auth = None, req_body = NoBody\<rparr>"

definition pull_identity :: "json \<Rightarrow> (json \<times> json) outcome" where
  "pull_identity payload =
     bind_sum (bind_sum (jindex payload ''base'') (\<lambda>b. jindex b ''sha'')) (\<lambda>base.
     bind_sum (bind_sum (jindex payload ''head'') (\<lambda>h. jindex h ''sha'')) (\<lambda>head. Inr (base, head)))"

definition same_sha :: "json \<Rightarrow> string \<Rightarrow> bool" where
  "same_sha j sha = (case j of JStr s \<Rightarrow> py_lower s = py_lower sha | _ \<Rightarrow> False)"

definition verify_identity :: "github_client \<Rightarrow> string \<Rightarrow> string \<Rightarrow> string \<Rightarrow> unit task" where
  "verify_identity c path base_sha head_sha =
     bind_io (github_get c path (gh_headers c)) (\<lambda>response.
     bind_io
       (catch_io
         (seq_io (raise_for_status response)
           (bind_io (response_json response) (\<lambda>payload. lift_io (pull_identity payload))))
         is_shape_error
         (\<lambda>_. raise_io (UpstreamError ''GitHub pull request identity is unavailable'')))
       (\<lambda>(base, head).
         if \<not> same_sha base base_sha \<or> \<not> same_sha head head_sha
         then raise_io (UpstreamError ''GitHub pull request changed while preparing its review'')
         else return_io ()))"

definition pull_request_diff ::
    "github_client \<Rightarrow> string \<Rightarrow> int \<Rightarrow> string \<Rightarrow> string \<Rightarrow> int \<Rightarrow> string task" where
  "pull_request_diff c repository pull_number base_sha head_sha max_bytes =
     (if pull_number < 1 then raise_io (ValueError ''pull_number must be positive'')
      else if max_bytes < 1 then raise_io (ValueError ''max_bytes must be positive'')
      else let path = ''/repos/'' @ repository @ ''/pulls/'' @ str_int pull_number;
               over = UpstreamError ''GitHub pull request diff exceeds configured byte limit'' in
        seq_io (verify_identity c path base_sha head_sha) (
        bind_io
          (catch_io
            (bind_io (github_get c path (dset ''Accept'' ''application/vnd.github.diff'' (gh_headers c))) (\<lambda>response.
             seq_io (raise_for_status response) (
             seq_io (declared_length response max_bytes over) (read_stream max_bytes over response))))
            (\<lambda>e. is_http_error e \<or> is_value_error e)
            (\<lambda>_. raise_io (UpstreamError ''GitHub pull request diff is unavailable''))) (\<lambda>content.
        seq_io (verify_identity c path base_sha head_sha)
          (case utf8_decode content of
             None \<Rightarrow> raise_io (UpstreamError ''GitHub pull request diff is not UTF-8'')
           | Some text \<Rightarrow> return_io text))))"

text \<open>The text of an \<open>int\<close> in an f-string; \<open>True\<close> and \<open>False\<close> are integers too.\<close>

definition int_text :: "json \<Rightarrow> string" where
  "int_text j = (case j of JBool b \<Rightarrow> if b then ''True'' else ''False'' | JInt i \<Rightarrow> str_int i | _ \<Rightarrow> [])"

definition positive_target :: "jobj \<Rightarrow> string \<Rightarrow> string \<Rightarrow> string outcome" where
  "positive_target payload field action = (case as_int (jget payload field) of
      None \<Rightarrow> Inl (ValueError (action @ '' requires a positive '' @ field))
    | Some i \<Rightarrow> if i < 1 then Inl (ValueError (action @ '' requires a positive '' @ field))
                else Inr (int_text (jget payload field)))"

definition action_path :: "string \<Rightarrow> string \<Rightarrow> jobj \<Rightarrow> string outcome" where
  "action_path repository action payload =
     (if action = ''review_comment'' then
        bind_sum (positive_target payload ''pull_number'' action) (\<lambda>t.
          Inr (''/repos/'' @ repository @ ''/pulls/'' @ t @ ''/comments''))
      else if action = ''issue_comment'' then
        bind_sum (positive_target payload ''issue_number'' action) (\<lambda>t.
          Inr (''/repos/'' @ repository @ ''/issues/'' @ t @ ''/comments''))
      else if action = ''check_run'' then Inr (''/repos/'' @ repository @ ''/check-runs'')
      else (case as_str (jget payload ''sha'') of
          None \<Rightarrow> Inl (ValueError ''status requires a 40-character commit SHA'')
        | Some sha \<Rightarrow> if is_sha40 sha then Inr (''/repos/'' @ repository @ ''/statuses/'' @ sha)
                      else Inl (ValueError ''status requires a 40-character commit SHA'')))"

definition execute_action ::
    "github_client \<Rightarrow> string \<Rightarrow> string \<Rightarrow> jobj \<Rightarrow> string list \<Rightarrow> json task" where
  "execute_action c repository action payload allowed =
     (if action \<notin> github_allowed_actions \<or> action \<notin> set allowed
      then raise_io (ValueError (''GitHub action is not allowed: '' @ action))
      else bind_io (lift_io (action_path repository action payload)) (\<lambda>path.
        case as_obj (jget payload ''body'') of
          None \<Rightarrow> raise_io (ValueError (action @ '' requires an object body''))
        | Some body \<Rightarrow> github_post c path (JObj body) (''GitHub action failed: '' @ action)))"

end
