(* ===== verification/Client_Facts.thy ===== *)
theory Client_Facts
  imports Clients
begin

section \<open>What the clients promise\<close>

text \<open>
  Frame rules for every client operation (none touches the store), the shape of the names
  and of the quoted text that goes into URLs and scripts, and the bounds on what is read.
\<close>

subsection \<open>The clients leave the store alone\<close>

text \<open>The proof is the same for each operation: unfold it and follow its structure.\<close>

lemma leaves_jenkins_get [world_frame]: "leaves w_db (jenkins_get c p q)" "leaves w_env (jenkins_get c p q)"
  by (simp_all add: jenkins_get_def world_frame)

lemma leaves_header_text [world_frame]: "leaves f (header_text j)"
  unfolding header_text_def by (intro keeps_intros)

lemma leaves_crumb [world_frame]: "leaves w_db (crumb c)" "leaves w_env (crumb c)"
  unfolding crumb_def by (intro keeps_intros world_frame)+

lemma leaves_jenkins_send [world_frame]:
  "leaves w_db (jenkins_send c p h q b)" "leaves w_env (jenkins_send c p h q b)"
  unfolding jenkins_send_def by (intro keeps_intros world_frame)+

lemma leaves_jenkins_post [world_frame]: "leaves w_db (jenkins_post c p q)" "leaves w_env (jenkins_post c p q)"
  unfolding jenkins_post_def by (intro keeps_intros world_frame)+

lemma leaves_jenkins_item [world_frame]: "leaves w_db (jenkins_item c p)" "leaves w_env (jenkins_item c p)"
  unfolding jenkins_item_def by (rule world_frame)+

lemma leaves_item_class [world_frame]: "leaves w_db (item_class c p)" "leaves w_env (item_class c p)"
  unfolding item_class_def by (intro keeps_intros world_frame)+

lemma leaves_reconcile_pause [world_frame]:
  "leaves w_db (reconcile_pause c n)" "leaves w_env (reconcile_pause c n)"
  unfolding reconcile_pause_def by (intro keeps_intros world_frame)+

lemma leaves_create_item [world_frame]: "leaves w_db (create_item c p n x)" "leaves w_env (create_item c p n x)"
  unfolding create_item_def by (intro keeps_intros world_frame)+

lemma leaves_await_migration [world_frame]:
  "leaves w_db (await_migration c owner name n k)" "leaves w_env (await_migration c owner name n k)"
  by (induction k arbitrary: n)
    (simp_all only: await_migration.simps, (intro keeps_intros world_frame | assumption)+)

lemma leaves_create_folder [world_frame]:
  "leaves w_db (create_folder c owner name n k)" "leaves w_env (create_folder c owner name n k)"
  by (induction k arbitrary: n)
    (simp_all only: create_folder.simps, (intro keeps_intros world_frame | assumption)+)

lemma leaves_ensure_folder [world_frame]:
  "leaves w_db (ensure_repository_folder c owner name)" "leaves w_env (ensure_repository_folder c owner name)"
  unfolding ensure_repository_folder_def by (intro keeps_intros world_frame)+

lemma leaves_ensure_job [world_frame]:
  "leaves w_db (ensure_job c owner name d b p)" "leaves w_env (ensure_job c owner name d b p)"
  unfolding ensure_job_def by (intro keeps_intros world_frame)+

lemma leaves_delete_job [world_frame]: "leaves w_db (delete_job c owner name)" "leaves w_env (delete_job c owner name)"
  unfolding delete_job_def by (intro keeps_intros world_frame)+

lemma leaves_jenkins_scan [world_frame]: "leaves w_db (jenkins_scan c owner n d)" "leaves w_env (jenkins_scan c owner n d)"
  unfolding jenkins_scan_def by (rule world_frame)+

lemma leaves_jenkins_trigger [world_frame]:
  "leaves w_db (jenkins_trigger c owner name s p b i br)" "leaves w_env (jenkins_trigger c owner name s p b i br)"
  unfolding jenkins_trigger_def by (intro keeps_intros world_frame)+

lemma leaves_jenkins_cancel [world_frame]: "leaves w_db (jenkins_cancel c j n)" "leaves w_env (jenkins_cancel c j n)"
  unfolding jenkins_cancel_def by (intro keeps_intros world_frame)+

lemma leaves_jenkins_cancel_queue [world_frame]:
  "leaves w_db (jenkins_cancel_queue c n)" "leaves w_env (jenkins_cancel_queue c n)"
  unfolding jenkins_cancel_queue_def by (intro keeps_intros world_frame)+

lemma leaves_jenkins_read [world_frame]: "leaves w_db (jenkins_read c p q m)" "leaves w_env (jenkins_read c p q m)"
  unfolding jenkins_read_def by (intro keeps_intros world_frame)+

lemma leaves_jenkins_status [world_frame]:
  "leaves w_db (jenkins_queue_status c i)" "leaves w_env (jenkins_queue_status c i)"
  "leaves w_db (jenkins_build_status c j i)" "leaves w_env (jenkins_build_status c j i)"
  unfolding jenkins_queue_status_def jenkins_build_status_def by (rule world_frame)+

lemma leaves_declared_length [world_frame]: "leaves f (declared_length r l e)"
  unfolding declared_length_def by (intro keeps_intros)

lemma leaves_jenkins_pipeline_result [world_frame]:
  "leaves w_db (jenkins_pipeline_result c j n l)" "leaves w_env (jenkins_pipeline_result c j n l)"
  unfolding jenkins_pipeline_result_def by (intro keeps_intros world_frame)+

lemma leaves_progressive_log [world_frame]:
  "leaves w_db (jenkins_progressive_log c j n s)" "leaves w_env (jenkins_progressive_log c j n s)"
  unfolding jenkins_progressive_log_def by (intro keeps_intros world_frame)+

lemma leaves_broker_review_call [world_frame]:
  "leaves w_db (broker_review_call c r p b h d x)" "leaves w_env (broker_review_call c r p b h d x)"
  unfolding broker_review_call_def by (intro keeps_intros world_frame)+

lemma leaves_github_post [world_frame]: "leaves w_db (github_post c p b m)" "leaves w_env (github_post c p b m)"
  unfolding github_post_def by (intro keeps_intros world_frame)+

lemma leaves_set_status [world_frame]:
  "leaves w_db (set_status c r s x st d u)" "leaves w_env (set_status c r s x st d u)"
  unfolding set_status_def by (intro keeps_intros world_frame)+

lemma leaves_create_review [world_frame]:
  "leaves w_db (create_review c r p s b cs)" "leaves w_env (create_review c r p s b cs)"
  unfolding create_review_def by (intro keeps_intros world_frame)+

lemma leaves_github_get [world_frame]: "leaves w_db (github_get c p h)" "leaves w_env (github_get c p h)"
  by (simp_all add: github_get_def world_frame)

lemma leaves_verify_identity [world_frame]:
  "leaves w_db (verify_identity c p b h)" "leaves w_env (verify_identity c p b h)"
  unfolding verify_identity_def by (intro keeps_intros world_frame)+

lemma leaves_pull_request_diff [world_frame]:
  "leaves w_db (pull_request_diff c r p b h l)" "leaves w_env (pull_request_diff c r p b h l)"
  unfolding pull_request_diff_def by (intro keeps_intros world_frame)+

lemma leaves_execute_action [world_frame]:
  "leaves w_db (execute_action c r a p l)" "leaves w_env (execute_action c r a p l)"
  unfolding execute_action_def by (intro keeps_intros world_frame)+


subsection \<open>Names of Jenkins jobs\<close>

text \<open>A branch job is one path component of bounded length.\<close>

lemma slug_no_slash: "CHR ''/'' \<notin> set (py_replace (CHR ''/'') ''-'' s)"
  by (auto simp: py_replace_def)

lemma str_int_no_slash: "CHR ''/'' \<notin> set (str_int i)"
  using str_nat_digits [of "nat i"] str_nat_digits [of "nat (- i)"]
  by (auto simp: str_int_def list_all_iff is_digit_def)

lemma lower_hex_no_slash: "CHR ''/'' \<notin> set (take n (sha256_hex m))"
proof
  assume "CHR ''/'' \<in> set (take n (sha256_hex m))"
  then have "is_lower_hex (CHR ''/'')"
    using sha256_hex_lower [of m] by (auto simp only: list_all_iff dest: in_set_takeD)
  then show False by (simp add: is_lower_hex_def)
qed

lemma branch_job_name_component: "CHR ''/'' \<notin> set (branch_job_name b p)"
  using slug_no_slash [of b] str_int_no_slash lower_hex_no_slash
  by (auto simp: branch_job_name_def Let_def split: option.splits dest: in_set_takeD)

lemma branch_job_name_bound: "length (branch_job_name b None) \<le> 144"
  by (simp add: branch_job_name_def Let_def length_sha256_hex)

lemma managed_job_path_components:
  assumes "CHR ''/'' \<notin> set owner" and "CHR ''/'' \<notin> set name"
  shows "py_split (CHR ''/'') (managed_job_path owner name b p) =
    [''repositories'', job_name owner name, branch_job_name b p]"
proof -
  have 1: "managed_job_path owner name b p =
      ''repositories'' @ CHR ''/'' # (job_name owner name @ CHR ''/'' # branch_job_name b p)"
    by (simp add: managed_job_path_def)
  have "CHR ''/'' \<notin> set (job_name owner name)" using assms by (simp add: job_name_def)
  then show ?thesis
    unfolding 1 by (simp add: py_split_append branch_job_name_component del: append_Cons append_Nil)
qed

text \<open>The job of a pull request is never the job of a branch.\<close>

lemma pull_job_not_branch_job: "branch_job_name b (Some p) \<noteq> branch_job_name c None"
  by (simp add: branch_job_name_def Let_def)


subsection \<open>Quoting\<close>

text \<open>A Groovy single-quoted literal: characters up to an unescaped quote, a backslash escapes.\<close>

fun groovy_literal :: "string \<Rightarrow> (string \<times> string) option" where
  "groovy_literal [] = None"
| "groovy_literal [c] = (if c = CHR 0x27 then Some ([], []) else None)"
| "groovy_literal (c # d # s) =
     (if c = CHR 0x27 then Some ([], d # s)
      else if c = CHR 0x5C then map_option (\<lambda>(v, r). (d # v, r)) (groovy_literal s)
      else map_option (\<lambda>(v, r). (c # v, r)) (groovy_literal (d # s)))"

lemma groovy_quoted_Cons:
  "groovy_single_quoted (c # s) =
     (if c = CHR 0x5C then [CHR 0x5C, CHR 0x5C] else if c = CHR 0x27 then [CHR 0x5C, CHR 0x27] else [c])
     @ groovy_single_quoted s"
  by (simp add: groovy_single_quoted_def py_replace_def)

text \<open>Whatever the value holds, the literal ends where the code closes it and means the value.\<close>

lemma groovy_literal_quoted:
  "groovy_literal (groovy_single_quoted s @ CHR 0x27 # rest) = Some (s, rest)"
proof (induction s)
  case Nil
  then show ?case by (cases rest) (simp_all add: groovy_single_quoted_def py_replace_def)
next
  case (Cons c s)
  obtain d t where dt: "groovy_single_quoted s @ CHR 0x27 # rest = d # t"
    by (cases "groovy_single_quoted s @ CHR 0x27 # rest") auto
  with Cons show ?case by (auto simp: groovy_quoted_Cons)
qed

lemma html_escape_inert: "c \<in> set (html_escape s) \<Longrightarrow> c \<noteq> CHR ''<'' \<and> c \<noteq> CHR ''>''"
  by (auto simp: html_escape_def escape_char_def split: if_splits)

text \<open>A quoted path component holds no delimiter of a URL.\<close>

lemma quote_byte_safe: "d \<in> set (quote_byte c) \<Longrightarrow> unreserved d \<or> d = CHR ''%''"
proof -
  have digits: "list_all unreserved ''0123456789ABCDEF''"
    by (simp add: unreserved_def is_alnum_def is_alpha_def is_digit_def)
  have hex: "unreserved (upper_hex n)" if "n < 16" for n
    using digits that unfolding upper_hex_def list_all_length by simp
  have n: "(of_char c :: nat) div 16 < 16"
    using of_char_less [of c] by linarith
  show "d \<in> set (quote_byte c) \<Longrightarrow> unreserved d \<or> d = CHR ''%''"
    using hex [OF n] hex [of "of_char c mod 16"] by (auto simp: quote_byte_def split: if_splits)
qed

lemma quote_part_safe: "c \<in> set (quote_part s) \<Longrightarrow> unreserved c \<or> c = CHR ''%''"
  by (auto simp: quote_part_def dest: quote_byte_safe)


subsection \<open>Bounds on what is read\<close>

lemma read_stream_bound:
  "read_stream limit over response s = (Inr x, t) \<Longrightarrow> 0 \<le> limit \<Longrightarrow> int (length x) \<le> limit"
  by (auto simp: read_stream_def io_simps split: sum.splits if_splits dest: collect_chunks_Inr)

lemma utf8_decode_length: "utf8_decode b = Some s \<Longrightarrow> length s \<le> length b"
  by (induction b arbitrary: s rule: utf8_decode.induct)
    (fastforce simp: Let_def split: if_splits list.splits)+

end
