(* ===== verification/Service_Core.thy ===== *)
theory Service_Core
  imports Client_Facts
begin

section \<open>service.py: the service object, audit records and repositories\<close>

text \<open>
  The attributes of \<open>JenkinsService\<close>, the audit trail, the allowlist and the handlers of the
  repository operations. Model classes whose \<open>default_factory\<close> draws an identifier or a time
  draw them here in field order.
\<close>

record runner_client =
  rn_base_url :: string
  rn_max_output_bytes :: int

text \<open>
  The catalog after \<open>__init__\<close>: the allowlisted manifests by identifier. \<open>cat_schema_errors\<close>
  stands for \<open>jsonschema\<close>: the messages of a value's errors against the input (0) or output
  (1) schema of an extension, in the order of their paths.
\<close>

record extension_catalog =
  cat_manifests :: "(string \<times> extension_manifest) list"
  cat_schema_errors :: "string \<Rightarrow> nat \<Rightarrow> json \<Rightarrow> string list"

record service =
  sv_jenkins :: jenkins_client
  sv_github :: github_client
  sv_broker :: "broker_client option"
  sv_runner :: runner_client
  sv_catalog :: extension_catalog
  sv_allowlist :: "string list"
  sv_version :: string
  sv_max_artifact_bytes :: int
  sv_public_base_url :: "string option"
  sv_openai_model :: string
  sv_prompt_version :: string
  sv_redact :: "string \<Rightarrow> string"
  sv_operation_ids :: "string list"

text \<open>\<open>public_base_url.rstrip("/") if public_base_url else None\<close>.\<close>

definition stripped_url :: "string option \<Rightarrow> string option" where
  "stripped_url u = (case u of None \<Rightarrow> None
     | Some s \<Rightarrow> if s = [] then None else Some (rstrip_char (CHR ''/'') s))"

definition rule_allows :: "string \<Rightarrow> string \<Rightarrow> bool" where
  "rule_allows rule lowered =
     (lowered = py_lower rule
      \<or> endswith rule ''/*'' \<and> startswith lowered (py_lower (butlast rule)))"

definition repository_allowed :: "service \<Rightarrow> string \<Rightarrow> bool" where
  "repository_allowed sv name = list_ex (\<lambda>rule. rule_allows rule (py_lower name)) (sv_allowlist sv)"

definition audit :: "principal \<Rightarrow> string \<Rightarrow> string \<Rightarrow> audit_outcome \<Rightarrow> jobj \<Rightarrow> unit task" where
  "audit actor action target outcome detail =
     bind_io (get_io w_request_id) (\<lambda>rid.
     bind_io uuid4 (\<lambda>i.
     bind_io now_utc (\<lambda>created.
       db (pg_record_audit \<lparr>audit_id = i, audit_actor = token_id actor, audit_action = action,
         audit_target = target, audit_request_id = rid, audit_outcome = outcome,
         audit_detail = detail, audit_created_at = created\<rparr>))))"

definition record_background_failure ::
    "service \<Rightarrow> principal \<Rightarrow> string \<Rightarrow> string \<Rightarrow> error \<Rightarrow> jobj \<Rightarrow> unit task" where
  "record_background_failure sv actor action target e detail =
     audit actor action target AuditFailed
       (dset ''reason'' (JStr (take 2000 (sv_redact sv (error_message e))))
         (dset ''error_type'' (JStr (error_type_name e)) detail))"

definition uuid_of_text :: "string \<Rightarrow> uuid task" where
  "uuid_of_text s = lift_io (parse_uuid s)"

definition rebind_legacy_job :: "repository \<Rightarrow> unit task" where
  "rebind_legacy_job r = db (pg_rebind_jenkins_job (repo_id r)
     (''repositories/'' @ job_name (repo_owner r) (repo_name r))
     (legacy_job_path (repo_owner r) (repo_name r)))"

definition create_repository :: "repository_create \<Rightarrow> repository task" where
  "create_repository value =
     bind_io uuid4 (\<lambda>i. bind_io now_utc (\<lambda>created. bind_io now_utc (\<lambda>updated.
       db (pg_create_repository value i created updated))))"

definition register_repository :: "service \<Rightarrow> principal \<Rightarrow> repository_create \<Rightarrow> repository task" where
  "register_repository sv actor payload =
     (if \<not> repository_allowed sv (full_name payload) then
        seq_io (audit actor ''register_repository'' (full_name payload) AuditRejected
          [(''reason'', JStr ''outside configured allowlist'')])
        (raise_io (ValueError ''repository is outside the configured allowlist''))
      else
        bind_io (create_repository payload) (\<lambda>result.
        seq_io
          (catch_io
            (seq_io (ensure_job (sv_jenkins sv) (repo_owner result) (repo_name result)
               (repo_default_branch result) None None)
             (rebind_legacy_job result))
            (\<lambda>_. True)
            (\<lambda>e. seq_io (db (pg_delete_repository (repo_id result)))
              (seq_io (audit actor ''register_repository'' (full_name result) AuditFailed
                 [(''reason'', JStr ''Jenkins reconciliation failed'')])
              (raise_io e))))
          (seq_io (audit actor ''register_repository'' (full_name result) AuditSucceeded [])
            (return_io result))))"

definition update_repository ::
    "service \<Rightarrow> principal \<Rightarrow> repository_update \<Rightarrow> string \<Rightarrow> repository task" where
  "update_repository sv actor payload rid =
     bind_io (uuid_of_text rid) (\<lambda>i.
     bind_io (db (pg_get_repository i)) (\<lambda>current.
       let desired = apply_update payload current in
       seq_io (ensure_job (sv_jenkins sv) (repo_owner desired) (repo_name desired)
         (repo_default_branch desired) None None) (
       seq_io (rebind_legacy_job desired) (
       bind_io now_utc (\<lambda>now.
       bind_io (db (pg_update_repository (repo_id current) payload now)) (\<lambda>result.
       seq_io (audit actor ''update_repository'' (full_name result) AuditSucceeded [])
         (return_io result)))))))"

definition unregister_repository :: "service \<Rightarrow> principal \<Rightarrow> string \<Rightarrow> operation_accepted task" where
  "unregister_repository sv actor rid =
     bind_io (uuid_of_text rid) (\<lambda>i.
     bind_io (db (pg_get_repository i)) (\<lambda>r.
     seq_io (delete_job (sv_jenkins sv) (repo_owner r) (repo_name r)) (
     seq_io (db (pg_delete_repository (repo_id r))) (
     seq_io (audit actor ''unregister_repository'' (full_name r) AuditSucceeded [])
       (return_io \<lparr>accepted_id = str_uuid (repo_id r), accepted_detail = ''repository unregistered''\<rparr>)))))"

definition repositories :: "repository list task" where
  "repositories = db (get_io pg_list_repositories)"

definition scan_repository :: "service \<Rightarrow> principal \<Rightarrow> uuid \<Rightarrow> operation_accepted task" where
  "scan_repository sv actor rid =
     bind_io (db (pg_get_repository rid)) (\<lambda>r.
     seq_io (jenkins_scan (sv_jenkins sv) (repo_owner r) (repo_name r) (repo_default_branch r)) (
     seq_io (rebind_legacy_job r) (
     seq_io (audit actor ''scan_repository'' (full_name r) AuditSucceeded [])
       (return_io \<lparr>accepted_id = str_uuid (repo_id r),
          accepted_detail = ''repository hierarchy reconciled''\<rparr>))))"

definition capabilities :: "service \<Rightarrow> service_capabilities task" where
  "capabilities sv = return_io \<lparr>cap_service_version = sv_version sv,
     cap_contract_versions = [''ci.jenkinsservice.dev/v1''], cap_operations = sv_operation_ids sv\<rparr>"


subsection \<open>Shared rules\<close>

lemma leaves_audit_table:
  assumes "\<And>r. leaves g (pg_record_audit r)"
  shows "leaves (\<lambda>w. g (w_db w)) (audit p a t o1 d)"
  unfolding audit_def
  by (intro leaves_bind leaves_get leaves_table [OF leaves_uuid4(1)] leaves_table [OF leaves_now(1)]
      leaves_db_table assms)

lemma leaves_audit [world_frame]:
  "leaves (\<lambda>w. pg_repositories (w_db w)) (audit p a t o1 d)"
  "leaves (\<lambda>w. pg_queue_items (w_db w)) (audit p a t o1 d)"
  "leaves (\<lambda>w. pg_builds (w_db w)) (audit p a t o1 d)"
  "leaves (\<lambda>w. pg_webhooks (w_db w)) (audit p a t o1 d)"
  "leaves (\<lambda>w. pg_extension_runs (w_db w)) (audit p a t o1 d)"
  by (rule leaves_audit_table, simp add: leaves_def pg_record_audit_def)+

lemma leaves_audit_world [world_frame]:
  "leaves w_events (audit p a t o1 d)" "leaves w_env (audit p a t o1 d)"
  unfolding audit_def by (intro leaves_bind leaves_get leaves_uuid4 leaves_now leaves_db)+

lemma keeps_now: "keeps world_ok now_utc (\<lambda>_. True)"
  by (intro keeps_world_leaves world_frame)

lemma keeps_uuid4: "keeps world_ok uuid4 (\<lambda>_. True)"
  by (intro keeps_world_leaves world_frame)

lemma keeps_get_any: "keeps I (get_io f) (\<lambda>_. True)"
  by (rule keeps_get) simp

lemma keeps_audit: "keeps world_ok (audit p a t o1 d) (\<lambda>_. True)"
  unfolding audit_def
  by (intro keeps_bind [OF keeps_get_any] keeps_bind [OF keeps_uuid4] keeps_bind [OF keeps_now]
      keeps_db keeps_pg_record_audit)

lemma keeps_rebind_legacy_job: "keeps world_ok (rebind_legacy_job r) (\<lambda>_. True)"
  unfolding rebind_legacy_job_def by (intro keeps_db keeps_pg_rebind)

lemma keeps_client: "leaves w_db m \<Longrightarrow> leaves w_env m \<Longrightarrow> keeps world_ok m (\<lambda>_. True)"
  by (rule keeps_world_leaves)

text \<open>Every repository operation keeps the world's invariant.\<close>

lemma keeps_create_repository:
  "valid_repository_create v \<Longrightarrow> keeps world_ok (create_repository v) valid_repository_create"
  unfolding create_repository_def
  by (intro keeps_bind [OF keeps_uuid4] keeps_bind [OF keeps_now] keeps_db keeps_pg_create_repository)

lemma keeps_register_repository:
  assumes "valid_repository_create v"
  shows "keeps world_ok (register_repository sv p v) (\<lambda>_. True)"
proof -
  have rollback: "keeps world_ok (seq_io (db (pg_delete_repository i)) (seq_io (audit p a t o1 d) (raise_io e)))
      (\<lambda>_. True)" for i a t o1 d e
    by (intro keeps_seq [OF keeps_db [OF keeps_pg_delete_repository]] keeps_seq [OF keeps_audit] keeps_raise)
  show ?thesis
    unfolding register_repository_def
    by (intro keeps_if keeps_seq [OF keeps_audit] keeps_raise
        keeps_bind [OF keeps_create_repository [OF assms]] keeps_return TrueI
        keeps_seq [where Q = "\<lambda>_. True"] keeps_catch rollback keeps_client world_frame
        keeps_rebind_legacy_job)
qed

lemma keeps_update_repository:
  assumes "valid_repository_update u"
  shows "keeps world_ok (update_repository sv p u rid) (\<lambda>_. True)"
  unfolding update_repository_def uuid_of_text_def
  by (intro keeps_bind [OF keeps_lift [of _ "\<lambda>_. True"]] keeps_bind [OF keeps_db [OF keeps_pg_get_repository]]
      keeps_let keeps_seq [OF keeps_client [OF leaves_ensure_job]] keeps_seq [OF keeps_rebind_legacy_job]
      keeps_bind [OF keeps_now] keeps_bind [OF keeps_db [OF keeps_pg_update_repository [OF assms]]]
      keeps_seq [OF keeps_audit] keeps_return TrueI)

lemma keeps_unregister_repository: "keeps world_ok (unregister_repository sv p rid) (\<lambda>_. True)"
  unfolding unregister_repository_def uuid_of_text_def
  by (intro keeps_bind [OF keeps_lift [of _ "\<lambda>_. True"]] keeps_bind [OF keeps_db [OF keeps_pg_get_repository]]
      keeps_seq [OF keeps_client [OF leaves_delete_job]] keeps_seq [OF keeps_db [OF keeps_pg_delete_repository]]
      keeps_seq [OF keeps_audit] keeps_return TrueI)

lemma keeps_scan_repository: "keeps world_ok (scan_repository sv p rid) (\<lambda>_. True)"
  unfolding scan_repository_def
  by (intro keeps_bind [OF keeps_db [OF keeps_pg_get_repository]] keeps_seq [OF keeps_client [OF leaves_jenkins_scan]]
      keeps_seq [OF keeps_rebind_legacy_job] keeps_seq [OF keeps_audit] keeps_return TrueI)

end
