(* ===== verification/Service_Review.thy ===== *)
theory Service_Review
  imports Service_Core
begin

section \<open>service.py: commit statuses and the AI review of a completed build\<close>

text \<open>
  \<open>_publish_ci_status\<close> with its bounded attempts, \<open>_attach_review_log\<close>, and
  \<open>process_ai_review\<close> split where the code branches: an earlier run under the same key, the
  claim of a new run, the skip, the failure record and the review itself.
\<close>

definition ai_review_artifact_path :: string where
  "ai_review_artifact_path = ''artifacts/ai-review.json''"

definition build_url :: "service \<Rightarrow> uuid \<Rightarrow> string \<Rightarrow> string option" where
  "build_url sv i suffix = map_option
     (\<lambda>base. base @ ''/api/v1/builds/'' @ str_uuid i @ suffix) (stripped_url (sv_public_base_url sv))"

text \<open>
  The attempts at one status: \<open>None\<close> once it is published, the last reason otherwise. Only
  \<open>UpstreamError\<close> is caught.
\<close>

fun publish_attempts :: "json task \<Rightarrow> nat \<Rightarrow> nat \<Rightarrow> string \<Rightarrow> string option task" where
  "publish_attempts m attempt 0 reason = return_io (Some reason)"
| "publish_attempts m attempt (Suc remaining) reason =
     bind_io (catch_io (bind_io m (\<lambda>_. return_io None)) is_upstream_error
         (\<lambda>e. return_io (Some (error_message e)))) (\<lambda>r. case r of
       None \<Rightarrow> return_io None
     | Some why \<Rightarrow>
         seq_io (if attempt < 2 then sleep (1 / 4 * 2 ^ attempt) else return_io ())
           (publish_attempts m (attempt + 1) remaining why))"

definition publish_ci_status ::
    "service \<Rightarrow> principal \<Rightarrow> string \<Rightarrow> string \<Rightarrow> string \<Rightarrow> string \<Rightarrow> string \<Rightarrow> uuid \<Rightarrow> bool task" where
  "publish_ci_status sv actor repository commit_sha context state description bid =
     bind_io (publish_attempts
        (set_status (sv_github sv) repository commit_sha context state description (build_url sv bid []))
        0 3 ''None'') (\<lambda>r. case r of
       None \<Rightarrow> return_io True
     | Some reason \<Rightarrow>
         seq_io (audit actor ''github.status'' repository AuditFailed
           [(''context'', JStr context), (''state'', JStr state), (''reason'', JStr reason)])
         (return_io False))"


subsection \<open>The review log as JSON\<close>

fun severity_name :: "severity \<Rightarrow> string" where
  "severity_name Critical = ''critical''"
| "severity_name High = ''high''"
| "severity_name Medium = ''medium''"
| "severity_name Low = ''low''"

fun severity_upper :: "severity \<Rightarrow> string" where
  "severity_upper Critical = ''CRITICAL''"
| "severity_upper High = ''HIGH''"
| "severity_upper Medium = ''MEDIUM''"
| "severity_upper Low = ''LOW''"

definition opt_json :: "('a \<Rightarrow> json) \<Rightarrow> 'a option \<Rightarrow> json" where
  "opt_json f x = (case x of None \<Rightarrow> JNull | Some v \<Rightarrow> f v)"

definition finding_json :: "review_finding \<Rightarrow> jobj" where
  "finding_json f = [(''severity'', JStr (severity_name (find_severity f))), (''title'', JStr (find_title f)),
     (''body'', JStr (find_body f)), (''path'', JStr (find_path f)), (''line'', JInt (find_line f))]"

fun action_kind_name :: "review_action_kind \<Rightarrow> string" where
  "action_kind_name GithubPullRequestReview = ''github_pull_request_review''"
| "action_kind_name GithubCommitStatus = ''github_commit_status''"

fun action_status_name :: "review_action_status \<Rightarrow> string" where
  "action_status_name Performed = ''performed''"
| "action_status_name NotPerformed = ''not_performed''"
| "action_status_name ActionFailed = ''failed''"

definition action_json :: "ai_review_action \<Rightarrow> json" where
  "action_json a = JObj [(''action'', JStr (action_kind_name (act_action a))),
     (''status'', JStr (action_status_name (act_status a))), (''detail'', JStr (act_detail a)),
     (''response_id'', opt_json JStr (act_response_id a))]"

definition log_json :: "env \<Rightarrow> ai_review_log \<Rightarrow> json" where
  "log_json e l = JObj [(''schema_version'', JStr ''ci.jenkinsservice.dev/ai-review-log/v1''),
     (''build_id'', JStr (str_uuid (log_build_id l))),
     (''review_run_id'', JStr (str_uuid (log_review_run_id l))),
     (''repository'', JStr (log_repository l)), (''pull_request'', opt_json JInt (log_pull_request l)),
     (''base_sha'', opt_json JStr (log_base_sha l)), (''head_sha'', JStr (log_head_sha l)),
     (''model'', JStr (log_model l)), (''prompt_version'', JStr (log_prompt_version l)),
     (''outcome'', JStr (outcome_name (log_outcome l))), (''summary'', JStr (log_summary l)),
     (''findings'', JList (map JObj (log_findings l))),
     (''actions'', JList (map action_json (log_actions l))),
     (''failure_reason'', opt_json JStr (log_failure_reason l)),
     (''started_at'', JStr (env_iso e (log_started_at l))),
     (''completed_at'', JStr (env_iso e (log_completed_at l)))]"

definition review_log_bytes :: "env \<Rightarrow> ai_review_log \<Rightarrow> string" where
  "review_log_bytes e l = utf8_encode (env_text_of_json e (log_json e l))"


subsection \<open>Attaching a log to its build\<close>

definition review_artifact :: "string \<Rightarrow> string option \<Rightarrow> artifact" where
  "review_artifact content url = \<lparr>art_name = ''ai-review.json'', art_path = ai_review_artifact_path,
     art_sha256 = sha256_hex content, art_size = int (length content), art_download_url = url\<rparr>"

definition review_exit_code :: "review_outcome \<Rightarrow> int option" where
  "review_exit_code r = (case r of OutcomePassed \<Rightarrow> Some 0 | OutcomeFailed \<Rightarrow> Some 1 | OutcomeSkipped \<Rightarrow> None)"

definition review_duration :: "ai_review_log \<Rightarrow> rat" where
  "review_duration l = max 0 (of_int (log_completed_at l - log_started_at l) / 1000000)"

definition review_check :: "ai_review_log \<Rightarrow> bool \<Rightarrow> check_result" where
  "review_check l required = \<lparr>check_id = ''ai-review'', check_name = ''AI code review'',
     check_status = outcome_check (log_outcome l), check_required = required,
     check_exit_code = review_exit_code (log_outcome l), check_duration_seconds = review_duration l,
     check_reports = [ai_review_artifact_path]\<rparr>"

text \<open>The result of the build with the log's artifact, run and check in place of older ones.\<close>

definition result_with_review ::
    "extension_run \<Rightarrow> ai_review_log \<Rightarrow> bool \<Rightarrow> artifact \<Rightarrow> pipeline_result \<Rightarrow> pipeline_result" where
  "result_with_review run l required a r = r\<lparr>
     res_artifacts := filter (\<lambda>x. art_path x \<noteq> ai_review_artifact_path) (res_artifacts r) @ [a],
     res_extension_runs := filter (\<lambda>i. i \<noteq> run_id run) (res_extension_runs r) @ [run_id run],
     res_checks := filter (\<lambda>c. check_id c \<noteq> ''ai-review'') (res_checks r) @ [review_check l required],
     res_status := (if required \<and> log_outcome l = OutcomeFailed then Failed else res_status r)\<rparr>"

definition http_url :: "string option \<Rightarrow> string option task" where
  "http_url u = (case u of None \<Rightarrow> return_io None
     | Some s \<Rightarrow> bind_io (get_io (\<lambda>w. env_http_url (w_env w) s)) (\<lambda>r. case r of
          None \<Rightarrow> raise_io (ValidationError ''HttpUrl'') | Some x \<Rightarrow> return_io (Some x)))"

definition attach_review_log :: "service \<Rightarrow> extension_run \<Rightarrow> ai_review_log \<Rightarrow> bool \<Rightarrow> unit task" where
  "attach_review_log sv run l required =
     (let out = (case run_output run of None \<Rightarrow> empty_extension_output | Some x \<Rightarrow> x);
          run' = (if out_review_log out = None
                  then run\<lparr>run_output := Some (out\<lparr>out_review_log := Some l\<rparr>)\<rparr> else run) in
      bind_io (db (pg_save_extension_run run')) (\<lambda>_.
      bind_io (db (pg_get_build (log_build_id l))) (\<lambda>build.
      bind_io (get_io (\<lambda>w. review_log_bytes (w_env w) l)) (\<lambda>content.
      bind_io (http_url (build_url sv (build_id build) ''/artifacts/ai-review.json'')) (\<lambda>url.
      bind_io now_utc (\<lambda>now.
      bind_io (db (pg_save_build (build\<lparr>
         build_ai_review_log := Some l,
         build_result := result_with_review run l required (review_artifact content url) (build_result build),
         build_updated_at := now\<rparr>))) (\<lambda>_. return_io ())))))))"


subsection \<open>The key of a review and its run\<close>

definition sha_or_empty :: "string option \<Rightarrow> string" where
  "sha_or_empty x = py_lower (text_or_empty x)"

definition review_identity :: "service \<Rightarrow> pipeline_result \<Rightarrow> string" where
  "review_identity sv r = py_join ''|''
     [py_lower (res_repository r),
      (case res_pull_request r of None \<Rightarrow> ''not-a-pull-request''
         | Some p \<Rightarrow> if p = 0 then ''not-a-pull-request'' else str_int p),
      sha_or_empty (res_base_sha r), py_lower (res_commit_sha r),
      sv_openai_model sv, sv_prompt_version sv]"

definition review_key :: "service \<Rightarrow> pipeline_result \<Rightarrow> string" where
  "review_key sv r = ''ai-review:'' @ sha256_hex (utf8_encode (review_identity sv r))"

definition review_target :: "pipeline_result \<Rightarrow> string" where
  "review_target r = (case res_pull_request r of
      Some p \<Rightarrow> res_repository r @ ''#'' @ str_int p
    | None \<Rightarrow> res_repository r @ ''@'' @ res_commit_sha r)"

definition run_review_log :: "extension_run \<Rightarrow> ai_review_log option" where
  "run_review_log run = (case run_output run of None \<Rightarrow> None | Some x \<Rightarrow> out_review_log x)"

definition run_blocking :: "extension_run \<Rightarrow> bool" where
  "run_blocking run = (case run_output run of None \<Rightarrow> False
     | Some x \<Rightarrow> (case out_requested_github_actions x of [] \<Rightarrow> False
         | a # _ \<Rightarrow> py_truthy (jget a ''blocking'')))"

definition ai_status ::
    "service \<Rightarrow> principal \<Rightarrow> build_completion \<Rightarrow> string \<Rightarrow> string \<Rightarrow> bool task" where
  "ai_status sv actor c state description =
     publish_ci_status sv actor (res_repository (cmp_result c)) (res_commit_sha (cmp_result c))
       ''jenkinsservice/ai-review'' state description (cmp_build_id c)"

definition review_applies :: "build_completion \<Rightarrow> bool" where
  "review_applies c = (rp_enabled (cmp_review c) \<and> res_pull_request (cmp_result c) \<noteq> None)"

definition previous_state :: "extension_run \<Rightarrow> string" where
  "previous_state run = (if run_status run = RunRunning then ''pending''
     else if run_status run = RunFailed \<or> run_blocking run then ''failure'' else ''success'')"

text \<open>An earlier run holds the key: \<open>None\<close> ends the review, \<open>Some run\<close> goes on with that run.\<close>

definition resume_previous ::
    "service \<Rightarrow> principal \<Rightarrow> build_completion \<Rightarrow> extension_run \<Rightarrow> extension_run option task" where
  "resume_previous sv actor c previous =
     seq_io (case run_review_log previous of
         None \<Rightarrow> return_io ()
       | Some l \<Rightarrow> attach_review_log sv previous (l\<lparr>log_build_id := cmp_build_id c\<rparr>) (review_applies c))
     (if review_applies c
      then bind_io (ai_status sv actor c (previous_state previous) ''Deduplicated critical-only AI review'')
             (\<lambda>_. return_io None)
      else return_io (if run_status previous \<noteq> RunRunning then None else Some previous))"

text \<open>No run holds the key: claim it. Losing the claim to a finished run ends the review.\<close>

definition claim_run ::
    "service \<Rightarrow> build_completion \<Rightarrow> int \<Rightarrow> (extension_run \<times> int) option task" where
  "claim_run sv c started =
     bind_io uuid4 (\<lambda>i. bind_io now_utc (\<lambda>created.
       let run = \<lparr>run_id = i, run_extension_id = ''openai-review'', run_image_digest = sv_openai_model sv,
         run_action = sv_prompt_version sv, run_target = review_target (cmp_result c),
         run_idempotency_key = review_key sv (cmp_result c), run_status = RunRunning,
         run_output = None, run_created_at = created, run_completed_at = None\<rparr> in
       bind_io (db (pg_save_extension_run run)) (\<lambda>stored.
         return_io (if run_id stored \<noteq> i then
             (if run_status stored \<noteq> RunRunning \<or> run_review_log stored \<noteq> None then None
              else Some (stored, run_created_at stored))
           else Some (run, started)))))"


subsection \<open>The three outcomes\<close>

definition make_review_log ::
    "service \<Rightarrow> build_completion \<Rightarrow> extension_run \<Rightarrow> review_outcome \<Rightarrow> string \<Rightarrow> jobj list
     \<Rightarrow> ai_review_action list \<Rightarrow> string option \<Rightarrow> int \<Rightarrow> int \<Rightarrow> ai_review_log outcome" where
  "make_review_log sv c run outcome summary findings actions reason started completed =
     validated valid_ai_review_log ''AIReviewLog''
       \<lparr>log_build_id = cmp_build_id c, log_review_run_id = run_id run,
        log_repository = res_repository (cmp_result c), log_pull_request = res_pull_request (cmp_result c),
        log_base_sha = res_base_sha (cmp_result c), log_head_sha = res_commit_sha (cmp_result c),
        log_model = sv_openai_model sv, log_prompt_version = sv_prompt_version sv,
        log_outcome = outcome, log_summary = summary, log_findings = findings, log_actions = actions,
        log_failure_reason = reason, log_started_at = started, log_completed_at = completed\<rparr>"

definition review_action ::
    "review_action_kind \<Rightarrow> review_action_status \<Rightarrow> string \<Rightarrow> string option \<Rightarrow> ai_review_action" where
  "review_action k s d i = \<lparr>act_action = k, act_status = s, act_detail = d, act_response_id = i\<rparr>"

definition finish_run :: "extension_run \<Rightarrow> run_status \<Rightarrow> extension_output \<Rightarrow> int \<Rightarrow> extension_run" where
  "finish_run run status out completed =
     run\<lparr>run_output := Some out, run_status := status, run_completed_at := Some completed\<rparr>"

definition skip_review ::
    "service \<Rightarrow> principal \<Rightarrow> build_completion \<Rightarrow> extension_run \<Rightarrow> int \<Rightarrow> unit task" where
  "skip_review sv actor c run started =
     bind_io now_utc (\<lambda>completed.
     let reason = (if \<not> rp_enabled (cmp_review c)
           then ''AI review was disabled by the trusted pipeline policy.''
           else ''AI review applies only to pull-request builds.'');
         run' = finish_run run RunSkipped empty_extension_output completed in
     bind_io (lift_io (make_review_log sv c run' OutcomeSkipped
       (reason @ '' No GitHub review or AI-review status was published.'') []
       [review_action GithubPullRequestReview NotPerformed reason None,
        review_action GithubCommitStatus NotPerformed
          ''A skipped review is not represented as a successful commit status.'' None]
       None started completed)) (\<lambda>l.
     seq_io (attach_review_log sv run' l False)
       (audit actor ''ai_review'' (run_target run) AuditSucceeded
         [(''outcome'', JStr ''skipped''), (''reason'', JStr reason),
          (''idempotency_key'', JStr (review_key sv (cmp_result c)))])))"

definition record_failure ::
    "service \<Rightarrow> principal \<Rightarrow> build_completion \<Rightarrow> extension_run \<Rightarrow> int \<Rightarrow> string \<Rightarrow> unit task" where
  "record_failure sv actor c run started reason =
     (let safe_reason = take 2000 (sv_redact sv reason) in
      bind_io (ai_status sv actor c ''failure'' ''AI review did not complete'') (\<lambda>published.
      bind_io now_utc (\<lambda>completed.
      let run' = finish_run run RunFailed empty_extension_output completed in
      bind_io (lift_io (make_review_log sv c run' OutcomeFailed
        ''AI review did not complete, so no GitHub pull-request review was published.'' []
        [review_action GithubPullRequestReview NotPerformed
           ''No validated AI review result was available to publish.'' None,
         (if published
          then review_action GithubCommitStatus Performed ''Published the failed AI-review status.'' None
          else review_action GithubCommitStatus ActionFailed
            ''Failed to publish the failed AI-review status.'' None)]
        (Some safe_reason) started completed)) (\<lambda>l.
      seq_io (attach_review_log sv run' l True)
        (audit actor ''ai_review'' (run_target run) AuditFailed
          [(''reason'', JStr safe_reason), (''idempotency_key'', JStr (review_key sv (cmp_result c)))])))))"

definition is_blocking :: "review_policy \<Rightarrow> review_result \<Rightarrow> bool" where
  "is_blocking policy r =
     list_ex (\<lambda>f. severity_name (find_severity f) \<in> set (rp_critical_severities policy)) (rev_findings r)"

definition comment_json :: "review_finding \<Rightarrow> jobj" where
  "comment_json f = [(''path'', JStr (find_path f)), (''line'', JInt (find_line f)), (''side'', JStr ''RIGHT''),
     (''body'', JStr (''**'' @ severity_upper (find_severity f) @ '': '' @ find_title f @ ''**'' @
        [CHR 0x0A, CHR 0x0A] @ find_body f))]"

text \<open>The checks before anything is published: the diff, the broker's identity, the locations.\<close>

definition validated_review ::
    "service \<Rightarrow> broker_client \<Rightarrow> build_completion \<Rightarrow> int \<Rightarrow> string \<Rightarrow> string \<Rightarrow> broker_review task" where
  "validated_review sv broker c pull_request base_sha diff =
     (if int (length (utf8_encode diff)) > rp_max_diff_bytes (cmp_review c)
      then raise_io (DiffValidationError ''trusted review diff exceeds configured byte limit'')
      else bind_io (lift_io (parse_unified_diff diff)) (\<lambda>parsed.
        bind_io (broker_review_call broker (res_repository (cmp_result c)) pull_request base_sha
          (res_commit_sha (cmp_result c)) diff []) (\<lambda>review.
        if br_model review \<noteq> sv_openai_model sv \<or> br_prompt_version review \<noteq> sv_prompt_version sv
        then raise_io (ValueError ''review broker identity does not match configured model/prompt'')
        else seq_io (lift_io (validate_result parsed (br_review review))) (return_io review))))"

definition review_outputs :: "review_result \<Rightarrow> bool \<Rightarrow> json \<Rightarrow> extension_output" where
  "review_outputs r blocking rid = \<lparr>out_findings = map finding_json (rev_findings r),
     out_requested_github_actions = [[(''blocking'', JBool blocking), (''review_id'', rid),
       (''summary'', JStr (rev_summary r))]],
     out_review_log = None\<rparr>"

definition action_summary :: "review_result \<Rightarrow> bool \<Rightarrow> bool \<Rightarrow> string" where
  "action_summary r blocking published =
     ''Published one GitHub review with '' @ str_nat (length (rev_findings r)) @ '' inline comment(s). '' @
     (if blocking then ''The final AI-review status requires changes.''
      else ''The final AI-review status passed.'') @
     (if published then [] else '' The final commit status could not be published.'')"

definition review_actions :: "env \<Rightarrow> review_result \<Rightarrow> bool \<Rightarrow> bool \<Rightarrow> json \<Rightarrow> ai_review_action list" where
  "review_actions e r blocking published rid =
     [review_action GithubPullRequestReview Performed
        (''Published the review summary and '' @ str_nat (length (rev_findings r)) @
         '' validated inline comment(s).'')
        (if rid = JNull then None else Some (py_str e rid)),
      review_action GithubCommitStatus (if published then Performed else ActionFailed)
        (if blocking \<and> published then ''Published a blocking failure status.''
         else if published then ''Published a successful status.''
         else ''Failed to publish the final AI-review status.'') None]"

definition publish_review ::
    "service \<Rightarrow> principal \<Rightarrow> build_completion \<Rightarrow> extension_run \<Rightarrow> int \<Rightarrow> int \<Rightarrow> review_result \<Rightarrow> unit task" where
  "publish_review sv actor c run started pull_request r =
     (let blocking = is_blocking (cmp_review c) r in
      bind_io (create_review (sv_github sv) (res_repository (cmp_result c)) pull_request
        (res_commit_sha (cmp_result c)) (rev_summary r) (map comment_json (rev_findings r))) (\<lambda>response.
      bind_io (lift_io (jmethod_get response ''id'')) (\<lambda>rid.
      bind_io (ai_status sv actor c (if blocking then ''failure'' else ''success'')
        (if blocking then ''Critical AI review finding requires changes''
         else ''AI review found no critical issues'')) (\<lambda>published.
      bind_io now_utc (\<lambda>completed.
      bind_io (get_io w_env) (\<lambda>e.
      let run' = finish_run run (if published then RunSucceeded else RunFailed)
            (review_outputs r blocking rid) completed in
      bind_io (lift_io (make_review_log sv c run'
        (if blocking \<or> \<not> published then OutcomeFailed else OutcomePassed)
        (take 4000 (rev_summary r @ [CHR 0x0A, CHR 0x0A] @ ''Actions: '' @ action_summary r blocking published))
        (map finding_json (rev_findings r)) (review_actions e r blocking published rid)
        (if published then None else Some ''GitHub AI-review status publication failed'')
        started completed)) (\<lambda>l.
      seq_io (attach_review_log sv run' l True)
        (audit actor ''ai_review'' (run_target run) (if published then AuditSucceeded else AuditFailed)
          [(''outcome'', JStr (outcome_name (log_outcome l))),
           (''findings'', JInt (int (length (rev_findings r)))), (''blocking'', JBool blocking),
           (''review_id'', rid), (''idempotency_key'', JStr (review_key sv (cmp_result c)))]))))))))"

text \<open>\<open>prerequisite_error or "..."\<close>: an empty reason counts as none.\<close>

definition reason_or :: "string option \<Rightarrow> string \<Rightarrow> string" where
  "reason_or x d = (case x of None \<Rightarrow> d | Some s \<Rightarrow> if s = [] then d else s)"

definition execute_review ::
    "service \<Rightarrow> principal \<Rightarrow> build_completion \<Rightarrow> string option \<Rightarrow> extension_run \<Rightarrow> int \<Rightarrow> int \<Rightarrow> unit task" where
  "execute_review sv actor c prerequisite run started pull_request =
     bind_io (ai_status sv actor c ''pending'' ''Critical-only AI review is running'') (\<lambda>_.
     case (res_base_sha (cmp_result c), cmp_diff c, sv_broker sv, prerequisite) of
       (Some base_sha, Some diff, Some broker, None) \<Rightarrow>
         catch_io
           (bind_io (validated_review sv broker c pull_request base_sha diff) (\<lambda>review.
             publish_review sv actor c run started pull_request (br_review review)))
           (\<lambda>e. is_upstream_error e \<or> is_value_error e)
           (\<lambda>e. record_failure sv actor c run started (error_message e))
     | _ \<Rightarrow> record_failure sv actor c run started
              (reason_or prerequisite ''AI review prerequisites are unavailable''))"

definition review_run ::
    "service \<Rightarrow> principal \<Rightarrow> build_completion \<Rightarrow> string option \<Rightarrow> extension_run \<Rightarrow> int \<Rightarrow> unit task" where
  "review_run sv actor c prerequisite run started =
     (case (rp_enabled (cmp_review c), res_pull_request (cmp_result c)) of
        (True, Some p) \<Rightarrow> execute_review sv actor c prerequisite run started p
      | _ \<Rightarrow> skip_review sv actor c run started)"

definition process_ai_review ::
    "service \<Rightarrow> principal \<Rightarrow> build_completion \<Rightarrow> string option \<Rightarrow> unit task" where
  "process_ai_review sv actor c prerequisite =
     bind_io (db (pg_get_extension_run_by_key (review_key sv (cmp_result c)))) (\<lambda>previous.
     case previous of
       Some run \<Rightarrow> bind_io (resume_previous sv actor c run) (\<lambda>next. case next of
           None \<Rightarrow> return_io ()
         | Some run' \<Rightarrow> review_run sv actor c prerequisite run' (run_created_at run))
     | None \<Rightarrow> bind_io now_utc (\<lambda>started.
         bind_io (claim_run sv c started) (\<lambda>next. case next of
           None \<Rightarrow> return_io ()
         | Some (run, started') \<Rightarrow> review_run sv actor c prerequisite run started')))"

text \<open>
  \<open>process_ai_review_with_retry\<close>: any exception is retried, the last one is recorded. \<open>True\<close>
  when an attempt succeeded.
\<close>

fun review_attempts :: "unit task \<Rightarrow> nat \<Rightarrow> nat \<Rightarrow> nat \<Rightarrow> error option \<Rightarrow> error option task" where
  "review_attempts m bound attempt 0 reason = return_io reason"
| "review_attempts m bound attempt (Suc remaining) reason =
     bind_io (catch_io (bind_io m (\<lambda>_. return_io None)) (\<lambda>_. True) (\<lambda>e. return_io (Some e))) (\<lambda>r. case r of
       None \<Rightarrow> return_io None
     | Some e \<Rightarrow>
         seq_io (if attempt + 1 < bound then sleep (1 / 4 * 2 ^ attempt) else return_io ())
           (review_attempts m bound (attempt + 1) remaining (Some e)))"

definition process_ai_review_with_retry ::
    "service \<Rightarrow> principal \<Rightarrow> build_completion \<Rightarrow> string option \<Rightarrow> nat \<Rightarrow> bool task" where
  "process_ai_review_with_retry sv actor c prerequisite attempts =
     bind_io (review_attempts (process_ai_review sv actor c prerequisite) attempts 0 attempts None) (\<lambda>r.
     case r of
       None \<Rightarrow> return_io (0 < attempts)
     | Some e \<Rightarrow>
         seq_io (record_background_failure sv actor ''ai_review_background'' (str_uuid (cmp_build_id c)) e
           [(''attempts'', JInt (int attempts))])
         (return_io False))"

end
