(* ===== verification/Service_Review_Facts.thy ===== *)
theory Service_Review_Facts
  imports Service_Review
begin

section \<open>What publishing and reviewing guarantee\<close>

text \<open>
  The frame of a status publication and its bound of three exchanges; the invariant of the
  world through every step of a review; what a log leaves on its build; what reaches GitHub.
\<close>

subsection \<open>Publishing a status\<close>

lemma leaves_publish_attempts:
  assumes "leaves f m" and "\<And>d. leaves f (sleep d)"
  shows "leaves f (publish_attempts m n k r)"
proof (induction k arbitrary: n r)
  case 0
  show ?case by (simp add: leaves_return)
next
  case (Suc k)
  show ?case
    unfolding publish_attempts.simps
    by (intro leaves_bind leaves_catch leaves_option leaves_seq leaves_if leaves_return assms Suc.IH)
qed

lemmas leaves_sleep_table = leaves_table [OF leaves_sleep(1)]

lemma leaves_publish [world_frame]:
  "leaves (\<lambda>w. pg_repositories (w_db w)) (publish_ci_status sv p r s x st d i)"
  "leaves (\<lambda>w. pg_queue_items (w_db w)) (publish_ci_status sv p r s x st d i)"
  "leaves (\<lambda>w. pg_builds (w_db w)) (publish_ci_status sv p r s x st d i)"
  "leaves (\<lambda>w. pg_webhooks (w_db w)) (publish_ci_status sv p r s x st d i)"
  "leaves (\<lambda>w. pg_extension_runs (w_db w)) (publish_ci_status sv p r s x st d i)"
  unfolding publish_ci_status_def
  by (rule leaves_bind [OF leaves_publish_attempts [OF leaves_table [OF leaves_set_status(1)] leaves_sleep_table]],
      rule leaves_option [OF leaves_return leaves_seq [OF _ leaves_return]], rule leaves_audit)+

lemma leaves_publish_env [world_frame]: "leaves w_env (publish_ci_status sv p r s x st d i)"
  unfolding publish_ci_status_def
  by (intro leaves_bind leaves_publish_attempts leaves_option leaves_seq leaves_return world_frame)

lemma keeps_publish: "keeps world_ok (publish_ci_status sv p r s x st d i) (\<lambda>_. True)"
  unfolding publish_ci_status_def
  by (intro keeps_bind [OF keeps_client [OF leaves_publish_attempts leaves_publish_attempts]]
      keeps_option keeps_seq [OF keeps_audit] keeps_return TrueI world_frame)

text \<open>Whatever GitHub answers, a publication costs at most three exchanges.\<close>

lemma spends_publish_attempts:
  assumes "spends 1 m"
  shows "spends k (publish_attempts m n k r)"
proof (induction k arbitrary: n r)
  case 0
  show ?case by (simp add: spends_leaves leaves_return)
next
  case (Suc k)
  have pause: "spends 0 (if b then sleep d else return_io ())" for b d
    by (simp add: spends_sleep spends_leaves leaves_return)
  have next_try: "spends k (case x of None \<Rightarrow> return_io None
      | Some why \<Rightarrow> seq_io (if n < 2 then sleep (1 / 4 * 2 ^ n) else return_io ())
          (publish_attempts m (n + 1) k why))" for x
  proof (cases x)
    case None
    then show ?thesis by (simp add: spends_leaves leaves_return)
  next
    case (Some why)
    from spends_seq [OF pause Suc.IH] Some show ?thesis by simp
  qed
  have "spends (1 + 0) (bind_io m (\<lambda>_. return_io (None :: string option)))"
    by (rule spends_bind [OF assms spends_leaves [OF leaves_return]])
  then have "spends (1 + 0 + 0) (catch_io (bind_io m (\<lambda>_. return_io None)) is_upstream_error
      (\<lambda>e. return_io (Some (error_message e))))"
    by (rule spends_catch [OF _ spends_leaves [OF leaves_return]])
  then have "spends (1 + 0 + 0 + k) (publish_attempts m n (Suc k) r)"
    unfolding publish_attempts.simps by (rule spends_bind [OF _ next_try])
  then show ?case by simp
qed

lemma spends_github_post: "spends 1 (github_post c p b m)"
proof -
  have "spends (1 + 0) (github_post c p b m)"
    unfolding github_post_def
    by (rule spends_bind [OF spends_http]) (intro spends_leaves keeps_intros world_frame)
  then show ?thesis by simp
qed

lemma spends_set_status: "spends 1 (set_status c r s x st d u)"
  unfolding set_status_def by (intro spends_if spends_github_post spends_leaves leaves_raise)

lemma spends_publish: "spends 3 (publish_ci_status sv p r s x st d i)"
proof -
  have "spends (3 + 0) (publish_ci_status sv p r s x st d i)"
    unfolding publish_ci_status_def
    by (rule spends_bind [OF spends_publish_attempts [OF spends_set_status]])
      (intro spends_leaves leaves_option leaves_seq leaves_return leaves_audit_world)
  then show ?thesis by simp
qed


subsection \<open>Attaching a log\<close>

lemma review_artifact_valid: "valid_artifact (review_artifact content url)"
proof -
  have "safe_relative_path ai_review_artifact_path"
    unfolding ai_review_artifact_path_def by code_simp
  then show ?thesis
    by (simp add: valid_artifact_def review_artifact_def length_sha256_hex sha256_hex_lower)
qed

lemma review_check_valid: "valid_check_result (review_check l required)"
proof -
  have "safe_relative_path ai_review_artifact_path"
    unfolding ai_review_artifact_path_def by code_simp
  then show ?thesis by (simp add: valid_check_result_def review_check_def review_duration_def)
qed

lemma result_with_review_valid:
  "valid_pipeline_result r \<Longrightarrow> valid_artifact a \<Longrightarrow> valid_pipeline_result (result_with_review run l q a r)"
  by (auto simp: valid_pipeline_result_def result_with_review_def review_check_valid list_all_iff)

lemma keeps_http_url: "keeps world_ok (http_url u) (\<lambda>_. True)"
  unfolding http_url_def
  by (intro keeps_option keeps_return keeps_raise keeps_bind [OF keeps_get_any] TrueI)

lemma valid_run_with_log:
  assumes "valid_extension_run run" and "valid_ai_review_log l"
  shows "valid_extension_run (if out_review_log (case run_output run of None \<Rightarrow> empty_extension_output | Some x \<Rightarrow> x) = None
    then run\<lparr>run_output := Some ((case run_output run of None \<Rightarrow> empty_extension_output | Some x \<Rightarrow> x)
        \<lparr>out_review_log := Some l\<rparr>)\<rparr> else run)"
  using assms
  by (auto simp: valid_extension_run_def valid_extension_output_def empty_extension_output_def split: option.splits)

lemma keeps_attach_review_log:
  assumes "valid_extension_run run" and "valid_ai_review_log l"
  shows "keeps world_ok (attach_review_log sv run l q) (\<lambda>_. True)"
proof -
  have save: "keeps world_ok (db (pg_save_build (b\<lparr>build_ai_review_log := Some l,
      build_result := result_with_review run l q (review_artifact content url) (build_result b),
      build_updated_at := now\<rparr>))) (\<lambda>_. True)" if "valid_build b" for b content url now
  proof (rule keeps_any [OF keeps_db [OF keeps_pg_save_build]])
    show "valid_build (b\<lparr>build_ai_review_log := Some l,
        build_result := result_with_review run l q (review_artifact content url) (build_result b),
        build_updated_at := now\<rparr>)"
      using that assms(2) by (simp add: valid_build_def result_with_review_valid review_artifact_valid)
  qed
  show ?thesis
    unfolding attach_review_log_def Let_def
    by (rule keeps_bind [OF keeps_db [OF keeps_pg_save_extension_run [OF valid_run_with_log [OF assms]]]],
        rule keeps_bind [OF keeps_db [OF keeps_pg_get_build]], rule keeps_bind [OF keeps_get_any],
        rule keeps_bind [OF keeps_http_url], rule keeps_bind [OF keeps_now],
        rule keeps_bind [OF save]) (auto intro: keeps_return)
qed


subsection \<open>The world's invariant through a review\<close>

lemma keeps_ai_status: "keeps world_ok (ai_status sv p c st d) (\<lambda>_. True)"
  unfolding ai_status_def by (rule keeps_publish)

lemma valid_run_log: "valid_extension_run r \<Longrightarrow> run_review_log r = Some l \<Longrightarrow> valid_ai_review_log l"
  by (auto simp: valid_extension_run_def run_review_log_def valid_extension_output_def split: option.splits)

lemma keeps_resume_previous:
  assumes "valid_extension_run run"
  shows "keeps world_ok (resume_previous sv p c run) (\<lambda>x. \<forall>r. x = Some r \<longrightarrow> valid_extension_run r)"
proof -
  have attach: "keeps world_ok (case run_review_log run of None \<Rightarrow> return_io ()
      | Some l \<Rightarrow> attach_review_log sv run (l\<lparr>log_build_id := i\<rparr>) q) (\<lambda>_. True)" for i q
  proof (rule keeps_option)
    show "keeps world_ok (return_io ()) (\<lambda>_. True)" by (simp add: keeps_return)
    fix l
    assume "run_review_log run = Some l"
    with assms have "valid_ai_review_log (l\<lparr>log_build_id := i\<rparr>)"
      by (auto simp: valid_ai_review_log_def dest: valid_run_log)
    with assms show "keeps world_ok (attach_review_log sv run (l\<lparr>log_build_id := i\<rparr>) q) (\<lambda>_. True)"
      by (rule keeps_attach_review_log)
  qed
  show ?thesis
    unfolding resume_previous_def
    by (rule keeps_seq [OF attach]) (auto intro!: keeps_if keeps_bind [OF keeps_ai_status] keeps_return simp: assms)
qed

lemma keeps_claim_run:
  "keeps world_ok (claim_run sv c started) (\<lambda>x. \<forall>r s. x = Some (r, s) \<longrightarrow> valid_extension_run r)"
  unfolding claim_run_def Let_def
  by (rule keeps_bind [OF keeps_uuid4], rule keeps_bind [OF keeps_now],
      rule keeps_bind [OF keeps_db [OF keeps_pg_save_extension_run]])
    (auto simp: valid_extension_run_def intro!: keeps_return)

lemma valid_finish_run:
  "valid_extension_output out \<Longrightarrow> valid_extension_run (finish_run run st out t)"
  by (simp add: finish_run_def valid_extension_run_def)

lemma valid_empty_output: "valid_extension_output empty_extension_output"
  by (simp add: valid_extension_output_def empty_extension_output_def)

lemma keeps_make_log:
  "keeps world_ok (lift_io (make_review_log sv c run oc s fs acts why t u)) valid_ai_review_log"
  by (rule keeps_lift) (simp add: make_review_log_def)

lemma keeps_skip_review: "keeps world_ok (skip_review sv p c run started) (\<lambda>_. True)"
  unfolding skip_review_def Let_def
  by (intro keeps_bind [OF keeps_now] keeps_bind [OF keeps_make_log]
      keeps_seq [OF keeps_attach_review_log] keeps_audit valid_finish_run valid_empty_output)

lemma keeps_record_failure: "keeps world_ok (record_failure sv p c run started why) (\<lambda>_. True)"
  unfolding record_failure_def Let_def
  by (intro keeps_bind [OF keeps_ai_status] keeps_bind [OF keeps_now] keeps_bind [OF keeps_make_log]
      keeps_seq [OF keeps_attach_review_log] keeps_audit valid_finish_run valid_empty_output)

lemma keeps_get_env: "keeps world_ok (get_io w_env) env_ok"
  by (rule keeps_get) (simp add: world_ok_def)

lemma read_broker_review_Inr:
  assumes "read_broker_review e payload = Inr r"
  obtains j where "env_review_result e j = Some (br_review r)"
  using assms unfolding read_broker_review_def by (auto elim!: bind_sum_InrE split: option.splits)

lemma keeps_broker_review_call:
  "keeps world_ok (broker_review_call b r p bs hs d x) (\<lambda>v. valid_review_result (br_review v))"
  unfolding broker_review_call_def
proof (rule keeps_catch)
  have read: "keeps world_ok (bind_io (get_io w_env) (\<lambda>e. lift_io (read_broker_review e payload)))
      (\<lambda>v. valid_review_result (br_review v))" for payload
  proof (rule keeps_bind [OF keeps_get_env keeps_lift])
    fix e v
    assume e: "env_ok e" and v: "read_broker_review e payload = Inr v"
    obtain j where "env_review_result e j = Some (br_review v)" by (rule read_broker_review_Inr [OF v])
    with e show "valid_review_result (br_review v)" by (simp add: env_ok_def)
  qed
  show "keeps world_ok (bind_io (http q) (\<lambda>response. seq_io (raise_for_status response) (
      bind_io (response_json response) (\<lambda>payload.
      bind_io (get_io w_env) (\<lambda>e. lift_io (read_broker_review e payload))))))
      (\<lambda>v. valid_review_result (br_review v))" for q
    by (rule keeps_bind [OF keeps_client [OF leaves_http]],
        rule keeps_seq [OF keeps_client [OF leaves_raise_for_status leaves_raise_for_status]],
        rule keeps_bind [OF keeps_client [OF leaves_response_json leaves_response_json] read])
qed (rule keeps_raise)

text \<open>A review that passes the checks is valid and every finding is on an added line of the diff.\<close>

lemma keeps_validated_review:
  "keeps world_ok (validated_review sv b c pr bs d) (\<lambda>v. valid_review_result (br_review v)
     \<and> (\<exists>parsed. parse_unified_diff d = Inr parsed \<and> list_all (is_added_line parsed) (rev_findings (br_review v))))"
  (is "keeps _ _ ?Q")
proof -
  have check: "keeps world_ok (seq_io (lift_io (validate_result parsed (br_review v))) (return_io v)) ?Q"
    if "parse_unified_diff d = Inr parsed" "valid_review_result (br_review v)" for parsed v
    using that by (auto simp: keeps_def wp_simps validate_result_Inr split: sum.splits)
  show ?thesis
    unfolding validated_review_def
  proof (rule keeps_if [OF keeps_raise])
    show "keeps world_ok (bind_io (lift_io (parse_unified_diff d)) (\<lambda>parsed.
        bind_io (broker_review_call b (res_repository (cmp_result c)) pr bs (res_commit_sha (cmp_result c)) d [])
         (\<lambda>review. if br_model review \<noteq> sv_openai_model sv \<or> br_prompt_version review \<noteq> sv_prompt_version sv
          then raise_io (ValueError ''review broker identity does not match configured model/prompt'')
          else seq_io (lift_io (validate_result parsed (br_review review))) (return_io review)))) ?Q"
      by (rule keeps_bind [OF keeps_lift [of _ "\<lambda>x. parse_unified_diff d = Inr x"]], assumption,
          rule keeps_bind [OF keeps_broker_review_call], rule keeps_if [OF keeps_raise], rule check)
  qed
qed

lemma valid_review_outputs: "valid_review_result r \<Longrightarrow> valid_extension_output (review_outputs r b i)"
  by (simp add: valid_review_result_def valid_extension_output_def review_outputs_def)

lemma keeps_publish_review:
  assumes "valid_review_result r"
  shows "keeps world_ok (publish_review sv p c run started pr r) (\<lambda>_. True)"
  unfolding publish_review_def Let_def
  by (intro keeps_bind [OF keeps_client [OF leaves_create_review]] keeps_bind [OF keeps_lift [of _ "\<lambda>_. True"]]
      keeps_bind [OF keeps_ai_status] keeps_bind [OF keeps_now] keeps_bind [OF keeps_get_any]
      keeps_bind [OF keeps_make_log] keeps_seq [OF keeps_attach_review_log] keeps_audit
      valid_finish_run valid_review_outputs assms TrueI)

lemma keeps_execute_review: "keeps world_ok (execute_review sv p c pre run started pr) (\<lambda>_. True)"
proof -
  have review: "keeps world_ok (catch_io (bind_io (validated_review sv b c pr bs d)
      (\<lambda>review. publish_review sv p c run started pr (br_review review)))
      (\<lambda>e. is_upstream_error e \<or> is_value_error e)
      (\<lambda>e. record_failure sv p c run started (error_message e))) (\<lambda>_. True)" for b bs d
    by (intro keeps_catch keeps_bind [OF keeps_validated_review] keeps_publish_review keeps_record_failure)
      simp
  show ?thesis
    unfolding execute_review_def
    by (intro keeps_bind [OF keeps_ai_status])
      (auto split: option.splits intro: review keeps_record_failure)
qed

lemma keeps_review_run: "keeps world_ok (review_run sv p c pre run started) (\<lambda>_. True)"
  unfolding review_run_def
  by (auto split: bool.splits option.splits intro: keeps_execute_review keeps_skip_review)

lemma keeps_process_ai_review: "keeps world_ok (process_ai_review sv p c pre) (\<lambda>_. True)"
  unfolding process_ai_review_def
proof (rule keeps_bind [OF keeps_db [OF keeps_pg_run_by_key]], rule keeps_option)
  show "keeps world_ok (bind_io now_utc (\<lambda>started. bind_io (claim_run sv c started) (\<lambda>next. case next of
      None \<Rightarrow> return_io () | Some (run, started') \<Rightarrow> review_run sv p c pre run started'))) (\<lambda>_. True)"
    by (intro keeps_bind [OF keeps_now] keeps_bind [OF keeps_claim_run] keeps_option keeps_return TrueI)
      (auto split: prod.splits intro: keeps_review_run)
next
  fix x run
  assume "\<forall>r. x = Some r \<longrightarrow> valid_extension_run r \<and> run_idempotency_key r = review_key sv (cmp_result c)"
    and "x = Some run"
  then have "valid_extension_run run" by simp
  then show "keeps world_ok (bind_io (resume_previous sv p c run) (\<lambda>next. case next of
      None \<Rightarrow> return_io () | Some run' \<Rightarrow> review_run sv p c pre run' (run_created_at run))) (\<lambda>_. True)"
    by (intro keeps_bind [OF keeps_resume_previous] keeps_option keeps_return TrueI keeps_review_run)
qed

lemma keeps_process_ai_review_with_retry:
  "keeps world_ok (process_ai_review_with_retry sv p c pre n) (\<lambda>_. True)"
proof -
  have "keeps world_ok (review_attempts (process_ai_review sv p c pre) bound k m reason) (\<lambda>_. True)" for bound k m reason
  proof (induction m arbitrary: k reason)
    case 0
    then show ?case by (simp add: keeps_return)
  next
    case (Suc m)
    have once: "keeps world_ok (catch_io (bind_io (process_ai_review sv p c pre) (\<lambda>_. return_io None)) (\<lambda>_. True)
        (\<lambda>e. return_io (Some e))) (\<lambda>_. True)"
      by (intro keeps_catch keeps_bind [OF keeps_process_ai_review] keeps_return TrueI)
    have "keeps world_ok (sleep d) (\<lambda>_. True)" for d
      by (intro keeps_client leaves_sleep)
    then show ?case
      unfolding review_attempts.simps
      by (intro keeps_bind [OF once] keeps_option keeps_return TrueI keeps_seq [of _ _ "\<lambda>_. True"] keeps_if Suc.IH)
  qed
  then show ?thesis
    unfolding process_ai_review_with_retry_def record_background_failure_def
    by (intro keeps_bind keeps_option keeps_return keeps_seq [OF keeps_audit] TrueI)
qed

end
