(* ===== verification/Service_Builds.thy ===== *)
theory Service_Builds
  imports Service_Review_Facts
begin

section \<open>service.py: triggering, completing, refreshing and cancelling builds\<close>

text \<open>
  The life of a build: reuse of an exact-SHA native result or a new Jenkins build, the
  completion callback, the refresh from Jenkins, cancellation and retry.
\<close>

subsection \<open>Queue states\<close>

fun is_not_found :: "error \<Rightarrow> bool" where
  "is_not_found (NotFoundError _) = True"
| "is_not_found _ = False"

definition set_queue_state :: "build \<Rightarrow> queue_state \<Rightarrow> unit task" where
  "set_queue_state build state = (case build_queue_item_id build of
      None \<Rightarrow> return_io ()
    | Some qid \<Rightarrow>
        bind_io (catch_io (bind_io (db (pg_get_queue_item qid)) (\<lambda>q. return_io (Some q)))
          is_not_found (\<lambda>_. return_io None)) (\<lambda>r. case r of
            None \<Rightarrow> return_io ()
          | Some q \<Rightarrow> bind_io (db (pg_save_queue_item (q\<lparr>queue_state := state\<rparr>))) (\<lambda>_. return_io ())))"

definition queue_state_of :: "build_status \<Rightarrow> queue_state" where
  "queue_state_of s = (if s = Cancelled then QCancelled else if s = Failed then QFailed else QStarted)"


subsection \<open>Triggering\<close>

definition is_reusable :: "uuid \<Rightarrow> string \<Rightarrow> string \<Rightarrow> build \<Rightarrow> bool" where
  "is_reusable rid commit_sha trusted_sha b =
     (build_repository_id b = rid
      \<and> py_lower (res_commit_sha (build_result b)) = py_lower commit_sha
      \<and> sha_or_empty (res_trusted_sha (build_result b)) = py_lower trusted_sha
      \<and> res_pull_request (build_result b) = None
      \<and> res_status (build_result b) = Passed
      \<and> build_reused_from b = None)"

definition reusable_native_build :: "uuid \<Rightarrow> string \<Rightarrow> string \<Rightarrow> build option task" where
  "reusable_native_build rid commit_sha trusted_sha =
     bind_io (db (get_io pg_list_builds)) (\<lambda>bs. return_io (find (is_reusable rid commit_sha trusted_sha) bs))"

definition policy_or_default :: "review_policy option \<Rightarrow> review_policy" where
  "policy_or_default p = (case p of None \<Rightarrow> default_review_policy | Some x \<Rightarrow> x)"

text \<open>The native result as the pull request's build shows it.\<close>

definition reused_result :: "trigger_request \<Rightarrow> uuid \<Rightarrow> pipeline_result \<Rightarrow> pipeline_result" where
  "reused_result payload bid r = r\<lparr>res_build_id := Some bid, res_base_sha := trig_base_sha payload,
     res_pull_request := trig_pull_request payload, res_status := Passed,
     res_checks := filter (\<lambda>c. check_id c \<noteq> ''ai-review'') (res_checks r),
     res_artifacts := filter (\<lambda>a. art_path a \<noteq> ai_review_artifact_path) (res_artifacts r),
     res_extension_runs := []\<rparr>"

definition reused_build :: "repository \<Rightarrow> trigger_request \<Rightarrow> string \<Rightarrow> build \<Rightarrow> uuid \<Rightarrow> int \<Rightarrow> int \<Rightarrow> build" where
  "reused_build repository payload branch source bid created updated =
     \<lparr>build_id = bid, build_repository_id = repo_id repository,
      build_jenkins_job = build_jenkins_job source, build_queue_item_id = None,
      build_jenkins_queue_id = None,
      build_jenkins_build_number = build_jenkins_build_number source, build_branch = Some branch,
      build_reused_from = Some (build_id source),
      build_review_policy = Some (policy_or_default (build_review_policy source)),
      build_ai_review_log = None, build_result = reused_result payload bid (build_result source),
      build_created_at = created, build_updated_at = updated\<rparr>"

definition new_queue_item ::
    "repository \<Rightarrow> trigger_request \<Rightarrow> string \<Rightarrow> uuid \<Rightarrow> int option \<Rightarrow> queue_state \<Rightarrow> uuid \<Rightarrow> int \<Rightarrow> queue_item" where
  "new_queue_item repository payload branch bid jenkins_id state qid created =
     \<lparr>queue_id = qid, queue_repository_id = repo_id repository, queue_build_id = Some bid,
      queue_jenkins_id = jenkins_id, queue_state = state, queue_commit_sha = trig_commit_sha payload,
      queue_base_sha = trig_base_sha payload, queue_branch = Some branch,
      queue_pull_request = trig_pull_request payload, queue_created_at = created\<rparr>"

text \<open>\<open>int(now.timestamp())\<close> truncates towards zero.\<close>

definition epoch_seconds :: "int \<Rightarrow> int" where
  "epoch_seconds t = (if 0 \<le> t then t div 1000000 else - ((- t) div 1000000))"

text \<open>The trusted diff of a reused pull-request build, or why there is none.\<close>

definition reused_diff ::
    "service \<Rightarrow> repository \<Rightarrow> trigger_request \<Rightarrow> review_policy \<Rightarrow> (string option \<times> string option) task" where
  "reused_diff sv repository payload policy =
     (case (trig_pull_request payload, trig_base_sha payload) of
        (Some p, Some base_sha) \<Rightarrow>
          catch_io
            (bind_io (pull_request_diff (sv_github sv) (full_name repository) p base_sha
               (trig_commit_sha payload) (rp_max_diff_bytes policy)) (\<lambda>d. return_io (Some d, None)))
            (\<lambda>e. is_upstream_error e \<or> is_value_error e)
            (\<lambda>e. return_io (None, Some (error_message e)))
      | _ \<Rightarrow> return_io (None, None))"

definition reuse_native_result ::
    "service \<Rightarrow> principal \<Rightarrow> repository \<Rightarrow> trigger_request \<Rightarrow> string \<Rightarrow> build \<Rightarrow> queue_item task" where
  "reuse_native_result sv actor repository payload branch source =
     bind_io uuid4 (\<lambda>bid. bind_io now_utc (\<lambda>created. bind_io now_utc (\<lambda>updated.
     bind_io (lift_io (validated valid_build ''Build''
       (reused_build repository payload branch source bid created updated))) (\<lambda>build.
     bind_io uuid4 (\<lambda>qid. bind_io now_utc (\<lambda>queued.
     bind_io (lift_io (validated valid_queue_item ''QueueItem''
       (new_queue_item repository payload branch bid None QReused qid queued))) (\<lambda>queue.
     bind_io (db (pg_save_queue_item queue)) (\<lambda>_.
     bind_io (db (pg_save_build (build\<lparr>build_queue_item_id := Some qid\<rparr>))) (\<lambda>_.
     bind_io (publish_ci_status sv actor (full_name repository) (trig_commit_sha payload)
       ''jenkinsservice/native-ci'' ''success''
       ''Native Jenkins validation reused from an exact-SHA passed build'' bid) (\<lambda>published.
     if \<not> published then raise_io (UpstreamError ''reused native CI status publication failed'')
     else seq_io (audit actor ''reuse_pipeline'' (full_name repository) AuditSucceeded
         [(''source_build'', JStr (str_uuid (build_id source))), (''build'', JStr (str_uuid bid)),
          (''branch'', JStr branch), (''pull_request'', opt_json JInt (trig_pull_request payload))]) (
     let policy = policy_or_default (build_review_policy source) in
     bind_io (reused_diff sv repository payload policy) (\<lambda>(diff, review_error).
     bind_io now_utc (\<lambda>now.
     bind_io (lift_io (validated valid_build_completion ''BuildCompletion''
       \<lparr>cmp_callback_id = ''reused:'' @ str_uuid bid, cmp_timestamp = epoch_seconds now,
        cmp_build_id = bid, cmp_result = build_result build, cmp_review = policy, cmp_diff = diff\<rparr>)) (\<lambda>c.
     seq_io (process_ai_review sv actor c review_error) (return_io queue)))))))))))))))"

definition queued_result :: "repository \<Rightarrow> trigger_request \<Rightarrow> uuid \<Rightarrow> pipeline_result" where
  "queued_result repository payload bid =
     \<lparr>res_repository = full_name repository, res_commit_sha = trig_commit_sha payload,
      res_trusted_sha = None, res_base_sha = trig_base_sha payload, res_build_id = Some bid,
      res_pull_request = trig_pull_request payload, res_status = Queued, res_started_at = None,
      res_completed_at = None, res_checks = [], res_artifacts = [], res_extension_runs = []\<rparr>"

definition queued_build :: "repository \<Rightarrow> trigger_request \<Rightarrow> string \<Rightarrow> uuid \<Rightarrow> int \<Rightarrow> int \<Rightarrow> build" where
  "queued_build repository payload branch bid created updated =
     \<lparr>build_id = bid, build_repository_id = repo_id repository,
      build_jenkins_job = managed_job_path (repo_owner repository) (repo_name repository) branch
        (trig_pull_request payload),
      build_queue_item_id = None, build_jenkins_queue_id = None, build_jenkins_build_number = None,
      build_branch = Some branch, build_reused_from = None, build_review_policy = None,
      build_ai_review_log = None, build_result = queued_result repository payload bid,
      build_created_at = created, build_updated_at = updated\<rparr>"

definition start_native_build ::
    "service \<Rightarrow> principal \<Rightarrow> repository \<Rightarrow> trigger_request \<Rightarrow> string \<Rightarrow> queue_item task" where
  "start_native_build sv actor repository payload branch =
     seq_io (ensure_job (sv_jenkins sv) (repo_owner repository) (repo_name repository)
       (repo_default_branch repository) (Some branch) (trig_pull_request payload)) (
     seq_io (rebind_legacy_job repository) (
     bind_io uuid4 (\<lambda>bid. bind_io now_utc (\<lambda>created. bind_io now_utc (\<lambda>updated.
     bind_io (lift_io (validated valid_build ''Build''
       (queued_build repository payload branch bid created updated))) (\<lambda>build.
     bind_io (jenkins_trigger (sv_jenkins sv) (repo_owner repository) (repo_name repository)
       (trig_commit_sha payload) (trig_pull_request payload) (trig_base_sha payload)
       (Some (str_uuid bid)) (Some branch)) (\<lambda>jenkins_id.
     bind_io uuid4 (\<lambda>qid. bind_io now_utc (\<lambda>queued.
     bind_io (lift_io (validated valid_queue_item ''QueueItem''
       (new_queue_item repository payload branch bid (Some jenkins_id) QQueued qid queued))) (\<lambda>queue.
     let build' = build\<lparr>build_queue_item_id := Some qid, build_jenkins_queue_id := Some jenkins_id\<rparr> in
     bind_io (db (pg_save_queue_item queue)) (\<lambda>_.
     bind_io (db (pg_save_build build')) (\<lambda>_.
     bind_io (publish_ci_status sv actor (full_name repository) (trig_commit_sha payload)
       ''jenkinsservice/native-ci'' ''pending'' ''Native Jenkins validation is queued'' bid) (\<lambda>_.
     seq_io (audit actor ''trigger_pipeline'' (full_name repository) AuditSucceeded
         [(''queue'', JStr (str_uuid qid)), (''build'', JStr (str_uuid bid)), (''branch'', JStr branch),
          (''job'', JStr (build_jenkins_job build'))])
       (return_io queue))))))))))))))"

definition trigger_branch :: "repository \<Rightarrow> trigger_request \<Rightarrow> string" where
  "trigger_branch repository payload = reason_or (trig_branch payload) (repo_default_branch repository)"

definition find_reusable :: "repository \<Rightarrow> trigger_request \<Rightarrow> build option task" where
  "find_reusable repository payload = (case (trig_pull_request payload, trig_base_sha payload) of
      (Some _, Some base_sha) \<Rightarrow> reusable_native_build (repo_id repository) (trig_commit_sha payload) base_sha
    | _ \<Rightarrow> return_io None)"

definition trigger_pipeline :: "service \<Rightarrow> principal \<Rightarrow> trigger_request \<Rightarrow> queue_item task" where
  "trigger_pipeline sv actor payload =
     bind_io (db (pg_get_repository (trig_repository_id payload))) (\<lambda>repository.
     bind_io (find_reusable repository payload) (\<lambda>r. case r of
       Some source \<Rightarrow> reuse_native_result sv actor repository payload (trigger_branch repository payload) source
     | None \<Rightarrow> start_native_build sv actor repository payload (trigger_branch repository payload)))"

definition retry_pipeline :: "service \<Rightarrow> principal \<Rightarrow> uuid \<Rightarrow> queue_item task" where
  "retry_pipeline sv actor bid =
     bind_io (db (pg_get_build bid)) (\<lambda>build.
     bind_io (lift_io (validated valid_trigger_request ''TriggerRequest''
       \<lparr>trig_repository_id = build_repository_id build, trig_commit_sha = res_commit_sha (build_result build),
        trig_base_sha = res_base_sha (build_result build), trig_branch = build_branch build,
        trig_pull_request = res_pull_request (build_result build)\<rparr>)) (\<lambda>trigger.
     bind_io (trigger_pipeline sv actor trigger) (\<lambda>result.
     seq_io (audit actor ''retry_pipeline'' (str_uuid bid) AuditSucceeded
         [(''queue'', JStr (str_uuid (queue_id result)))])
       (return_io result))))"


subsection \<open>Completing\<close>

definition same_identity :: "build \<Rightarrow> pipeline_result \<Rightarrow> bool" where
  "same_identity build r = (let expected = build_result build in
     res_build_id r = Some (build_id build)
     \<and> py_lower (res_repository r) = py_lower (res_repository expected)
     \<and> py_lower (res_commit_sha r) = py_lower (res_commit_sha expected)
     \<and> sha_or_empty (res_base_sha r) = sha_or_empty (res_base_sha expected)
     \<and> res_pull_request r = res_pull_request expected)"

definition completion_delivery_id :: "build_completion \<Rightarrow> string" where
  "completion_delivery_id c = ''build-completion:'' @ cmp_callback_id c"

definition completion_delivery :: "build_completion \<Rightarrow> int \<Rightarrow> webhook_delivery" where
  "completion_delivery c received =
     \<lparr>hook_delivery_id = completion_delivery_id c, hook_event = ''build_completion'',
      hook_repository = res_repository (cmp_result c), hook_accepted = True, hook_reason = None,
      hook_received_at = received\<rparr>"

definition completion_state :: "pipeline_result \<Rightarrow> string" where
  "completion_state r = (if res_status r = Passed then ''success'' else ''failure'')"

definition completion_text :: "pipeline_result \<Rightarrow> string" where
  "completion_text r = (if res_status r = Passed then ''Native Jenkins validation passed''
     else ''Native Jenkins validation '' @ status_name (res_status r))"

text \<open>Once the delivery is recorded: the queue item's state and the audit record.\<close>

definition close_completion :: "principal \<Rightarrow> build_completion \<Rightarrow> build \<Rightarrow> bool task" where
  "close_completion actor c build =
     seq_io (set_queue_state build (queue_state_of (res_status (cmp_result c)))) (
     seq_io (audit actor ''build_completion'' (str_uuid (build_id build)) AuditSucceeded
       [(''status'', JStr (status_name (res_status (cmp_result c)))),
        (''callback_id'', JStr (cmp_callback_id c))])
     (return_io True))"

text \<open>The delivery is not among the listed ones: store the result, publish it, record the delivery.\<close>

definition store_completion ::
    "service \<Rightarrow> principal \<Rightarrow> build_completion \<Rightarrow> build \<Rightarrow> webhook_delivery \<Rightarrow> bool task" where
  "store_completion sv actor c build delivery =
     bind_io now_utc (\<lambda>now.
     let r = cmp_result c;
         build' = build\<lparr>build_result := r, build_review_policy := Some (cmp_review c),
           build_updated_at := now\<rparr> in
     bind_io (db (pg_save_build build')) (\<lambda>_.
     bind_io (publish_ci_status sv actor (res_repository r) (res_commit_sha r) ''jenkinsservice/native-ci''
       (completion_state r) (completion_text r) (build_id build')) (\<lambda>published.
     if \<not> published
     then raise_io (UpstreamError ''native CI status publication failed after bounded retries'')
     else bind_io (db (pg_record_webhook_once delivery)) (\<lambda>fresh.
       if \<not> fresh then return_io False else close_completion actor c build'))))"

definition complete_matched :: "service \<Rightarrow> principal \<Rightarrow> build_completion \<Rightarrow> build \<Rightarrow> bool task" where
  "complete_matched sv actor c build =
     bind_io now_utc (\<lambda>received.
     bind_io (db (get_io pg_list_webhooks)) (\<lambda>known.
     if list_ex (\<lambda>item. hook_delivery_id item = completion_delivery_id c) known then return_io False
     else store_completion sv actor c build (completion_delivery c received)))"

definition complete_build :: "service \<Rightarrow> principal \<Rightarrow> build_completion \<Rightarrow> bool task" where
  "complete_build sv actor c =
     bind_io (db (pg_get_build (cmp_build_id c))) (\<lambda>build.
     if \<not> same_identity build (cmp_result c)
     then raise_io (ValueError ''build completion identity does not match the queued build'')
     else if \<not> is_terminal (res_status (cmp_result c))
     then raise_io (ValueError ''build completion must contain a terminal result'')
     else complete_matched sv actor c build)"


subsection \<open>Refreshing from Jenkins\<close>

definition is_active :: "build_status \<Rightarrow> bool" where
  "is_active s = (s = Queued \<or> s = Running)"

text \<open>
  \<open>_refresh_build\<close> works on the caller's object: when Jenkins fails midway the changes made so
  far stay in it. A step therefore returns either the error with the object as it stands, or
  the object to go on with.
\<close>

definition try_upstream :: "build \<Rightarrow> 'a task \<Rightarrow> ('a \<Rightarrow> ((error \<times> build) + 'b) task) \<Rightarrow> ((error \<times> build) + 'b) task" where
  "try_upstream b m k =
     bind_io (catch_io (bind_io m (\<lambda>x. return_io (Inr x))) is_upstream_error (\<lambda>e. return_io (Inl e)))
       (\<lambda>r. case r of Inl e \<Rightarrow> return_io (Inl (e, b)) | Inr x \<Rightarrow> k x)"

definition with_status :: "build \<Rightarrow> build_status \<Rightarrow> build" where
  "with_status b s = b\<lparr>build_result := (build_result b)\<lparr>res_status := s\<rparr>\<rparr>"

definition with_completed :: "build \<Rightarrow> int \<Rightarrow> build" where
  "with_completed b t = b\<lparr>build_result := (build_result b)\<lparr>res_completed_at := Some t\<rparr>\<rparr>"

definition save_with_queue :: "build \<Rightarrow> queue_state \<Rightarrow> unit task" where
  "save_with_queue b state = bind_io (db (pg_save_build b)) (\<lambda>_. set_queue_state b state)"

text \<open>The number of the executable Jenkins assigned, from the queue item's JSON.\<close>

definition executable_number :: "json \<Rightarrow> int option" where
  "executable_number j = (case j of
      JObj x \<Rightarrow> as_int (jget x ''number'') | _ \<Rightarrow> None)"

text \<open>\<open>value and value.get(k)\<close> as a condition, and \<open>(value or {}).get(k)\<close>.\<close>

definition get_truthy :: "json option \<Rightarrow> string \<Rightarrow> bool outcome" where
  "get_truthy v k = (case v of None \<Rightarrow> Inr False
     | Some j \<Rightarrow> if py_truthy j then map_sum id py_truthy (jmethod_get j k) else Inr False)"

definition get_or_empty :: "json option \<Rightarrow> string \<Rightarrow> json outcome" where
  "get_or_empty v k = (case v of None \<Rightarrow> Inr JNull
     | Some j \<Rightarrow> if py_truthy j then jmethod_get j k else Inr JNull)"

text \<open>The queue phase: \<open>Inr (True, b)\<close> ends the refresh, \<open>Inr (False, b)\<close> goes on with \<open>b\<close>.\<close>

definition refresh_queue :: "service \<Rightarrow> build \<Rightarrow> ((error \<times> build) + (bool \<times> build)) task" where
  "refresh_queue sv b = (case (build_jenkins_build_number b, build_jenkins_queue_id b) of
      (None, Some qid) \<Rightarrow>
        try_upstream b (jenkins_queue_status (sv_jenkins sv) qid) (\<lambda>status.
        bind_io (lift_io (get_truthy status ''cancelled'')) (\<lambda>cancelled.
        if cancelled then
          bind_io now_utc (\<lambda>t. bind_io now_utc (\<lambda>u.
          let b' = (with_completed (with_status b Cancelled) t)\<lparr>build_updated_at := u\<rparr> in
          seq_io (save_with_queue b' QCancelled) (return_io (Inr (True, b')))))
        else
          bind_io (lift_io (get_or_empty status ''executable'')) (\<lambda>x.
          case executable_number x of
            None \<Rightarrow> return_io (Inr (False, b))
          | Some n \<Rightarrow> bind_io now_utc (\<lambda>u.
              let b' = (with_status b Running)\<lparr>build_jenkins_build_number := Some n, build_updated_at := u\<rparr> in
              seq_io (save_with_queue b' QStarted) (return_io (Inr (False, b')))))))
    | _ \<Rightarrow> return_io (Inr (False, b)))"

definition jenkins_outcome :: "env \<Rightarrow> json \<Rightarrow> build_status" where
  "jenkins_outcome e r = (let t = py_upper (if py_truthy r then py_str e r else ''FAILURE'') in
     if t = ''SUCCESS'' then Passed else if t = ''ABORTED'' then Cancelled else Failed)"

definition matches_build :: "build \<Rightarrow> pipeline_result \<Rightarrow> bool" where
  "matches_build b r = (res_repository r = res_repository (build_result b)
     \<and> py_lower (res_commit_sha r) = py_lower (res_commit_sha (build_result b))
     \<and> res_pull_request r = res_pull_request (build_result b))"

text \<open>What a finished Jenkins build reports: its artifact, or the state of the build itself.\<close>

definition read_final_result ::
    "service \<Rightarrow> build \<Rightarrow> json \<Rightarrow> int \<Rightarrow> build task" where
  "read_final_result sv b state number =
     bind_io (jenkins_pipeline_result (sv_jenkins sv) (build_jenkins_job b) number (sv_max_artifact_bytes sv)) (\<lambda>raw.
     case raw of
       Some content \<Rightarrow> bind_io (get_io (\<lambda>w. env_pipeline_result (w_env w) content)) (\<lambda>r. case r of
           None \<Rightarrow> raise_io (UpstreamError ''Jenkins returned an invalid PipelineResult'')
         | Some x \<Rightarrow>
             if \<not> matches_build b x
             then raise_io (UpstreamError ''Jenkins PipelineResult identity does not match the build'')
             else return_io (b\<lparr>build_result := x\<rparr>))
     | None \<Rightarrow>
         bind_io (lift_io (jmethod_get state ''result'')) (\<lambda>r.
         bind_io (get_io w_env) (\<lambda>e.
         bind_io now_utc (\<lambda>t. return_io (with_completed (with_status b (jenkins_outcome e r)) t)))))"

definition with_timestamp :: "build \<Rightarrow> json \<Rightarrow> build" where
  "with_timestamp b j = (case as_int j of None \<Rightarrow> b
     | Some ms \<Rightarrow> b\<lparr>build_result := (build_result b)\<lparr>res_started_at := Some (ms * 1000)\<rparr>\<rparr>)"

definition refresh_status :: "service \<Rightarrow> build \<Rightarrow> ((error \<times> build) + build) task" where
  "refresh_status sv b = (case build_jenkins_build_number b of
      None \<Rightarrow> return_io (Inr b)
    | Some number \<Rightarrow>
        try_upstream b (jenkins_build_status (sv_jenkins sv) (build_jenkins_job b) number) (\<lambda>s. case s of
          None \<Rightarrow> return_io (Inr b)
        | Some state \<Rightarrow>
            bind_io (lift_io (jmethod_get state ''timestamp'')) (\<lambda>ts.
            let b1 = with_timestamp b ts in
            bind_io (lift_io (jmethod_get state ''building'')) (\<lambda>building.
            if py_truthy building then
              bind_io now_utc (\<lambda>u.
              let b2 = (with_status b1 Running)\<lparr>build_updated_at := u\<rparr> in
              bind_io (db (pg_save_build b2)) (\<lambda>_. return_io (Inr b2)))
            else
              try_upstream b1 (read_final_result sv b1 state number) (\<lambda>b2.
              bind_io now_utc (\<lambda>u.
              let b3 = b2\<lparr>build_updated_at := u\<rparr> in
              seq_io (save_with_queue b3 (queue_state_of (res_status (build_result b3))))
                (return_io (Inr b3))))))))"

definition refresh_run :: "service \<Rightarrow> build \<Rightarrow> ((error \<times> build) + build) task" where
  "refresh_run sv b =
     (if \<not> is_active (res_status (build_result b)) then return_io (Inr b)
      else bind_io (refresh_queue sv b) (\<lambda>r. case r of
          Inl x \<Rightarrow> return_io (Inl x)
        | Inr (finished, b') \<Rightarrow> if finished then return_io (Inr b') else refresh_status sv b'))"

definition refresh_build :: "service \<Rightarrow> build \<Rightarrow> build task" where
  "refresh_build sv b = bind_io (refresh_run sv b) (\<lambda>r. case r of
      Inl (e, _) \<Rightarrow> raise_io e | Inr b' \<Rightarrow> return_io b')"


subsection \<open>Reading and cancelling\<close>

definition builds :: "service \<Rightarrow> build list task" where
  "builds sv = bind_io (db (get_io pg_list_builds)) (\<lambda>bs.
     map_io (\<lambda>b. if \<not> is_active (res_status (build_result b)) then return_io b
       else bind_io (refresh_run sv b) (\<lambda>r. case r of
          Inl (_, b') \<Rightarrow> return_io b' | Inr b' \<Rightarrow> return_io b')) bs)"

definition get_build :: "service \<Rightarrow> string \<Rightarrow> build task" where
  "get_build sv bid = bind_io (uuid_of_text bid) (\<lambda>i.
     bind_io (db (pg_get_build i)) (refresh_build sv))"

definition queue_items :: "queue_item list task" where
  "queue_items = db (get_io pg_list_queue_items)"

definition build_ai_review_log_of :: "string \<Rightarrow> ai_review_log task" where
  "build_ai_review_log_of bid = bind_io (uuid_of_text bid) (\<lambda>i.
     bind_io (db (pg_get_build i)) (\<lambda>b. case build_ai_review_log b of
       None \<Rightarrow> raise_io (NotFoundError (''AI review log not found for build: '' @ bid))
     | Some l \<Rightarrow> return_io l))"

definition build_log :: "service \<Rightarrow> string \<Rightarrow> string \<Rightarrow> json task" where
  "build_log sv bid start =
     bind_io (uuid_of_text bid) (\<lambda>i.
     bind_io (db (pg_get_build i)) (\<lambda>stored.
     bind_io (refresh_build sv stored) (\<lambda>b. case build_jenkins_build_number b of
       None \<Rightarrow> return_io (JObj [(''text'', JStr []), (''next'', JInt 0),
         (''more'', JBool (is_active (res_status (build_result b))))])
     | Some number \<Rightarrow>
         bind_io (lift_io (py_int start)) (\<lambda>offset.
         if offset < 0 then raise_io (ValueError ''log start offset must be non-negative'')
         else bind_io (jenkins_progressive_log (sv_jenkins sv) (build_jenkins_job b) number offset)
           (\<lambda>(txt, next_offset, more). return_io (JObj [(''text'', JStr (sv_redact sv txt)),
             (''next'', JInt next_offset), (''more'', JBool more)]))))))"

definition cancel_pipeline :: "service \<Rightarrow> principal \<Rightarrow> uuid \<Rightarrow> operation_accepted task" where
  "cancel_pipeline sv actor bid =
     bind_io (db (pg_get_build bid)) (\<lambda>stored.
     bind_io (refresh_build sv stored) (\<lambda>b.
     seq_io (case build_jenkins_build_number b of
         None \<Rightarrow> (case build_jenkins_queue_id b of
             None \<Rightarrow> raise_io (ValueError ''build has no Jenkins queue or build identifier'')
           | Some q \<Rightarrow> jenkins_cancel_queue (sv_jenkins sv) q)
       | Some n \<Rightarrow> jenkins_cancel (sv_jenkins sv) (build_jenkins_job b) n) (
     bind_io now_utc (\<lambda>t. bind_io now_utc (\<lambda>u.
     let b' = (with_completed (with_status b Cancelled) t)\<lparr>build_updated_at := u\<rparr> in
     seq_io (save_with_queue b' QCancelled) (
     seq_io (audit actor ''cancel_pipeline'' (str_uuid (build_id b')) AuditSucceeded [])
       (return_io \<lparr>accepted_id = str_uuid (build_id b'), accepted_detail = ''cancellation requested''\<rparr>)))))))"

end
