(* ===== verification/Service_Builds_Facts.thy ===== *)
theory Service_Builds_Facts
  imports Service_Builds
begin

section \<open>What the build operations guarantee\<close>

subsection \<open>The invariant of the world\<close>

lemma keeps_set_queue_state: "keeps world_ok (set_queue_state b st) (\<lambda>_. True)"
proof -
  have find: "keeps world_ok (catch_io (bind_io (db (pg_get_queue_item i)) (\<lambda>q. return_io (Some q)))
      is_not_found (\<lambda>_. return_io None)) (\<lambda>r. \<forall>q. r = Some q \<longrightarrow> valid_queue_item q)" for i
    by (intro keeps_catch keeps_bind [OF keeps_db [OF keeps_pg_get_queue_item]] keeps_return) simp_all
  show ?thesis
    unfolding set_queue_state_def
  proof (intro keeps_option keeps_return TrueI keeps_bind [OF find])
    fix r q
    assume "\<forall>q. r = Some q \<longrightarrow> valid_queue_item q" and "r = Some q"
    then have "valid_queue_item (q\<lparr>queue_state := st\<rparr>)" by (simp add: valid_queue_item_def)
    then show "keeps world_ok (bind_io (db (pg_save_queue_item (q\<lparr>queue_state := st\<rparr>))) (\<lambda>_. return_io ())) (\<lambda>_. True)"
      by (rule keeps_bind [OF keeps_db [OF keeps_pg_save_queue_item]]) (rule keeps_return, rule TrueI)
  qed
qed

lemma keeps_save_with_queue: "valid_build b \<Longrightarrow> keeps world_ok (save_with_queue b st) (\<lambda>_. True)"
  unfolding save_with_queue_def
  by (rule keeps_bind [OF keeps_db [OF keeps_pg_save_build] keeps_set_queue_state])

lemma build_id_updates [simp]:
  "build_id (with_status b s) = build_id b" "build_id (with_completed b n) = build_id b"
  "build_id (with_timestamp b j) = build_id b"
  by (simp_all add: with_status_def with_completed_def with_timestamp_def split: option.splits)

lemma valid_with_status [simp]: "valid_build (with_status b s) = valid_build b"
  by (simp add: with_status_def valid_build_def valid_pipeline_result_def)

lemma valid_with_completed [simp]: "valid_build (with_completed b t) = valid_build b"
  by (simp add: with_completed_def valid_build_def valid_pipeline_result_def)

lemma valid_build_updates [simp]:
  "valid_build (b\<lparr>build_updated_at := t\<rparr>) = valid_build b"
  "valid_build (b\<lparr>build_jenkins_build_number := n\<rparr>) = valid_build b"
  "valid_build (b\<lparr>build_queue_item_id := q\<rparr>) = valid_build b"
  "valid_build (b\<lparr>build_jenkins_queue_id := j\<rparr>) = valid_build b"
  by (simp_all add: valid_build_def)

lemma valid_with_timestamp [simp]: "valid_build (with_timestamp b j) = valid_build b"
  by (simp add: with_timestamp_def valid_build_def valid_pipeline_result_def split: option.splits)

text \<open>
  A refresh works on one build: what it hands on is valid and has the same identifier. A step
  returns the error with such an object, or a result that satisfies \<open>Q\<close>.
\<close>

abbreviation is_build :: "uuid \<Rightarrow> build \<Rightarrow> bool" where
  "is_build i b \<equiv> valid_build b \<and> build_id b = i"

abbreviation refreshed :: "uuid \<Rightarrow> ('a \<Rightarrow> bool) \<Rightarrow> (error \<times> build) + 'a \<Rightarrow> bool" where
  "refreshed i Q r \<equiv> (\<forall>e b'. r = Inl (e, b') \<longrightarrow> is_build i b') \<and> (\<forall>y. r = Inr y \<longrightarrow> Q y)"

lemma keeps_try_upstream:
  assumes "keeps world_ok m P" and "is_build i b"
    and "\<And>x. P x \<Longrightarrow> keeps world_ok (k x) (refreshed i Q)"
  shows "keeps world_ok (try_upstream b m k) (refreshed i Q)"
proof -
  have m: "keeps world_ok (catch_io (bind_io m (\<lambda>x. return_io (Inr x))) is_upstream_error (\<lambda>e. return_io (Inl e)))
      (\<lambda>r. \<forall>x. r = Inr x \<longrightarrow> P x)"
    by (intro keeps_catch keeps_bind [OF assms(1)] keeps_return) simp_all
  show ?thesis
    unfolding try_upstream_def
    by (rule keeps_bind [OF m]) (auto split: sum.splits intro!: keeps_return assms(3) simp: assms(2))
qed

lemma keeps_no_number:
  "(\<And>q. keeps I (f q) Q) \<Longrightarrow> keeps I g Q \<Longrightarrow>
   keeps I (case (x, y) of (None, Some q) \<Rightarrow> f q | _ \<Rightarrow> g) Q"
  by (auto split: option.splits)

lemma keeps_refresh_queue:
  assumes "is_build i b"
  shows "keeps world_ok (refresh_queue sv b) (refreshed i (\<lambda>(_, b'). is_build i b'))"
proof -
  have step: "keeps world_ok (try_upstream b (jenkins_queue_status (sv_jenkins sv) qid) (\<lambda>status.
        bind_io (lift_io (get_truthy status ''cancelled'')) (\<lambda>cancelled.
        if cancelled then
          bind_io now_utc (\<lambda>t. bind_io now_utc (\<lambda>u.
          let b' = (with_completed (with_status b Cancelled) t)\<lparr>build_updated_at := u\<rparr> in
          seq_io (save_with_queue b' QCancelled) (return_io (Inr (True, b')))))
        else
          bind_io (lift_io (get_or_empty status ''executable'')) (\<lambda>x.
          case executable_number x of
            None \<Rightarrow> return_io (Inr (False, b))
          | Some n \<Rightarrow> bind_io now_utc (\<lambda>u.
              let b' = (with_status b Running)\<lparr>build_jenkins_build_number := Some n, build_updated_at := u\<rparr> in
              seq_io (save_with_queue b' QStarted) (return_io (Inr (False, b'))))))))
      (refreshed i (\<lambda>(_, b'). is_build i b'))" for qid
    by (intro keeps_try_upstream [OF keeps_client [OF leaves_jenkins_status(1,2)] assms]
        keeps_bind [OF keeps_lift [of _ "\<lambda>_. True"]] keeps_if keeps_bind [OF keeps_now] keeps_let
        keeps_seq [OF keeps_save_with_queue] keeps_return keeps_option)
      (simp_all add: assms)
  show ?thesis
    unfolding refresh_queue_def
    by (rule keeps_no_number [OF step keeps_return]) (simp add: assms)
qed

lemma keeps_read_final_result:
  assumes "is_build i b"
  shows "keeps world_ok (read_final_result sv b s n) (is_build i)"
proof -
  have result: "keeps world_ok (get_io (\<lambda>w. env_pipeline_result (w_env w) content))
      (\<lambda>r. \<forall>x. r = Some x \<longrightarrow> valid_pipeline_result x)" for content
    by (rule keeps_get) (auto simp: world_ok_def env_ok_def)
  show ?thesis
    unfolding read_final_result_def
    by (intro keeps_bind [OF keeps_client [OF leaves_jenkins_pipeline_result]] keeps_option
        keeps_bind [OF result] keeps_raise keeps_if keeps_bind [OF keeps_lift [of _ "\<lambda>_. True"]]
        keeps_bind [OF keeps_get_any] keeps_bind [OF keeps_now] keeps_return)
      (use assms in \<open>auto simp: valid_build_def [of "_\<lparr>build_result := _\<rparr>"] valid_build_def [of b]\<close>)
qed

lemma keeps_refresh_status:
  assumes "is_build i b"
  shows "keeps world_ok (refresh_status sv b) (refreshed i (is_build i))"
  unfolding refresh_status_def
proof (rule keeps_option)
  show "keeps world_ok (return_io (Inr b)) (refreshed i (is_build i))"
    by (rule keeps_return) (simp add: assms)
next
  fix n
  let ?b1 = "\<lambda>ts. with_timestamp b ts"
  have final: "keeps world_ok (try_upstream (?b1 ts) (read_final_result sv (?b1 ts) state n) (\<lambda>b2.
      bind_io now_utc (\<lambda>u. let b3 = b2\<lparr>build_updated_at := u\<rparr> in
        seq_io (save_with_queue b3 (queue_state_of (res_status (build_result b3)))) (return_io (Inr b3)))))
      (refreshed i (is_build i))" for ts state
    by (rule keeps_try_upstream [OF keeps_read_final_result])
      (auto simp: assms intro!: keeps_bind [OF keeps_now] keeps_let keeps_seq [OF keeps_save_with_queue] keeps_return)
  have running: "keeps world_ok (bind_io now_utc (\<lambda>u. let b2 = (with_status (?b1 ts) Running)\<lparr>build_updated_at := u\<rparr>
      in bind_io (db (pg_save_build b2)) (\<lambda>_. return_io (Inr b2)))) (refreshed i (is_build i))" for ts
    by (intro keeps_bind [OF keeps_now] keeps_let keeps_bind [OF keeps_db [OF keeps_pg_save_build]] keeps_return)
      (simp_all add: assms)
  show "keeps world_ok (try_upstream b (jenkins_build_status (sv_jenkins sv) (build_jenkins_job b) n) (\<lambda>s. case s of
          None \<Rightarrow> return_io (Inr b)
        | Some state \<Rightarrow>
            bind_io (lift_io (jmethod_get state ''timestamp'')) (\<lambda>ts.
            let b1 = with_timestamp b ts in
            bind_io (lift_io (jmethod_get state ''building'')) (\<lambda>building.
            if py_truthy building then
              bind_io now_utc (\<lambda>u.
              let b2 = (with_status b1 Running)\<lparr>build_updated_at := u\<rparr> in
              bind_io (db (pg_save_build b2)) (\<lambda>_. return_io (Inr b2)))
            else
              try_upstream b1 (read_final_result sv b1 state n) (\<lambda>b2.
              bind_io now_utc (\<lambda>u.
              let b3 = b2\<lparr>build_updated_at := u\<rparr> in
              seq_io (save_with_queue b3 (queue_state_of (res_status (build_result b3))))
                (return_io (Inr b3)))))))) (refreshed i (is_build i))"
    unfolding Let_def
    by (rule keeps_try_upstream [OF keeps_client [OF leaves_jenkins_status(3,4)] assms],
        rule keeps_option [OF keeps_return], simp add: assms,
        rule keeps_bind [OF keeps_lift [of _ "\<lambda>_. True"] keeps_bind [OF keeps_lift [of _ "\<lambda>_. True"]
          keeps_if [OF running [unfolded Let_def] final [unfolded Let_def]]]]) (rule TrueI)+
qed

lemma keeps_refresh_run:
  assumes "is_build i b"
  shows "keeps world_ok (refresh_run sv b) (refreshed i (is_build i))"
  unfolding refresh_run_def
proof (rule keeps_if)
  show "keeps world_ok (return_io (Inr b)) (refreshed i (is_build i))"
    by (rule keeps_return) (simp add: assms)
  show "keeps world_ok (bind_io (refresh_queue sv b) (\<lambda>r. case r of
          Inl x \<Rightarrow> return_io (Inl x)
        | Inr (finished, b') \<Rightarrow> if finished then return_io (Inr b') else refresh_status sv b'))
      (refreshed i (is_build i))"
    by (rule keeps_bind [OF keeps_refresh_queue [OF assms]])
      (auto split: sum.splits intro!: keeps_return keeps_refresh_status)
qed

lemma keeps_refresh_build:
  assumes "is_build i b"
  shows "keeps world_ok (refresh_build sv b) (is_build i)"
  unfolding refresh_build_def
  by (rule keeps_bind [OF keeps_refresh_run [OF assms]])
    (auto split: sum.splits intro!: keeps_return keeps_raise)

lemma keeps_builds: "keeps world_ok (builds sv) (list_all valid_build)"
proof -
  have bs: "keeps world_ok (db (get_io pg_list_builds)) (list_all valid_build)"
    by (rule keeps_db, rule keeps_get) (rule pg_list_builds_valid)
  have one: "keeps world_ok (bind_io (refresh_run sv b) (\<lambda>r. case r of
      Inl (_, b') \<Rightarrow> return_io b' | Inr b' \<Rightarrow> return_io b')) valid_build" if "valid_build b" for b
    by (rule keeps_bind [OF keeps_refresh_run [of _ "build_id b"]]) (use that in \<open>auto split: sum.splits intro!: keeps_return\<close>)
  show ?thesis
    unfolding builds_def
    by (rule keeps_bind [OF bs], rule keeps_map) (auto simp: list_all_iff intro!: keeps_if keeps_return one)
qed

lemma keeps_get_build: "keeps world_ok (get_build sv i) valid_build"
  unfolding get_build_def uuid_of_text_def
  by (rule keeps_bind [OF keeps_lift [of _ "\<lambda>_. True"]], simp,
      rule keeps_bind [OF keeps_db [OF keeps_pg_get_build]],
      rule keeps_weaken [OF keeps_refresh_build]) auto

lemma keeps_cancel_pipeline: "keeps world_ok (cancel_pipeline sv p i) (\<lambda>_. True)"
proof -
  have stop: "keeps world_ok (case n of
         None \<Rightarrow> (case q of None \<Rightarrow> raise_io e | Some j \<Rightarrow> jenkins_cancel_queue c j)
       | Some m \<Rightarrow> jenkins_cancel c job m) (\<lambda>_. True)" for n q e c job
    by (intro keeps_option keeps_raise keeps_client world_frame)
  show ?thesis
    unfolding cancel_pipeline_def
    by (rule keeps_bind [OF keeps_db [OF keeps_pg_get_build]], rule keeps_bind [OF keeps_refresh_build], simp,
        rule keeps_seq [OF stop])
      (intro keeps_bind [OF keeps_now] keeps_let keeps_seq [OF keeps_save_with_queue]
        keeps_seq [OF keeps_audit] keeps_return TrueI, simp)
qed

lemma keeps_start_native_build:
  "keeps world_ok (start_native_build sv p r t br) (\<lambda>_. True)"
  unfolding start_native_build_def
  by (intro keeps_seq [OF keeps_client [OF leaves_ensure_job]] keeps_seq [OF keeps_rebind_legacy_job]
      keeps_bind [OF keeps_uuid4] keeps_bind [OF keeps_now]
      keeps_bind [OF keeps_lift [of _ valid_build]] keeps_bind [OF keeps_client [OF leaves_jenkins_trigger]]
      keeps_bind [OF keeps_lift [of _ valid_queue_item]] keeps_let
      keeps_bind [OF keeps_db [OF keeps_pg_save_queue_item]] keeps_bind [OF keeps_db [OF keeps_pg_save_build]]
      keeps_bind [OF keeps_publish] keeps_seq [OF keeps_audit] keeps_return TrueI) simp_all

lemma keeps_reused_diff: "keeps world_ok (reused_diff sv r t pol) (\<lambda>_. True)"
proof -
  have "keeps world_ok (catch_io (bind_io (pull_request_diff g n p b h m) (\<lambda>d. return_io (Some d, None)))
      (\<lambda>e. is_upstream_error e \<or> is_value_error e) (\<lambda>e. return_io (None, Some (error_message e)))) (\<lambda>_. True)"
    for g n p b h m
    by (intro keeps_catch keeps_bind [OF keeps_client [OF leaves_pull_request_diff]] keeps_return TrueI)
  then show ?thesis
    unfolding reused_diff_def by (auto split: option.splits intro: keeps_return)
qed

lemma keeps_reuse_native_result:
  "keeps world_ok (reuse_native_result sv p r t br src) (\<lambda>_. True)"
proof -
  have finish: "keeps world_ok (bind_io (reused_diff sv r t pol) (\<lambda>(diff, review_error).
     bind_io now_utc (\<lambda>now.
     bind_io (lift_io (validated valid_build_completion ''BuildCompletion''
       \<lparr>cmp_callback_id = ''reused:'' @ str_uuid bid, cmp_timestamp = epoch_seconds now,
        cmp_build_id = bid, cmp_result = res, cmp_review = pol, cmp_diff = diff\<rparr>)) (\<lambda>c.
     seq_io (process_ai_review sv p c review_error) (return_io queue))))) (\<lambda>_. True)" for pol bid res queue
    by (rule keeps_bind [OF keeps_reused_diff])
      (auto intro!: keeps_bind [OF keeps_now] keeps_bind [OF keeps_lift [of _ "\<lambda>_. True"]]
        keeps_seq [OF keeps_process_ai_review] keeps_return)
  show ?thesis
    unfolding reuse_native_result_def Let_def
    by (intro keeps_bind [OF keeps_uuid4] keeps_bind [OF keeps_now]
        keeps_bind [OF keeps_lift [of _ valid_build]] keeps_bind [OF keeps_lift [of _ valid_queue_item]]
        keeps_bind [OF keeps_db [OF keeps_pg_save_queue_item]] keeps_bind [OF keeps_db [OF keeps_pg_save_build]]
        keeps_bind [OF keeps_publish] keeps_if keeps_raise keeps_seq [OF keeps_audit] finish) simp_all
qed

lemma keeps_trigger_pipeline: "keeps world_ok (trigger_pipeline sv p t) (\<lambda>_. True)"
proof -
  have find: "keeps world_ok (find_reusable r t) (\<lambda>_. True)" for r
    unfolding find_reusable_def reusable_native_build_def
    by (auto split: option.splits intro!: keeps_return keeps_bind [OF keeps_db [OF keeps_get_any]])
  show ?thesis
    unfolding trigger_pipeline_def
    by (intro keeps_bind [OF keeps_db [OF keeps_pg_get_repository]] keeps_bind [OF find] keeps_option
        keeps_start_native_build keeps_reuse_native_result)
qed

lemma keeps_retry_pipeline: "keeps world_ok (retry_pipeline sv p i) (\<lambda>_. True)"
  unfolding retry_pipeline_def
  by (intro keeps_bind [OF keeps_db [OF keeps_pg_get_build]] keeps_bind [OF keeps_lift [of _ "\<lambda>_. True"]]
      keeps_bind [OF keeps_trigger_pipeline] keeps_seq [OF keeps_audit] keeps_return TrueI)

lemma keeps_complete_build:
  assumes "valid_build_completion c"
  shows "keeps world_ok (complete_build sv p c) (\<lambda>_. True)"
proof -
  have valid: "valid_build (b\<lparr>build_result := cmp_result c, build_review_policy := Some (cmp_review c),
      build_updated_at := now\<rparr>)" if "valid_build b" for b now
    using that assms by (simp add: valid_build_def valid_build_completion_def)
  show ?thesis
    unfolding complete_build_def complete_matched_def store_completion_def close_completion_def Let_def
    by (rule keeps_bind [OF keeps_db [OF keeps_pg_get_build]])
      (intro keeps_if keeps_raise keeps_bind [OF keeps_now] keeps_bind [OF keeps_db [OF keeps_get_any]]
        keeps_return TrueI keeps_bind [OF keeps_db [OF keeps_pg_save_build]] valid
        keeps_bind [OF keeps_publish] keeps_bind [OF keeps_db [OF keeps_pg_record_webhook]]
        keeps_seq [OF keeps_set_queue_state] keeps_seq [OF keeps_audit], simp)
qed

end
