(* ===== verification/Completion.thy ===== *)
theory Completion
  imports Service_Builds_Facts
begin

section \<open>The completion protocol of a build\<close>

text \<open>
  What \<open>complete_build\<close> does on each path: the guards refuse before anything is written, a
  callback is accepted at most once, and an accepted callback leaves exactly its result in the
  store. The store's part rests on the contracts interpreted for \<open>PostgresStore\<close>.
\<close>

text \<open>The tables a publication and an audit record leave alone: all but the audit trail.\<close>

definition core :: "pg_store \<Rightarrow> pg_store" where
  "core s = s\<lparr>pg_audit := []\<rparr>"

lemma core_fields:
  assumes "core s = core t"
  shows "pg_repositories s = pg_repositories t" and "pg_queue_items s = pg_queue_items t"
    and "pg_builds s = pg_builds t" and "pg_webhooks s = pg_webhooks t"
    and "pg_extension_runs s = pg_extension_runs t"
  using assms by (cases s; cases t; simp add: core_def)+

lemma leaves_core_audit: "leaves (\<lambda>w. core (w_db w)) (audit p a t o1 d)"
  by (rule leaves_audit_table) (simp add: leaves_def pg_record_audit_def core_def)

lemma leaves_core_publish: "leaves (\<lambda>w. core (w_db w)) (publish_ci_status sv p r s x st d i)"
  unfolding publish_ci_status_def
  by (intro leaves_bind leaves_publish_attempts leaves_table [OF leaves_set_status(1)] leaves_sleep_table
      leaves_option leaves_seq leaves_return leaves_core_audit)

lemma pg_get_build_cong': "pg_builds t = pg_builds s \<Longrightarrow> fst (pg_get_build i t) = fst (pg_get_build i s)"
  by (rule pg_get_build_cong)

lemma pg_hook_seen_cong: "pg_webhooks t = pg_webhooks s \<Longrightarrow> pg_hook_seen k t = pg_hook_seen k s"
  by (simp add: pg_hook_seen_def)

lemma leaves_set_queue_state:
  "leaves (\<lambda>w. pg_builds (w_db w)) (set_queue_state b st)"
  "leaves (\<lambda>w. pg_webhooks (w_db w)) (set_queue_state b st)"
proof -
  have g: "leaves (\<lambda>w. g (w_db w)) (db (pg_get_queue_item i))" for g :: "pg_store \<Rightarrow> 'z" and i
    by (rule leaves_db_table) (simp add: leaves_def pg_get_queue_item_def split: option.splits)
  have s: "leaves (\<lambda>w. pg_builds (w_db w)) (db (pg_save_queue_item q))"
    "leaves (\<lambda>w. pg_webhooks (w_db w)) (db (pg_save_queue_item q))" for q
    by (rule leaves_db_table, simp add: leaves_def pg_save_queue_item_def split: option.splits)+
  show "leaves (\<lambda>w. pg_builds (w_db w)) (set_queue_state b st)"
    "leaves (\<lambda>w. pg_webhooks (w_db w)) (set_queue_state b st)"
    unfolding set_queue_state_def
    by (intro leaves_option leaves_return leaves_bind leaves_catch g s)+
qed


subsection \<open>What an accepted callback leaves behind\<close>

lemma run_pg_get_build: "db (pg_get_build i) w = (Inr b, w') \<Longrightarrow> w' = w \<and> fst (pg_get_build i (w_db w)) = Inr b"
  by (auto simp: run_db pg_get_build_def split: option.splits)

lemma run_db_Inr: "db m w = (Inr x, w') \<Longrightarrow> m (w_db w) = (Inr x, w_db w')"
  by (auto simp: run_db prod_eq_iff)

lemma pg_save_build_result: "pg_save_build b s = (Inr x, t) \<Longrightarrow> x = b"
  by (subst (asm) pg_save_build_cases) (simp split: if_splits)

text \<open>The run of an accepted callback, taken apart: first what follows the lookup of its delivery.\<close>

definition completed_with :: "build_completion \<Rightarrow> int \<Rightarrow> build \<Rightarrow> build" where
  "completed_with c now b = b\<lparr>build_result := cmp_result c, build_review_policy := Some (cmp_review c),
     build_updated_at := now\<rparr>"

lemma store_completion_accepted:
  assumes "store_completion sv p c build d w = (Inr True, t)"
  obtains now s1 and w1 w2 w3 w4 :: world where "w_db w1 = w_db w"
    and "pg_save_build (completed_with c now build) (w_db w1) = (Inr (completed_with c now build), s1)"
    and "core (w_db w2) = core s1" and "pg_record_webhook_once d (w_db w2) = (Inr True, w_db w3)"
    and "set_queue_state (completed_with c now build) (queue_state_of (res_status (cmp_result c))) w3 = (Inr (), w4)"
    and "core (w_db t) = core (w_db w4)"
proof -
  from assms obtain now wc saved wd published we where now: "now_utc w = (Inr now, wc)"
    and save: "db (pg_save_build (completed_with c now build)) wc = (Inr saved, wd)"
    and publish: "publish_ci_status sv p (res_repository (cmp_result c)) (res_commit_sha (cmp_result c))
       ''jenkinsservice/native-ci'' (completion_state (cmp_result c)) (completion_text (cmp_result c))
       (build_id (completed_with c now build)) wd = (Inr published, we)"
    and rest: "(if \<not> published
     then raise_io (UpstreamError ''native CI status publication failed after bounded retries'')
     else bind_io (db (pg_record_webhook_once d)) (\<lambda>fresh.
       if \<not> fresh then return_io False else close_completion p c (completed_with c now build))) we = (Inr True, t)"
    unfolding store_completion_def Let_def completed_with_def [symmetric] by (elim bind_io_InrE)
  from rest obtain fresh wf where recorded: "db (pg_record_webhook_once d) we = (Inr fresh, wf)"
    and rest: "(if \<not> fresh then return_io False else close_completion p c (completed_with c now build)) wf = (Inr True, t)"
    by (auto simp: run_raise elim!: bind_io_InrE split: if_splits)
  from rest have fresh: "fresh" and run: "close_completion p c (completed_with c now build) wf = (Inr True, t)"
    by (simp_all add: run_return split: if_splits)
  from run obtain x wg y wh where queue: "set_queue_state (completed_with c now build)
      (queue_state_of (res_status (cmp_result c))) wf = (Inr x, wg)"
    and audited: "audit p ''build_completion'' (str_uuid (build_id (completed_with c now build))) AuditSucceeded
      [(''status'', JStr (status_name (res_status (cmp_result c)))), (''callback_id'', JStr (cmp_callback_id c))]
      wg = (Inr y, wh)" and last: "return_io True wh = (Inr True, t)"
    unfolding close_completion_def by (elim seq_io_InrE)
  show thesis
  proof (rule that)
    show "w_db wc = w_db w" using now by (auto simp: now_utc_def)
    show "pg_save_build (completed_with c now build) (w_db wc) = (Inr (completed_with c now build), w_db wd)"
      using run_db_Inr [OF save] pg_save_build_result by blast
    show "core (w_db we) = core (w_db wd)" using leaves_core_publish publish by (rule leavesD)
    show "pg_record_webhook_once d (w_db we) = (Inr True, w_db wf)" using run_db_Inr [OF recorded] fresh by simp
    show "set_queue_state (completed_with c now build) (queue_state_of (res_status (cmp_result c))) wf = (Inr (), wg)"
      using queue by simp
    show "core (w_db t) = core (w_db wg)"
      using leavesD [OF leaves_core_audit audited] last by (simp add: run_return)
  qed
qed

lemma complete_build_accepted:
  assumes "complete_build sv p c w = (Inr True, t)"
  obtains build now delivery s1 and w1 w2 w3 w4 :: world where
    "fst (pg_get_build (cmp_build_id c) (w_db w)) = Inr build"
    and "same_identity build (cmp_result c)" and "is_terminal (res_status (cmp_result c))"
    and "hook_delivery_id delivery = completion_delivery_id c" and "w_db w1 = w_db w"
    and "pg_save_build (completed_with c now build) (w_db w1) = (Inr (completed_with c now build), s1)"
    and "core (w_db w2) = core s1" and "pg_record_webhook_once delivery (w_db w2) = (Inr True, w_db w3)"
    and "set_queue_state (completed_with c now build) (queue_state_of (res_status (cmp_result c))) w3 = (Inr (), w4)"
    and "core (w_db t) = core (w_db w4)"
proof -
  from assms obtain build w0 where get: "db (pg_get_build (cmp_build_id c)) w = (Inr build, w0)"
    and rest: "(if \<not> same_identity build (cmp_result c)
      then raise_io (ValueError ''build completion identity does not match the queued build'')
      else if \<not> is_terminal (res_status (cmp_result c))
      then raise_io (ValueError ''build completion must contain a terminal result'')
      else complete_matched sv p c build) w0 = (Inr True, t)"
    unfolding complete_build_def Let_def by (rule bind_io_InrE)
  from run_pg_get_build [OF get] have w0: "w0 = w" and found: "fst (pg_get_build (cmp_build_id c) (w_db w)) = Inr build"
    by simp_all
  from rest have guards: "same_identity build (cmp_result c)" "is_terminal (res_status (cmp_result c))"
    and run: "complete_matched sv p c build w = (Inr True, t)"
    by (simp_all add: run_raise w0 split: if_splits)
  from run obtain received wa known wb where received: "now_utc w = (Inr received, wa)"
    and known: "db (get_io pg_list_webhooks) wa = (Inr known, wb)"
    and rest: "(if list_ex (\<lambda>item. hook_delivery_id item = completion_delivery_id c) known
      then return_io False else store_completion sv p c build (completion_delivery c received)) wb = (Inr True, t)"
    unfolding complete_matched_def by (elim bind_io_InrE)
  have wb: "w_db wb = w_db w" using received known by (auto simp: now_utc_def run_db run_get)
  from rest have "store_completion sv p c build (completion_delivery c received) wb = (Inr True, t)"
    by (simp add: run_return split: if_splits)
  then show thesis
    by (rule store_completion_accepted) (rule that [OF found guards], simp_all add: completion_delivery_def wb)
qed


lemma accepted_delivery:
  assumes "pg_record_webhook_once d s = (Inr True, t)"
  shows "\<not> pg_hook_seen (hook_delivery_id d) s" and "pg_hook_seen (hook_delivery_id d) t"
    and "pg_builds t = pg_builds s"
  using assms pg.hooks.record_returns [of d s] pg.hooks.record_marks [of "hook_delivery_id d" d s]
  by (auto simp: pg_record_webhook_once_def split: if_splits)


text \<open>
  C2: An accepted callback passed both guards, had not been seen before, and leaves its
  result and its policy as the stored build and its delivery as seen.
\<close>

theorem complete_build_effect:
  assumes "world_ok w" and "complete_build sv p c w = (Inr True, t)"
  shows "\<exists>build stored. fst (pg_get_build (cmp_build_id c) (w_db w)) = Inr build
    \<and> same_identity build (cmp_result c) \<and> is_terminal (res_status (cmp_result c))
    \<and> \<not> pg_hook_seen (completion_delivery_id c) (w_db w)
    \<and> pg_hook_seen (completion_delivery_id c) (w_db t)
    \<and> fst (pg_get_build (cmp_build_id c) (w_db t)) = Inr stored
    \<and> build_result stored = cmp_result c \<and> build_review_policy stored = Some (cmp_review c)"
proof -
  let ?b = "\<lambda>build now. completed_with c now build"
  from assms(2) obtain build now delivery s1 and w1 w2 w3 w4 :: world where
    found: "fst (pg_get_build (cmp_build_id c) (w_db w)) = Inr build"
    and guards: "same_identity build (cmp_result c)" "is_terminal (res_status (cmp_result c))"
    and d: "hook_delivery_id delivery = completion_delivery_id c"
    and w1: "w_db w1 = w_db w"
    and save: "pg_save_build (?b build now) (w_db w1) = (Inr (?b build now), s1)"
    and w2: "core (w_db w2) = core s1"
    and hook: "pg_record_webhook_once delivery (w_db w2) = (Inr True, w_db w3)"
    and queue: "set_queue_state (?b build now) (queue_state_of (res_status (cmp_result c))) w3 = (Inr (), w4)"
    and t: "core (w_db t) = core (w_db w4)"
    by (rule complete_build_accepted)
  have inv: "pg_inv (w_db w)" using assms(1) by (simp add: world_ok_def pg_ok_def)
  have id: "build_id build = cmp_build_id c"
    using found pg_inv_idents(3) [OF inv, of "cmp_build_id c"]
    by (auto simp: pg_get_build_def split: option.splits)
  have "fst (pg_get_build (cmp_build_id c) s1) = Inr (?b build now)"
    using pg_builds.fetch_put [OF inv save [unfolded w1]] id by (simp add: completed_with_def)
  moreover have "pg_builds (w_db t) = pg_builds s1"
    using core_fields(3) [OF t] core_fields(3) [OF w2] leavesD [OF leaves_set_queue_state(1) queue]
      accepted_delivery(3) [OF hook] by simp
  ultimately have stored: "fst (pg_get_build (cmp_build_id c) (w_db t)) = Inr (?b build now)"
    using pg_get_build_cong by metis
  have "pg_hook_seen k (w_db w2) = pg_hook_seen k (w_db w)" for k
    using pg.build_keeps_hooks [of k "?b build now" "w_db w"] save w1
      pg_hook_seen_cong [OF core_fields(4) [OF w2]] by simp
  then have "\<not> pg_hook_seen (completion_delivery_id c) (w_db w)"
    using accepted_delivery(1) [OF hook] d by simp
  moreover have "pg_webhooks (w_db t) = pg_webhooks (w_db w3)"
    using core_fields(4) [OF t] leavesD [OF leaves_set_queue_state(2) queue] by simp
  then have "pg_hook_seen (completion_delivery_id c) (w_db t)"
    using accepted_delivery(2) [OF hook] d pg_hook_seen_cong by metis
  ultimately show ?thesis using found guards stored by (auto simp: completed_with_def)
qed

text \<open>A callback whose delivery is recorded is never accepted again.\<close>

theorem complete_build_once:
  assumes "world_ok w" and "pg_hook_seen (completion_delivery_id c) (w_db w)"
  shows "fst (complete_build sv p c w) \<noteq> Inr True"
proof
  assume "fst (complete_build sv p c w) = Inr True"
  then obtain t where "complete_build sv p c w = (Inr True, t)" by (cases "complete_build sv p c w") auto
  from complete_build_accepted [OF this]
  obtain build now delivery s1 and w1 w2 w3 w4 :: world where
    d: "hook_delivery_id delivery = completion_delivery_id c" and w1: "w_db w1 = w_db w"
    and save: "pg_save_build (completed_with c now build) (w_db w1) = (Inr (completed_with c now build), s1)"
    and w2: "core (w_db w2) = core s1"
    and hook: "pg_record_webhook_once delivery (w_db w2) = (Inr True, w_db w3)"
    by metis
  have "pg_hook_seen (completion_delivery_id c) s1"
    using pg.build_keeps_hooks [of "completion_delivery_id c" "completed_with c now build" "w_db w1"] save w1 assms(2) by simp
  then have "pg_hook_seen (completion_delivery_id c) (w_db w2)"
    using pg_hook_seen_cong [OF core_fields(4) [OF w2]] by simp
  with hook pg.hooks.record_returns [of delivery "w_db w2"] d show False by simp
qed

text \<open>
  C25: A completion for another identity, or one that is not terminal, is refused with a
  \<open>ValueError\<close> and changes nothing: no table, no exchange.
\<close>

theorem complete_build_guards:
  assumes "fst (pg_get_build (cmp_build_id c) (w_db w)) = Inr build"
    and "\<not> same_identity build (cmp_result c) \<or> \<not> is_terminal (res_status (cmp_result c))"
  shows "\<exists>m. complete_build sv p c w = (Inl (ValueError m), w)"
  using assms
  by (auto simp: complete_build_def run_bind run_db run_raise pg_get_build_def split: option.splits)

end
