(* ===== verification/Demo.thy ===== *)
theory Demo
  imports Completion
begin

section \<open>A deployment to evaluate the properties on\<close>

text \<open>
  One repository, one queued build with its queue item, a peer that answers by the method and
  body of the request, a clock that counts and identifiers above those in use. The witnesses
  of the properties run the model on it.
\<close>

definition ok_reply :: "json \<Rightarrow> http_reply" where
  "ok_reply j = Reply \<lparr>resp_status = 201, resp_headers = [(''location'', ''/queue/item/7/'')], resp_text = [],
     resp_json = Some j, resp_chunks = [], resp_breaks = False\<rparr>"

definition status_reply :: "int \<Rightarrow> http_reply" where
  "status_reply n = Reply \<lparr>resp_status = n, resp_headers = [], resp_text = [],
     resp_json = None, resp_chunks = [], resp_breaks = False\<rparr>"

definition demo_net :: "event list \<Rightarrow> http_request \<Rightarrow> http_reply" where
  "demo_net es q = (if req_method q = POST then ok_reply (JObj [(''id'', JInt 7)]) else status_reply 404)"

definition demo_env :: "(event list \<Rightarrow> http_request \<Rightarrow> http_reply) \<Rightarrow> env" where
  "demo_env net = \<lparr>env_time = int, env_uuid = (\<lambda>n. if n = 0 then 10 else if n = 1 then 11 else 12),
     env_net = net, env_pipeline_result = (\<lambda>_. None), env_review_result = (\<lambda>_. None),
     env_review_text = (\<lambda>_. None), env_review_schema = JNull, env_deadline = (\<lambda>_. False),
     env_json = (\<lambda>_. None), env_extension_output = (\<lambda>_. None), env_http_url = Some,
     env_iso = (\<lambda>_. []), env_text_of_json = (\<lambda>_. []), env_str_of_json = (\<lambda>_. []),
     env_text_of_float = (\<lambda>_. [])\<rparr>"

definition demo_sha :: string where
  "demo_sha = replicate 40 (CHR ''a'')"

definition demo_repository :: repository where
  "demo_repository = \<lparr>repo_owner = ''o'', repo_name = ''r'', repo_default_branch = ''main'', repo_enabled = True,
     repo_id = 1, repo_created_at = 0, repo_updated_at = 0\<rparr>"

definition demo_result :: "build_status \<Rightarrow> int option \<Rightarrow> pipeline_result" where
  "demo_result st pr = \<lparr>res_repository = ''o/r'', res_commit_sha = demo_sha, res_trusted_sha = None,
     res_base_sha = None, res_build_id = Some 2, res_pull_request = pr, res_status = st,
     res_started_at = None, res_completed_at = None, res_checks = [], res_artifacts = [],
     res_extension_runs = []\<rparr>"

definition demo_build :: "build_status \<Rightarrow> int option \<Rightarrow> build" where
  "demo_build st pr = \<lparr>build_id = 2, build_repository_id = 1, build_jenkins_job = ''repositories/o--r/b'',
     build_queue_item_id = Some 3, build_jenkins_queue_id = Some 7, build_jenkins_build_number = None,
     build_branch = None, build_reused_from = None, build_review_policy = None,
     build_ai_review_log = None, build_result = demo_result st pr, build_created_at = 0,
     build_updated_at = 0\<rparr>"

definition demo_queue_item :: queue_item where
  "demo_queue_item = \<lparr>queue_id = 3, queue_repository_id = 1, queue_build_id = Some 2,
     queue_jenkins_id = Some 7, queue_state = QQueued, queue_commit_sha = demo_sha,
     queue_base_sha = None, queue_branch = None, queue_pull_request = None, queue_created_at = 0\<rparr>"

definition demo_db :: "build \<Rightarrow> pg_store" where
  "demo_db b = \<lparr>pg_repositories = [(1, \<lparr>rr_full_name = py_lower ''o/r'', rr_data = demo_repository\<rparr>)],
     pg_queue_items = [(3, \<lparr>qr_repository_id = 1, qr_data = demo_queue_item, qr_created_at = 0\<rparr>)],
     pg_builds = [(2, \<lparr>br_repository_id = 1, br_data = b, br_created_at = 0, br_updated_at = 0\<rparr>)],
     pg_webhooks = [], pg_extension_runs = [], pg_audit = []\<rparr>"

definition demo_world :: "(event list \<Rightarrow> http_request \<Rightarrow> http_reply) \<Rightarrow> pg_store \<Rightarrow> world" where
  "demo_world net s = \<lparr>w_env = demo_env net, w_db = s, w_events = [], w_ticks = 0, w_uuids = 0,
     w_request_id = ''internal''\<rparr>"

definition demo_service :: service where
  "demo_service = \<lparr>sv_jenkins = \<lparr>jk_base_url = ''http://jenkins'', jk_auth = (''u'', ''t''),
       jk_github_web_url = ''https://github.com'', jk_reconcile_delay = 0\<rparr>,
     sv_github = \<lparr>gh_api_url = ''https://api'', gh_headers = []\<rparr>,
     sv_broker = None, sv_runner = \<lparr>rn_base_url = ''http://runner'', rn_max_output_bytes = 1000\<rparr>,
     sv_catalog = \<lparr>cat_manifests = [], cat_schema_errors = (\<lambda>_ _ _. [])\<rparr>,
     sv_allowlist = [''o/*''], sv_version = ''1'', sv_max_artifact_bytes = 1000,
     sv_public_base_url = None, sv_openai_model = ''m'', sv_prompt_version = ''v1'',
     sv_redact = (\<lambda>s. s), sv_operation_ids = []\<rparr>"

definition demo_actor :: principal where
  "demo_actor = \<lparr>token_id = ''ci'', scopes = {Operate}\<rparr>"

definition demo_completion :: "build_status \<Rightarrow> int option \<Rightarrow> build_completion" where
  "demo_completion st pr = \<lparr>cmp_callback_id = ''callback-1'', cmp_timestamp = 0, cmp_build_id = 2,
     cmp_result = demo_result st pr, cmp_review = default_review_policy, cmp_diff = None\<rparr>"

text \<open>
  The same with a review broker: every \<open>POST\<close> is answered with one object that serves as a
  status, a review and a broker's answer, and the broker's review has no findings.
\<close>

definition demo_answer :: json where
  "demo_answer = JObj [(''id'', JInt 7), (''model'', JStr ''m''), (''prompt_version'', JStr ''v1''),
     (''blocking'', JBool False), (''review'', JNull)]"

definition review_net :: "event list \<Rightarrow> http_request \<Rightarrow> http_reply" where
  "review_net es q = (if req_method q = POST then ok_reply demo_answer else status_reply 404)"

definition clean_review :: review_result where
  "clean_review = \<lparr>rev_summary = ''fine'', rev_findings = []\<rparr>"

definition review_service :: service where
  "review_service = demo_service\<lparr>sv_broker := Some \<lparr>bc_base_url = ''http://b'', bc_headers = []\<rparr>\<rparr>"

definition review_world :: "(event list \<Rightarrow> http_request \<Rightarrow> http_reply) \<Rightarrow> pg_store \<Rightarrow> world" where
  "review_world net s = \<lparr>w_env = (demo_env net)\<lparr>env_review_result := (\<lambda>_. Some clean_review)\<rparr>, w_db = s,
     w_events = [], w_ticks = 0, w_uuids = 0, w_request_id = ''internal''\<rparr>"

definition pull_result :: pipeline_result where
  "pull_result = (demo_result Passed (Some 5))\<lparr>res_base_sha := Some demo_sha\<rparr>"

definition pull_completion :: "string \<Rightarrow> build_completion" where
  "pull_completion diff = (demo_completion Passed (Some 5))\<lparr>cmp_result := pull_result, cmp_diff := Some diff\<rparr>"

definition demo_review_run :: extension_run where
  "demo_review_run = \<lparr>run_id = 9, run_extension_id = ''openai-review'', run_image_digest = ''m'', run_action = ''v1'',
     run_target = ''o/r#5'', run_idempotency_key = ''k'', run_status = RunRunning, run_output = None,
     run_created_at = 0, run_completed_at = None\<rparr>"

lemmas demo_defs = ok_reply_def status_reply_def demo_net_def demo_env_def demo_sha_def
  demo_repository_def demo_result_def demo_build_def demo_queue_item_def demo_db_def demo_world_def
  demo_service_def demo_actor_def demo_completion_def demo_answer_def review_net_def clean_review_def
  review_service_def review_world_def pull_result_def pull_completion_def demo_review_run_def

lemmas run_simps = io_simps now_utc_def uuid4_def log_event_def sleep_def http_def raise_for_status_def
  response_json_def header_of_def Let_def

lemmas pg_defs = pg_get_repository_def pg_get_build_def pg_get_queue_item_def pg_save_build_def
  pg_save_queue_item_def pg_record_webhook_once_def pg_record_audit_def pg_list_webhooks_def
  pg_list_builds_def sort_desc_def

lemma demo_build_valid: "valid_build (demo_build st pr)"
  by (simp add: valid_build_def demo_build_def demo_result_def valid_pipeline_result_def is_sha40_def
      is_sha40_option_def demo_sha_def safe_branch_option_def is_hex_def list_all_iff)

lemma demo_ok: "valid_build b \<Longrightarrow> build_id b = 2 \<Longrightarrow> world_ok (demo_world net (demo_db b))"
proof -
  assume b: "valid_build b" "build_id b = 2"
  have branch: "safe_branch ''main''" by code_simp
  have "pg_inv (demo_db b)"
    using b by (simp add: pg_inv_def demo_db_def filed_under_def unique_column_def pg_repository_of_def
        demo_repository_def demo_queue_item_def full_name_def)
  moreover have "valid_repository_create demo_repository"
    using branch by (simp add: valid_repository_create_def demo_repository_def valid_repo_part_def name_char_def
        is_alnum_def is_alpha_def)
  moreover have "valid_queue_item demo_queue_item"
    by (simp add: valid_queue_item_def demo_queue_item_def is_sha40_option_def safe_branch_option_def)
  ultimately have "pg_ok (demo_db b)"
    using b by (simp add: pg_ok_def pg_valid_def) (simp add: demo_db_def)
  then show ?thesis by (simp add: world_ok_def env_ok_def demo_world_def demo_env_def)
qed

lemma demo_completes:
  "fst (complete_build demo_service demo_actor (demo_completion Passed None)
     (demo_world demo_net (demo_db (demo_build Queued None)))) = Inr True"
  by (simp add: complete_build_def complete_matched_def store_completion_def close_completion_def
      same_identity_def is_terminal_def set_queue_state_def audit_def publish_ci_status_def
      completion_delivery_def numeral_3_eq_3 set_status_def github_post_def github_request_def
      build_url_def stripped_url_def completion_state_def completion_text_def demo_defs run_simps pg_defs)

lemma demo_run:
  "complete_build demo_service demo_actor (demo_completion Passed None)
     (demo_world demo_net (demo_db (demo_build Queued None))) =
   (Inr True, snd (complete_build demo_service demo_actor (demo_completion Passed None)
     (demo_world demo_net (demo_db (demo_build Queued None)))))"
  using demo_completes by (simp add: prod_eq_iff)

lemma demo_build_ok: "world_ok (demo_world net (demo_db (demo_build st pr)))"
  by (rule demo_ok [OF demo_build_valid]) (simp add: demo_build_def)

text \<open>The callback of the queued build, accepted; then the same callback again.\<close>

theorem complete_build_effect_witness:
  "\<exists>stored. fst (pg_get_build 2 (w_db (snd (complete_build demo_service demo_actor (demo_completion Passed None)
     (demo_world demo_net (demo_db (demo_build Queued None))))))) = Inr stored
   \<and> build_result stored = demo_result Passed None"
  using complete_build_effect [OF demo_build_ok demo_run] by (auto simp: demo_completion_def)

theorem complete_build_once_witness:
  "fst (complete_build demo_service demo_actor (demo_completion Failed None)
     (snd (complete_build demo_service demo_actor (demo_completion Passed None)
       (demo_world demo_net (demo_db (demo_build Queued None)))))) \<noteq> Inr True"
proof (rule complete_build_once)
  let ?t = "snd (complete_build demo_service demo_actor (demo_completion Passed None)
       (demo_world demo_net (demo_db (demo_build Queued None))))"
  have "valid_build_completion (demo_completion Passed None)"
    by (simp add: valid_build_completion_def demo_completion_def demo_result_def valid_pipeline_result_def
        is_sha40_def is_sha40_option_def demo_sha_def valid_review_policy_def default_review_policy_def
        list_all_iff is_hex_def callback_char_def is_alnum_def is_alpha_def is_digit_def)
  from keepsD [OF keeps_complete_build [OF this] demo_build_ok] show "world_ok ?t" .
  have "pg_hook_seen (completion_delivery_id (demo_completion Passed None)) (w_db ?t)"
    using demo_completes
    by (simp add: complete_build_def complete_matched_def store_completion_def close_completion_def
      same_identity_def is_terminal_def set_queue_state_def audit_def publish_ci_status_def
      completion_delivery_def numeral_3_eq_3 set_status_def github_post_def github_request_def
      build_url_def stripped_url_def completion_state_def completion_text_def pg_hook_seen_def
      demo_defs run_simps pg_defs)
  then show "pg_hook_seen (completion_delivery_id (demo_completion Failed None)) (w_db ?t)"
    by (simp add: completion_delivery_id_def demo_completion_def)
qed

theorem complete_build_guards_witness:
  "\<exists>m. complete_build demo_service demo_actor (demo_completion Queued None)
     (demo_world demo_net (demo_db (demo_build Queued None))) =
   (Inl (ValueError m), demo_world demo_net (demo_db (demo_build Queued None)))"
  by (rule complete_build_guards [where build = "demo_build Queued None"])
    (simp_all add: demo_completion_def demo_world_def demo_db_def demo_result_def is_terminal_def pg_get_build_def)

end
