(* ===== verification/Review_Properties.thy ===== *)
theory Review_Properties
  imports Demo
begin

section \<open>What a review sends and what it leaves behind\<close>

text \<open>
  The properties of the AI review: what reaches GitHub and under which conditions, what the
  review log looks like on its build, and what happens to a run whose attempt was cut off.
\<close>

subsection \<open>Events with values\<close>

lemma emits_bind_val:
  assumes "emits f P m" and "keeps (\<lambda>_. True) m Q" and "\<And>x. Q x \<Longrightarrow> emits f P (k x)"
  shows "emits f P (bind_io m k)"
  unfolding emits_def
proof
  fix s
  obtain r t where m: "m s = (r, t)" by (cases "m s")
  obtain es where es: "f t = f s @ es" "list_all P es" using emitsD [OF assms(1), of s] m by auto
  show "\<exists>es. f (snd (bind_io m k s)) = f s @ es \<and> list_all P es"
  proof (cases r)
    case (Inl e)
    with m es show ?thesis by (auto simp: run_bind)
  next
    case (Inr x)
    have "Q x" using keeps_InrD [OF assms(2)] m Inr by blast
    from emitsD [OF assms(3) [OF this], of t] obtain fs where "f (snd (k x t)) = f t @ fs" "list_all P fs" by blast
    with m es Inr show ?thesis by (auto simp: run_bind)
  qed
qed

lemma keeps_true: "keeps (\<lambda>_. True) m (\<lambda>_. True)"
  by (simp add: keeps_def wp_def split: prod.splits sum.splits)

lemma emits_publish_attempts:
  assumes "emits f P m" and "\<And>d. emits f P (sleep d)"
  shows "emits f P (publish_attempts m n k r)"
proof (induction k arbitrary: n r)
  case 0
  show ?case by (simp add: emits_leaves leaves_return)
next
  case (Suc k)
  show ?case
    unfolding publish_attempts.simps
    by (intro emits_bind emits_catch emits_option emits_seq emits_if assms Suc.IH emits_leaves leaves_return)
qed

lemma emits_github_post: "P (Request (github_request c path body)) \<Longrightarrow> emits w_events P (github_post c path body m)"
  unfolding github_post_def
  by (intro emits_bind emits_http) (auto intro!: emits_leaves keeps_intros world_frame)

lemma emits_publish_ci_status:
  assumes "\<And>d. P (Sleep d)"
    and "P (Request (github_request (sv_github sv) (''/repos/'' @ r @ ''/statuses/'' @ s)
      (status_body x st d (build_url sv i []))))"
  shows "emits w_events P (publish_ci_status sv p r s x st d i)"
  unfolding publish_ci_status_def set_status_def
  by (intro emits_bind emits_publish_attempts emits_if emits_github_post emits_sleep emits_option emits_seq assms
      emits_leaves leaves_raise leaves_return leaves_audit_world)

lemma leaves_attach_events: "leaves w_events (attach_review_log sv run l q)"
  unfolding attach_review_log_def http_url_def
  by (intro keeps_intros world_frame)

lemma leaves_claim_events: "leaves w_events (claim_run sv c n)"
  unfolding claim_run_def by (intro keeps_intros world_frame)

lemma leaves_skip_events: "leaves w_events (skip_review sv p c run n)"
  unfolding skip_review_def by (intro keeps_intros world_frame leaves_attach_events)

text \<open>A status publication makes at most three exchanges, whatever GitHub answers.\<close>

theorem publish_ci_status_bounded:
  "exchanges (w_events (snd (publish_ci_status sv p repository sha ctx st description i w)))
     \<le> exchanges (w_events w) + 3"
  using spends_publish [of sv p repository sha ctx st description i] by (simp add: spends_def)

text \<open>
  The review of a build that is no pull request, or whose trusted policy disables the
  review, reaches nothing outside: no exchange, no status, no pause.
\<close>

theorem skipped_review_is_silent:
  assumes "\<not> review_applies c"
  shows "w_events (snd (process_ai_review sv p c pre w)) = w_events w"
proof -
  have run: "leaves w_events (review_run sv p c pre run n)" for run n
    using assms leaves_skip_events
    by (auto simp: review_run_def review_applies_def split: bool.splits option.splits)
  have resume: "leaves w_events (resume_previous sv p c run)" for run
    using assms by (auto simp: resume_previous_def intro!: leaves_seq leaves_option leaves_return leaves_attach_events)
  have "leaves w_events (process_ai_review sv p c pre)"
    unfolding process_ai_review_def
    by (intro keeps_intros world_frame leaves_claim_events run resume)
  then show ?thesis by (simp add: leaves_def)
qed

theorem skipped_review_is_silent_witness:
  "w_events (snd (process_ai_review demo_service demo_actor (demo_completion Passed None) None
     (demo_world demo_net (demo_db (demo_build Queued None))))) = []"
  using skipped_review_is_silent [of "demo_completion Passed None" demo_service demo_actor None
      "demo_world demo_net (demo_db (demo_build Queued None))"]
  by (simp add: review_applies_def demo_completion_def demo_result_def demo_world_def)


subsection \<open>Inline comments\<close>

definition comment_on_added :: "parsed_diff \<Rightarrow> json \<Rightarrow> bool" where
  "comment_on_added parsed j = (case j of
      JObj cm \<Rightarrow> (case (jget cm ''path'', jget cm ''line'') of
          (JStr p, JInt n) \<Rightarrow> (case dget parsed p of None \<Rightarrow> False | Some ls \<Rightarrow> n \<in> ls)
        | _ \<Rightarrow> False)
    | _ \<Rightarrow> False)"

definition body_member :: "event \<Rightarrow> string \<Rightarrow> json" where
  "body_member e k = (case e of
      Request q \<Rightarrow> (case req_body q of JsonBody (JObj b) \<Rightarrow> jget b k | _ \<Rightarrow> JNull)
    | _ \<Rightarrow> JNull)"

definition comments_on_added :: "parsed_diff \<Rightarrow> event \<Rightarrow> bool" where
  "comments_on_added parsed e = (case body_member e ''comments'' of
      JList cs \<Rightarrow> list_all (comment_on_added parsed) cs | _ \<Rightarrow> True)"

definition success_status :: "event \<Rightarrow> bool" where
  "success_status e = (body_member e ''state'' = JStr ''success'')"

lemma comment_json_added: "is_added_line parsed f \<Longrightarrow> comment_on_added parsed (JObj (comment_json f))"
  by (simp add: comment_on_added_def comment_json_def is_added_line_def jget_def split: option.splits)

lemma body_member_github:
  "body_member (Request (github_request c path (JObj b))) k = jget b k"
  by (simp add: body_member_def github_request_def)

lemma body_member_sleep [simp]: "body_member (Sleep d) k = JNull"
  by (simp add: body_member_def)

lemma status_no_comments: "comments_on_added parsed (Request (github_request c path (status_body x st d u)))"
  by (auto simp: comments_on_added_def status_body_def body_member_github jget_def split: option.splits)

lemma status_success: "success_status (Request (github_request c path (status_body x st d u))) = (st = ''success'')"
  by (simp add: success_status_def status_body_def body_member_github jget_def)

lemma review_no_success: "\<not> success_status (Request (github_request c path (review_body s b cs)))"
  by (simp add: success_status_def review_body_def body_member_github jget_def)

lemma review_comments_added:
  "list_all (is_added_line parsed) fs \<Longrightarrow>
   comments_on_added parsed (Request (github_request c path (review_body s b (map comment_json fs))))"
  by (simp add: comments_on_added_def review_body_def body_member_github jget_def list.pred_map
      comp_def list_all_iff comment_json_added)

text \<open>What the events of each part of a review satisfy, given it for the requests it sends.\<close>

lemma emits_ai_status:
  assumes "\<And>d. P (Sleep d)" and "\<And>path x d u. P (Request (github_request (sv_github sv) path (status_body x st d u)))"
  shows "emits w_events P (ai_status sv p c st d)"
  unfolding ai_status_def by (intro emits_publish_ci_status assms)

lemma emits_record_failure:
  assumes "\<And>d. P (Sleep d)"
    and "\<And>path x d u. P (Request (github_request (sv_github sv) path (status_body x ''failure'' d u)))"
  shows "emits w_events P (record_failure sv p c run n why)"
  unfolding record_failure_def
  by (intro emits_let emits_bind emits_seq emits_ai_status assms
      emits_leaves [OF leaves_attach_events] emits_leaves [OF leaves_audit_world(1)]
      emits_leaves [OF leaves_now(2)] emits_leaves [OF leaves_lift])

lemma emits_publish_review:
  assumes "\<And>d. P (Sleep d)"
    and "\<And>path x d u. P (Request (github_request (sv_github sv) path
        (status_body x (if is_blocking (cmp_review c) r then ''failure'' else ''success'') d u)))"
    and "\<And>path s b. P (Request (github_request (sv_github sv) path (review_body s b (map comment_json (rev_findings r)))))"
  shows "emits w_events P (publish_review sv p c run n pr r)"
  unfolding publish_review_def create_review_def
  by (intro emits_let emits_bind emits_seq emits_if emits_github_post emits_ai_status assms
      emits_leaves [OF leaves_attach_events] emits_leaves [OF leaves_audit_world(1)]
      emits_leaves [OF leaves_now(2)] emits_leaves [OF leaves_lift] emits_leaves [OF leaves_get]
      emits_leaves [OF leaves_raise])

definition review_call_request :: "broker_client \<Rightarrow> json \<Rightarrow> http_request" where
  "review_call_request b body = \<lparr>req_method = POST, req_url = bc_base_url b @ ''/internal/v1/review'',
     req_headers = bc_headers b, req_params = [], req_auth = None, req_body = JsonBody body\<rparr>"

lemma emits_validated_review:
  assumes "\<And>r p bs hs d x. P (Request (review_call_request b (broker_body r p bs hs d x)))"
  shows "emits w_events P (validated_review sv b c pr bs d)"
  unfolding validated_review_def broker_review_call_def
  by (intro emits_if emits_bind emits_catch emits_seq emits_http assms [unfolded review_call_request_def]
      emits_leaves [OF leaves_lift] emits_leaves [OF leaves_raise] emits_leaves [OF leaves_get]
      emits_leaves [OF leaves_return] emits_leaves [OF leaves_raise_for_status]
      emits_leaves [OF leaves_response_json])

lemma validated_review_locations:
  "keeps (\<lambda>_. True) (validated_review sv b c pr bs d)
     (\<lambda>v. \<exists>parsed. parse_unified_diff d = Inr parsed \<and> list_all (is_added_line parsed) (rev_findings (br_review v)))"
proof -
  have check: "keeps (\<lambda>_. True) (seq_io (lift_io (validate_result parsed (br_review v))) (return_io v))
      (\<lambda>v. \<exists>parsed. parse_unified_diff d = Inr parsed \<and> list_all (is_added_line parsed) (rev_findings (br_review v)))"
    if "parse_unified_diff d = Inr parsed" for parsed v
    using that by (auto simp: keeps_def wp_simps validate_result_Inr split: sum.splits)
  show ?thesis
    unfolding validated_review_def
  proof (rule keeps_if [OF keeps_raise])
    show "keeps (\<lambda>_. True) (bind_io (lift_io (parse_unified_diff d)) (\<lambda>parsed.
        bind_io (broker_review_call b (res_repository (cmp_result c)) pr bs (res_commit_sha (cmp_result c)) d [])
         (\<lambda>review. if br_model review \<noteq> sv_openai_model sv \<or> br_prompt_version review \<noteq> sv_prompt_version sv
          then raise_io (ValueError ''review broker identity does not match configured model/prompt'')
          else seq_io (lift_io (validate_result parsed (br_review review))) (return_io review))))
       (\<lambda>v. \<exists>parsed. parse_unified_diff d = Inr parsed \<and> list_all (is_added_line parsed) (rev_findings (br_review v)))"
      by (rule keeps_bind [OF keeps_lift [of _ "\<lambda>x. parse_unified_diff d = Inr x"]], assumption,
          rule keeps_bind [OF keeps_true], rule keeps_if [OF keeps_raise], rule check)
  qed
qed

lemma execute_review_cases:
  assumes "emits w_events P (ai_status sv p c ''pending'' ''Critical-only AI review is running'')"
    and "\<And>why. emits w_events P (record_failure sv p c run n why)"
    and "\<And>b bs d. sv_broker sv = Some b \<Longrightarrow> res_base_sha (cmp_result c) = Some bs \<Longrightarrow> cmp_diff c = Some d \<Longrightarrow>
      emits w_events P (bind_io (validated_review sv b c pr bs d) (\<lambda>v. publish_review sv p c run n pr (br_review v)))"
  shows "emits w_events P (execute_review sv p c pre run n pr)"
  unfolding execute_review_def
  by (rule emits_bind [OF assms(1)])
    (auto split: option.splits intro!: assms(2) emits_catch [OF assms(3) assms(2)])

text \<open>
  C4: Every inline comment a review sends to GitHub is on an added line of the trusted diff.
\<close>

theorem review_comments_on_added_lines:
  assumes "cmp_diff c = Some diff" and "parse_unified_diff diff = Inr parsed"
  shows "\<exists>es. w_events (snd (execute_review sv p c pre run started pr w)) = w_events w @ es
    \<and> list_all (comments_on_added parsed) es"
proof -
  have quiet: "comments_on_added parsed (Sleep d)" for d by (simp add: comments_on_added_def)
  have broker: "comments_on_added parsed (Request (review_call_request b (broker_body r q bs hs d x)))" for b r q bs hs d x
    by (simp add: comments_on_added_def body_member_def review_call_request_def broker_body_def jget_def)
  have "emits w_events (comments_on_added parsed) (execute_review sv p c pre run started pr)"
  proof (rule execute_review_cases)
    fix b bs d
    assume "cmp_diff c = Some d"
    with assms(1) have d: "d = diff" by simp
    show "emits w_events (comments_on_added parsed)
        (bind_io (validated_review sv b c pr bs d) (\<lambda>v. publish_review sv p c run started pr (br_review v)))"
    proof (rule emits_bind_val [OF emits_validated_review validated_review_locations])
      show "comments_on_added parsed (Request (review_call_request b (broker_body r p bs hs d x)))" for r p bs hs d x
        by (rule broker)
      fix v
      assume "\<exists>q. parse_unified_diff d = Inr q \<and> list_all (is_added_line q) (rev_findings (br_review v))"
      then have "list_all (is_added_line parsed) (rev_findings (br_review v))" using assms(2) d by auto
      then show "emits w_events (comments_on_added parsed) (publish_review sv p c run started pr (br_review v))"
        by (intro emits_publish_review quiet status_no_comments review_comments_added)
    qed
  qed (intro emits_ai_status emits_record_failure quiet status_no_comments)+
  then show ?thesis by (rule emitsD)
qed



subsection \<open>A run to evaluate them on\<close>

text \<open>
  A review of pull request 5 whose broker finds nothing. The peers answer every \<open>POST\<close>, so a
  publication is one exchange.
\<close>

definition demo_review_start :: world where
  "demo_review_start = review_world review_net (demo_db (demo_build Passed (Some 5)))"

lemma mono_bind:
  "m s = (Inr x, t) \<Longrightarrow> emits f (\<lambda>_. True) (k x) \<Longrightarrow> e \<in> set (f t) \<Longrightarrow> e \<in> set (f (snd (bind_io m k s)))"
  by (drule emitsD [where s = t]) (auto simp: run_bind)

lemma mono_catch:
  assumes "\<And>e. emits f (\<lambda>_. True) (h e)" and "x \<in> set (f (snd (m s)))"
  shows "x \<in> set (f (snd (catch_io m p h s)))"
proof -
  obtain r t where m: "m s = (r, t)" by (cases "m s")
  show ?thesis
  proof (cases r)
    case (Inl e)
    from emitsD [OF assms(1) [of e], of t] Inl m assms(2) show ?thesis by (auto simp: run_catch)
  next
    case (Inr y)
    with m assms(2) show ?thesis by (simp add: run_catch)
  qed
qed

lemma github_post_answered:
  "env_net (w_env w) = review_net \<Longrightarrow>
   github_post c path body m w =
     (Inr demo_answer, w\<lparr>w_events := w_events w @ [Request (github_request c path body)]\<rparr>)"
  by (simp add: github_post_def run_simps github_request_def review_net_def ok_reply_def)

lemma publish_answered:
  assumes "env_net (w_env w) = review_net" and "st \<in> {''pending'', ''success'', ''failure'', ''error''}"
  shows "publish_ci_status sv p r s x st d i w = (Inr True, w\<lparr>w_events := w_events w @
    [Request (github_request (sv_github sv) (''/repos/'' @ r @ ''/statuses/'' @ s)
      (status_body x st d (build_url sv i [])))]\<rparr>)"
  using assms by (auto simp: publish_ci_status_def numeral_3_eq_3 set_status_def run_simps github_post_answered)

lemma broker_answered:
  assumes "env_net (w_env w) = review_net" and "env_review_result (w_env w) = (\<lambda>_. Some clean_review)"
  shows "\<exists>v t. broker_review_call b r n bs hs d x w = (Inr v, t) \<and> br_model v = ''m'' \<and> br_prompt_version v = ''v1''
    \<and> br_review v = clean_review \<and> w_env t = w_env w"
  using assms
  by (simp add: broker_review_call_def run_simps review_net_def ok_reply_def demo_answer_def
      read_broker_review_def py_str_def)

lemma emits_any_record_failure: "emits w_events (\<lambda>_. True) (record_failure sv p c run n why)"
  by (rule emits_record_failure) simp_all

lemma emits_any_publish_review: "emits w_events (\<lambda>_. True) (publish_review sv p c run n pr r)"
  by (rule emits_publish_review) simp_all

lemma emits_any_execute_review: "emits w_events (\<lambda>_. True) (execute_review sv p c pre run n pr)"
proof (rule execute_review_cases)
  show "emits w_events (\<lambda>_. True) (bind_io (validated_review sv b c pr bs d)
      (\<lambda>v. publish_review sv p c run n pr (br_review v)))" for b bs d
    by (rule emits_bind [OF emits_validated_review emits_any_publish_review]) simp
qed (auto intro!: emits_ai_status emits_any_record_failure)

lemma after_bind:
  "m s = (Inr x, t) \<Longrightarrow> e \<in> set (f (snd (k x t))) \<Longrightarrow> e \<in> set (f (snd (bind_io m k s)))"
  by (simp add: run_bind)

lemma create_review_answered:
  "env_net (w_env w) = review_net \<Longrightarrow> 1 \<le> pr \<Longrightarrow>
   create_review c r pr sha body comments w = (Inr demo_answer, w\<lparr>w_events := w_events w @
     [Request (github_request c (''/repos/'' @ r @ ''/pulls/'' @ str_int pr @ ''/reviews'')
       (review_body sha body comments))]\<rparr>)"
  by (simp add: create_review_def github_post_answered)

lemma demo_review_id: "lift_io (jmethod_get demo_answer ''id'') w = (Inr (JInt 7), w)"
  by (simp add: run_lift demo_answer_def jget_def)

definition demo_success :: event where
  "demo_success = Request (github_request (sv_github review_service) (''/repos/o/r/statuses/'' @ demo_sha)
    (status_body ''jenkinsservice/ai-review'' ''success'' ''AI review found no critical issues'' None))"

lemma demo_publishes_success:
  assumes net: "env_net (w_env w) = review_net"
  shows "demo_success \<in> set (w_events (snd (publish_review review_service demo_actor (pull_completion diff)
    demo_review_run 0 5 clean_review w)))"
proof -
  have clean: "\<not> is_blocking pol clean_review" for pol by (simp add: is_blocking_def clean_review_def)
  have result: "res_repository (cmp_result (pull_completion diff)) = ''o/r''"
    "res_commit_sha (cmp_result (pull_completion diff)) = demo_sha"
    by (simp_all add: pull_completion_def pull_result_def demo_result_def)
  have url: "build_url review_service i [] = None" for i
    by (simp add: build_url_def stripped_url_def review_service_def demo_service_def)
  show ?thesis
    unfolding publish_review_def Let_def
    apply (rule after_bind [where f = w_events], rule create_review_answered [OF net], simp)
    apply (rule after_bind [where f = w_events], rule demo_review_id)
    apply (rule mono_bind [where f = w_events], unfold ai_status_def, rule publish_answered)
       apply (simp add: net)
      apply (simp add: clean)
     apply (intro emits_bind emits_seq emits_leaves [OF leaves_now(2)] emits_leaves [OF leaves_get]
        emits_leaves [OF leaves_lift] emits_leaves [OF leaves_attach_events] emits_leaves [OF leaves_audit_world(1)])
    apply (simp add: clean result url demo_success_def)
    done
qed

definition demo_diff :: string where
  "demo_diff = ''--- a/f'' @ [CHR 0x0A] @ ''+++ b/f'' @ [CHR 0x0A] @ ''@@ -1 +1,2 @@'' @ [CHR 0x0A] @
     '' x'' @ [CHR 0x0A] @ ''+y'' @ [CHR 0x0A]"

lemma demo_diff_parses: "parse_unified_diff demo_diff = Inr [(''f'', {2})]"
  by code_simp

lemma demo_diff_small: "length (utf8_encode demo_diff) \<le> 100"
  by code_simp

lemma demo_review_accepted:
  assumes "env_net (w_env w) = review_net" and "env_review_result (w_env w) = (\<lambda>_. Some clean_review)"
    and "sv_broker review_service = Some b"
  shows "\<exists>v t. validated_review review_service b (pull_completion demo_diff) 5 bs demo_diff w = (Inr v, t)
    \<and> br_review v = clean_review \<and> w_env t = w_env w"
proof -
  have small: "\<not> rp_max_diff_bytes (cmp_review (pull_completion demo_diff)) < int (length (utf8_encode demo_diff))"
    using demo_diff_small by (simp add: pull_completion_def demo_completion_def default_review_policy_def)
  have ident: "sv_openai_model review_service = ''m''" "sv_prompt_version review_service = ''v1''"
    by (simp_all add: review_service_def demo_service_def)
  have none: "validate_result parsed clean_review = Inr ()" for parsed
    by (simp add: validate_result_def clean_review_def)
  from broker_answered [OF assms(1,2)] obtain v t where
    "broker_review_call b (res_repository (cmp_result (pull_completion demo_diff))) 5 bs
       (res_commit_sha (cmp_result (pull_completion demo_diff))) demo_diff [] w = (Inr v, t)"
    "br_model v = ''m''" "br_prompt_version v = ''v1''" "br_review v = clean_review" "w_env t = w_env w"
    by blast
  with small show ?thesis
    unfolding validated_review_def
    by (simp add: io_simps demo_diff_parses ident none)
qed

lemma demo_review_run_succeeds:
  "demo_success \<in> set (w_events (snd (execute_review review_service demo_actor (pull_completion demo_diff) None
     demo_review_run 0 5 demo_review_start)))"
proof -
  let ?c = "pull_completion demo_diff"
  have start: "env_net (w_env demo_review_start) = review_net"
    "env_review_result (w_env demo_review_start) = (\<lambda>_. Some clean_review)"
    by (simp_all add: demo_review_start_def review_world_def demo_env_def)
  let ?w = "demo_review_start\<lparr>w_events := w_events demo_review_start @
    [Request (github_request (sv_github review_service) (''/repos/'' @ res_repository (cmp_result ?c) @ ''/statuses/'' @
      res_commit_sha (cmp_result ?c)) (status_body ''jenkinsservice/ai-review'' ''pending''
        ''Critical-only AI review is running'' (build_url review_service (cmp_build_id ?c) [])))]\<rparr>"
  have pending: "ai_status review_service demo_actor ?c ''pending'' ''Critical-only AI review is running''
      demo_review_start = (Inr True, ?w)"
    unfolding ai_status_def by (rule publish_answered [OF start(1)]) simp
  have parts: "res_base_sha (cmp_result ?c) = Some demo_sha" "cmp_diff ?c = Some demo_diff"
    "sv_broker review_service = Some \<lparr>bc_base_url = ''http://b'', bc_headers = []\<rparr>"
    by (simp_all add: pull_completion_def pull_result_def review_service_def)
  have w: "env_net (w_env ?w) = review_net" "env_review_result (w_env ?w) = (\<lambda>_. Some clean_review)"
    using start by simp_all
  from demo_review_accepted [OF w parts(3)] obtain v t where
    v: "validated_review review_service \<lparr>bc_base_url = ''http://b'', bc_headers = []\<rparr> ?c 5 demo_sha demo_diff ?w = (Inr v, t)"
    "br_review v = clean_review" "w_env t = w_env ?w"
    by blast
  have "env_net (w_env t) = review_net" using v(3) w(1) by simp
  from demo_publishes_success [OF this, of demo_diff] v
  have "demo_success \<in> set (w_events (snd (bind_io
      (validated_review review_service \<lparr>bc_base_url = ''http://b'', bc_headers = []\<rparr> ?c 5 demo_sha demo_diff)
      (\<lambda>v. publish_review review_service demo_actor ?c demo_review_run 0 5 (br_review v)) ?w)))"
    by (simp add: run_bind)
  then show ?thesis
    unfolding execute_review_def
    by (intro after_bind [where f = w_events and m = "ai_status review_service demo_actor ?c ''pending''
          ''Critical-only AI review is running''", OF pending])
      (simp only: parts prod.case option.case, rule mono_catch [OF emits_any_record_failure])
qed

theorem review_comments_on_added_lines_witness:
  "\<exists>es. w_events (snd (execute_review review_service demo_actor (pull_completion demo_diff) None
      demo_review_run 0 5 demo_review_start)) = w_events demo_review_start @ es
    \<and> list_all (comments_on_added [(''f'', {2})]) es"
  by (rule review_comments_on_added_lines [OF _ demo_diff_parses]) (simp add: pull_completion_def)


end
