(* ===== verification/Security.thy ===== *)
theory Security
  imports Clients
begin

section \<open>security.py: token digests, signatures, the rate limiter and the redactor\<close>

text \<open>
  The token file and its entries, the bearer header, the HMAC signature of a callback, the
  sliding-window limiter with its buckets, and the redactor over the matches its compiled
  patterns find. The lemmas show what a token file accepts, that a rejected signature is the
  only one that does not verify, and that no window of the limiter holds more requests of a
  key than its limit.
\<close>

subsection \<open>Token digests\<close>

definition hash_token :: "string \<Rightarrow> string" where
  "hash_token token = sha256 (utf8_encode token)"

record token_entry =
  te_token_id :: string
  te_scopes :: "scope set"
  te_digest :: string

text \<open>\<open>Scope(value)\<close> and \<open>s.split(c, n)\<close>.\<close>

definition scope_of_name :: "string \<Rightarrow> scope outcome" where
  "scope_of_name s =
     (if s = ''read'' then Inr Read else if s = ''operate'' then Inr Operate
      else if s = ''extend'' then Inr Extend else if s = ''admin'' then Inr Admin
      else Inl (ValueError ''is not a valid Scope''))"

fun py_split_max :: "nat \<Rightarrow> char \<Rightarrow> string \<Rightarrow> string list" where
  "py_split_max 0 c s = [s]"
| "py_split_max (Suc n) c s = (case py_partition c s of
      (p, True, t) \<Rightarrow> p # py_split_max n c t
    | _ \<Rightarrow> [s])"

fun sum_all :: "('a \<Rightarrow> 'b outcome) \<Rightarrow> 'a list \<Rightarrow> 'b list outcome" where
  "sum_all f [] = Inr []"
| "sum_all f (x # xs) = bind_sum (f x) (\<lambda>y. bind_sum (sum_all f xs) (\<lambda>ys. Inr (y # ys)))"

text \<open>The body of the \<open>try\<close>: three fields, known scopes, a hexadecimal digest.\<close>

definition parse_token_fields :: "string \<Rightarrow> token_entry outcome" where
  "parse_token_fields line = (case py_split_max 2 (CHR ''|'') line of
      [i, raw_scopes, digest_hex] \<Rightarrow>
        bind_sum (sum_all (\<lambda>v. scope_of_name (py_strip v)) (py_split (CHR '','') raw_scopes)) (\<lambda>ss.
        bind_sum (from_hex digest_hex) (\<lambda>digest.
          Inr \<lparr>te_token_id = i, te_scopes = set ss, te_digest = digest\<rparr>))
    | _ \<Rightarrow> Inl (ValueError ''not enough values to unpack''))"

definition token_entry_of_line :: "nat \<Rightarrow> string \<Rightarrow> token_entry option outcome" where
  "token_entry_of_line n raw_line =
     (let line = py_strip raw_line in
      if line = [] \<or> startswith line ''#'' then Inr None
      else (case parse_token_fields line of
          Inl _ \<Rightarrow> Inl (ValueError (''invalid token secret entry on line '' @ str_nat n))
        | Inr e \<Rightarrow>
            if length (te_digest e) \<noteq> 32
            then Inl (ValueError (''invalid SHA-256 digest on line '' @ str_nat n))
            else Inr (Some e)))"

fun token_lines :: "nat \<Rightarrow> string list \<Rightarrow> token_entry list outcome" where
  "token_lines n [] = Inr []"
| "token_lines n (l # ls) =
     bind_sum (token_entry_of_line n l) (\<lambda>e. bind_sum (token_lines (n + 1) ls) (\<lambda>es.
       Inr (case e of None \<Rightarrow> es | Some x \<Rightarrow> x # es)))"

definition authenticator_from_text :: "string \<Rightarrow> token_entry list outcome" where
  "authenticator_from_text content =
     bind_sum (token_lines 1 (splitlines content)) (\<lambda>entries.
       if entries = [] then Inl (ValueError ''API token secret contains no token digests'')
       else Inr entries)"

text \<open>Every entry is compared; the last one that matches counts.\<close>

definition authenticate :: "token_entry list \<Rightarrow> string \<Rightarrow> principal option" where
  "authenticate entries token =
     (let candidate = hash_token token in
      map_option (\<lambda>(i, s). \<lparr>token_id = i, scopes = s\<rparr>)
        (foldl (\<lambda>m e. if compare_digest candidate (te_digest e)
                     then Some (te_token_id e, te_scopes e) else m) None entries))"


subsection \<open>The bearer header and signatures\<close>

record http_exception =
  exc_status :: int
  exc_detail :: string
  exc_headers :: "(string \<times> string) list"

definition bearer_realm :: string where
  "bearer_realm = ''Bearer realm='' @ [CHR 0x22] @ ''jenkins-service'' @ [CHR 0x22]"

definition bearer_token :: "string option \<Rightarrow> http_exception + string" where
  "bearer_token header =
     (case py_partition (CHR '' '') (case header of None \<Rightarrow> [] | Some h \<Rightarrow> h) of
        (scheme, separator, value) \<Rightarrow>
          if \<not> separator \<or> py_lower scheme \<noteq> ''bearer'' \<or> value = []
          then Inl \<lparr>exc_status = 401, exc_detail = ''Bearer authentication required'',
                 exc_headers = [(''WWW-Authenticate'', bearer_realm)]\<rparr>
          else Inr value)"

text \<open>On two \<open>str\<close> arguments \<open>compare_digest\<close> refuses characters outside ASCII.\<close>

definition is_ascii :: "string \<Rightarrow> bool" where
  "is_ascii s = list_all (\<lambda>c. (of_char c :: nat) < 128) s"

definition compare_digest_str :: "string \<Rightarrow> string \<Rightarrow> bool outcome" where
  "compare_digest_str a b =
     (if is_ascii a \<and> is_ascii b then Inr (compare_digest a b)
      else Inl (TypeError ''comparing strings with non-ASCII characters is not supported''))"

definition webhook_signature :: "string \<Rightarrow> string \<Rightarrow> string" where
  "webhook_signature secret body = ''sha256='' @ hmac_hex (utf8_encode secret) body"

definition verify_webhook_signature :: "string \<Rightarrow> string \<Rightarrow> string option \<Rightarrow> bool outcome" where
  "verify_webhook_signature secret body signature = (case signature of
      None \<Rightarrow> Inr False
    | Some s \<Rightarrow>
        if s = [] \<or> \<not> startswith s ''sha256='' then Inr False
        else compare_digest_str (webhook_signature secret body) s)"

definition verify_hmac_signature :: "string \<Rightarrow> string \<Rightarrow> string option \<Rightarrow> bool outcome" where
  "verify_hmac_signature secret body signature = verify_webhook_signature secret body signature"


subsection \<open>The sliding window\<close>

text \<open>Instants and the window are in seconds; \<open>lim_requests\<close> is the \<open>defaultdict\<close>.\<close>

record limiter =
  lim_limit :: int
  lim_window_seconds :: rat
  lim_requests :: "(string \<times> rat list) list"

definition new_limiter :: "int \<Rightarrow> limiter" where
  "new_limiter n = \<lparr>lim_limit = n, lim_window_seconds = 60, lim_requests = []\<rparr>"

definition bucket_of :: "limiter \<Rightarrow> string \<Rightarrow> rat list" where
  "bucket_of l k = (case dget (lim_requests l) k of None \<Rightarrow> [] | Some b \<Rightarrow> b)"

definition allow :: "string \<Rightarrow> rat \<Rightarrow> limiter \<Rightarrow> bool \<times> limiter" where
  "allow key instant l =
     (let cutoff = instant - lim_window_seconds l;
          bucket = dropWhile (\<lambda>t. t \<le> cutoff) (bucket_of l key)
      in if int (length bucket) \<ge> lim_limit l
         then (False, l\<lparr>lim_requests := dset key bucket (lim_requests l)\<rparr>)
         else (True, l\<lparr>lim_requests := dset key (bucket @ [instant]) (lim_requests l)\<rparr>))"


subsection \<open>The redactor\<close>

text \<open>
  A compiled pattern is what its \<open>finditer\<close> yields: the matches from left to right, each
  with the text up to it since the previous one, and \<open>match.group(1)\<close> when
  \<open>match.lastindex\<close> is set (\<open>None\<close> inside it for a group that took no part). The text
  after the last match completes the value.
\<close>

record re_match =
  rm_before :: string
  rm_text :: string
  rm_group1 :: "string option option"

type_synonym re_pattern = "string \<Rightarrow> re_match list \<times> string"

definition redaction :: "re_match \<Rightarrow> string" where
  "redaction m = (case rm_group1 m of
      None \<Rightarrow> [] | Some None \<Rightarrow> [] | Some (Some g) \<Rightarrow> g) @ ''[REDACTED]''"

definition pattern_sub :: "re_pattern \<Rightarrow> string \<Rightarrow> string" where
  "pattern_sub p value = (case p value of (ms, rest) \<Rightarrow>
     concat (map (\<lambda>m. rm_before m @ redaction m) ms) @ rest)"

definition redact :: "re_pattern list \<Rightarrow> string \<Rightarrow> string" where
  "redact patterns value = foldl (\<lambda>v p. pattern_sub p v) value patterns"


subsection \<open>Authentication\<close>

lemma authenticate_snoc:
  "authenticate (es @ [e]) token =
     (if te_digest e = hash_token token then Some \<lparr>token_id = te_token_id e, scopes = te_scopes e\<rparr>
      else authenticate es token)"
  by (simp add: authenticate_def compare_digest_def)

lemma authenticate_nil [simp]: "authenticate [] token = None"
  by (simp add: authenticate_def)

lemma authenticate_cases:
  "authenticate es token =
     (case filter (\<lambda>e. te_digest e = hash_token token) es of
        [] \<Rightarrow> None
      | ms \<Rightarrow> Some \<lparr>token_id = te_token_id (last ms), scopes = te_scopes (last ms)\<rparr>)"
  by (induction es rule: rev_induct) (auto simp: authenticate_snoc split: list.splits)

lemma bind_sum_eq_Inr: "bind_sum m k = Inr y \<longleftrightarrow> (\<exists>x. m = Inr x \<and> k x = Inr y)"
  by (cases m) simp_all

lemma sum_all_length: "sum_all f xs = Inr ys \<Longrightarrow> length ys = length xs"
  by (induction xs arbitrary: ys) (auto simp: bind_sum_eq_Inr)

lemma token_fields_scopes: "parse_token_fields l = Inr e \<Longrightarrow> te_scopes e \<noteq> {}"
  by (auto simp: parse_token_fields_def bind_sum_eq_Inr split: list.splits dest!: sum_all_length)

lemma token_lines_entries:
  "token_lines n ls = Inr es \<Longrightarrow> e \<in> set es \<Longrightarrow> length (te_digest e) = 32 \<and> te_scopes e \<noteq> {}"
proof (induction ls arbitrary: n es)
  case Nil
  then show ?case by simp
next
  case (Cons l ls)
  then obtain x xs where x: "token_entry_of_line n l = Inr x" "token_lines (n + 1) ls = Inr xs"
    and es: "es = (case x of None \<Rightarrow> xs | Some y \<Rightarrow> y # xs)"
    by (auto simp: bind_sum_eq_Inr)
  show ?case
  proof (cases "e \<in> set xs")
    case True
    with Cons.IH [OF x(2)] show ?thesis by blast
  next
    case False
    with es Cons.prems(2) have "x = Some e" by (auto split: option.splits)
    with x(1) show ?thesis
      by (auto simp: token_entry_of_line_def Let_def dest: token_fields_scopes split: if_splits sum.splits)
  qed
qed


subsection \<open>The window bound\<close>

text \<open>
  A sequence of requests, each a key and an instant, put to the limiter one after the other;
  the admitted ones are collected.
\<close>

definition admit :: "(string \<times> rat) list \<times> limiter \<Rightarrow> string \<times> rat \<Rightarrow> (string \<times> rat) list \<times> limiter" where
  "admit s c = (case allow (fst c) (snd c) (snd s) of (ok, l) \<Rightarrow> (if ok then fst s @ [c] else fst s, l))"

definition admitted :: "limiter \<Rightarrow> (string \<times> rat) list \<Rightarrow> (string \<times> rat) list" where
  "admitted l cs = fst (foldl admit ([], l) cs)"

definition times_of :: "string \<Rightarrow> (string \<times> rat) list \<Rightarrow> rat list" where
  "times_of k cs = map snd (filter (\<lambda>c. fst c = k) cs)"

definition in_window :: "rat \<Rightarrow> rat \<Rightarrow> rat list \<Rightarrow> rat list" where
  "in_window w t ts = filter (\<lambda>s. t - w < s \<and> s \<le> t) ts"

lemma length_filter_mono: "(\<And>x. x \<in> set xs \<Longrightarrow> P x \<Longrightarrow> Q x) \<Longrightarrow> length (filter P xs) \<le> length (filter Q xs)"
  by (induction xs) auto

lemma dropWhile_sorted: "sorted ts \<Longrightarrow> dropWhile (\<lambda>s. s \<le> (x::rat)) ts = filter (\<lambda>s. x < s) ts"
proof (induction ts)
  case Nil
  then show ?case by simp
next
  case (Cons a ts)
  show ?case
  proof (cases "a \<le> x")
    case True
    with Cons show ?thesis by simp
  next
    case False
    with Cons.prems have "\<forall>s\<in>set ts. x < s" by auto
    then have "filter (\<lambda>s. x < s) ts = ts" by (simp add: filter_id_conv)
    with False show ?thesis by simp
  qed
qed

lemma bucket_of_dset [simp]:
  "bucket_of (l\<lparr>lim_requests := dset k b (lim_requests l)\<rparr>) k' = (if k' = k then b else bucket_of l k')"
  by (simp add: bucket_of_def)

text \<open>
  What holds between requests: the bucket of a key is what was admitted for it after some
  cutoff that no later instant's cutoff precedes, and no window holds more than the limit.
\<close>

definition window_inv :: "limiter \<Rightarrow> (string \<times> rat) list \<Rightarrow> limiter \<Rightarrow> rat \<Rightarrow> bool" where
  "window_inv l0 acc l now =
     (lim_limit l = lim_limit l0 \<and> lim_window_seconds l = lim_window_seconds l0
      \<and> (\<forall>k. sorted (times_of k acc) \<and> (\<forall>s\<in>set (times_of k acc). s \<le> now)
          \<and> (\<exists>c. c \<le> now - lim_window_seconds l0 \<and> bucket_of l k = filter (\<lambda>s. c < s) (times_of k acc))
          \<and> (\<forall>t. int (length (in_window (lim_window_seconds l0) t (times_of k acc))) \<le> max 0 (lim_limit l0))))"

lemma times_of_snoc: "times_of k (acc @ [c]) = (if fst c = k then times_of k acc @ [snd c] else times_of k acc)"
  by (simp add: times_of_def)

lemma window_invD:
  assumes "window_inv l0 acc l now"
  shows "lim_limit l = lim_limit l0" and "lim_window_seconds l = lim_window_seconds l0" and "sorted (times_of j acc)"
    and "\<exists>c. c \<le> now - lim_window_seconds l0 \<and> bucket_of l j = filter (\<lambda>s. c < s) (times_of j acc)"
    and "int (length (in_window (lim_window_seconds l0) u (times_of j acc))) \<le> max 0 (lim_limit l0)"
  using assms by (auto simp: window_inv_def)

lemma window_inv_late: "window_inv l0 acc l now \<Longrightarrow> now \<le> t \<Longrightarrow> s \<in> set (times_of j acc) \<Longrightarrow> s \<le> t"
  by (fastforce simp: window_inv_def)

lemma window_inv_bucket:
  assumes "window_inv l0 acc l now" and "now \<le> t"
  shows "\<exists>d. d \<le> t - lim_window_seconds l0 \<and> bucket_of l j = filter (\<lambda>s. d < s) (times_of j acc)"
  using window_invD(4) [OF assms(1), of j] assms(2) by (meson diff_right_mono order_trans)

lemma window_inv_admit:
  assumes inv: "window_inv l0 acc l now" and t: "now \<le> t" and w: "0 < lim_window_seconds l0"
    and free: "int (length (filter (\<lambda>s. t - lim_window_seconds l0 < s) (times_of k acc))) < lim_limit l0"
  shows "window_inv l0 (acc @ [(k, t)])
    (l\<lparr>lim_requests := dset k (filter (\<lambda>s. t - lim_window_seconds l0 < s) (times_of k acc) @ [t]) (lim_requests l)\<rparr>) t"
proof -
  let ?w = "lim_window_seconds l0" and ?T = "times_of k acc"
  let ?l = "l\<lparr>lim_requests := dset k (filter (\<lambda>s. t - ?w < s) ?T @ [t]) (lim_requests l)\<rparr>"
  note old = window_invD [OF inv] and late = window_inv_late [OF inv t]
  have bound: "int (length (in_window ?w u (?T @ [t]))) \<le> max 0 (lim_limit l0)" for u
  proof (cases "t \<le> u")
    case True
    have "length (in_window ?w u ?T) \<le> length (filter (\<lambda>s. t - ?w < s) ?T)"
      unfolding in_window_def by (rule length_filter_mono) (use True in linarith)
    with free True show ?thesis by (auto simp: in_window_def)
  next
    case False
    with old(5) [of u k] show ?thesis by (simp add: in_window_def)
  qed
  have "\<exists>d. d \<le> t - ?w \<and> bucket_of ?l j = filter (\<lambda>s. d < s) (times_of j (acc @ [(k, t)]))" for j
  proof (cases "j = k")
    case True
    with w show ?thesis by (intro exI [of _ "t - ?w"]) (simp add: times_of_snoc)
  next
    case False
    with window_inv_bucket [OF inv t, of j] show ?thesis by (simp add: times_of_snoc)
  qed
  moreover have "sorted (times_of j (acc @ [(k, t)]))" for j
    using old(3) late by (auto simp: times_of_snoc sorted_append)
  moreover have "s \<in> set (times_of j (acc @ [(k, t)])) \<Longrightarrow> s \<le> t" for j s
    using late by (auto simp: times_of_snoc split: if_splits)
  moreover have "int (length (in_window ?w u (times_of j (acc @ [(k, t)])))) \<le> max 0 (lim_limit l0)" for j u
    using old(5) bound by (auto simp: times_of_snoc)
  ultimately show ?thesis
    unfolding window_inv_def using old(1,2) by (intro conjI allI ballI) simp_all
qed

lemma window_inv_step:
  assumes inv: "window_inv l0 acc l now" and t: "now \<le> t" and w: "0 < lim_window_seconds l0"
  shows "case admit (acc, l) (k, t) of (acc', l') \<Rightarrow> window_inv l0 acc' l' t"
proof -
  let ?w = "lim_window_seconds l0" and ?T = "times_of k acc"
  note old = window_invD [OF inv] and late = window_inv_late [OF inv t]
  obtain c where c: "c \<le> now - ?w" "bucket_of l k = filter (\<lambda>s. c < s) ?T" using old(4) by blast
  have "c \<le> t - ?w" using c(1) t by linarith
  then have kept: "dropWhile (\<lambda>s. s \<le> t - ?w) (bucket_of l k) = filter (\<lambda>s. t - ?w < s) ?T"
    using c(2) old(3) [of k] by (simp add: dropWhile_sorted sorted_filter [where f = id, simplified])
      (rule filter_cong, auto)
  show ?thesis
  proof (cases "int (length (filter (\<lambda>s. t - ?w < s) ?T)) \<ge> lim_limit l0")
    case True
    then have "admit (acc, l) (k, t) = (acc, l\<lparr>lim_requests := dset k (filter (\<lambda>s. t - ?w < s) ?T) (lim_requests l)\<rparr>)"
      by (simp add: admit_def allow_def Let_def old(1,2) kept)
    with old(1,2,3,5) late window_inv_bucket [OF inv t] show ?thesis by (auto simp: window_inv_def)
  next
    case False
    then have "admit (acc, l) (k, t) = (acc @ [(k, t)],
        l\<lparr>lim_requests := dset k (filter (\<lambda>s. t - ?w < s) ?T @ [t]) (lim_requests l)\<rparr>)"
      by (simp add: admit_def allow_def Let_def old(1,2) kept)
    with False window_inv_admit [OF inv t w] show ?thesis by simp
  qed
qed

lemma window_inv_run:
  assumes "0 < lim_window_seconds l0"
  shows "window_inv l0 acc l now \<Longrightarrow> sorted (now # map snd cs) \<Longrightarrow>
    \<exists>acc' l' now'. foldl admit (acc, l) cs = (acc', l') \<and> window_inv l0 acc' l' now'"
proof (induction cs arbitrary: acc l now)
  case Nil
  then show ?case by auto
next
  case (Cons c cs)
  obtain k t where c: "c = (k, t)" by (cases c)
  obtain acc' l' where step: "admit (acc, l) (k, t) = (acc', l')" by (cases "admit (acc, l) (k, t)")
  from window_inv_step [OF Cons.prems(1) _ assms, of t k] Cons.prems(2) c step
  have "window_inv l0 acc' l' t" by simp
  from Cons.IH [OF this] Cons.prems(2) c step show ?case by simp
qed

text \<open>
  Whatever the order of keys, of the requests a limiter admits for one key no window of
  its length holds more than its limit.
\<close>

theorem limiter_window_bound:
  assumes "0 < lim_window_seconds l" and "lim_requests l = []" and "sorted (map snd cs)"
  shows "int (length (in_window (lim_window_seconds l) t (times_of k (admitted l cs)))) \<le> max 0 (lim_limit l)"
proof (cases cs)
  case Nil
  then show ?thesis by (simp add: admitted_def times_of_def in_window_def)
next
  case (Cons c rest)
  let ?now = "snd c"
  have "window_inv l [] l ?now"
    using assms(2) by (auto simp: window_inv_def times_of_def in_window_def bucket_of_def)
  moreover have "sorted (?now # map snd cs)" using assms(3) Cons by simp
  ultimately obtain acc l' now where "foldl admit ([], l) cs = (acc, l')" "window_inv l acc l' now"
    using window_inv_run [OF assms(1)] by blast
  then show ?thesis by (simp add: admitted_def window_inv_def)
qed

theorem limiter_window_bound_witness:
  "int (length (in_window 60 61 (times_of ''ci'' (admitted (new_limiter 1) [(''ci'', 0), (''ci'', 1), (''ci'', 60)])))) \<le> 1"
  using limiter_window_bound [of "new_limiter 1" "[(''ci'', 0), (''ci'', 1), (''ci'', 60)]" 61 "''ci''"]
  by (simp add: new_limiter_def)

text \<open>
  A token is accepted exactly when its SHA-256 digest is one of the loaded ones, and the
  principal is that of the last entry with the digest.
\<close>

theorem authenticate_by_digest:
  "authenticate es token =
     (case filter (\<lambda>e. te_digest e = sha256 (utf8_encode token)) es of
        [] \<Rightarrow> None
      | m # ms \<Rightarrow> Some \<lparr>token_id = te_token_id (last (m # ms)), scopes = te_scopes (last (m # ms))\<rparr>)"
  using authenticate_cases [of es token] by (simp add: hash_token_def split: list.splits)


subsection \<open>The token file\<close>

text \<open>A line of the token file as its documentation gives it.\<close>

definition token_line :: "string \<times> scope list \<times> string \<Rightarrow> string" where
  "token_line x = (case x of (i, ss, digest) \<Rightarrow>
     i @ ''|'' @ py_join '','' (map scope_name ss) @ ''|'' @ to_hex digest)"

definition line_entry :: "string \<times> scope list \<times> string \<Rightarrow> token_entry" where
  "line_entry x = (case x of (i, ss, digest) \<Rightarrow> \<lparr>te_token_id = i, te_scopes = set ss, te_digest = digest\<rparr>)"

definition plain_entry :: "string \<times> scope list \<times> string \<Rightarrow> bool" where
  "plain_entry x = (case x of (i, ss, digest) \<Rightarrow>
     i \<noteq> [] \<and> \<not> is_space (hd i) \<and> hd i \<noteq> CHR ''#'' \<and> CHR ''|'' \<notin> set i \<and> no_line_break i
     \<and> ss \<noteq> [] \<and> length digest = 32)"

lemma scope_of_scope_name [simp]: "scope_of_name (py_strip (scope_name s)) = Inr s"
  by (cases s) (simp_all add: scope_of_name_def py_strip_def is_space_def)

lemma sum_all_scopes: "sum_all (\<lambda>v. scope_of_name (py_strip v)) (map scope_name ss) = Inr ss"
  by (induction ss) simp_all

lemma py_partition_at:
  assumes "c \<notin> set p"
  shows "py_partition c (p @ c # s) = (p, True, s)"
proof -
  have "takeWhile (\<lambda>x. x \<noteq> c) (p @ c # s) = p" "dropWhile (\<lambda>x. x \<noteq> c) (p @ c # s) = c # s"
    using assms by (induction p) auto
  then show ?thesis by (simp add: py_partition_def)
qed

lemma py_split_join: "ps \<noteq> [] \<Longrightarrow> list_all (\<lambda>p. c \<notin> set p) ps \<Longrightarrow> py_split c (py_join [c] ps) = ps"
  by (induction "[c]" ps rule: py_join.induct) (auto simp: py_split_append)

lemma scope_name_chars: "x \<in> set (scope_name s) \<Longrightarrow> is_alpha x"
  by (cases s) (auto simp: is_alpha_def)

lemma join_scope_chars: "x \<in> set (py_join '','' (map scope_name ss)) \<Longrightarrow> is_alpha x \<or> x = CHR '',''"
proof (induction ss)
  case Nil
  then show ?case by simp
next
  case (Cons s ss)
  then show ?case by (cases ss) (auto dest: scope_name_chars)
qed

lemma alpha_plain: "is_alpha x \<or> x = CHR '','' \<Longrightarrow> x \<noteq> CHR ''|'' \<and> \<not> is_line_break x"
  by (auto simp: is_alpha_def is_line_break_def Let_def)

lemma hex_plain: "is_lower_hex x \<Longrightarrow> \<not> is_space x \<and> \<not> is_line_break x"
  by (auto simp: is_lower_hex_def is_space_def is_line_break_def Let_def)

lemma token_line_no_break: "plain_entry x \<Longrightarrow> no_line_break (token_line x)"
  using to_hex_lower [of "snd (snd x)"]
  by (auto simp: plain_entry_def token_line_def no_line_break_def list_all_iff is_line_break_def [of "CHR ''|''"]
      split: prod.splits dest!: join_scope_chars alpha_plain dest: hex_plain)

lemma token_line_stripped:
  assumes "plain_entry x"
  shows "py_strip (token_line x) = token_line x"
proof -
  obtain i ss d where x: "x = (i, ss, d)" by (cases x)
  with assms obtain c j where i: "i = c # j" "\<not> is_space c" "length d = 32"
    by (cases i) (auto simp: plain_entry_def)
  have "to_hex d \<noteq> []" using i(3) by (metis length_0_conv length_to_hex mult_eq_0_iff zero_neq_numeral)
  then obtain h e where h: "to_hex d = h @ [e]" by (cases "to_hex d" rule: rev_cases) auto
  with to_hex_lower [of d] have "\<not> is_space e" by (auto dest: hex_plain)
  with i(1,2) x h show ?thesis by (simp add: py_strip_def token_line_def)
qed

lemma token_line_entry:
  assumes "plain_entry x"
  shows "token_entry_of_line n (token_line x) = Inr (Some (line_entry x))"
proof -
  obtain i ss d where x: "x = (i, ss, d)" by (cases x)
  let ?j = "py_join '','' (map scope_name ss)"
  have j: "CHR ''|'' \<notin> set ?j" using join_scope_chars alpha_plain by blast
  from assms x have parts: "CHR ''|'' \<notin> set i" "i \<noteq> []" "hd i \<noteq> CHR ''#''" "ss \<noteq> []" "length d = 32"
    by (simp_all add: plain_entry_def)
  have "py_split_max 2 (CHR ''|'') (i @ CHR ''|'' # ?j @ CHR ''|'' # to_hex d) = [i, ?j, to_hex d]"
    using parts(1) j by (simp add: numeral_2_eq_2 py_partition_at)
  moreover have "py_split (CHR '','') ?j = map scope_name ss"
    using parts(4) by (intro py_split_join) (auto simp: list_all_iff dest: scope_name_chars alpha_plain simp: is_alpha_def)
  ultimately have "parse_token_fields (token_line x) = Inr (line_entry x)"
    by (simp add: parse_token_fields_def token_line_def line_entry_def x sum_all_scopes from_to_hex)
  moreover have "token_line x \<noteq> []" "\<not> startswith (token_line x) ''#''"
    using parts(2,3) by (cases i; simp add: token_line_def x startswith_def)+
  ultimately show ?thesis
    using parts(5) by (simp add: token_entry_of_line_def token_line_stripped [OF assms [unfolded x]] line_entry_def x Let_def)
qed

lemma token_lines_entries_of: "list_all plain_entry xs \<Longrightarrow> token_lines n (map token_line xs) = Inr (map line_entry xs)"
  by (induction xs arbitrary: n) (simp_all add: token_line_entry)

text \<open>
  A token file written as documented is read back entry by entry.
\<close>

theorem token_file_roundtrip:
  assumes "list_all plain_entry xs" and "xs \<noteq> []"
  shows "authenticator_from_text (concat (map (\<lambda>x. token_line x @ [CHR 0x0A]) xs)) = Inr (map line_entry xs)"
proof -
  have "list_all no_line_break (map token_line xs)"
    using assms(1) by (auto simp: list_all_iff token_line_no_break)
  from splitlines_unlines [OF this]
  have "splitlines (concat (map (\<lambda>x. token_line x @ [CHR 0x0A]) xs)) = map token_line xs"
    by (simp add: comp_def)
  with token_lines_entries_of [OF assms(1), of 1] assms(2) show ?thesis
    by (simp add: authenticator_from_text_def)
qed

theorem token_file_roundtrip_witness:
  "authenticator_from_text (token_line (''ci'', [Operate, Read], replicate 32 (CHR ''x'')) @ [CHR 0x0A]) =
   Inr [\<lparr>te_token_id = ''ci'', te_scopes = {Operate, Read}, te_digest = replicate 32 (CHR ''x'')\<rparr>]"
  using token_file_roundtrip [of "[(''ci'', [Operate, Read], replicate 32 (CHR ''x''))]"]
  by (simp add: plain_entry_def no_line_break_def is_line_break_def is_space_def line_entry_def)

text \<open>
  What a token file yields is never empty, and every entry has a whole SHA-256 digest and
  at least one scope.
\<close>

theorem authenticator_entries:
  assumes "authenticator_from_text content = Inr es"
  shows "es \<noteq> [] \<and> list_all (\<lambda>e. length (te_digest e) = 32 \<and> te_scopes e \<noteq> {}) es"
  using assms token_lines_entries
  by (fastforce simp: authenticator_from_text_def bind_sum_eq_Inr list_all_iff split: if_splits)

theorem authenticator_entries_witness:
  "map line_entry [(''ci'', [Operate, Read], replicate 32 (CHR ''x''))] \<noteq> [] \<and>
   list_all (\<lambda>e. length (te_digest e) = 32 \<and> te_scopes e \<noteq> {})
     (map line_entry [(''ci'', [Operate, Read], replicate 32 (CHR ''x''))])"
proof -
  have "list_all plain_entry [(''ci'', [Operate, Read], replicate 32 (CHR ''x''))]"
    by (simp add: plain_entry_def no_line_break_def is_line_break_def is_space_def)
  from token_lines_entries_of [OF this, of 1]
  have "token_lines 1 [token_line (''ci'', [Operate, Read], replicate 32 (CHR ''x''))] =
      Inr (map line_entry [(''ci'', [Operate, Read], replicate 32 (CHR ''x''))])" by simp
  moreover have "splitlines (token_line (''ci'', [Operate, Read], replicate 32 (CHR ''x'')) @ [CHR 0x0A]) =
      [token_line (''ci'', [Operate, Read], replicate 32 (CHR ''x''))]"
    using splitlines_unlines [of "[token_line (''ci'', [Operate, Read], replicate 32 (CHR ''x''))]"]
      token_line_no_break [of "(''ci'', [Operate, Read], replicate 32 (CHR ''x''))"]
    by (simp add: plain_entry_def no_line_break_def is_line_break_def is_space_def)
  ultimately have "authenticator_from_text (token_line (''ci'', [Operate, Read], replicate 32 (CHR ''x'')) @ [CHR 0x0A]) =
      Inr (map line_entry [(''ci'', [Operate, Read], replicate 32 (CHR ''x''))])"
    by (simp add: authenticator_from_text_def)
  then show ?thesis by (rule authenticator_entries)
qed


subsection \<open>Headers and signatures\<close>

lemma lower_bearer: "py_lower ''Bearer'' = ''bearer''"
  by code_simp

lemma bearer_token_roundtrip: "t \<noteq> [] \<Longrightarrow> bearer_token (Some (''Bearer '' @ t)) = Inr t"
  using py_partition_at [of "CHR '' ''" "''Bearer''" t]
  by (simp add: bearer_token_def lower_bearer)

lemma bearer_token_rejects:
  "bearer_token h = Inl e \<Longrightarrow> exc_status e = 401 \<and> exc_headers e = [(''WWW-Authenticate'', bearer_realm)]"
  by (auto simp: bearer_token_def split: prod.splits if_splits)

lemma hmac_hex_ascii: "is_ascii (hmac_hex k m)"
  using to_hex_lower [of "hmac_sha256 k m"]
  by (auto simp: is_ascii_def hmac_hex_def list_all_iff is_lower_hex_def Let_def)

lemma webhook_signature_ascii: "is_ascii (webhook_signature secret body)"
  using hmac_hex_ascii by (simp add: webhook_signature_def is_ascii_def)

text \<open>
  A signature verifies exactly when it is the HMAC of the body; one with the prefix and a
  character outside ASCII is not rejected but raises.
\<close>

theorem signature_verdict:
  "verify_webhook_signature secret body signature =
     (if (\<exists>s. signature = Some s \<and> startswith s ''sha256='' \<and> \<not> is_ascii s)
      then Inl (TypeError ''comparing strings with non-ASCII characters is not supported'')
      else Inr (signature = Some (webhook_signature secret body)))"
proof (cases signature)
  case None
  then show ?thesis by (simp add: verify_webhook_signature_def)
next
  case (Some s)
  have "startswith (webhook_signature secret body) ''sha256=''"
    unfolding webhook_signature_def by (rule startswith_append)
  with Some show ?thesis
    using webhook_signature_ascii [of secret body]
    by (auto simp: verify_webhook_signature_def compare_digest_str_def compare_digest_def startswith_def)
qed


subsection \<open>Redaction\<close>

text \<open>A pattern tiles the text: what it matched and what lies between make up the value.\<close>

definition tiles :: "re_pattern \<Rightarrow> bool" where
  "tiles p = (\<forall>s. case p s of (ms, rest) \<Rightarrow> concat (map (\<lambda>m. rm_before m @ rm_text m) ms) @ rest = s)"

lemma redact_none: "list_all (\<lambda>p. p value = ([], value)) ps \<Longrightarrow> redact ps value = value"
  by (induction ps) (simp_all add: redact_def pattern_sub_def)

lemma redact_append: "redact (ps @ qs) v = redact qs (redact ps v)"
  by (simp add: redact_def)

end
