(* ===== verification/Review_Broker.thy ===== *)
theory Review_Broker
  imports Review_Properties Security
begin

section \<open>review_broker.py and the reference extension\<close>

text \<open>
  The internal broker: its configuration from the environment, the bearer check, the request
  model and the review endpoint over \<open>openai_review\<close>; and the function of the reference
  extension that ships with the repository. The lemmas show which configurations are
  accepted, that nothing is reviewed without the token, that the broker makes at most the
  configured number of exchanges, and that its verdict is the one the service computes.
\<close>

subsection \<open>Configuration\<close>

definition integer_env :: "(string \<Rightarrow> string option) \<Rightarrow> string \<Rightarrow> int \<Rightarrow> int outcome" where
  "integer_env environ name dflt =
     bind_sum (py_int (case environ name of None \<Rightarrow> str_int dflt | Some s \<Rightarrow> s)) (\<lambda>value.
       if value \<le> 0 then Inl (ValueError (name @ '' must be positive'')) else Inr value)"

text \<open>\<open>float(text)\<close> is a parameter; a text without a finite value raises in it.\<close>

definition float_env ::
    "(string \<Rightarrow> rat outcome) \<Rightarrow> (string \<Rightarrow> string option) \<Rightarrow> string \<Rightarrow> rat \<Rightarrow> bool \<Rightarrow> rat outcome" where
  "float_env py_float environ name dflt allow_zero =
     bind_sum (case environ name of None \<Rightarrow> Inr dflt | Some s \<Rightarrow> py_float s) (\<lambda>value.
       if value < 0 \<or> value = 0 \<and> \<not> allow_zero
       then Inl (ValueError (name @ '' must be '' @ (if allow_zero then ''non-negative'' else ''positive'')))
       else Inr value)"

definition env_or :: "(string \<Rightarrow> string option) \<Rightarrow> string \<Rightarrow> string \<Rightarrow> string" where
  "env_or environ name dflt = (case environ name of None \<Rightarrow> dflt | Some s \<Rightarrow> s)"

definition config_from_environment ::
    "(string \<Rightarrow> rat outcome) \<Rightarrow> (string \<Rightarrow> string option) \<Rightarrow> review_client_config outcome" where
  "config_from_environment py_float environ =
     (let reasoning = env_or environ ''OPENAI_REASONING_EFFORT'' ''medium'' in
      if reasoning \<notin> {''none'', ''low'', ''medium'', ''high'', ''xhigh'', ''max''}
      then Inl (ValueError ''OPENAI_REASONING_EFFORT is invalid'')
      else
        bind_sum (integer_env environ ''REVIEW_MAX_DIFF_BYTES'' 250000) (\<lambda>diff_bytes.
        bind_sum (integer_env environ ''REVIEW_MAX_CONTEXT_BYTES'' 50000) (\<lambda>context_bytes.
        bind_sum (integer_env environ ''REVIEW_MAX_OUTPUT_BYTES'' 64000) (\<lambda>output_bytes.
        bind_sum (integer_env environ ''OPENAI_MAX_OUTPUT_TOKENS'' 4096) (\<lambda>output_tokens.
        bind_sum (integer_env environ ''OPENAI_MAX_RETRIES'' 3) (\<lambda>attempts.
        bind_sum (float_env py_float environ ''OPENAI_TIMEOUT_SECONDS'' 60 False) (\<lambda>timeout.
        bind_sum (float_env py_float environ ''OPENAI_RETRY_BASE_SECONDS'' (1 / 4) True) (\<lambda>base.
          Inr \<lparr>rc_model = env_or environ ''OPENAI_MODEL'' ''gpt-5.6-terra'', rc_reasoning_effort = reasoning,
            rc_prompt_version = env_or environ ''REVIEW_PROMPT_VERSION'' ''v1'',
            rc_max_diff_bytes = diff_bytes, rc_max_context_bytes = context_bytes,
            rc_max_output_bytes = output_bytes, rc_max_output_tokens = output_tokens,
            rc_max_attempts = nat attempts, rc_timeout_seconds = timeout, rc_retry_base_seconds = base,
            rc_responses_url = rc_responses_url default_review_config\<rparr>))))))))"

definition read_secret_file :: "(string \<Rightarrow> string option) \<Rightarrow> string \<Rightarrow> string \<Rightarrow> string outcome" where
  "read_secret_file files path name = (case files path of
      None \<Rightarrow> Inl (OSError ''No such file or directory'')
    | Some content \<Rightarrow> let value = py_strip content in
        if value = [] then Inl (ValueError (name @ '' secret file is empty'')) else Inr value)"

text \<open>What \<open>create_review_broker_app\<close> closes over.\<close>

record broker_app =
  ba_config :: review_client_config
  ba_api_key :: string
  ba_token :: string

definition create_review_broker_app ::
    "(string \<Rightarrow> rat outcome) \<Rightarrow> (string \<Rightarrow> string option) \<Rightarrow> (string \<Rightarrow> string option)
     \<Rightarrow> review_client_config option \<Rightarrow> broker_app outcome" where
  "create_review_broker_app py_float environ files config =
     bind_sum (case config of Some c \<Rightarrow> Inr c | None \<Rightarrow> config_from_environment py_float environ) (\<lambda>active.
     bind_sum (read_secret_file files ''/run/secrets/openai_api_key'' ''OpenAI API key'') (\<lambda>key.
     bind_sum (read_secret_file files ''/run/secrets/review_broker_token'' ''review broker token'') (\<lambda>token.
     bind_sum (new_openai_client key (Some active)) (\<lambda>client.
       Inr \<lparr>ba_config = oc_config client, ba_api_key = oc_api_key client, ba_token = token\<rparr>))))"


subsection \<open>The endpoint\<close>

record broker_request =
  bq_repository :: string
  bq_pull_request :: int
  bq_base_sha :: string
  bq_head_sha :: string
  bq_diff :: string
  bq_relevant_context :: string

definition valid_broker_repository :: "string \<Rightarrow> bool" where
  "valid_broker_repository s = (length s \<le> 200 \<and> (case py_split (CHR ''/'') s of
      [owner, name] \<Rightarrow> valid_repo_part owner \<and> valid_repo_part name | _ \<Rightarrow> False))"

definition is_lower_sha40 :: "string \<Rightarrow> bool" where
  "is_lower_sha40 s = (length s = 40 \<and> list_all is_lower_hex s)"

definition valid_broker_request :: "broker_request \<Rightarrow> bool" where
  "valid_broker_request q =
     (valid_broker_repository (bq_repository q) \<and> 1 \<le> bq_pull_request q
      \<and> is_lower_sha40 (bq_base_sha q) \<and> is_lower_sha40 (bq_head_sha q) \<and> bq_diff q \<noteq> [])"

text \<open>\<open>authenticate\<close>: the credentials as the framework parsed them from the header.\<close>

definition broker_authenticate :: "broker_app \<Rightarrow> (string \<times> string) option \<Rightarrow> unit outcome" where
  "broker_authenticate app credentials =
     (let denied = Inl (HTTPException 401 ''invalid bearer token'') in
      case credentials of
        None \<Rightarrow> denied
      | Some (scheme, value) \<Rightarrow>
          if py_lower scheme \<noteq> ''bearer'' then denied
          else bind_sum (compare_digest_str value (ba_token app)) (\<lambda>same. if same then Inr () else denied))"

fun is_review_error :: "error \<Rightarrow> bool" where
  "is_review_error (DiffValidationError _) = True"
| "is_review_error (OpenAIReviewError _) = True"
| "is_review_error _ = False"

fun broker_error :: "error \<Rightarrow> error" where
  "broker_error (DiffValidationError m) = HTTPException 422 m"
| "broker_error (OpenAIReviewError _) = HTTPException 502 ''AI review failed''"
| "broker_error e = e"

definition broker_endpoint ::
    "broker_app \<Rightarrow> (string \<times> string) option \<Rightarrow> broker_request \<Rightarrow> broker_review task" where
  "broker_endpoint app credentials q =
     bind_io (lift_io (broker_authenticate app credentials)) (\<lambda>_.
     bind_io (catch_io (openai_review (ba_config app) (ba_api_key app) (bq_diff q) (bq_relevant_context q))
         is_review_error (\<lambda>e. raise_io (broker_error e))) (\<lambda>result.
       return_io \<lparr>br_model = rc_model (ba_config app), br_prompt_version = rc_prompt_version (ba_config app),
         br_blocking = has_critical_findings result, br_review = result\<rparr>))"


subsection \<open>The reference extension\<close>

text \<open>\<open>value > 100\<close> on a parsed value: only numbers compare with a number.\<close>

definition exceeds_hundred :: "json \<Rightarrow> bool outcome" where
  "exceeds_hundred j = (case j of
      JInt i \<Rightarrow> Inr (100 < i) | JBool b \<Rightarrow> Inr False | JFloat r \<Rightarrow> Inr (100 < r)
    | _ \<Rightarrow> Inl (TypeError ''not supported between instances''))"

definition large_change :: json where
  "large_change = JObj [(''severity'', JStr ''warning''), (''code'', JStr ''large-change''),
     (''message'', JStr ''Review this large change in smaller logical units where practical.'')]"

definition reference_review :: "jobj \<Rightarrow> json outcome" where
  "reference_review payload = (case jget_default payload ''inputs'' (JObj []) of
      JObj inputs \<Rightarrow>
        bind_sum (exceeds_hundred (jget_default inputs ''changed_files'' (JInt 0))) (\<lambda>large.
          Inr (JObj [(''findings'', JList (if large then [large_change] else [])),
            (''requested_github_actions'', JList [])]))
    | _ \<Rightarrow> Inl (AttributeError ''object has no attribute get''))"

definition reference_main :: "string list \<Rightarrow> jobj \<Rightarrow> json outcome" where
  "reference_main argv payload =
     (let action = (case argv of _ # a # _ \<Rightarrow> a | _ \<Rightarrow> []) in
      if action \<noteq> ''review'' then Inl (RuntimeError (''unsupported action: '' @ action))
      else reference_review payload)"


subsection \<open>Properties\<close>

lemma integer_env_positive: "integer_env environ n d = Inr v \<Longrightarrow> 0 < v"
  by (auto simp: integer_env_def bind_sum_eq_Inr split: if_splits)

lemma float_env_sign: "float_env f environ n d z = Inr v \<Longrightarrow> 0 \<le> v \<and> (z \<or> 0 < v)"
  by (auto simp: float_env_def bind_sum_eq_Inr split: if_splits)

text \<open>The broker's application has a key and a token, and its client is never refused.\<close>

lemma broker_app_sound:
  assumes "create_review_broker_app py_float environ files config = Inr app"
  shows "ba_api_key app \<noteq> [] \<and> ba_token app \<noteq> [] \<and> new_openai_client (ba_api_key app) (Some (ba_config app)) =
    Inr \<lparr>oc_api_key = ba_api_key app, oc_config = ba_config app\<rparr>"
  using assms
  by (auto simp: create_review_broker_app_def new_openai_client_def read_secret_file_def bind_sum_eq_Inr Let_def
      split: if_splits option.splits)

text \<open>
  A configuration read from the environment has positive limits, at least one attempt and
  no negative pause.
\<close>

theorem config_limits_positive:
  assumes "config_from_environment py_float environ = Inr c"
  shows "0 < rc_max_diff_bytes c \<and> 0 < rc_max_context_bytes c \<and> 0 < rc_max_output_bytes c
    \<and> 0 < rc_max_output_tokens c \<and> 1 \<le> rc_max_attempts c \<and> 0 < rc_timeout_seconds c
    \<and> 0 \<le> rc_retry_base_seconds c"
  using assms
  by (auto simp: config_from_environment_def bind_sum_eq_Inr Let_def split: if_splits
      dest!: integer_env_positive float_env_sign)

text \<open>
  The broker reviews nothing without its token: any other credential is refused and
  reaches nothing outside.
\<close>

theorem broker_requires_token:
  assumes "\<not> (\<exists>scheme. credentials = Some (scheme, ba_token app) \<and> py_lower scheme = ''bearer'')"
  shows "\<exists>e. broker_endpoint app credentials q w = (Inl e, w)
    \<and> (is_ascii (ba_token app) \<and> (case credentials of None \<Rightarrow> True | Some (s, v) \<Rightarrow> is_ascii v)
        \<longrightarrow> e = HTTPException 401 ''invalid bearer token'')"
proof -
  have "\<exists>e. broker_authenticate app credentials = Inl e
    \<and> (is_ascii (ba_token app) \<and> (case credentials of None \<Rightarrow> True | Some (s, v) \<Rightarrow> is_ascii v)
      \<longrightarrow> e = HTTPException 401 ''invalid bearer token'')"
  proof (cases credentials)
    case None
    then show ?thesis by (simp add: broker_authenticate_def)
  next
    case (Some c)
    obtain scheme v where c: "c = (scheme, v)" by (cases c)
    show ?thesis
    proof (cases "py_lower scheme = ''bearer''")
      case True
      with assms Some c have "v \<noteq> ba_token app" by auto
      with True Some c show ?thesis
        by (auto simp: broker_authenticate_def compare_digest_str_def compare_digest_def)
    next
      case False
      with Some c show ?thesis by (simp add: broker_authenticate_def)
    qed
  qed
  then show ?thesis by (auto simp: broker_endpoint_def run_bind run_lift)
qed

lemma leaves_lift_spend: "spends 0 (lift_io r)"
  by (rule spends_leaves) (rule leaves_lift)

text \<open>
  C37: One call of the broker makes at most the configured number of exchanges with OpenAI.
\<close>

theorem broker_exchanges_bounded:
  "exchanges (w_events (snd (broker_endpoint app credentials q w)))
     \<le> exchanges (w_events w) + rc_max_attempts (ba_config app)"
proof -
  have "spends (0 + (rc_max_attempts (ba_config app) + 0 + 0)) (broker_endpoint app credentials q)"
    unfolding broker_endpoint_def
    by (intro spends_bind leaves_lift_spend spends_catch spends_openai_review spends_leaves [OF leaves_raise]
        spends_leaves [OF leaves_return])
  then show ?thesis by (simp add: spends_def)
qed

text \<open>
  Under a valid policy the service blocks on exactly the reviews the broker marks as
  blocking.
\<close>

theorem blocking_verdicts_agree:
  assumes "valid_review_policy p"
  shows "is_blocking p r = has_critical_findings r"
proof -
  have "severity_name s = ''critical'' \<longleftrightarrow> s = Critical" for s by (cases s) simp_all
  with assms show ?thesis by (simp add: is_blocking_def has_critical_findings_def valid_review_policy_def)
qed

theorem blocking_verdicts_agree_witness: "\<not> is_blocking default_review_policy \<lparr>rev_summary = ''x'', rev_findings = []\<rparr>"
  by (subst blocking_verdicts_agree) (simp_all add: valid_review_policy_def default_review_policy_def has_critical_findings_def)

text \<open>
  C36: What the broker answers was validated against the diff: every finding is on an added
  line of it, and the verdict and the identity are the configured ones.
\<close>

theorem broker_answer_validated:
  assumes "world_ok w" and "broker_endpoint app credentials q w = (Inr v, t)"
  shows "(\<exists>parsed. parse_unified_diff (bq_diff q) = Inr parsed
      \<and> list_all (is_added_line parsed) (rev_findings (br_review v)))
    \<and> br_blocking v = has_critical_findings (br_review v)
    \<and> br_model v = rc_model (ba_config app) \<and> br_prompt_version v = rc_prompt_version (ba_config app)"
proof -
  from assms(2) obtain r where r: "openai_review (ba_config app) (ba_api_key app) (bq_diff q) (bq_relevant_context q) w
      = (Inr r, t)" and v: "v = \<lparr>br_model = rc_model (ba_config app),
      br_prompt_version = rc_prompt_version (ba_config app), br_blocking = has_critical_findings r, br_review = r\<rparr>"
    by (auto simp: broker_endpoint_def run_bind run_lift run_catch run_return run_raise
        split: sum.splits prod.splits if_splits)
  from openai_review_validated [OF assms(1) r] v show ?thesis by auto
qed


subsection \<open>A broker to evaluate them on\<close>

definition demo_finding :: review_finding where
  "demo_finding = \<lparr>find_severity = Critical, find_title = ''t'', find_body = ''b'', find_path = ''f'', find_line = 2\<rparr>"

definition broker_env :: env where
  "broker_env = (demo_env (\<lambda>es q. Reply \<lparr>resp_status = 200, resp_headers = [], resp_text = [], resp_json = None,
       resp_chunks = [''x''], resp_breaks = False\<rparr>))
     \<lparr>env_json := (\<lambda>_. Some (JObj [(''status'', JStr ''completed''), (''output_text'', JStr ''t'')])),
      env_review_text := (\<lambda>_. Some \<lparr>rev_summary = ''s'', rev_findings = [demo_finding]\<rparr>)\<rparr>"

definition broker_world :: world where
  "broker_world = (demo_world demo_net (demo_db (demo_build Queued None)))\<lparr>w_env := broker_env\<rparr>"

definition demo_broker :: broker_app where
  "demo_broker = \<lparr>ba_config = default_review_config, ba_api_key = ''key'', ba_token = ''token''\<rparr>"

definition demo_broker_request :: broker_request where
  "demo_broker_request = \<lparr>bq_repository = ''o/r'', bq_pull_request = 5, bq_base_sha = demo_sha, bq_head_sha = demo_sha,
     bq_diff = demo_diff, bq_relevant_context = []\<rparr>"

lemma broker_world_ok: "world_ok broker_world"
  using demo_build_ok [of demo_net Queued None]
  by (simp add: world_ok_def env_ok_def broker_world_def broker_env_def demo_world_def demo_env_def
      valid_review_result_def valid_review_finding_def demo_finding_def)

lemma broker_token_accepted: "broker_authenticate demo_broker (Some (''bearer'', ''token'')) = Inr ()"
proof -
  have "py_lower ''bearer'' = ''bearer''" "is_ascii ''token''" by code_simp+
  then show ?thesis
    by (simp add: broker_authenticate_def demo_broker_def compare_digest_str_def compare_digest_def)
qed

lemma demo_openai_review:
  "\<exists>u. openai_review default_review_config ''key'' demo_diff [] broker_world =
    (Inr \<lparr>rev_summary = ''s'', rev_findings = [demo_finding]\<rparr>, u)"
proof -
  have added: "is_added_line [(''f'', {2})] demo_finding" by (simp add: is_added_line_def demo_finding_def)
  have small: "bounded_utf8 demo_diff 250000 n w = (Inr (), w)" "bounded_utf8 [] 50000 n w = (Inr (), w)" for n w
    using demo_diff_small by (simp_all add: bounded_utf8_def run_return utf8_encode_def)
  have read: "read_stream 64000 e \<lparr>resp_status = 200, resp_headers = [], resp_text = [], resp_json = None,
      resp_chunks = [''x''], resp_breaks = False\<rparr> w = (Inr ''x'', w)" for e and w :: world
    by (simp add: read_stream_def run_simps)
  have net: "env_net (w_env broker_world) es r = Reply \<lparr>resp_status = 200, resp_headers = [], resp_text = [],
      resp_json = None, resp_chunks = [''x''], resp_breaks = False\<rparr>" for es r
    by (simp add: broker_world_def broker_env_def demo_env_def)
  have outside: "env_deadline (w_env broker_world) = (\<lambda>_. False)"
    "env_json (w_env broker_world) = (\<lambda>_. Some (JObj [(''status'', JStr ''completed''), (''output_text'', JStr ''t'')]))"
    "env_review_text (w_env broker_world) = (\<lambda>_. Some \<lparr>rev_summary = ''s'', rev_findings = [demo_finding]\<rparr>)"
    by (simp_all add: broker_world_def broker_env_def demo_env_def)
  have limit: "rc_max_output_bytes default_review_config = 64000" "rc_max_diff_bytes default_review_config = 250000"
    "rc_max_context_bytes default_review_config = 50000" "rc_max_attempts default_review_config = Suc (Suc (Suc 0))"
    by (simp_all add: default_review_config_def numeral_3_eq_3)
  have valid: "validate_result [(''f'', {2})] \<lparr>rev_summary = ''s'', rev_findings = [demo_finding]\<rparr> = Inr ()"
    by (simp add: validate_result_def added)
  have attempt: "\<exists>t. openai_attempt default_review_config k [(''f'', {2})] body broker_world =
      (Inr \<lparr>rev_summary = ''s'', rev_findings = [demo_finding]\<rparr>, t)" for k body
    by (simp add: openai_attempt_def with_timeout_def response_bytes_def http_def run_bind run_lift run_get run_seq
        run_return net outside limit read json_loads_def review_of_text_def extract_output_text_def jget_def valid)
  obtain u where u: "openai_attempt default_review_config ''key'' [(''f'', {2})]
      (request_body default_review_config (w_env broker_world) demo_diff []) broker_world =
      (Inr \<lparr>rev_summary = ''s'', rev_findings = [demo_finding]\<rparr>, u)" using attempt by blast
  then show ?thesis
    by (simp add: openai_review_def run_bind run_seq run_lift run_get run_catch limit small demo_diff_parses)
qed

lemma broker_demo_answers:
  "\<exists>v t. broker_endpoint demo_broker (Some (''bearer'', ''token'')) demo_broker_request broker_world = (Inr v, t)
    \<and> rev_findings (br_review v) = [demo_finding]"
proof -
  obtain u where "openai_review default_review_config ''key'' demo_diff [] broker_world =
      (Inr \<lparr>rev_summary = ''s'', rev_findings = [demo_finding]\<rparr>, u)" using demo_openai_review by blast
  then show ?thesis
    by (simp add: broker_endpoint_def broker_token_accepted run_bind run_lift run_catch run_return demo_broker_request_def)
      (simp add: demo_broker_def run_return)
qed

theorem broker_answer_validated_witness:
  "list_all (is_added_line [(''f'', {2})]) [demo_finding]"
proof -
  obtain v t where "broker_endpoint demo_broker (Some (''bearer'', ''token'')) demo_broker_request broker_world = (Inr v, t)"
    "rev_findings (br_review v) = [demo_finding]"
    using broker_demo_answers by blast
  with broker_answer_validated [OF broker_world_ok this(1)] show ?thesis
    by (auto simp: demo_broker_request_def demo_diff_parses)
qed

theorem broker_requires_token_witness:
  "\<exists>e. broker_endpoint demo_broker None demo_broker_request broker_world = (Inl e, broker_world)"
  using broker_requires_token [of None demo_broker demo_broker_request broker_world] by auto

definition demo_environ :: "string \<Rightarrow> string option" where
  "demo_environ k = (if k \<in> {''OPENAI_REASONING_EFFORT'', ''OPENAI_TIMEOUT_SECONDS'', ''OPENAI_RETRY_BASE_SECONDS''}
     then None else Some ''5'')"

theorem config_limits_positive_witness:
  "\<exists>c. config_from_environment (\<lambda>s. Inl (ValueError [])) demo_environ = Inr c \<and> 1 \<le> rc_max_attempts c"
proof -
  have "py_int ''5'' = Inr 5" by code_simp
  then have "\<exists>c. config_from_environment (\<lambda>s. Inl (ValueError [])) demo_environ = Inr c"
    by (simp add: config_from_environment_def integer_env_def float_env_def env_or_def demo_environ_def)
  with config_limits_positive show ?thesis by blast
qed

end
