(* ===== verification/Service_Extensions.thy ===== *)
theory Service_Extensions
  imports Service_Builds_Facts Security
begin

section \<open>extensions.py and the extension operations of service.py\<close>

text \<open>
  The catalog of allowlisted extensions and how it is loaded from a directory, the client of
  the isolated runner, \<open>run_extension_action\<close> with its idempotency key, its requested GitHub
  actions and its failure record, and the four reading operations. The lemmas show that the
  catalog holds the allowlist and nothing else, that an action reaches GitHub only if the
  manifest names it, that every path ends in a finished run, and that the invariant holds.
\<close>

subsection \<open>The catalog\<close>

definition catalog_get :: "extension_catalog \<Rightarrow> string \<Rightarrow> extension_manifest outcome" where
  "catalog_get c i = (case dget (cat_manifests c) i of
      None \<Rightarrow> Inl (ValueError (''extension is not allowlisted: '' @ i))
    | Some m \<Rightarrow> Inr m)"

definition catalog_list :: "extension_catalog \<Rightarrow> extension_manifest list" where
  "catalog_list c = dvalues (cat_manifests c)"

definition catalog_validate :: "extension_catalog \<Rightarrow> string \<Rightarrow> json \<Rightarrow> nat \<Rightarrow> string \<Rightarrow> unit outcome" where
  "catalog_validate c i value k label =
     bind_sum (catalog_get c i) (\<lambda>_. case cat_schema_errors c i k value of
         [] \<Rightarrow> Inr ()
       | m # _ \<Rightarrow> Inl (ValueError (''extension '' @ label @ '' does not match schema: '' @ m)))"

definition validate_input :: "extension_catalog \<Rightarrow> string \<Rightarrow> json \<Rightarrow> unit outcome" where
  "validate_input c i value = catalog_validate c i value 0 ''input''"

definition validate_output :: "extension_catalog \<Rightarrow> string \<Rightarrow> json \<Rightarrow> unit outcome" where
  "validate_output c i value = catalog_validate c i value 1 ''output''"

text \<open>
  \<open>jsonschema\<close>, pydantic and the files are parameters: \<open>validator schema value\<close> is the list
  of the messages of \<open>iter_errors\<close> in the order of their paths, \<open>lib_schema_ok\<close> is
  \<open>check_schema\<close>, \<open>lib_manifest\<close> is \<open>ExtensionManifest.model_validate_json\<close>.
\<close>

record catalog_libraries =
  lib_manifest :: "string \<Rightarrow> extension_manifest option"
  lib_json :: "string \<Rightarrow> json option"
  lib_schema_ok :: "json \<Rightarrow> bool"
  lib_validator :: "json \<Rightarrow> json \<Rightarrow> string list"

type_synonym schema_pair = "json \<times> json"

definition new_catalog ::
    "catalog_libraries \<Rightarrow> (string \<times> extension_manifest) list \<Rightarrow> (string \<times> schema_pair) list
     \<Rightarrow> string list \<Rightarrow> extension_catalog outcome" where
  "new_catalog lib manifests schemas allowlist =
     (if filter (\<lambda>i. i \<notin> set (dkeys manifests)) allowlist \<noteq> []
      then Inl (ValueError ''allowlisted extensions have no manifest'')
      else Inr \<lparr>cat_manifests = filter (\<lambda>(i, m). i \<in> set allowlist) manifests,
        cat_schema_errors = (\<lambda>i k v. case dget schemas i of
            None \<Rightarrow> []
          | Some (input, output) \<Rightarrow> lib_validator lib (if k = 0 then input else output) v)\<rparr>)"

text \<open>A directory with a manifest: its text and the files beside it.\<close>

record catalog_entry =
  ce_manifest :: string
  ce_files :: "(string \<times> string) list"

definition read_schema :: "catalog_libraries \<Rightarrow> catalog_entry \<Rightarrow> string \<Rightarrow> json outcome" where
  "read_schema lib e name = (case dget (ce_files e) name of
      None \<Rightarrow> Inl (OSError ''No such file or directory'')
    | Some content \<Rightarrow> (case lib_json lib content of
          None \<Rightarrow> Inl (JSONDecodeError ''Expecting value'')
        | Some j \<Rightarrow> Inr j))"

fun load_entries ::
    "catalog_libraries \<Rightarrow> catalog_entry list \<Rightarrow> (string \<times> extension_manifest) list \<Rightarrow> (string \<times> schema_pair) list
     \<Rightarrow> ((string \<times> extension_manifest) list \<times> (string \<times> schema_pair) list) outcome" where
  "load_entries lib [] manifests schemas = Inr (manifests, schemas)"
| "load_entries lib (e # es) manifests schemas = (case lib_manifest lib (ce_manifest e) of
      None \<Rightarrow> Inl (ValidationError ''ExtensionManifest'')
    | Some m \<Rightarrow>
        if man_id m \<in> set (dkeys manifests) then Inl (ValueError (''duplicate extension ID: '' @ man_id m))
        else bind_sum (read_schema lib e (man_input_schema m)) (\<lambda>input.
          bind_sum (read_schema lib e (man_output_schema m)) (\<lambda>output.
          if \<not> lib_schema_ok lib input \<or> \<not> lib_schema_ok lib output then Inl (SchemaError ''check_schema'')
          else load_entries lib es (dset (man_id m) m manifests) (dset (man_id m) (input, output) schemas))))"

definition catalog_from_directory ::
    "catalog_libraries \<Rightarrow> catalog_entry list \<Rightarrow> string list \<Rightarrow> extension_catalog outcome" where
  "catalog_from_directory lib entries allowlist =
     bind_sum (load_entries lib entries [] []) (\<lambda>(manifests, schemas).
       new_catalog lib manifests schemas allowlist)"


subsection \<open>The runner's client\<close>

definition manifest_json :: "extension_manifest \<Rightarrow> json" where
  "manifest_json m = JObj [(''schema_version'', JStr ''ci.jenkinsservice.dev/extension/v1''),
     (''id'', JStr (man_id m)), (''image'', JStr (man_image m)),
     (''compatible_contracts'', JList (map JStr (man_compatible_contracts m))),
     (''actions'', JList (map JStr (man_actions m))),
     (''input_schema'', JStr (man_input_schema m)), (''output_schema'', JStr (man_output_schema m)),
     (''github_actions'', JList (map JStr (man_github_actions m))),
     (''required_secrets'', JList (map JStr (man_required_secrets m))),
     (''network'', JStr ''none''), (''timeout_seconds'', JInt (man_timeout_seconds m)),
     (''memory_mb'', JInt (man_memory_mb m)), (''cpus'', JFloat (man_cpus m))]"

definition new_runner_client :: "string \<Rightarrow> int \<Rightarrow> runner_client" where
  "new_runner_client base_url max_output_bytes =
     \<lparr>rn_base_url = rstrip_char (CHR ''/'') base_url, rn_max_output_bytes = max_output_bytes\<rparr>"

text \<open>
  The body is read before \<open>post\<close> returns, so a broken stream raises there; the whole content is
  in memory when its length is compared with the limit.
\<close>

definition run_extension :: "runner_client \<Rightarrow> extension_manifest \<Rightarrow> string \<Rightarrow> json \<Rightarrow> extension_output task" where
  "run_extension c m action payload =
     (if action \<notin> set (man_actions m)
      then raise_io (ValueError (''extension '' @ man_id m @ '' does not declare action '' @ action))
      else bind_io (http \<lparr>req_method = POST, req_url = rn_base_url c @ ''/internal/v1/run'',
             req_headers = [], req_params = [], req_auth = None,
             req_body = JsonBody (JObj [(''manifest'', manifest_json m), (''action'', JStr action),
               (''payload'', payload)])\<rparr>) (\<lambda>response.
        if resp_breaks response then raise_io (TransportError ''stream interrupted'')
        else seq_io (raise_for_status response) (
          if int (length (concat (resp_chunks response))) > rn_max_output_bytes c
          then raise_io (ValueError ''extension output exceeds configured limit'')
          else bind_io (get_io (\<lambda>w. env_extension_output (w_env w) (concat (resp_chunks response)))) (\<lambda>r.
            case r of None \<Rightarrow> raise_io (ValueError ''extension returned invalid output'')
              | Some x \<Rightarrow> return_io x))))"


subsection \<open>run_extension_action\<close>

definition repository_json :: "env \<Rightarrow> repository \<Rightarrow> json" where
  "repository_json e r = JObj [(''owner'', JStr (repo_owner r)), (''name'', JStr (repo_name r)),
     (''default_branch'', JStr (repo_default_branch r)), (''enabled'', JBool (repo_enabled r)),
     (''id'', JStr (str_uuid (repo_id r))), (''created_at'', JStr (env_iso e (repo_created_at r))),
     (''updated_at'', JStr (env_iso e (repo_updated_at r)))]"

definition drop_nulls :: "jobj \<Rightarrow> jobj" where
  "drop_nulls kvs = filter (\<lambda>(k, v). v \<noteq> JNull) kvs"

definition obj_drop_nulls :: "json \<Rightarrow> json" where
  "obj_drop_nulls j = (case j of JObj kvs \<Rightarrow> JObj (drop_nulls kvs) | _ \<Rightarrow> j)"

text \<open>\<open>output.model_dump(mode="json", exclude_none=True)\<close>: fields of models, not of plain dicts.\<close>

definition log_json_without_none :: "env \<Rightarrow> ai_review_log \<Rightarrow> json" where
  "log_json_without_none e l = (case log_json e l of
      JObj kvs \<Rightarrow> JObj (drop_nulls (dset ''actions''
        (JList (map (obj_drop_nulls \<circ> action_json) (log_actions l))) kvs))
    | j \<Rightarrow> j)"

definition output_json :: "env \<Rightarrow> extension_output \<Rightarrow> json" where
  "output_json e x = JObj ([(''findings'', JList (map JObj (out_findings x))),
     (''requested_github_actions'', JList (map JObj (out_requested_github_actions x)))] @
     (case out_review_log x of None \<Rightarrow> [] | Some l \<Rightarrow> [(''review_log'', log_json_without_none e l)]))"

definition runner_payload :: "env \<Rightarrow> repository \<Rightarrow> extension_action_request \<Rightarrow> json" where
  "runner_payload e r p = JObj [(''repository'', repository_json e r),
     (''build_id'', case ear_build_id p of None \<Rightarrow> JNull | Some i \<Rightarrow> JStr (str_uuid i)),
     (''inputs'', JObj (ear_inputs p))]"

text \<open>
  A requested action's \<open>type\<close> is whatever the extension wrote: a list or an object cannot be
  looked up in a set, anything else that is no string is not an allowed action.
\<close>

fun action_type :: "env \<Rightarrow> json \<Rightarrow> string outcome" where
  "action_type e (JStr s) = Inr s"
| "action_type e (JList _) = Inl (TypeError ''unhashable type'')"
| "action_type e (JObj _) = Inl (TypeError ''unhashable type'')"
| "action_type e j = Inl (ValueError (''GitHub action is not allowed: '' @ env_str_of_json e j))"

definition perform_requested ::
    "service \<Rightarrow> principal \<Rightarrow> extension_manifest \<Rightarrow> repository \<Rightarrow> extension_action_request \<Rightarrow> jobj \<Rightarrow> unit task" where
  "perform_requested sv actor m r p request =
     bind_io (get_io w_env) (\<lambda>e.
     bind_io (lift_io (action_type e (jget_default request ''type'' (JStr [])))) (\<lambda>action.
     bind_io (execute_action (sv_github sv) (full_name r) action request (man_github_actions m)) (\<lambda>response.
     bind_io (lift_io (jmethod_get response ''id'')) (\<lambda>rid.
       audit actor (''github.'' @ action) (full_name r) AuditSucceeded
         [(''extension'', JStr (man_id m)), (''image'', JStr (man_image m)),
          (''idempotency_key'', JStr (ear_idempotency_key p)), (''response_id'', rid)]))))"

definition run_and_perform ::
    "service \<Rightarrow> principal \<Rightarrow> extension_manifest \<Rightarrow> repository \<Rightarrow> extension_action_request \<Rightarrow> extension_output task" where
  "run_and_perform sv actor m r p =
     bind_io (get_io w_env) (\<lambda>e.
     bind_io (run_extension (sv_runner sv) m (ear_action p) (runner_payload e r p)) (\<lambda>out.
     seq_io (lift_io (validate_output (sv_catalog sv) (man_id m) (output_json e out))) (
     seq_io (for_io (out_requested_github_actions out) (perform_requested sv actor m r p))
       (return_io out))))"

text \<open>The \<open>except\<close> clause: the run, as far as it was filled in, is stored as failed.\<close>

definition fail_run :: "principal \<Rightarrow> repository \<Rightarrow> extension_run \<Rightarrow> error \<Rightarrow> 'a task" where
  "fail_run actor r run e =
     bind_io now_utc (\<lambda>t.
     seq_io (db (pg_save_extension_run (run\<lparr>run_status := RunFailed, run_completed_at := Some t\<rparr>))) (
     seq_io (audit actor ''run_extension_action'' (full_name r) AuditFailed [])
       (raise_io e)))"

definition image_digest :: "string \<Rightarrow> string outcome" where
  "image_digest ref = (case rsplit_last (CHR ''@'') ref of
      None \<Rightarrow> Inl (IndexError ''list index out of range'') | Some d \<Rightarrow> Inr d)"

definition execute_run ::
    "service \<Rightarrow> principal \<Rightarrow> extension_manifest \<Rightarrow> repository \<Rightarrow> extension_action_request \<Rightarrow> extension_run
     \<Rightarrow> extension_run task" where
  "execute_run sv actor m r p run =
     bind_io (catch_io (run_and_perform sv actor m r p) (\<lambda>_. True) (fail_run actor r run)) (\<lambda>out.
     bind_io now_utc (\<lambda>t.
     let run' = run\<lparr>run_output := Some out, run_status := RunSucceeded, run_completed_at := Some t\<rparr> in
     seq_io (catch_io (db (pg_save_extension_run run')) (\<lambda>_. True) (fail_run actor r run')) (
     seq_io (audit actor ''run_extension_action'' (full_name r) AuditSucceeded [])
       (return_io run'))))"

definition new_extension_run ::
    "extension_manifest \<Rightarrow> string \<Rightarrow> repository \<Rightarrow> extension_action_request \<Rightarrow> uuid \<Rightarrow> int \<Rightarrow> extension_run" where
  "new_extension_run m digest r p i created =
     \<lparr>run_id = i, run_extension_id = man_id m, run_image_digest = digest, run_action = ear_action p,
      run_target = full_name r, run_idempotency_key = ear_idempotency_key p, run_status = RunRunning,
      run_output = None, run_created_at = created, run_completed_at = None\<rparr>"

definition run_extension_action ::
    "service \<Rightarrow> principal \<Rightarrow> extension_action_request \<Rightarrow> extension_run task" where
  "run_extension_action sv actor p =
     bind_io (db (pg_get_extension_run_by_key (ear_idempotency_key p))) (\<lambda>previous. case previous of
       Some run \<Rightarrow> return_io run
     | None \<Rightarrow>
         bind_io (db (pg_get_repository (ear_repository_id p))) (\<lambda>r.
         bind_io (lift_io (catalog_get (sv_catalog sv) (ear_extension_id p))) (\<lambda>m.
         bind_io (lift_io (image_digest (man_image m))) (\<lambda>digest.
         bind_io uuid4 (\<lambda>i. bind_io now_utc (\<lambda>created.
         let run = new_extension_run m digest r p i created in
         bind_io (db (pg_save_extension_run run)) (\<lambda>stored.
           if run_id stored \<noteq> i then return_io stored
           else execute_run sv actor m r p run)))))))"


subsection \<open>The reading operations\<close>

definition extension_catalog_resource :: "service \<Rightarrow> json list task" where
  "extension_catalog_resource sv = return_io (map manifest_json (catalog_list (sv_catalog sv)))"

definition extension_runs :: "extension_run list task" where
  "extension_runs = db (get_io pg_list_extension_runs)"

definition webhook_deliveries :: "webhook_delivery list task" where
  "webhook_deliveries = db (get_io pg_list_webhooks)"

definition audit_records :: "audit_record list task" where
  "audit_records = db (get_io pg_list_audit)"


subsection \<open>The catalog holds the allowlist\<close>

lemma bind_sum_case_prod: "bind_sum m (\<lambda>(a, b). k a b) = Inr y \<longleftrightarrow> (\<exists>a b. m = Inr (a, b) \<and> k a b = Inr y)"
  by (cases m) (auto split: prod.splits)

lemma load_entries_filed:
  "load_entries lib es ms ss = Inr (ms', ss') \<Longrightarrow> filed_under man_id ms \<Longrightarrow> dkeys ss = dkeys ms \<Longrightarrow>
   filed_under man_id ms' \<and> dkeys ss' = dkeys ms'"
proof (induction es arbitrary: ms ss)
  case Nil
  then show ?case by simp
next
  case (Cons e es)
  then obtain m inp outp where m: "lib_manifest lib (ce_manifest e) = Some m" "man_id m \<notin> set (dkeys ms)"
    and rest: "load_entries lib es (dset (man_id m) m ms) (dset (man_id m) (inp, outp) ss) = Inr (ms', ss')"
    by (auto simp: bind_sum_eq_Inr split: option.splits if_splits)
  have "dkeys (dset (man_id m) (inp, outp) ss) = dkeys (dset (man_id m) m ms)"
    using m(2) Cons.prems(3) by (simp add: dset_new)
  from Cons.IH [OF rest _ this] Cons.prems(2) show ?case by simp
qed

lemma catalog_get_in:
  "catalog_get c i = Inr m \<Longrightarrow> dget (cat_manifests c) i = Some m"
  by (simp add: catalog_get_def split: option.splits)

lemma catalog_from_directory_parts:
  assumes "catalog_from_directory lib es al = Inr c"
  obtains ms ss where "filed_under man_id ms" and "set al \<subseteq> set (dkeys ms)"
    and "cat_manifests c = filter (\<lambda>(i, m). i \<in> set al) ms"
proof -
  from assms obtain ms ss where l: "load_entries lib es [] [] = Inr (ms, ss)" "new_catalog lib ms ss al = Inr c"
    by (auto simp: catalog_from_directory_def bind_sum_case_prod)
  from load_entries_filed [OF l(1)] have "filed_under man_id ms" by (simp add: filed_under_def)
  moreover from l(2) have "set al \<subseteq> set (dkeys ms)" "cat_manifests c = filter (\<lambda>(i, m). i \<in> set al) ms"
    by (auto simp: new_catalog_def filter_empty_conv split: if_splits)
  ultimately show ?thesis by (rule that)
qed

text \<open>
  A catalog loaded from a directory has exactly the allowlisted extensions, each filed
  under the identifier in its own manifest.
\<close>

theorem catalog_is_allowlist:
  assumes "catalog_from_directory lib entries allowlist = Inr c"
  shows "(\<exists>m. catalog_get c i = Inr m) = (i \<in> set allowlist)
    \<and> (case catalog_get c i of Inl e \<Rightarrow> True | Inr m \<Rightarrow> man_id m = i)"
proof -
  from assms obtain ms ss where ms: "filed_under man_id ms" "set allowlist \<subseteq> set (dkeys ms)"
      "cat_manifests c = filter (\<lambda>(i, m). i \<in> set allowlist) ms"
    by (rule catalog_from_directory_parts)
  have "dget (cat_manifests c) i = (if i \<in> set allowlist then dget ms i else None)"
    using ms(1,3) dget_filter_keys [of ms "\<lambda>i m. i \<in> set allowlist" i]
    by (auto simp: filed_under_def split: option.splits)
  moreover have "i \<in> set allowlist \<Longrightarrow> dget ms i \<noteq> None"
    using ms(2) by (auto simp: dget_None_keys)
  ultimately show ?thesis
    using filed_underD [OF ms(1), of i] by (auto simp: catalog_get_def split: option.splits simp del: map_of_eq_Some_iff)
qed


subsection \<open>The invariant\<close>

lemma keeps_run_extension:
  "keeps world_ok (run_extension c m a j) valid_extension_output"
proof -
  have out: "keeps world_ok (get_io (\<lambda>w. env_extension_output (w_env w) s))
      (\<lambda>r. \<forall>x. r = Some x \<longrightarrow> valid_extension_output x)" for s
    by (rule keeps_get) (auto simp: world_ok_def env_ok_def)
  show ?thesis
    unfolding run_extension_def
    by (intro keeps_if keeps_raise keeps_bind [OF keeps_client [OF leaves_http]]
        keeps_seq [OF keeps_client [OF leaves_raise_for_status leaves_raise_for_status]]
        keeps_bind [OF out] keeps_option keeps_return) simp_all
qed

lemma leaves_perform_action [world_frame]:
  "leaves w_db (execute_action c r a q allowed)" "leaves w_env (execute_action c r a q allowed)"
  unfolding execute_action_def github_post_def
  by (intro leaves_if leaves_raise leaves_bind leaves_lift leaves_option leaves_http leaves_seq leaves_catch
      leaves_raise_for_status leaves_response_json)+

lemma keeps_perform_requested: "keeps world_ok (perform_requested sv a m r p q) (\<lambda>_. True)"
  unfolding perform_requested_def
  by (intro keeps_bind [OF keeps_get_any] keeps_bind [OF keeps_lift [of _ "\<lambda>_. True"]]
      keeps_bind [OF keeps_client [OF leaves_perform_action]] keeps_audit TrueI)

lemma keeps_run_and_perform: "keeps world_ok (run_and_perform sv a m r p) valid_extension_output"
  unfolding run_and_perform_def
  by (intro keeps_bind [OF keeps_get_any] keeps_bind [OF keeps_run_extension]
      keeps_seq [OF keeps_lift [of _ "\<lambda>_. True"]] keeps_seq [OF keeps_for [OF keeps_perform_requested]]
      keeps_return) simp_all

lemma valid_run_update: "valid_extension_run r \<Longrightarrow> valid_extension_run (r\<lparr>run_status := st, run_completed_at := t\<rparr>)"
  by (simp add: valid_extension_run_def)

lemma keeps_fail_run: "valid_extension_run run \<Longrightarrow> keeps world_ok (fail_run a r run e) Q"
  unfolding fail_run_def
  by (intro keeps_bind [OF keeps_now] keeps_seq [OF keeps_db [OF keeps_pg_save_extension_run]]
      keeps_seq [OF keeps_audit] keeps_raise valid_run_update)

lemma keeps_execute_run:
  assumes "valid_extension_run run"
  shows "keeps world_ok (execute_run sv a m r p run) valid_extension_run"
proof -
  have run': "valid_extension_run (run\<lparr>run_output := Some out, run_status := st, run_completed_at := t\<rparr>)"
    if "valid_extension_output out" for out st t
    using that by (simp add: valid_extension_run_def)
  show ?thesis
    unfolding execute_run_def Let_def
    by (rule keeps_bind [OF keeps_catch [OF keeps_run_and_perform keeps_fail_run [OF assms]]],
        rule keeps_bind [OF keeps_now],
        rule keeps_seq [OF keeps_catch [OF keeps_any [OF keeps_db [OF keeps_pg_save_extension_run]] keeps_fail_run]],
        rule run', assumption, rule run', assumption, rule keeps_seq [OF keeps_audit], rule keeps_return, rule run')
qed

lemma valid_new_run: "valid_extension_run (new_extension_run m d r p i t)"
  by (simp add: new_extension_run_def valid_extension_run_def)

lemma keeps_run_extension_action: "keeps world_ok (run_extension_action sv a p) valid_extension_run"
  unfolding run_extension_action_def Let_def
  by (rule keeps_bind [OF keeps_db [OF keeps_pg_run_by_key]], rule keeps_option,
      rule keeps_bind [OF keeps_any [OF keeps_db [OF keeps_pg_get_repository]]],
      rule keeps_bind [OF keeps_lift [of _ "\<lambda>_. True"]], rule TrueI,
      rule keeps_bind [OF keeps_lift [of _ "\<lambda>_. True"]], rule TrueI,
      rule keeps_bind [OF keeps_uuid4], rule keeps_bind [OF keeps_now],
      rule keeps_bind [OF keeps_db [OF keeps_pg_save_extension_run [OF valid_new_run]]])
    (auto intro!: keeps_return keeps_if keeps_execute_run valid_new_run)


subsection \<open>A started run is finished\<close>

text \<open>The runs registered under a key only depend on the table of runs.\<close>

abbreviation registered :: "string \<Rightarrow> world \<Rightarrow> extension_run option" where
  "registered k w \<equiv> pg_run_by_key k (w_db w)"

abbreviation run_table :: "world \<Rightarrow> (uuid \<times> run_row) list" where
  "run_table w \<equiv> pg_extension_runs (w_db w)"

lemma registered_frame: "run_table t = run_table w \<Longrightarrow> registered k t = registered k w"
  by (simp add: pg_run_by_key_def pg_run_row_def)

lemma wp_run_frame:
  assumes "leaves run_table m" and "keeps world_ok m Q0" and "world_ok s"
    and "\<And>x t. world_ok t \<Longrightarrow> run_table t = run_table s \<Longrightarrow> Q0 x \<Longrightarrow> Q x t"
    and "\<And>e t. world_ok t \<Longrightarrow> run_table t = run_table s \<Longrightarrow> R e t"
  shows "wp m Q R s"
proof (rule wpI)
  show "Q x t" if "m s = (Inr x, t)" for x t
    using assms(4) leavesD [OF assms(1) that] keeps_InrD [OF assms(2,3) that] by blast
  show "R e t" if "m s = (Inl e, t)" for e t
    using assms(5) leavesD [OF assms(1) that] keepsD [OF assms(2,3)] that by (metis snd_conv)
qed

definition settled :: "string \<Rightarrow> world \<Rightarrow> bool" where
  "settled k w = (\<exists>q. registered k w = Some q \<and> run_status q \<noteq> RunRunning \<and> run_completed_at q \<noteq> None)"

lemma world_ok_inv: "world_ok w \<Longrightarrow> pg_inv (w_db w)"
  by (simp add: world_ok_def pg_ok_def)

lemma own_save:
  assumes "world_ok w" and "registered (run_idempotency_key r) w = Some q" and "run_id q = run_id r"
    and "valid_extension_run r"
    and "\<And>t. world_ok t \<Longrightarrow> registered (run_idempotency_key r) t = Some r \<Longrightarrow> Q r t"
  shows "wp (db (pg_save_extension_run r)) Q R w"
proof -
  from pg_runs.save_own [OF world_ok_inv [OF assms(1)] assms(2,3)]
  have "fst (pg_save_extension_run r (w_db w)) = Inr r"
    "pg_run_by_key (run_idempotency_key r) (snd (pg_save_extension_run r (w_db w))) = Some r" by simp_all
  moreover have "world_ok (snd (db (pg_save_extension_run r) w))"
    by (rule keepsD [OF keeps_db [OF keeps_pg_save_extension_run [OF assms(4)]] assms(1)])
  ultimately show ?thesis
    using assms(5) [of "w\<lparr>w_db := snd (pg_save_extension_run r (w_db w))\<rparr>"] by (simp add: wp_def run_db)
qed

lemma leaves_run_and_perform: "leaves run_table (run_and_perform sv a m r p)"
  unfolding run_and_perform_def perform_requested_def run_extension_def
  by (intro keeps_intros leaves_table [OF leaves_http(1)] leaves_table [OF leaves_perform_action(1)]
      leaves_table [OF leaves_raise_for_status] leaves_audit)

lemma settled_status: "registered k t = Some q \<Longrightarrow> run_status q \<noteq> RunRunning \<Longrightarrow> run_completed_at q \<noteq> None
    \<Longrightarrow> settled k t"
  by (auto simp: settled_def)

lemma world_ok_tick [simp]: "world_ok (w\<lparr>w_ticks := n\<rparr>) = world_ok w" "world_ok (w\<lparr>w_uuids := n\<rparr>) = world_ok w"
  by (simp_all add: world_ok_def)

lemma audit_settles:
  assumes "world_ok u" and "registered k u = Some q" and "run_status q \<noteq> RunRunning" and "run_completed_at q \<noteq> None"
    and "\<And>t. registered k t = Some q \<Longrightarrow> settled k t \<Longrightarrow> Q () t"
  shows "wp (audit p a x y d) Q (\<lambda>_. settled k) u"
proof (rule wp_run_frame [OF leaves_audit(5) keeps_audit assms(1)])
  show "Q x t" if "run_table t = run_table u" for x t
    using assms(2-4) registered_frame [OF that] by (cases x) (auto intro!: assms(5) intro: settled_status)
  show "settled k t" if "run_table t = run_table u" for t
    using assms(2-4) registered_frame [OF that] by (auto intro: settled_status)
qed

lemma fail_run_settles:
  assumes "world_ok w" and "registered k w = Some q" and "run_id q = run_id run"
    and "valid_extension_run run" and "run_idempotency_key run = k"
  shows "wp (fail_run a r run e) Q (\<lambda>_. settled k) w"
  unfolding fail_run_def wp_bind wp_seq wp_raise wp_now
proof (rule own_save [where q = q])
  fix u
  assume "world_ok u" "registered (run_idempotency_key (run\<lparr>run_status := RunFailed,
      run_completed_at := Some (env_time (w_env w) (w_ticks w))\<rparr>)) u = Some (run\<lparr>run_status := RunFailed,
      run_completed_at := Some (env_time (w_env w) (w_ticks w))\<rparr>)"
  then show "wp (audit a ''run_extension_action'' (full_name r) AuditFailed []) (\<lambda>_. settled k) (\<lambda>_. settled k) u"
    using assms(5) by (intro audit_settles [where q = "run\<lparr>run_status := RunFailed,
      run_completed_at := Some (env_time (w_env w) (w_ticks w))\<rparr>"]) simp_all
qed (use assms in \<open>simp_all add: valid_run_update\<close>)

text \<open>A run that returns is the one registered under its key.\<close>

definition delivered :: "string \<Rightarrow> extension_run \<Rightarrow> world \<Rightarrow> bool" where
  "delivered k run w = (settled k w \<and> registered k w = Some run)"

lemma execute_run_settles:
  assumes "world_ok w" and "registered k w = Some run"
    and "valid_extension_run run" and "run_idempotency_key run = k"
  shows "wp (execute_run sv a m r p run) (delivered k) (\<lambda>_. settled k) w"
  unfolding execute_run_def Let_def wp_bind wp_catch wp_seq wp_return wp_now
proof (rule wp_run_frame [OF leaves_run_and_perform keeps_run_and_perform assms(1)])
  fix e t
  assume "world_ok t" "run_table t = run_table w"
  then show "if True then wp (fail_run a r run e) (\<lambda>out t. wp (db (pg_save_extension_run (run\<lparr>run_output := Some out,
        run_status := RunSucceeded, run_completed_at := Some (env_time (w_env t) (w_ticks t))\<rparr>)))
       (\<lambda>_. wp (audit a ''run_extension_action'' (full_name r) AuditSucceeded []) (\<lambda>_. delivered k (run\<lparr>run_output := Some out,
        run_status := RunSucceeded, run_completed_at := Some (env_time (w_env t) (w_ticks t))\<rparr>)) (\<lambda>_. settled k))
       (\<lambda>e s. if True then wp (fail_run a r (run\<lparr>run_output := Some out,
        run_status := RunSucceeded, run_completed_at := Some (env_time (w_env t) (w_ticks t))\<rparr>) e)
        (\<lambda>_. wp (audit a ''run_extension_action'' (full_name r) AuditSucceeded []) (\<lambda>_. delivered k (run\<lparr>run_output := Some out,
        run_status := RunSucceeded, run_completed_at := Some (env_time (w_env t) (w_ticks t))\<rparr>)) (\<lambda>_. settled k))
         (\<lambda>_. settled k) s else settled k s) (t\<lparr>w_ticks := w_ticks t + 1\<rparr>)) (\<lambda>_. settled k) t else settled k t"
    using assms registered_frame [of t w k] by (simp add: fail_run_settles)
next
  fix out t
  assume t: "world_ok t" "run_table t = run_table w" "valid_extension_output out"
  show "wp (db (pg_save_extension_run (run\<lparr>run_output := Some out,
        run_status := RunSucceeded, run_completed_at := Some (env_time (w_env t) (w_ticks t))\<rparr>)))
       (\<lambda>_. wp (audit a ''run_extension_action'' (full_name r) AuditSucceeded []) (\<lambda>_. delivered k (run\<lparr>run_output := Some out,
        run_status := RunSucceeded, run_completed_at := Some (env_time (w_env t) (w_ticks t))\<rparr>)) (\<lambda>_. settled k))
       (\<lambda>e s. if True then wp (fail_run a r (run\<lparr>run_output := Some out,
        run_status := RunSucceeded, run_completed_at := Some (env_time (w_env t) (w_ticks t))\<rparr>) e)
        (\<lambda>_. wp (audit a ''run_extension_action'' (full_name r) AuditSucceeded []) (\<lambda>_. delivered k (run\<lparr>run_output := Some out,
        run_status := RunSucceeded, run_completed_at := Some (env_time (w_env t) (w_ticks t))\<rparr>)) (\<lambda>_. settled k))
         (\<lambda>_. settled k) s else settled k s) (t\<lparr>w_ticks := w_ticks t + 1\<rparr>)"
  proof (rule own_save [where q = run])
    fix u
    let ?run = "run\<lparr>run_output := Some out, run_status := RunSucceeded,
      run_completed_at := Some (env_time (w_env t) (w_ticks t))\<rparr>"
    assume "world_ok u" "registered (run_idempotency_key ?run) u = Some ?run"
    then show "wp (audit a ''run_extension_action'' (full_name r) AuditSucceeded []) (\<lambda>_. delivered k ?run) (\<lambda>_. settled k) u"
      using assms(4) by (intro audit_settles [where q = ?run]) (simp_all add: delivered_def)
  qed (use assms t registered_frame [OF t(2)] in \<open>simp_all add: valid_extension_run_def\<close>)
qed

lemma run_by_key_step: "db (pg_get_extension_run_by_key k) w = (Inr (registered k w), w)"
  by (simp add: run_db pg_get_extension_run_by_key_def run_get)

lemma save_run_cases:
  assumes "world_ok w" and "registered (run_idempotency_key r) w = None"
  shows "wp (db (pg_save_extension_run r)) (\<lambda>x t. x = r \<and> registered (run_idempotency_key r) t = Some r)
    (\<lambda>_ t. registered (run_idempotency_key r) t = None) w"
proof (cases "pg_run_fresh (run_id r) (w_db w)")
  case True
  from pg_runs.save_new [OF world_ok_inv [OF assms(1)] assms(2) True] show ?thesis
    by (simp add: wp_def run_db prod_eq_iff split: sum.splits)
next
  case False
  have "pg_run_row (run_idempotency_key r) (w_db w) = None" using assms(2) by (simp add: pg_run_by_key_def)
  with False assms(2) show ?thesis
    by (auto simp: wp_def run_db pg_save_extension_run_def pg_run_fresh_def)
qed

lemma claimed_run_settles:
  assumes "world_ok u" and "registered (ear_idempotency_key p) u = None"
  shows "wp (db (pg_save_extension_run (new_extension_run m d r p i c))) (\<lambda>stored. wp (if run_id stored \<noteq> i
        then return_io stored else execute_run sv a m r p (new_extension_run m d r p i c)) (delivered (ear_idempotency_key p))
          (\<lambda>_ t. registered (ear_idempotency_key p) t = None \<or> settled (ear_idempotency_key p) t))
      (\<lambda>_ t. registered (ear_idempotency_key p) t = None \<or> settled (ear_idempotency_key p) t) u"
proof -
  let ?k = "ear_idempotency_key p" and ?run = "new_extension_run m d r p i c"
  have k: "run_idempotency_key ?run = ?k" "valid_extension_run ?run" "run_id ?run = i"
    by (simp_all add: new_extension_run_def valid_extension_run_def)
  have go: "wp (if run_id x \<noteq> i then return_io x else execute_run sv a m r p ?run) (delivered ?k)
      (\<lambda>_ t. registered ?k t = None \<or> settled ?k t) t"
    if "db (pg_save_extension_run ?run) u = (Inr x, t)" "x = ?run \<and> registered ?k t = Some ?run" for x t
  proof -
    have "world_ok t" using keepsD [OF keeps_db [OF keeps_pg_save_extension_run [OF k(2)]] assms(1)] that(1) by simp
    from execute_run_settles [OF this _ k(2,1), of sv a m r p] that(2) k(3) show ?thesis
      by (auto elim: wp_mono)
  qed
  show ?thesis
  proof (rule wp_mono [OF save_run_cases [OF assms(1)]])
    show "registered (run_idempotency_key ?run) u = None" using assms(2) k(1) by simp
  qed (use go k(1) in auto)
qed

lemma run_extension_action_settles:
  assumes "world_ok w" and "registered (ear_idempotency_key p) w = None"
  shows "wp (run_extension_action sv a p) (delivered (ear_idempotency_key p))
    (\<lambda>_ t. registered (ear_idempotency_key p) t = None \<or> settled (ear_idempotency_key p) t) w"
proof -
  let ?k = "ear_idempotency_key p"
  have none: "registered ?k w = None \<or> settled ?k w" using assms(2) by simp
  have get: "wp (db (pg_get_repository i)) Q (\<lambda>_ t. registered ?k t = None \<or> settled ?k t) w"
    if "\<And>r. Q r w" for i Q
    using that none by (simp add: wp_def run_db pg_get_repository_def split: option.splits)
  have start: "wp (bind_io (db (pg_get_repository (ear_repository_id p))) K) (delivered ?k)
      (\<lambda>_ t. registered ?k t = None \<or> settled ?k t) w"
    if "\<And>r. wp (K r) (delivered ?k) (\<lambda>_ t. registered ?k t = None \<or> settled ?k t) w" for K
    unfolding wp_bind by (rule get) (rule that)
  show ?thesis
    unfolding run_extension_action_def wp_bind [of "db (pg_get_extension_run_by_key ?k)"]
    unfolding wp_def [of "db (pg_get_extension_run_by_key ?k)"] run_by_key_step assms(2) prod.case sum.case option.case
  proof (rule start)
    fix r
    show "wp (bind_io (lift_io (catalog_get (sv_catalog sv) (ear_extension_id p))) (\<lambda>m.
         bind_io (lift_io (image_digest (man_image m))) (\<lambda>digest.
         bind_io uuid4 (\<lambda>i. bind_io now_utc (\<lambda>created.
         let run = new_extension_run m digest r p i created in
         bind_io (db (pg_save_extension_run run)) (\<lambda>stored.
           if run_id stored \<noteq> i then return_io stored
           else execute_run sv a m r p run)))))) (delivered ?k)
        (\<lambda>_ t. registered ?k t = None \<or> settled ?k t) w"
      unfolding wp_bind wp_lift wp_uuid4 wp_now Let_def
      using none
      by (cases "catalog_get (sv_catalog sv) (ear_extension_id p)"; simp only: sum.case;
          cases "image_digest (man_image (projr (catalog_get (sv_catalog sv) (ear_extension_id p))))";
          simp only: sum.case sum.sel) (rule claimed_run_settles, simp_all add: assms)
  qed
qed

end
