(* ===== verification/Extension_Properties.thy ===== *)
theory Extension_Properties
  imports Service_Extensions Demo
begin

section \<open>Extension actions: what they send, when they end, and replays\<close>

text \<open>
  The properties of \<open>run_extension_action\<close>: the requests it may send, the state of the run it
  leaves on every path, and that a second call under the same key does nothing.
\<close>

definition runner_request :: "runner_client \<Rightarrow> extension_manifest \<Rightarrow> string \<Rightarrow> json \<Rightarrow> http_request" where
  "runner_request c m action payload =
     \<lparr>req_method = POST, req_url = rn_base_url c @ ''/internal/v1/run'', req_headers = [], req_params = [],
      req_auth = None, req_body = JsonBody (JObj [(''manifest'', manifest_json m), (''action'', JStr action),
        (''payload'', payload)])\<rparr>"

definition extension_effect :: "service \<Rightarrow> extension_manifest \<Rightarrow> repository \<Rightarrow> event \<Rightarrow> bool" where
  "extension_effect sv m r e =
     ((\<exists>a j. a \<in> set (man_actions m) \<and> e = Request (runner_request (sv_runner sv) m a j))
      \<or> (\<exists>action q path body. action \<in> set (man_github_actions m) \<and> action_path (full_name r) action q = Inr path
          \<and> e = Request (github_request (sv_github sv) path (JObj body))))"

lemma emits_run_extension:
  assumes "\<And>a j. a \<in> set (man_actions m) \<Longrightarrow> P (Request (runner_request c m a j))"
  shows "emits w_events P (run_extension c m a j)"
  unfolding run_extension_def
  by (intro emits_if emits_bind emits_seq emits_http assms [unfolded runner_request_def] emits_option
      emits_leaves [OF leaves_raise] emits_leaves [OF leaves_raise_for_status] emits_leaves [OF leaves_get]
      emits_leaves [OF leaves_return]) simp

lemma emits_execute_action:
  assumes "\<And>path body. a \<in> set allowed \<Longrightarrow> action_path r a q = Inr path \<Longrightarrow>
      P (Request (github_request c path (JObj body)))"
  shows "emits w_events P (execute_action c r a q allowed)"
proof (cases "a \<notin> github_allowed_actions \<or> a \<notin> set allowed")
  case True
  then show ?thesis by (simp add: execute_action_def emits_leaves leaves_raise)
next
  case allowed: False
  show ?thesis
  proof (cases "action_path r a q")
    case (Inl e)
    with allowed show ?thesis
      by (simp add: execute_action_def emits_leaves leaves_def run_bind run_lift)
  next
    case (Inr path)
    have post: "emits w_events P (github_post c path (JObj body) m)" for body m
      unfolding github_post_def
      using assms [OF _ Inr] allowed
      by (intro emits_bind emits_http emits_leaves [OF leaves_seq] leaves_catch leaves_raise
          leaves_raise_for_status leaves_response_json) auto
    have "emits w_events P (case as_obj (jget q ''body'') of
          None \<Rightarrow> raise_io (ValueError (a @ '' requires an object body''))
        | Some body \<Rightarrow> github_post c path (JObj body) (''GitHub action failed: '' @ a))"
      by (intro emits_option post emits_leaves [OF leaves_raise])
    with allowed Inr show ?thesis by (simp add: execute_action_def emits_def run_bind run_lift)
  qed
qed

lemma emits_run_and_perform: "emits w_events (extension_effect sv m r) (run_and_perform sv a m r p)"
proof -
  have perform: "emits w_events (extension_effect sv m r) (perform_requested sv a m r p q)" for q
    unfolding perform_requested_def
    by (intro emits_bind emits_execute_action emits_leaves [OF leaves_get] emits_leaves [OF leaves_lift]
        emits_leaves [OF leaves_audit_world(1)]) (unfold extension_effect_def, blast)
  show ?thesis
    unfolding run_and_perform_def
    by (intro emits_bind emits_seq emits_for perform emits_run_extension emits_leaves [OF leaves_get]
        emits_leaves [OF leaves_lift] emits_leaves [OF leaves_return]) (auto simp: extension_effect_def)
qed

lemma leaves_fail_run: "leaves w_events (fail_run a r run e)"
  unfolding fail_run_def by (intro keeps_intros world_frame)

lemma emits_execute_run: "emits w_events (extension_effect sv m r) (execute_run sv a m r p run)"
  unfolding execute_run_def Let_def
  by (intro emits_bind emits_seq emits_catch emits_run_and_perform emits_leaves [OF leaves_fail_run]
      emits_leaves [OF leaves_now(2)] emits_leaves [OF leaves_db(1)] emits_leaves [OF leaves_audit_world(1)]
      emits_leaves [OF leaves_return])

text \<open>
  C28: An extension action only reaches the runner, with an action its catalog manifest
  declares, and GitHub, with an action the manifest is allowed and a path inside the
  registered repository.
\<close>

theorem extension_effects_allowed:
  assumes "catalog_get (sv_catalog sv) (ear_extension_id p) = Inr m"
    and "fst (pg_get_repository (ear_repository_id p) (w_db w)) = Inr r"
  shows "\<exists>es. w_events (snd (run_extension_action sv a p w)) = w_events w @ es \<and> list_all (extension_effect sv m r) es"
proof -
  have repo: "db (pg_get_repository (ear_repository_id p)) w = (Inr r, w)"
    using assms(2) by (auto simp: run_db pg_get_repository_def split: option.splits)
  let ?k = "\<lambda>digest. bind_io uuid4 (\<lambda>i. bind_io now_utc (\<lambda>created.
         bind_io (db (pg_save_extension_run (new_extension_run m digest r p i created))) (\<lambda>stored.
           if run_id stored \<noteq> i then return_io stored
           else execute_run sv a m r p (new_extension_run m digest r p i created))))"
  have "emits w_events (extension_effect sv m r) (bind_io (lift_io (image_digest (man_image m))) ?k)"
    by (intro emits_bind emits_if emits_execute_run emits_leaves [OF leaves_lift] emits_leaves [OF leaves_uuid4(2)]
        emits_leaves [OF leaves_now(2)] emits_leaves [OF leaves_db(1)] emits_leaves [OF leaves_return])
  from emitsD [OF this, of w] repo assms(1) show ?thesis
    by (auto simp: run_extension_action_def run_bind run_by_key_step run_lift run_return Let_def
        simp del: not_None_eq split: option.splits)
qed

text \<open>
  C26: A call that starts a run leaves a finished one: whether it returns or raises, the run
  under its key is no longer running, and the run it returns is the one under the key.
\<close>

theorem extension_run_settles:
  assumes "world_ok w" and "registered (ear_idempotency_key p) w = None"
  shows "case run_extension_action sv a p w of
      (Inr run, t) \<Rightarrow> registered (ear_idempotency_key p) t = Some run \<and> run_status run \<noteq> RunRunning
    | (Inl e, t) \<Rightarrow> registered (ear_idempotency_key p) t = None \<or> settled (ear_idempotency_key p) t"
  using run_extension_action_settles [OF assms, of sv a]
  by (auto simp: wp_def delivered_def settled_def split: prod.splits sum.splits)

text \<open>
  C27: A second call under the same key, whoever makes it and whatever it asks for, returns the
  stored run and changes and sends nothing.
\<close>

theorem extension_action_idempotent:
  assumes "world_ok w" and "run_extension_action sv a p w = (Inr run, t)"
    and "ear_idempotency_key q = ear_idempotency_key p"
  shows "run_extension_action sv' b q t = (Inr run, t)"
proof -
  have "registered (ear_idempotency_key p) t = Some run"
  proof (cases "registered (ear_idempotency_key p) w")
    case None
    from run_extension_action_settles [OF assms(1) None, of sv a] assms(2) show ?thesis
      by (simp add: wp_def delivered_def)
  next
    case (Some x)
    with assms(2) show ?thesis by (simp add: run_extension_action_def run_bind run_by_key_step run_return)
  qed
  with assms(3) show ?thesis by (simp add: run_extension_action_def run_bind run_by_key_step run_return)
qed


subsection \<open>A deployment with one extension\<close>

definition demo_manifest :: extension_manifest where
  "demo_manifest = \<lparr>man_id = ''lint'', man_image = ''r@sha256:0'', man_compatible_contracts = [],
     man_actions = [''run''], man_input_schema = ''i.json'', man_output_schema = ''o.json'',
     man_github_actions = [''status''], man_required_secrets = [], man_timeout_seconds = 60,
     man_memory_mb = 64, man_cpus = 1\<rparr>"

definition ext_service :: service where
  "ext_service = demo_service\<lparr>sv_catalog := \<lparr>cat_manifests = [(''lint'', demo_manifest)],
     cat_schema_errors = (\<lambda>_ _ _. [])\<rparr>\<rparr>"

definition ext_request :: extension_action_request where
  "ext_request = \<lparr>ear_extension_id = ''lint'', ear_action = ''run'', ear_repository_id = 1, ear_build_id = None,
     ear_inputs = [], ear_idempotency_key = ''key-0001''\<rparr>"

definition ext_world :: world where
  "ext_world = (demo_world demo_net (demo_db (demo_build Queued None)))\<lparr>w_env :=
     (demo_env demo_net)\<lparr>env_extension_output := (\<lambda>_. Some empty_extension_output)\<rparr>\<rparr>"

lemma ext_world_ok: "world_ok ext_world"
  using demo_build_ok [of demo_net Queued None]
  by (simp add: world_ok_def env_ok_def ext_world_def demo_world_def demo_env_def valid_empty_output)

lemma ext_completes: "\<exists>run. fst (run_extension_action ext_service demo_actor ext_request ext_world) = Inr run
    \<and> run_status run = RunSucceeded"
  by (simp add: run_extension_action_def execute_run_def run_and_perform_def run_extension_def fail_run_def
      ext_service_def ext_request_def ext_world_def demo_manifest_def new_extension_run_def catalog_get_def
      image_digest_def rsplit_last_def validate_output_def catalog_validate_def empty_extension_output_def
      audit_def pg_get_extension_run_by_key_def pg_run_by_key_def pg_run_row_def pg_save_extension_run_def
      demo_defs run_simps pg_defs)

theorem extension_effects_allowed_witness:
  "\<exists>es. w_events (snd (run_extension_action ext_service demo_actor ext_request ext_world)) = w_events ext_world @ es
    \<and> list_all (extension_effect ext_service demo_manifest demo_repository) es"
  by (rule extension_effects_allowed)
    (simp_all add: ext_service_def ext_request_def ext_world_def catalog_get_def demo_world_def demo_db_def
      pg_get_repository_def)

theorem extension_run_settles_witness:
  "\<exists>run. registered ''key-0001'' (snd (run_extension_action ext_service demo_actor ext_request ext_world)) = Some run
    \<and> run_status run = RunSucceeded"
  using extension_run_settles [OF ext_world_ok, of ext_request ext_service demo_actor] ext_completes
  by (auto simp: ext_request_def ext_world_def demo_world_def demo_db_def pg_run_by_key_def pg_run_row_def
      split: prod.splits sum.splits)

theorem extension_action_idempotent_witness:
  "\<exists>run t. run_extension_action ext_service demo_actor ext_request ext_world = (Inr run, t)
    \<and> run_extension_action demo_service demo_actor ext_request t = (Inr run, t)"
proof -
  obtain run t where "run_extension_action ext_service demo_actor ext_request ext_world = (Inr run, t)"
    using ext_completes by (metis prod.collapse)
  with extension_action_idempotent [OF ext_world_ok this refl] show ?thesis by blast
qed

end
