(* ===== verification/Extension_Runner.thy ===== *)
theory Extension_Runner
  imports Extension_Properties
begin

section \<open>extension_runner.py: the isolated execution of an extension\<close>

text \<open>
  The runner's endpoint: the checks against its own catalog, the \<open>docker run\<close> command, the
  bounded communication with the process and what each way it can end becomes. The process
  is a parameter: what it writes, whether writing to it fails, whether the deadline passes
  first and its exit status. The lemmas show that nothing is spawned that the catalog does
  not allow, that every command is isolated, and that an overdue or overflowing process is
  killed.
\<close>

record run_request =
  rr_manifest :: extension_manifest
  rr_action :: string
  rr_payload :: jobj

record process =
  proc_stdout :: "string list"
  proc_stderr :: "string list"
  proc_stdin_breaks :: bool
  proc_overdue :: bool
  proc_returncode :: int

datatype runner_event =
    Spawned "string list" "(string \<times> string) list" string
  | Killed

type_synonym 'a runner = "(runner_event list, 'a) io"

text \<open>
  Outside: the process a command becomes, the process environment, \<open>json.dumps\<close> and
  \<open>json.loads\<close>, the text of a float and the decoder of the output model.
\<close>

record runner_libraries =
  rl_process :: "string list \<Rightarrow> string \<Rightarrow> process"
  rl_environ :: "string \<Rightarrow> string option"
  rl_dumps :: "json \<Rightarrow> string"
  rl_loads :: "string \<Rightarrow> json option"
  rl_text_of_float :: "rat \<Rightarrow> string"
  rl_output :: "json \<Rightarrow> extension_output option"


subsection \<open>Bounded communication\<close>

text \<open>Chunks are appended until the stream ends; the buffer may not exceed the limit.\<close>

fun read_bounded :: "int \<Rightarrow> string \<Rightarrow> string list \<Rightarrow> string outcome" where
  "read_bounded limit content [] = Inr content"
| "read_bounded limit content (chunk # chunks) =
     (if int (length (content @ chunk)) > limit then Inl (OutputLimitExceededError [])
      else read_bounded limit (content @ chunk) chunks)"

text \<open>
  The three coroutines of the \<open>gather\<close> under the deadline. A failing write to standard input
  is an \<open>OSError\<close>.
\<close>

definition communicate_bounded :: "process \<Rightarrow> int \<Rightarrow> (string \<times> string) outcome" where
  "communicate_bounded p stdout_limit =
     (if proc_overdue p then Inl (TimeoutError [])
      else if proc_stdin_breaks p then Inl (OSError ''Broken pipe'')
      else bind_sum (read_bounded stdout_limit [] (proc_stdout p)) (\<lambda>out.
           bind_sum (read_bounded 4096 [] (proc_stderr p)) (\<lambda>err. Inr (out, err))))"


subsection \<open>The command\<close>

definition isolation_flags :: "string list" where
  "isolation_flags = [''--rm'', ''--interactive'', ''--network'', ''none'', ''--read-only'',
     ''--tmpfs'', ''/tmp:rw,noexec,nosuid,size=64m'', ''--cap-drop'', ''ALL'',
     ''--security-opt'', ''no-new-privileges'', ''--pids-limit'', ''128'']"

definition docker_command :: "runner_libraries \<Rightarrow> extension_manifest \<Rightarrow> string \<Rightarrow> string list" where
  "docker_command lib m action =
     [''docker'', ''run''] @ isolation_flags @
     [''--memory'', str_int (man_memory_mb m) @ ''m'', ''--cpus'', rl_text_of_float lib (man_cpus m),
      ''--label'', ''dev.jenkinsservice.extension=true'', man_image m, action]"

definition docker_environment :: "runner_libraries \<Rightarrow> (string \<times> string) list" where
  "docker_environment lib = map (\<lambda>k. (k, case rl_environ lib k of None \<Rightarrow> [] | Some v \<Rightarrow> v))
     [''PATH'', ''DOCKER_HOST'', ''DOCKER_TLS_VERIFY'', ''DOCKER_CERT_PATH'']"

definition runner_log :: "runner_event \<Rightarrow> unit runner" where
  "runner_log e = update_io (\<lambda>es. es @ [e])"


subsection \<open>The endpoint\<close>

definition validate_request :: "extension_catalog \<Rightarrow> run_request \<Rightarrow> extension_manifest outcome" where
  "validate_request catalog request = (case catalog_get catalog (man_id (rr_manifest request)) of
      Inl e \<Rightarrow> Inl (if is_value_error e then HTTPException 403 ''extension is not allowlisted'' else e)
    | Inr canonical \<Rightarrow>
        if rr_manifest request \<noteq> canonical then Inl (HTTPException 400 ''manifest does not match catalog'')
        else if rr_action request \<notin> set (man_actions canonical) then Inl (HTTPException 400 ''action is not declared'')
        else (case validate_input catalog (man_id canonical) (JObj (rr_payload request)) of
            Inl e \<Rightarrow> Inl (if is_value_error e then HTTPException 422 (error_message e) else e)
          | Inr _ \<Rightarrow> Inr canonical))"

definition parse_output :: "runner_libraries \<Rightarrow> extension_catalog \<Rightarrow> string \<Rightarrow> string \<Rightarrow> extension_output outcome" where
  "parse_output lib catalog i out = (case rl_loads lib out of
      None \<Rightarrow> Inl (JSONDecodeError ''Expecting value'')
    | Some raw \<Rightarrow> bind_sum (validate_output catalog i raw) (\<lambda>_. case rl_output lib raw of
          None \<Rightarrow> Inl (ValidationError ''ExtensionOutput'')
        | Some x \<Rightarrow> Inr x))"

text \<open>How a spawned process ends.\<close>

definition conclude ::
    "runner_libraries \<Rightarrow> extension_catalog \<Rightarrow> string \<Rightarrow> int \<Rightarrow> process \<Rightarrow> extension_output runner" where
  "conclude lib catalog i max_output_bytes p =
     (case communicate_bounded p max_output_bytes of
        Inl (TimeoutError _) \<Rightarrow> seq_io (runner_log Killed) (raise_io (HTTPException 504 ''extension timed out''))
      | Inl (OutputLimitExceededError _) \<Rightarrow>
          seq_io (runner_log Killed) (raise_io (HTTPException 422 ''extension output too large''))
      | Inl e \<Rightarrow> raise_io e
      | Inr (out, err) \<Rightarrow>
          if proc_returncode p \<noteq> 0 then raise_io (HTTPException 502 ''extension process failed'')
          else (case parse_output lib catalog i out of
              Inl e \<Rightarrow> raise_io (if is_value_error e then HTTPException 422 ''invalid extension output'' else e)
            | Inr x \<Rightarrow> return_io x))"

definition run_endpoint ::
    "runner_libraries \<Rightarrow> extension_catalog \<Rightarrow> int \<Rightarrow> run_request \<Rightarrow> extension_output runner" where
  "run_endpoint lib catalog max_output_bytes request =
     bind_io (lift_io (validate_request catalog request)) (\<lambda>canonical.
     let command = docker_command lib canonical (rr_action request);
         input_bytes = utf8_encode (rl_dumps lib (JObj (rr_payload request))) in
     seq_io (runner_log (Spawned command (docker_environment lib) input_bytes))
       (conclude lib catalog (man_id canonical) max_output_bytes (rl_process lib command input_bytes)))"

text \<open>The allowlist of the runner, from its environment.\<close>

definition csv_set :: "string \<Rightarrow> string list" where
  "csv_set s = filter (\<lambda>v. v \<noteq> []) (map py_strip (py_split (CHR '','') s))"

definition runner_allowlist :: "runner_libraries \<Rightarrow> string list" where
  "runner_allowlist lib = csv_set (case rl_environ lib ''EXTENSION_ALLOWLIST'' of None \<Rightarrow> [] | Some s \<Rightarrow> s)"

definition runner_catalog ::
    "runner_libraries \<Rightarrow> catalog_libraries \<Rightarrow> (string \<Rightarrow> catalog_entry list) \<Rightarrow> string option
     \<Rightarrow> string list option \<Rightarrow> extension_catalog outcome" where
  "runner_catalog lib clib directory path allowlist =
     catalog_from_directory clib
       (directory (case path of Some p \<Rightarrow> p
          | None \<Rightarrow> (case rl_environ lib ''EXTENSION_CATALOG_PATH'' of None \<Rightarrow> ''/app/extensions'' | Some p \<Rightarrow> p)))
       (case allowlist of None \<Rightarrow> runner_allowlist lib | Some a \<Rightarrow> a)"


subsection \<open>What the runner spawns\<close>

lemma read_bounded_Inr:
  "read_bounded limit acc cs = Inr x \<Longrightarrow> x = acc @ concat cs \<and> (cs \<noteq> [] \<longrightarrow> int (length x) \<le> limit)"
proof (induction cs arbitrary: acc)
  case Nil
  then show ?case by simp
next
  case (Cons c cs)
  then have "read_bounded limit (acc @ c) cs = Inr x" "int (length (acc @ c)) \<le> limit"
    by (auto split: if_splits)
  with Cons.IH [of "acc @ c"] show ?case by (cases cs) auto
qed

lemma read_bounded_Inl: "read_bounded limit acc cs = Inl e \<Longrightarrow> e = OutputLimitExceededError []"
  by (induction cs arbitrary: acc) (auto split: if_splits)

lemma validate_request_Inr:
  assumes "validate_request c q = Inr m"
  shows "catalog_get c (man_id m) = Inr m \<and> rr_action q \<in> set (man_actions m)
    \<and> cat_schema_errors c (man_id m) 0 (JObj (rr_payload q)) = [] \<and> rr_manifest q = m"
  using assms
  by (auto simp: validate_request_def validate_input_def catalog_validate_def bind_sum_def
      split: sum.splits if_splits list.splits)

text \<open>The two options after which the image follows, and nothing else, come before the action.\<close>

definition isolated :: "string list \<Rightarrow> bool" where
  "isolated command = (\<exists>rest. command = [''docker'', ''run''] @ isolation_flags @ rest
     \<and> length rest = 8 \<and> rest ! 0 = ''--memory'' \<and> rest ! 2 = ''--cpus'' \<and> rest ! 4 = ''--label'')"

lemma docker_command_isolated: "isolated (docker_command lib m a)"
  by (simp add: isolated_def docker_command_def)

definition spawn_allowed :: "runner_libraries \<Rightarrow> extension_catalog \<Rightarrow> run_request \<Rightarrow> runner_event \<Rightarrow> bool" where
  "spawn_allowed lib c q e = (case e of
      Spawned command environment stdin \<Rightarrow>
        isolated command \<and> dkeys environment = [''PATH'', ''DOCKER_HOST'', ''DOCKER_TLS_VERIFY'', ''DOCKER_CERT_PATH'']
        \<and> (\<exists>m. catalog_get c (man_id m) = Inr m \<and> rr_action q \<in> set (man_actions m)
            \<and> cat_schema_errors c (man_id m) 0 (JObj (rr_payload q)) = []
            \<and> command = docker_command lib m (rr_action q))
    | Killed \<Rightarrow> True)"

lemma emits_runner_log: "P e \<Longrightarrow> emits id P (runner_log e)"
  by (auto simp: emits_def runner_log_def update_io_def)

lemma communicate_error:
  "communicate_bounded p n = Inl e \<Longrightarrow>
   e = TimeoutError [] \<and> proc_overdue p \<or> e = OSError ''Broken pipe'' \<or> e = OutputLimitExceededError []"
  by (auto simp: communicate_bounded_def bind_sum_def dest: read_bounded_Inl split: if_splits sum.splits)

text \<open>The rules of \<open>conclude\<close>, one per way a process ends.\<close>

lemma conclude_cases:
  "conclude lib c i n p es =
     (case communicate_bounded p n of
        Inl e \<Rightarrow>
          if e = TimeoutError [] then (Inl (HTTPException 504 ''extension timed out''), es @ [Killed])
          else if e = OutputLimitExceededError [] then (Inl (HTTPException 422 ''extension output too large''), es @ [Killed])
          else (Inl e, es)
      | Inr (out, err) \<Rightarrow>
          (if proc_returncode p \<noteq> 0 then Inl (HTTPException 502 ''extension process failed'')
           else (case parse_output lib c i out of
              Inl e \<Rightarrow> Inl (if is_value_error e then HTTPException 422 ''invalid extension output'' else e)
            | Inr x \<Rightarrow> Inr x), es))"
proof (cases "communicate_bounded p n")
  case (Inl e)
  with communicate_error [OF Inl] show ?thesis
    by (auto simp: conclude_def run_seq runner_log_def run_update run_raise)
next
  case (Inr x)
  then show ?thesis
    by (auto simp: conclude_def run_return run_raise split: prod.splits sum.splits)
qed

lemma conclude_events: "\<exists>ks. snd (conclude lib c i n p es) = es @ ks \<and> set ks \<subseteq> {Killed}"
  by (auto simp: conclude_cases split: sum.splits prod.splits)

text \<open>
  C34: The runner spawns nothing but the isolated command of a catalog extension, for an action
  it declares and an input that matches its schema, with no environment but Docker's.
\<close>

theorem runner_spawns_isolated:
  "\<exists>new. snd (run_endpoint lib c n q es) = es @ new \<and> list_all (spawn_allowed lib c q) new"
proof (cases "validate_request c q")
  case (Inl e)
  then show ?thesis by (simp add: run_endpoint_def run_bind run_lift)
next
  case (Inr m)
  let ?command = "docker_command lib m (rr_action q)" and ?stdin = "utf8_encode (rl_dumps lib (JObj (rr_payload q)))"
  let ?s = "Spawned ?command (docker_environment lib) ?stdin"
  obtain ks where ks: "snd (conclude lib c (man_id m) n (rl_process lib ?command ?stdin) (es @ [?s])) = es @ [?s] @ ks"
    "set ks \<subseteq> {Killed}"
    using conclude_events [of lib c "man_id m" n "rl_process lib ?command ?stdin" "es @ [?s]"] by auto
  have "spawn_allowed lib c q ?s"
    using validate_request_Inr [OF Inr] by (auto simp: spawn_allowed_def docker_command_isolated docker_environment_def)
  moreover have "list_all (spawn_allowed lib c q) ks"
    using ks(2) by (auto simp: list_all_iff spawn_allowed_def split: runner_event.splits)
  ultimately show ?thesis
    using Inr ks(1)
    by (intro exI [of _ "?s # ks"])
      (simp add: run_endpoint_def run_bind run_lift run_seq runner_log_def run_update Let_def)
qed

text \<open>
  C35: An output the runner returns came from a process that ended in time with status 0 and
  wrote at most the limit, and passed the extension's output schema.
\<close>

theorem runner_output_checked:
  assumes "run_endpoint lib c n q es = (Inr out, fs)"
  shows "\<exists>m p raw. catalog_get c (man_id m) = Inr m \<and> rr_manifest q = m
    \<and> p = rl_process lib (docker_command lib m (rr_action q)) (utf8_encode (rl_dumps lib (JObj (rr_payload q))))
    \<and> \<not> proc_overdue p \<and> proc_returncode p = 0 \<and> int (length (concat (proc_stdout p))) \<le> max 0 n
    \<and> rl_loads lib (concat (proc_stdout p)) = Some raw \<and> cat_schema_errors c (man_id m) 1 raw = []
    \<and> rl_output lib raw = Some out"
proof -
  from assms obtain m where m: "validate_request c q = Inr m"
    by (auto simp: run_endpoint_def run_bind run_lift split: sum.splits)
  define p where "p = rl_process lib (docker_command lib m (rr_action q)) (utf8_encode (rl_dumps lib (JObj (rr_payload q))))"
  from assms m obtain o1 e1 where com: "communicate_bounded p n = Inr (o1, e1)"
    and rest: "proc_returncode p = 0" "parse_output lib c (man_id m) o1 = Inr out"
    by (auto simp: run_endpoint_def run_bind run_lift run_seq runner_log_def run_update Let_def conclude_cases p_def
        split: sum.splits if_splits prod.splits)
  from com have o1: "\<not> proc_overdue p" "read_bounded n [] (proc_stdout p) = Inr o1"
    by (auto simp: communicate_bounded_def bind_sum_eq_Inr split: if_splits)
  from read_bounded_Inr [OF o1(2)] have "o1 = concat (proc_stdout p)" "int (length o1) \<le> max 0 n"
    by (cases "proc_stdout p"; auto)+
  with rest(2) o1(1) rest(1) validate_request_Inr [OF m] show ?thesis
    by (auto simp: parse_output_def validate_output_def catalog_validate_def bind_sum_eq_Inr p_def
        split: option.splits list.splits)
qed

definition demo_runner :: runner_libraries where
  "demo_runner = \<lparr>rl_process = (\<lambda>_ _. \<lparr>proc_stdout = [''{}''], proc_stderr = [], proc_stdin_breaks = False,
       proc_overdue = False, proc_returncode = 0\<rparr>),
     rl_environ = (\<lambda>_. None), rl_dumps = (\<lambda>_. ''{}''), rl_loads = (\<lambda>_. Some (JObj [])),
     rl_text_of_float = (\<lambda>_. ''1.0''), rl_output = (\<lambda>_. Some empty_extension_output)\<rparr>"

definition demo_run_request :: run_request where
  "demo_run_request = \<lparr>rr_manifest = demo_manifest, rr_action = ''run'', rr_payload = []\<rparr>"

lemma demo_endpoint: "\<exists>fs. run_endpoint demo_runner (sv_catalog ext_service) 1000 demo_run_request [] =
    (Inr empty_extension_output, fs)"
  by (simp add: run_endpoint_def demo_run_request_def validate_request_def catalog_get_def ext_service_def
      demo_manifest_def validate_input_def catalog_validate_def run_bind run_lift run_seq runner_log_def run_update
      Let_def conclude_cases demo_runner_def communicate_bounded_def parse_output_def validate_output_def)

theorem runner_output_checked_witness:
  "\<exists>m. catalog_get (sv_catalog ext_service) (man_id m) = Inr m \<and> rr_manifest demo_run_request = m"
  using demo_endpoint runner_output_checked by blast

end
