(* ===== verification/Config.thy ===== *)
theory Config
  imports Security Client_Facts
begin

section \<open>config.py: the settings\<close>

text \<open>
  The \<open>Settings\<close> with their defaults and constraints, comma-separated lists, the reading of a
  secret file and the database address. The file system is a parameter: a path has its bytes
  or does not exist. The lemmas show which settings are accepted, that a secret is never
  empty, and that the password in the database address is the one in the file, whatever its
  characters.
\<close>

subsection \<open>Comma-separated lists and files\<close>

definition csv_list :: "string \<Rightarrow> string list" where
  "csv_list value = filter (\<lambda>item. item \<noteq> []) (map py_strip (py_split (CHR '','') value))"

text \<open>\<open>_csv\<close>: a text is split, anything else is left for the field's own validation.\<close>

definition csv_value :: "string + 'a \<Rightarrow> string list + 'a" where
  "csv_value value = map_sum csv_list id value"

type_synonym file_system = "string \<Rightarrow> string option"

definition path_exists :: "file_system \<Rightarrow> string \<Rightarrow> bool" where
  "path_exists fs path = (fs path \<noteq> None)"

text \<open>Text mode turns every line end into a line feed.\<close>

fun universal_newlines :: "string \<Rightarrow> string" where
  "universal_newlines [] = []"
| "universal_newlines [c] = [if c = CHR 0x0D then CHR 0x0A else c]"
| "universal_newlines (c # d # s) =
     (if c = CHR 0x0D \<and> d = CHR 0x0A then CHR 0x0A # universal_newlines s
      else (if c = CHR 0x0D then CHR 0x0A else c) # universal_newlines (d # s))"

definition read_text :: "file_system \<Rightarrow> string \<Rightarrow> string outcome" where
  "read_text fs path = (case fs path of
      None \<Rightarrow> Inl (OSError ''No such file or directory'')
    | Some content \<Rightarrow> (case utf8_decode content of
        None \<Rightarrow> Inl (UnicodeDecodeError ''invalid start byte'')
      | Some value \<Rightarrow> Inr (universal_newlines value)))"

definition read_secret :: "file_system \<Rightarrow> string \<Rightarrow> string outcome" where
  "read_secret fs path = bind_sum (read_text fs path) (\<lambda>content.
     let value = py_strip content in
     if value = [] then Inl (ValueError (''secret file is empty: '' @ path)) else Inr value)"


subsection \<open>Settings\<close>

text \<open>\<open>HttpUrl\<close> is the address pydantic parsed: its scheme in lower case and its text.\<close>

record parsed_url =
  url_scheme :: string
  url_text :: string

record settings =
  set_service_version :: string
  set_public_base_url :: "parsed_url option"
  set_database_url :: string
  set_database_password_file :: "string option"
  set_jenkins_url :: string
  set_jenkins_user :: string
  set_jenkins_token_file :: string
  set_api_tokens_file :: string
  set_github_read_token_file :: string
  set_github_write_token_file :: string
  set_github_webhook_secret_file :: string
  set_build_callback_secret_file :: string
  set_review_broker_token_file :: string
  set_review_broker_url :: string
  set_build_callback_max_age_seconds :: int
  set_review_prompt_version :: string
  set_openai_model :: string
  set_github_api_url :: string
  set_github_web_url :: string
  set_github_allowlist :: "string list"
  set_extension_allowlist :: "string list"
  set_extension_runner_url :: string
  set_allowed_origins :: "string list"
  set_trust_proxy_headers :: bool
  set_require_https :: bool
  set_rate_limit_per_minute :: int
  set_max_webhook_bytes :: int
  set_max_artifact_bytes :: int
  set_max_extension_output_bytes :: int
  set_log_redaction_patterns :: "string list"

definition default_redaction_patterns :: "string list" where
  "default_redaction_patterns =
     [''(?i)(authorization:'' @ [CHR 0x5C] @ ''s*bearer'' @ [CHR 0x5C] @ ''s+)'' @ [CHR 0x5C] @ ''S+'',
      ''(?i)((?:token|password|secret)'' @ [CHR 0x5C] @ ''s*[=:]'' @ [CHR 0x5C] @ ''s*)'' @ [CHR 0x5C] @ ''S+'']"

definition default_settings :: settings where
  "default_settings = \<lparr>
     set_service_version = ''0.1.0'',
     set_public_base_url = None,
     set_database_url = ''postgresql://jenkinsservice@postgres:5432/jenkinsservice'',
     set_database_password_file = Some ''/run/secrets/postgres_password'',
     set_jenkins_url = ''http://jenkins:8080'',
     set_jenkins_user = ''jenkinsservice'',
     set_jenkins_token_file = ''/run/secrets/jenkins_api_token'',
     set_api_tokens_file = ''/run/secrets/api_tokens'',
     set_github_read_token_file = ''/run/secrets/github_read_pat'',
     set_github_write_token_file = ''/run/secrets/github_write_pat'',
     set_github_webhook_secret_file = ''/run/secrets/github_webhook_secret'',
     set_build_callback_secret_file = ''/run/secrets/build_callback_secret'',
     set_review_broker_token_file = ''/run/secrets/review_broker_token'',
     set_review_broker_url = ''http://review-broker:8100'',
     set_build_callback_max_age_seconds = 300,
     set_review_prompt_version = ''v1'',
     set_openai_model = ''gpt-5.6-terra'',
     set_github_api_url = ''https://api.github.com'',
     set_github_web_url = ''https://github.com'',
     set_github_allowlist = [],
     set_extension_allowlist = [],
     set_extension_runner_url = ''http://extension-runner:8090'',
     set_allowed_origins = [],
     set_trust_proxy_headers = True,
     set_require_https = True,
     set_rate_limit_per_minute = 120,
     set_max_webhook_bytes = 2000000,
     set_max_artifact_bytes = 100000000,
     set_max_extension_output_bytes = 1000000,
     set_log_redaction_patterns = default_redaction_patterns \<rparr>"

text \<open>The pattern \<open>^[A-Za-z0-9_.-]+$\<close>; \<open>$\<close> is the end of the text in pydantic's engine.\<close>

definition is_prompt_version :: "string \<Rightarrow> bool" where
  "is_prompt_version s = (s \<noteq> [] \<and> list_all (\<lambda>c. is_alnum c \<or> c \<in> set ''_.-'') s)"

definition public_url_is_https :: "parsed_url option \<Rightarrow> parsed_url option outcome" where
  "public_url_is_https value = (case value of
      Some u \<Rightarrow> if url_scheme u \<noteq> ''https'' then Inl (ValueError ''PUBLIC_BASE_URL must use HTTPS'') else Inr value
    | None \<Rightarrow> Inr value)"

definition valid_settings :: "settings \<Rightarrow> bool" where
  "valid_settings s = (
     30 \<le> set_build_callback_max_age_seconds s \<and> set_build_callback_max_age_seconds s \<le> 3600
     \<and> is_prompt_version (set_review_prompt_version s)
     \<and> 1 \<le> set_rate_limit_per_minute s \<and> set_rate_limit_per_minute s \<le> 10000
     \<and> 1 \<le> set_max_webhook_bytes s \<and> 1 \<le> set_max_artifact_bytes s \<and> 1 \<le> set_max_extension_output_bytes s
     \<and> (case public_url_is_https (set_public_base_url s) of Inl _ \<Rightarrow> False | Inr _ \<Rightarrow> True))"

text \<open>The validation of the values the sources gave; any failure is one \<open>ValidationError\<close>.\<close>

definition make_settings :: "settings \<Rightarrow> settings outcome" where
  "make_settings s = (if valid_settings s then Inr s else Inl (ValidationError ''Settings''))"


subsection \<open>The database address\<close>

text \<open>\<open>urllib.parse.quote_plus\<close>.\<close>

definition quote_plus :: "string \<Rightarrow> string" where
  "quote_plus s = concat (map (\<lambda>c. if c = CHR '' '' then ''+'' else quote_byte c) (utf8_encode s))"

definition postgres_dsn :: "file_system \<Rightarrow> settings \<Rightarrow> string outcome" where
  "postgres_dsn fs s = (case set_database_password_file s of
      None \<Rightarrow> Inr (set_database_url s)
    | Some path \<Rightarrow>
        if \<not> path_exists fs path then Inr (set_database_url s)
        else bind_sum (read_secret fs path) (\<lambda>password.
          let separator = (if CHR ''?'' \<in> set (set_database_url s) then ''&'' else ''?'')
          in Inr (set_database_url s @ separator @ ''password='' @ quote_plus password)))"


subsection \<open>Lists and secrets\<close>

lemma py_strip_stripped [simp]: "py_strip (py_strip s) = py_strip s"
proof -
  have drop: "dropWhile P (dropWhile P xs) = dropWhile P xs" for P and xs :: "char list"
    by (induction xs) auto
  have last: "dropWhile P (rev (dropWhile P (rev (dropWhile P xs)))) = rev (dropWhile P (rev (dropWhile P xs)))"
    for P and xs :: "char list"
  proof (cases "rev (dropWhile P (rev (dropWhile P xs)))")
    case (Cons y ys)
    have "\<exists>zs. dropWhile P xs = rev (dropWhile P (rev (dropWhile P xs))) @ zs"
      by (metis takeWhile_dropWhile_id rev_append rev_rev_ident)
    with Cons obtain zs where "dropWhile P xs = y # ys @ zs" by auto
    then have "\<not> P y" by (metis hd_dropWhile list.distinct(1) list.sel(1))
    with Cons show ?thesis by simp
  qed (metis dropWhile.simps(1) rev.simps(1))
  show ?thesis by (simp add: py_strip_def last drop)
qed

lemma csv_list_items: "i \<in> set (csv_list s) \<Longrightarrow> i \<noteq> [] \<and> py_strip i = i"
  by (auto simp: csv_list_def)

lemma read_secret_nonempty: "read_secret fs path = Inr v \<Longrightarrow> v \<noteq> [] \<and> py_strip v = v"
  by (auto simp: read_secret_def bind_sum_eq_Inr Let_def split: if_splits)

lemma default_settings_valid: "valid_settings default_settings"
  by (simp add: valid_settings_def default_settings_def is_prompt_version_def public_url_is_https_def
      is_alnum_def is_alpha_def is_digit_def)


subsection \<open>The password in the address\<close>

text \<open>The decoder of \<open>application/x-www-form-urlencoded\<close> text a database driver applies to it.\<close>

definition hex_number :: "char \<Rightarrow> nat" where
  "hex_number c = (if is_digit c then of_char c - 48 else of_char c - 55)"

fun unquote_bytes :: "string \<Rightarrow> string" where
  "unquote_bytes [] = []"
| "unquote_bytes (c # s) =
     (if c = CHR ''+'' then CHR '' '' # unquote_bytes s
      else if c = CHR ''%'' then (case s of
          a # b # t \<Rightarrow> char_of (16 * hex_number a + hex_number b) # unquote_bytes t
        | _ \<Rightarrow> c # unquote_bytes s)
      else c # unquote_bytes s)"

definition unquote_plus :: "string \<Rightarrow> string option" where
  "unquote_plus s = utf8_decode (unquote_bytes s)"

lemma hex_number_upper: "n < 16 \<Longrightarrow> hex_number (upper_hex n) = n"
proof -
  assume "n < 16"
  then have "n \<in> set [0..<16]" by simp
  moreover have "list_all (\<lambda>k. hex_number (upper_hex k) = k) [0..<16]"
    by (simp add: upt_rec hex_number_def upper_hex_def is_digit_def)
  ultimately show ?thesis unfolding list_all_iff by blast
qed

lemma unquote_quote_byte:
  assumes "c \<noteq> CHR '' ''"
  shows "unquote_bytes (quote_byte c @ s) = c # unquote_bytes s"
proof (cases "unreserved c")
  case True
  then have "c \<noteq> CHR ''+'' \<and> c \<noteq> CHR ''%''" by (auto simp: unreserved_def is_alnum_def is_alpha_def is_digit_def)
  with True show ?thesis by (simp add: quote_byte_def)
next
  case False
  have "(of_char c :: nat) < 16 * 16" using of_char_less [of c] by simp
  then have "(of_char c :: nat) div 16 < 16" by (rule less_mult_imp_div_less)
  moreover have "char_of (16 * ((of_char c :: nat) div 16) + of_char c mod 16) = c"
    by (metis mult.commute div_mult_mod_eq char_of_char)
  ultimately show ?thesis using False by (simp add: quote_byte_def hex_number_upper)
qed

lemma unquote_plus_quote_plus: "unquote_plus (quote_plus s) = Some s"
proof -
  have "unquote_bytes (concat (map (\<lambda>c. if c = CHR '' '' then ''+'' else quote_byte c) bs)) = bs" for bs
    by (induction bs) (auto simp: unquote_quote_byte)
  then show ?thesis by (simp add: unquote_plus_def quote_plus_def utf8_decode_encode)
qed

lemma quote_plus_safe: "c \<in> set (quote_plus s) \<Longrightarrow> unreserved c \<or> c \<in> {CHR ''%'', CHR ''+''}"
  by (auto simp: quote_plus_def dest: quote_byte_safe split: if_splits)

text \<open>
  Whatever the characters of the database password, the address carries exactly it: after
  the base address comes one parameter, which ends no earlier and decodes to the secret.
\<close>

theorem postgres_dsn_password:
  assumes "set_database_password_file s = Some path" and "read_secret fs path = Inr secret"
  shows "\<exists>q. postgres_dsn fs s = Inr (set_database_url s
      @ (if CHR ''?'' \<in> set (set_database_url s) then ''&'' else ''?'') @ ''password='' @ q)
    \<and> unquote_plus q = Some secret \<and> set q \<inter> {CHR ''&'', CHR ''='', CHR ''#'', CHR ''?'', CHR '';''} = {}"
proof -
  have "path_exists fs path"
    using assms(2) by (auto simp: path_exists_def read_secret_def read_text_def bind_sum_def split: option.splits)
  with assms have "postgres_dsn fs s = Inr (set_database_url s
      @ (if CHR ''?'' \<in> set (set_database_url s) then ''&'' else ''?'') @ ''password='' @ quote_plus secret)"
    by (simp add: postgres_dsn_def bind_sum_def Let_def)
  moreover have "set (quote_plus secret) \<inter> {CHR ''&'', CHR ''='', CHR ''#'', CHR ''?'', CHR '';''} = {}"
    by (auto dest: quote_plus_safe simp: unreserved_def is_alnum_def is_alpha_def is_digit_def)
  ultimately show ?thesis using unquote_plus_quote_plus by blast
qed

lemma postgres_dsn_password_witness:
  "\<exists>q. postgres_dsn (\<lambda>_. Some ''p&x=1 2'') default_settings
      = Inr (set_database_url default_settings @ ''?'' @ ''password='' @ q)
    \<and> unquote_plus q = Some ''p&x=1 2''"
  using postgres_dsn_password [of default_settings "''/run/secrets/postgres_password''"
      "\<lambda>_. Some ''p&x=1 2''" "''p&x=1 2''"]
  by (simp add: default_settings_def read_secret_def read_text_def bind_sum_def py_strip_def is_space_def) blast

end
