(* ===== verification/Webhook.thy ===== *)
theory Webhook
  imports Extension_Properties
begin

section \<open>webhook.py: GitHub deliveries\<close>

text \<open>
  The readers of an untrusted payload, the record of a delivery and its dispatch. Which build
  an event asks for is decided by \<open>push_trigger\<close> and \<open>pull_trigger\<close>; the dispatch looks the
  repository up and hands the request to \<open>trigger_pipeline\<close>. The lemmas show that a delivery
  is new once, that every request an event becomes is valid, and that an event that is not
  understood triggers nothing.
\<close>

definition repository_full_name :: "jobj \<Rightarrow> string option" where
  "repository_full_name payload = (case jget payload ''repository'' of
      JObj r \<Rightarrow> (case jget r ''full_name'' of JStr s \<Rightarrow> if s = [] then None else Some s | _ \<Rightarrow> None)
    | _ \<Rightarrow> None)"

definition commit_sha_of :: "json \<Rightarrow> string option" where
  "commit_sha_of value = (case value of JStr s \<Rightarrow> if is_sha40 s then Some s else None | _ \<Rightarrow> None)"

definition branch_name_of :: "json \<Rightarrow> string option" where
  "branch_name_of value = (case value of
      JStr s \<Rightarrow> (case validate_branch_name s of Inl _ \<Rightarrow> None | Inr b \<Rightarrow> Some b)
    | _ \<Rightarrow> None)"

definition push_branch :: "json \<Rightarrow> string option" where
  "push_branch value = (case value of
      JStr s \<Rightarrow> if startswith s ''refs/heads/'' then branch_name_of (JStr (drop (length ''refs/heads/'') s)) else None
    | _ \<Rightarrow> None)"

definition webhook_reason :: "bool \<Rightarrow> string option \<Rightarrow> string option" where
  "webhook_reason allowed name =
     (if allowed then None else if name = None then Some ''malformed repository metadata''
      else Some ''repository outside configured allowlist'')"

definition process_github_webhook ::
    "service \<Rightarrow> string \<Rightarrow> string \<Rightarrow> jobj \<Rightarrow> (webhook_delivery \<times> bool) task" where
  "process_github_webhook sv delivery_id event payload =
     (let name = repository_full_name payload;
          allowed = (case name of None \<Rightarrow> False | Some n \<Rightarrow> repository_allowed sv n) in
      bind_io now_utc (\<lambda>received.
      let delivery = \<lparr>hook_delivery_id = delivery_id, hook_event = event,
         hook_repository = (case name of None \<Rightarrow> ''unknown'' | Some n \<Rightarrow> n), hook_accepted = allowed,
         hook_reason = webhook_reason allowed name, hook_received_at = received\<rparr> in
      bind_io (db (pg_record_webhook_once delivery)) (\<lambda>inserted. return_io (delivery, inserted))))"

definition zero_sha :: string where
  "zero_sha = replicate 40 (CHR ''0'')"

text \<open>The request an event becomes, before it is validated: \<open>None\<close> is an early return.\<close>

definition push_trigger :: "repository \<Rightarrow> jobj \<Rightarrow> trigger_request option" where
  "push_trigger r payload = (case (commit_sha_of (jget payload ''after''), push_branch (jget payload ''ref'')) of
      (Some sha, Some branch) \<Rightarrow>
        if sha = zero_sha then None
        else Some \<lparr>trig_repository_id = repo_id r, trig_commit_sha = sha, trig_base_sha = None,
               trig_branch = Some branch, trig_pull_request = None\<rparr>
    | _ \<Rightarrow> None)"

definition pull_number :: "json \<Rightarrow> int option" where
  "pull_number j = (case j of JInt i \<Rightarrow> if i < 1 then None else Some i | _ \<Rightarrow> None)"

definition pull_trigger :: "repository \<Rightarrow> jobj \<Rightarrow> trigger_request option" where
  "pull_trigger r payload = (case jget payload ''pull_request'' of
      JObj pull \<Rightarrow> (case (jget pull ''head'', jget pull ''base'') of
          (JObj head, JObj base) \<Rightarrow>
            (case (commit_sha_of (jget head ''sha''), commit_sha_of (jget base ''sha''),
                   branch_name_of (jget head ''ref''), pull_number (jget pull ''number'')) of
               (Some sha, Some base_sha, Some branch, Some n) \<Rightarrow>
                 Some \<lparr>trig_repository_id = repo_id r, trig_commit_sha = sha, trig_base_sha = Some base_sha,
                   trig_branch = Some branch, trig_pull_request = Some n\<rparr>
             | _ \<Rightarrow> None)
        | _ \<Rightarrow> None)
    | _ \<Rightarrow> None)"

definition pull_actions :: "string set" where
  "pull_actions = {''opened'', ''reopened'', ''synchronize'', ''ready_for_review''}"

text \<open>\<open>payload.get("action") in {...}\<close>: a list or an object cannot be looked up in a set.\<close>

definition is_pull_action :: "json \<Rightarrow> bool outcome" where
  "is_pull_action j = (case j of
      JStr s \<Rightarrow> Inr (s \<in> pull_actions)
    | JList _ \<Rightarrow> Inl (TypeError ''unhashable type'') | JObj _ \<Rightarrow> Inl (TypeError ''unhashable type'')
    | _ \<Rightarrow> Inr False)"

definition event_trigger :: "repository \<Rightarrow> string \<Rightarrow> jobj \<Rightarrow> trigger_request option outcome" where
  "event_trigger r event payload =
     (if event = ''push'' then Inr (push_trigger r payload)
      else if event = ''pull_request'' then
        bind_sum (is_pull_action (jget payload ''action'')) (\<lambda>known.
          Inr (if known then pull_trigger r payload else None))
      else Inr None)"

definition webhook_principal :: principal where
  "webhook_principal = \<lparr>token_id = ''github-webhook'', scopes = {Operate}\<rparr>"

definition matching_repository :: "string \<Rightarrow> repository list \<Rightarrow> repository option" where
  "matching_repository name rs = find (\<lambda>r. py_lower (full_name r) = py_lower name \<and> repo_enabled r) rs"

definition dispatch_github_webhook :: "service \<Rightarrow> string \<Rightarrow> jobj \<Rightarrow> unit task" where
  "dispatch_github_webhook sv event payload = (case repository_full_name payload of
      None \<Rightarrow> return_io ()
    | Some name \<Rightarrow>
        bind_io (db (get_io pg_list_repositories)) (\<lambda>rs. case matching_repository name rs of
          None \<Rightarrow> return_io ()
        | Some r \<Rightarrow>
            bind_io (lift_io (event_trigger r event payload)) (\<lambda>t. case t of
              None \<Rightarrow> return_io ()
            | Some trigger \<Rightarrow>
                bind_io (lift_io (validated valid_trigger_request ''TriggerRequest'' trigger)) (\<lambda>trigger'.
                bind_io (trigger_pipeline sv webhook_principal trigger') (\<lambda>_. return_io ())))))"


subsection \<open>Properties\<close>

lemma commit_sha_of_valid: "commit_sha_of j = Some s \<Longrightarrow> is_sha40 s"
  by (simp add: commit_sha_of_def split: json.splits if_splits)

lemma branch_name_of_valid: "branch_name_of j = Some b \<Longrightarrow> safe_branch b"
  by (auto simp: branch_name_of_def dest: validate_branch_name_Inr split: json.splits sum.splits)

lemma push_branch_valid: "push_branch j = Some b \<Longrightarrow> safe_branch b"
  by (auto simp: push_branch_def dest: branch_name_of_valid split: json.splits if_splits)

lemma push_trigger_valid: "push_trigger r p = Some t \<Longrightarrow> valid_trigger_request t \<and> trig_repository_id t = repo_id r
    \<and> trig_commit_sha t \<noteq> zero_sha"
  by (auto simp: push_trigger_def valid_trigger_request_def is_sha40_option_def safe_branch_option_def
      positive_option_def dest: commit_sha_of_valid push_branch_valid split: option.splits if_splits)

lemma pull_trigger_valid: "pull_trigger r p = Some t \<Longrightarrow> valid_trigger_request t \<and> trig_repository_id t = repo_id r
    \<and> trig_pull_request t \<noteq> None \<and> trig_base_sha t \<noteq> None"
  by (auto simp: pull_trigger_def valid_trigger_request_def is_sha40_option_def safe_branch_option_def
      positive_option_def pull_number_def dest: commit_sha_of_valid branch_name_of_valid
      split: option.splits if_splits json.splits)

lemma event_trigger_sound:
  "event_trigger r event payload = Inr (Some t) \<Longrightarrow>
   valid_trigger_request t \<and> trig_repository_id t = repo_id r \<and> (event = ''push'' \<longrightarrow> trig_commit_sha t \<noteq> zero_sha)"
  by (auto simp: event_trigger_def bind_sum_eq_Inr dest: push_trigger_valid pull_trigger_valid split: if_splits)

text \<open>
  C39: Whatever a payload holds, the request an event becomes is valid, names the repository it
  was matched with, and never a deleted branch.
\<close>

theorem event_trigger_valid:
  assumes "event_trigger r event payload = Inr (Some t)"
  shows "valid_trigger_request t \<and> trig_repository_id t = repo_id r \<and> (event = ''push'' \<longrightarrow> trig_commit_sha t \<noteq> zero_sha)"
  using assms by (rule event_trigger_sound)

definition demo_push :: jobj where
  "demo_push = [(''repository'', JObj [(''full_name'', JStr ''o/r'')]), (''ref'', JStr ''refs/heads/main''),
     (''after'', JStr demo_sha)]"

lemma demo_push_trigger: "\<exists>t. event_trigger demo_repository ''push'' demo_push = Inr (Some t)"
proof -
  have "safe_branch ''main''" by code_simp
  moreover have "is_sha40 demo_sha" "demo_sha \<noteq> zero_sha"
    by (simp_all add: demo_sha_def is_sha40_def is_hex_def list_all_iff zero_sha_def eval_nat_numeral)
  ultimately show ?thesis
    by (simp add: event_trigger_def push_trigger_def demo_push_def jget_def commit_sha_of_def push_branch_def
        startswith_def branch_name_of_def safe_branch_def)
qed

theorem event_trigger_valid_witness:
  "\<exists>t. event_trigger demo_repository ''push'' demo_push = Inr (Some t) \<and> valid_trigger_request t \<and> trig_commit_sha t \<noteq> zero_sha"
  using demo_push_trigger event_trigger_valid by blast

text \<open>The dispatch to a repository the payload names.\<close>

lemma dispatch_matched:
  assumes "repository_full_name payload = Some name"
    and "matching_repository name (pg_list_repositories (w_db w)) = Some r"
  shows "dispatch_github_webhook sv event payload w = (case event_trigger r event payload of
      Inl e \<Rightarrow> (Inl e, w)
    | Inr None \<Rightarrow> (Inr (), w)
    | Inr (Some t) \<Rightarrow> bind_io (trigger_pipeline sv webhook_principal t) (\<lambda>_. return_io ()) w)"
  using assms event_trigger_sound [of r event payload]
  by (auto simp: dispatch_github_webhook_def run_bind run_db run_get run_lift run_return validated_def
      split: sum.split option.split)

text \<open>
  C40: A dispatched event does one of two things: nothing at all, or one trigger of a valid
  request for an enabled repository registered under the payload's name.
\<close>

theorem dispatch_effect:
  "(\<exists>r. dispatch_github_webhook sv event payload w = (r, w))
   \<or> (\<exists>r t name. repository_full_name payload = Some name \<and> r \<in> set (pg_list_repositories (w_db w))
        \<and> repo_enabled r \<and> py_lower (full_name r) = py_lower name \<and> event_trigger r event payload = Inr (Some t)
        \<and> valid_trigger_request t
        \<and> dispatch_github_webhook sv event payload w
            = bind_io (trigger_pipeline sv webhook_principal t) (\<lambda>_. return_io ()) w)"
proof (cases "repository_full_name payload")
  case None
  then show ?thesis by (auto simp: dispatch_github_webhook_def run_return)
next
  case (Some name)
  show ?thesis
  proof (cases "matching_repository name (pg_list_repositories (w_db w))")
    case None
    with Some show ?thesis by (auto simp: dispatch_github_webhook_def run_bind run_db run_get run_return)
  next
    case (Some r)
    then have "r \<in> set (pg_list_repositories (w_db w))" "repo_enabled r" "py_lower (full_name r) = py_lower name"
      by (auto simp: matching_repository_def find_Some_iff)
    with dispatch_matched [OF \<open>repository_full_name payload = Some name\<close> Some, of sv event]
      \<open>repository_full_name payload = Some name\<close> event_trigger_sound [of r event payload]
    show ?thesis by (cases "event_trigger r event payload") (fastforce split: option.splits)+
  qed
qed

text \<open>
  A delivery is new once: handling it again, with whatever content, reports a duplicate and
  leaves the store as it is.
\<close>

theorem webhook_delivery_once:
  "let t = snd (process_github_webhook sv i event payload w);
       again = process_github_webhook sv' i event' payload' t
   in (\<exists>d. fst again = Inr (d, False)) \<and> w_db (snd again) = w_db t"
proof -
  let ?t = "snd (process_github_webhook sv i event payload w)"
  have seen: "pg_hook_seen i (w_db ?t)"
    by (simp add: process_github_webhook_def run_bind now_utc_def run_db Let_def run_return pg.hooks.record_returns
        pg.hooks.record_marks split: sum.splits)
  have dup: "pg_record_webhook_once d (w_db ?t) = (Inr False, w_db ?t)" if "hook_delivery_id d = i" for d
    using seen that by (intro pg.hooks.record_duplicate) simp
  show ?thesis
    unfolding Let_def
    by (simp add: process_github_webhook_def [of sv'] run_bind now_utc_def run_db Let_def run_return dup)
qed

lemma keeps_process_github_webhook: "keeps world_ok (process_github_webhook sv i ev p) (\<lambda>_. True)"
  unfolding process_github_webhook_def Let_def
  by (intro keeps_bind [OF keeps_now] keeps_bind [OF keeps_db [OF keeps_pg_record_webhook]] keeps_return TrueI)

lemma keeps_dispatch_github_webhook: "keeps world_ok (dispatch_github_webhook sv ev p) (\<lambda>_. True)"
  unfolding dispatch_github_webhook_def
  by (intro keeps_option keeps_return keeps_bind [OF keeps_db [OF keeps_get_any]]
      keeps_bind [OF keeps_lift [of _ "\<lambda>_. True"]] keeps_bind [OF keeps_trigger_pipeline] TrueI)

end
