(* ===== verification/Contract.thy ===== *)
theory Contract
  imports Service_Core
begin

section \<open>contract.py: the semantic checks of a pipeline contract\<close>

text \<open>
  The checks the JSON schema cannot express, in the order of the code: each appends its
  message to the list of errors. The loaders and \<open>jsonschema\<close> are parameters. A loaded
  document is a JSON value; a YAML mapping with a key that is no string is outside the model.
  \<open>contract_safe\<close> states the rules without the messages; the checks find no error exactly
  when it holds.
\<close>

definition forbidden_environment_names :: "string set" where
  "forbidden_environment_names = {''BUILDKIT_HOST'', ''DOCKER_CERT_PATH'', ''DOCKER_CONFIG'',
     ''DOCKER_CONTEXT'', ''DOCKER_HOST'', ''DOCKER_TLS'', ''DOCKER_TLS_VERIFY''}"

definition forbidden_command_fragments :: "string list" where
  "forbidden_command_fragments = [''/var/run/docker.sock'', ''docker.sock'', ''--privileged'',
     ''--mount'', ''-v /'', ''DOCKER_HOST'', ''DOCKER_CERT_PATH'']"

text \<open>\<open>SECRET_NAME.search(name)\<close>: the alternatives of the pattern, on the lowered name.\<close>

definition secret_words :: "string list" where
  "secret_words = [''secret'', ''token'', ''password'', ''passwd'', ''credential'', ''privatekey'',
     ''private_key'', ''private-key'', ''apikey'', ''api_key'', ''api-key'']"

definition secret_like :: "string \<Rightarrow> bool" where
  "secret_like name = list_ex (py_contains (py_lower name)) secret_words"

definition path_unsafe :: "string \<Rightarrow> bool" where
  "path_unsafe value = (path_is_absolute value \<or> ''..'' \<in> set (path_parts value) \<or> CHR 0x5C \<in> set value)"

definition relative_safe_path :: "string \<Rightarrow> string \<Rightarrow> string list" where
  "relative_safe_path value field =
     (if path_unsafe value
      then [field @ '' must be a relative POSIX path without '' @ [CHR 0x27] @ ''..'' @ [CHR 0x27]] else [])"

definition environment_errors :: "jobj \<Rightarrow> string \<Rightarrow> string list" where
  "environment_errors environment field = concat (map (\<lambda>(name, _).
     (if secret_like name then [field @ ''.'' @ name @ '': secret-like names are forbidden''] else []) @
     (if py_upper name \<in> forbidden_environment_names
      then [field @ ''.'' @ name @ '': Docker client configuration is forbidden''] else [])) environment)"

text \<open>\<open>d.get(k, {})\<close> and \<open>d.get(k, [])\<close>, empty when the value has another type.\<close>

definition dict_member :: "jobj \<Rightarrow> string \<Rightarrow> jobj" where
  "dict_member d k = (case jget_default d k (JObj []) of JObj kvs \<Rightarrow> kvs | _ \<Rightarrow> [])"

definition list_member :: "jobj \<Rightarrow> string \<Rightarrow> json list" where
  "list_member d k = (case jget_default d k (JList []) of JList xs \<Rightarrow> xs | _ \<Rightarrow> [])"

text \<open>\<open>repr\<close> of a string.\<close>

definition repr_char :: "char \<Rightarrow> char \<Rightarrow> string" where
  "repr_char quote c = (let n = (of_char c :: nat) in
     if c = quote \<or> c = CHR 0x5C then [CHR 0x5C, c]
     else if n = 9 then [CHR 0x5C, CHR ''t''] else if n = 10 then [CHR 0x5C, CHR ''n'']
     else if n = 13 then [CHR 0x5C, CHR ''r'']
     else if n < 32 \<or> n = 127 \<or> (128 \<le> n \<and> n \<le> 160) \<or> n = 173
     then [CHR 0x5C, CHR ''x''] @ hex_byte c
     else [c])"

definition py_repr :: "string \<Rightarrow> string" where
  "py_repr s = (let q = (if CHR 0x27 \<in> set s \<and> CHR 0x22 \<notin> set s then CHR 0x22 else CHR 0x27)
     in q # concat (map (repr_char q) s) @ [q])"

definition command_text :: "json \<Rightarrow> string" where
  "command_text command = (case command of
      JStr s \<Rightarrow> s
    | JList items \<Rightarrow> py_join '' '' (List.map_filter as_str items)
    | _ \<Rightarrow> [])"

definition command_errors :: "string \<Rightarrow> string \<Rightarrow> string list" where
  "command_errors command prefix = concat (map (\<lambda>fragment.
     if py_contains (py_lower command) (py_lower fragment)
     then [prefix @ ''.command contains forbidden fragment '' @ py_repr fragment] else [])
     forbidden_command_fragments)"

text \<open>\<open>for index, item in enumerate(items)\<close>: what each item of an object list adds.\<close>

fun enumerate_errors :: "(nat \<Rightarrow> json \<Rightarrow> string list) \<Rightarrow> nat \<Rightarrow> json list \<Rightarrow> string list" where
  "enumerate_errors f n [] = []"
| "enumerate_errors f n (x # xs) = f n x @ enumerate_errors f (n + 1) xs"

definition item_path :: "json \<Rightarrow> string option" where
  "item_path j = (case j of JObj kvs \<Rightarrow> as_str (jget kvs ''path'') | _ \<Rightarrow> None)"

definition path_errors :: "string \<Rightarrow> nat \<Rightarrow> json \<Rightarrow> string list" where
  "path_errors field n j = (case item_path j of
      None \<Rightarrow> [] | Some p \<Rightarrow> relative_safe_path p (field @ ''['' @ str_nat n @ ''].path''))"

text \<open>One step, with the identifiers seen before it and those seen after it.\<close>

definition step_errors :: "string \<Rightarrow> string list \<Rightarrow> jobj \<Rightarrow> string list \<times> string list" where
  "step_errors prefix seen step =
     (let (id_errors, seen') = (case jget step ''id'' of
            JStr s \<Rightarrow> if s \<in> set seen then ([prefix @ ''.id duplicates step ID '' @ py_repr s], seen)
              else if s \<noteq> [] then ([], s # seen) else ([], seen)
          | _ \<Rightarrow> ([], seen));
          directory_errors = (case jget_default step ''workingDirectory'' (JStr ''.'') of
            JStr d \<Rightarrow> relative_safe_path d (prefix @ ''.workingDirectory'') | _ \<Rightarrow> [])
      in (id_errors @ directory_errors
          @ command_errors (command_text (jget_default step ''command'' (JList []))) prefix
          @ environment_errors (dict_member step ''environment'') (prefix @ ''.environment'')
          @ enumerate_errors (path_errors (prefix @ ''.reports'')) 0 (list_member step ''reports''),
          seen'))"

fun group_errors :: "string \<Rightarrow> nat \<Rightarrow> string list \<Rightarrow> json list \<Rightarrow> string list \<times> string list" where
  "group_errors grp n seen [] = ([], seen)"
| "group_errors grp n seen (j # js) = (case j of
      JObj step \<Rightarrow>
        (case step_errors (''steps.'' @ grp @ ''['' @ str_nat n @ '']'') seen step of (es, seen') \<Rightarrow>
         case group_errors grp (n + 1) seen' js of (fs, seen'') \<Rightarrow> (es @ fs, seen''))
    | _ \<Rightarrow> group_errors grp (n + 1) seen js)"

fun groups_errors :: "jobj \<Rightarrow> string list \<Rightarrow> string list \<Rightarrow> string list \<times> string list" where
  "groups_errors steps seen [] = ([], seen)"
| "groups_errors steps seen (g # gs) =
     (case group_errors g 0 seen (list_member steps g) of (es, seen') \<Rightarrow>
      case groups_errors steps seen' gs of (fs, seen'') \<Rightarrow> (es @ fs, seen''))"

definition excluded_errors :: "nat \<Rightarrow> json \<Rightarrow> string list" where
  "excluded_errors n j = (case j of
      JStr p \<Rightarrow> relative_safe_path p (''review.excludedPaths['' @ str_nat n @ '']'') | _ \<Rightarrow> [])"

definition step_groups :: "string list" where
  "step_groups = [''standards'', ''tests'', ''custom'']"

definition semantic_errors :: "jobj \<Rightarrow> string list" where
  "semantic_errors document =
     (let runtime = dict_member document ''runtime'' in
      (case jget_default runtime ''image'' (JStr []) of
         JStr ref \<Rightarrow> if ref \<noteq> [] \<and> \<not> immutable_image ref
           then [''runtime.image must use an immutable @sha256 digest''] else []
       | _ \<Rightarrow> [])
      @ environment_errors (dict_member runtime ''environment'') ''runtime.environment''
      @ fst (groups_errors (dict_member document ''steps'') [] step_groups)
      @ enumerate_errors (path_errors ''artifacts'') 0 (list_member document ''artifacts'')
      @ enumerate_errors excluded_errors 0 (list_member (dict_member document ''review'') ''excludedPaths''))"


subsection \<open>Validation\<close>

text \<open>
  What loading a document gives: a value, a parse error of \<open>json\<close> or \<open>yaml\<close> with its text, or
  another exception, which \<open>validate_contract_content\<close> does not catch. \<open>cl_schema_errors\<close> is
  \<open>iter_errors\<close> in the order of the paths: the parts of a path as text, and the message.
\<close>

datatype contract_load = Loaded json | ParseFailed string | LoadRaised error

record contract_libraries =
  cl_load :: "contract_format \<Rightarrow> string \<Rightarrow> contract_load"
  cl_schema :: json
  cl_schema_errors :: "json \<Rightarrow> json \<Rightarrow> (string list \<times> string) list"

definition contract_schema :: "contract_libraries \<Rightarrow> json" where
  "contract_schema lib = cl_schema lib"

definition schema_message :: "string list \<times> string \<Rightarrow> string" where
  "schema_message x = (case x of (parts, message) \<Rightarrow>
     (let path = py_join ''.'' parts in if path = [] then ''$'' else path) @ '': '' @ message)"

definition validate_contract_content ::
    "contract_libraries \<Rightarrow> string \<Rightarrow> contract_format \<Rightarrow> contract_validation outcome" where
  "validate_contract_content lib content format = (case cl_load lib format content of
      LoadRaised e \<Rightarrow> Inl e
    | ParseFailed m \<Rightarrow> Inr \<lparr>cv_valid = False, cv_errors = [''document parse failed: '' @ m], cv_normalized = None\<rparr>
    | Loaded raw \<Rightarrow> (case raw of
        JObj document \<Rightarrow>
          let errors = map schema_message (cl_schema_errors lib (contract_schema lib) raw) @ semantic_errors document
          in Inr \<lparr>cv_valid = (errors = []), cv_errors = errors,
               cv_normalized = (if errors = [] then Some document else None)\<rparr>
      | _ \<Rightarrow> Inr \<lparr>cv_valid = False, cv_errors = [''pipeline contract must be an object''], cv_normalized = None\<rparr>))"

text \<open>\<open>path.suffix == ".json"\<close>.\<close>

definition has_json_suffix :: "string \<Rightarrow> bool" where
  "has_json_suffix path = (case path_parts path of [] \<Rightarrow> False
     | p # ps \<Rightarrow> let name = last (p # ps) in endswith name ''.json'' \<and> 5 < length name)"

definition validate_contract_file ::
    "contract_libraries \<Rightarrow> (string \<Rightarrow> string option) \<Rightarrow> string \<Rightarrow> contract_validation outcome" where
  "validate_contract_file lib files path = (case files path of
      None \<Rightarrow> Inl (OSError ''No such file or directory'')
    | Some content \<Rightarrow> validate_contract_content lib content (if has_json_suffix path then JsonFormat else Yaml))"

text \<open>The command line: the lines on standard output, those on standard error, the exit status.\<close>

definition contract_main ::
    "contract_libraries \<Rightarrow> (contract_validation \<Rightarrow> string) \<Rightarrow> (string \<Rightarrow> string option) \<Rightarrow> string \<Rightarrow> bool
     \<Rightarrow> (string list \<times> string list \<times> int) outcome" where
  "contract_main lib dump files path json_output =
     bind_sum (validate_contract_file lib files path) (\<lambda>result.
       Inr (if json_output then [dump result]
            else if cv_valid result then [path @ '': valid ci.jenkinsservice.dev/v1''] else [],
            if \<not> json_output \<and> \<not> cv_valid result then map (\<lambda>e. path @ '': '' @ e) (cv_errors result) else [],
            if cv_valid result then 0 else 1))"


subsection \<open>The service's contract operations\<close>

definition pipeline_contract_schema :: "contract_libraries \<Rightarrow> json task" where
  "pipeline_contract_schema lib = return_io (contract_schema lib)"

text \<open>The example, from the first of the three places it can be in that exists.\<close>

definition pipeline_contract_example :: "string option \<Rightarrow> string option \<Rightarrow> string option \<Rightarrow> string task" where
  "pipeline_contract_example installed packaged source_tree = (case installed of
      Some t \<Rightarrow> return_io t
    | None \<Rightarrow> (case packaged of
        Some t \<Rightarrow> return_io t
      | None \<Rightarrow> (case source_tree of
          Some t \<Rightarrow> return_io t
        | None \<Rightarrow> raise_io (OSError ''No such file or directory''))))"

definition validate_pipeline_contract ::
    "contract_libraries \<Rightarrow> principal \<Rightarrow> contract_validation_request \<Rightarrow> contract_validation task" where
  "validate_pipeline_contract lib actor p =
     bind_io (lift_io (validate_contract_content lib (cvr_content p) (cvr_format p))) (\<lambda>result.
     seq_io (audit actor ''validate_pipeline_contract'' ''inline-contract''
         (if cv_valid result then AuditSucceeded else AuditRejected)
         [(''errors'', JList (map JStr (cv_errors result)))])
       (return_io result))"


subsection \<open>The rules without the messages\<close>

definition environment_safe :: "jobj \<Rightarrow> bool" where
  "environment_safe environment =
     list_all (\<lambda>(name, _). \<not> secret_like name \<and> py_upper name \<notin> forbidden_environment_names) environment"

definition command_safe :: "string \<Rightarrow> bool" where
  "command_safe command = list_all (\<lambda>f. \<not> py_contains (py_lower command) (py_lower f)) forbidden_command_fragments"

definition item_safe :: "json \<Rightarrow> bool" where
  "item_safe j = (case item_path j of None \<Rightarrow> True | Some p \<Rightarrow> \<not> path_unsafe p)"

definition step_safe :: "jobj \<Rightarrow> bool" where
  "step_safe step =
     ((case jget_default step ''workingDirectory'' (JStr ''.'') of JStr d \<Rightarrow> \<not> path_unsafe d | _ \<Rightarrow> True)
      \<and> command_safe (command_text (jget_default step ''command'' (JList [])))
      \<and> environment_safe (dict_member step ''environment'')
      \<and> list_all item_safe (list_member step ''reports''))"

definition contract_steps :: "jobj \<Rightarrow> jobj list" where
  "contract_steps document = concat (map (\<lambda>g. List.map_filter as_obj (list_member (dict_member document ''steps'') g)) step_groups)"

definition step_id :: "jobj \<Rightarrow> string option" where
  "step_id step = (case jget step ''id'' of JStr s \<Rightarrow> if s = [] then None else Some s | _ \<Rightarrow> None)"

definition contract_safe :: "jobj \<Rightarrow> bool" where
  "contract_safe document =
     ((case jget_default (dict_member document ''runtime'') ''image'' (JStr []) of
         JStr ref \<Rightarrow> ref = [] \<or> immutable_image ref | _ \<Rightarrow> True)
      \<and> environment_safe (dict_member (dict_member document ''runtime'') ''environment'')
      \<and> distinct (List.map_filter step_id (contract_steps document))
      \<and> list_all step_safe (contract_steps document)
      \<and> list_all item_safe (list_member document ''artifacts'')
      \<and> list_all (\<lambda>j. case j of JStr p \<Rightarrow> \<not> path_unsafe p | _ \<Rightarrow> True)
          (list_member (dict_member document ''review'') ''excludedPaths''))"

lemma enumerate_errors_nil: "(enumerate_errors f n xs = []) = (\<forall>i<length xs. f (n + i) (xs ! i) = [])"
proof (induction xs arbitrary: n)
  case Nil
  then show ?case by simp
next
  case (Cons x xs)
  have "(\<forall>i<length (x # xs). f (n + i) ((x # xs) ! i) = []) = (f n x = [] \<and> (\<forall>i<length xs. f (n + 1 + i) (xs ! i) = []))"
    by (auto simp: less_Suc_eq_0_disj)
  with Cons.IH [of "n + 1"] show ?case by simp
qed

lemma enumerate_errors_all:
  assumes "\<And>n x. (f n x = []) = P x"
  shows "(enumerate_errors f n xs = []) = list_all P xs"
  by (simp add: enumerate_errors_nil assms list_all_length)

lemma relative_safe_path_nil: "(relative_safe_path v f = []) = (\<not> path_unsafe v)"
  by (simp add: relative_safe_path_def)

lemma path_errors_nil: "(path_errors f n j = []) = item_safe j"
  by (simp add: path_errors_def item_safe_def relative_safe_path_nil split: option.splits)

lemma environment_errors_nil: "(environment_errors d f = []) = environment_safe d"
  by (auto simp: environment_errors_def environment_safe_def list_all_iff split: prod.splits)

lemma command_errors_nil: "(command_errors c p = []) = command_safe c"
  by (auto simp: command_errors_def command_safe_def list_all_iff)

lemma step_errors_nil:
  assumes "[] \<notin> set seen"
  shows "(fst (step_errors p seen step) = []) =
     (step_safe step \<and> (case step_id step of None \<Rightarrow> True | Some s \<Rightarrow> s \<notin> set seen))"
    and "set (snd (step_errors p seen step)) = set seen \<union> set_option (step_id step)"
  using assms
  by (auto simp: step_errors_def step_safe_def step_id_def relative_safe_path_nil command_errors_nil
      environment_errors_nil enumerate_errors_all [of _ item_safe] path_errors_nil Let_def
      split: json.splits if_splits prod.splits)

lemma group_errors_nil:
  assumes "[] \<notin> set seen"
  shows "(fst (group_errors g n seen js) = []) =
     (list_all step_safe (List.map_filter as_obj js)
      \<and> distinct (List.map_filter step_id (List.map_filter as_obj js))
      \<and> set (List.map_filter step_id (List.map_filter as_obj js)) \<inter> set seen = {})
     \<and> set (snd (group_errors g n seen js)) = set seen \<union> set (List.map_filter step_id (List.map_filter as_obj js))"
  using assms
proof (induction js arbitrary: n seen)
  case Nil
  then show ?case by (simp add: map_filter_simps)
next
  case (Cons j js)
  show ?case
  proof (cases "as_obj j")
    case None
    then have "group_errors g n seen (j # js) = group_errors g (n + 1) seen js" by (cases j) simp_all
    with None Cons show ?thesis by (simp add: map_filter_simps)
  next
    case (Some step)
    then have j: "j = JObj step" by (cases j) simp_all
    obtain es seen' where step: "step_errors (''steps.'' @ g @ ''['' @ str_nat n @ '']'') seen step = (es, seen')"
      by (cases "step_errors (''steps.'' @ g @ ''['' @ str_nat n @ '']'') seen step")
    obtain fs seen'' where rest: "group_errors g (n + 1) seen' js = (fs, seen'')"
      by (cases "group_errors g (n + 1) seen' js")
    from step_errors_nil [OF Cons.prems, of "''steps.'' @ g @ ''['' @ str_nat n @ '']''" step] step
    have e: "(es = []) = (step_safe step \<and> (case step_id step of None \<Rightarrow> True | Some s \<Rightarrow> s \<notin> set seen))"
      "set seen' = set seen \<union> set_option (step_id step)" by simp_all
    have "[] \<notin> set seen'" using Cons.prems e(2) by (auto simp: step_id_def split: json.splits if_splits)
    from Cons.IH [OF this, of "n + 1"] rest have r: "(fs = []) = (list_all step_safe (List.map_filter as_obj js)
      \<and> distinct (List.map_filter step_id (List.map_filter as_obj js))
      \<and> set (List.map_filter step_id (List.map_filter as_obj js)) \<inter> set seen' = {})"
      "set seen'' = set seen' \<union> set (List.map_filter step_id (List.map_filter as_obj js))" by simp_all
    show ?thesis
      using step rest e r j by (cases "step_id step") (auto simp: map_filter_simps)
  qed
qed

lemma groups_errors_nil:
  assumes "[] \<notin> set seen"
  shows "(fst (groups_errors steps seen gs) = []) =
     (list_all step_safe (concat (map (\<lambda>g. List.map_filter as_obj (list_member steps g)) gs))
      \<and> distinct (List.map_filter step_id (concat (map (\<lambda>g. List.map_filter as_obj (list_member steps g)) gs)))
      \<and> set (List.map_filter step_id (concat (map (\<lambda>g. List.map_filter as_obj (list_member steps g)) gs))) \<inter> set seen = {})"
  using assms
proof (induction gs arbitrary: seen)
  case Nil
  then show ?case by (simp add: map_filter_simps)
next
  case (Cons g gs)
  obtain es seen' where g: "group_errors g 0 seen (list_member steps g) = (es, seen')"
    by (cases "group_errors g 0 seen (list_member steps g)")
  from group_errors_nil [OF Cons.prems, of g 0 "list_member steps g"] g
  have e: "(es = []) = (list_all step_safe (List.map_filter as_obj (list_member steps g))
      \<and> distinct (List.map_filter step_id (List.map_filter as_obj (list_member steps g)))
      \<and> set (List.map_filter step_id (List.map_filter as_obj (list_member steps g))) \<inter> set seen = {})"
    "set seen' = set seen \<union> set (List.map_filter step_id (List.map_filter as_obj (list_member steps g)))" by simp_all
  have "[] \<notin> set seen'"
    using Cons.prems e(2) by (auto simp: List.map_filter_def step_id_def split: json.splits if_splits)
  obtain fs seen'' where gs: "groups_errors steps seen' gs = (fs, seen'')" by (cases "groups_errors steps seen' gs")
  define here where "here = List.map_filter as_obj (list_member steps g)"
  define later where "later = concat (map (\<lambda>g. List.map_filter as_obj (list_member steps g)) gs)"
  from Cons.IH [OF \<open>[] \<notin> set seen'\<close>] gs have "(fs = []) = (list_all step_safe later
      \<and> distinct (List.map_filter step_id later) \<and> set (List.map_filter step_id later) \<inter> set seen' = {})"
    by (simp add: later_def)
  moreover have "concat (map (\<lambda>g. List.map_filter as_obj (list_member steps g)) (g # gs)) = here @ later"
    by (simp add: here_def later_def)
  moreover have "List.map_filter step_id (here @ later) = List.map_filter step_id here @ List.map_filter step_id later"
    by (simp add: List.map_filter_def)
  ultimately show ?case
    using g gs e [folded here_def] by (simp only: groups_errors.simps prod.case fst_conv) auto
qed

lemma semantic_errors_nil: "(semantic_errors document = []) = contract_safe document"
  using groups_errors_nil [of "[]" "dict_member document ''steps''" step_groups]
  by (auto simp: semantic_errors_def contract_safe_def contract_steps_def environment_errors_nil
      enumerate_errors_all [of _ item_safe] path_errors_nil Let_def
      enumerate_errors_all [of excluded_errors "\<lambda>j. case j of JStr p \<Rightarrow> \<not> path_unsafe p | _ \<Rightarrow> True"]
      excluded_errors_def relative_safe_path_nil split: json.splits)

text \<open>
  C38: The checks of a contract report no error exactly when the contract obeys the rules:
  pinned image, no secret-like or Docker variables, unique step identifiers, safe paths and
  no forbidden command fragment.
\<close>

theorem semantic_errors_exact: "(semantic_errors document = []) = contract_safe document"
  by (rule semantic_errors_nil)

text \<open>
  A contract reported as valid is an object that passes the schema and the rules, and is
  returned unchanged.
\<close>

theorem valid_contract:
  assumes "validate_contract_content lib content format = Inr v"
  shows "cv_valid v \<longleftrightarrow> (\<exists>document. cl_load lib format content = Loaded (JObj document)
     \<and> cl_schema_errors lib (cl_schema lib) (JObj document) = [] \<and> contract_safe document
     \<and> cv_normalized v = Some document \<and> cv_errors v = [])"
  using assms
  by (auto simp: validate_contract_content_def contract_schema_def semantic_errors_nil [symmetric] Let_def
      split: contract_load.splits json.splits if_splits)

definition demo_contract :: jobj where
  "demo_contract = [(''artifacts'', JList [JObj [(''path'', JStr ''dist/a.txt'')]]),
     (''steps'', JObj [(''tests'', JList [JObj [(''id'', JStr ''unit''), (''command'', JStr ''pytest'')]])])]"

definition demo_contract_libraries :: contract_libraries where
  "demo_contract_libraries = \<lparr>cl_load = (\<lambda>f s. Loaded (JObj demo_contract)), cl_schema = JNull,
     cl_schema_errors = (\<lambda>_ _. [])\<rparr>"

lemma demo_contract_clean: "semantic_errors demo_contract = []"
  by code_simp

lemma demo_contract_validates: "validate_contract_content demo_contract_libraries ''{}'' JsonFormat =
    Inr \<lparr>cv_valid = True, cv_errors = [], cv_normalized = Some demo_contract\<rparr>"
  by (simp add: validate_contract_content_def demo_contract_libraries_def demo_contract_clean)

theorem valid_contract_witness: "contract_safe demo_contract"
  using valid_contract [OF demo_contract_validates] by (auto simp: demo_contract_libraries_def)

lemma keeps_validate_pipeline_contract: "keeps world_ok (validate_pipeline_contract lib a p) (\<lambda>_. True)"
  unfolding validate_pipeline_contract_def
  by (intro keeps_bind [OF keeps_lift [of _ "\<lambda>_. True"]] keeps_seq [OF keeps_audit] keeps_return TrueI)

end
