(* ===== verification/Registry.thy ===== *)
theory Registry
  imports Webhook Contract
begin

section \<open>registry.py: the operations and their endpoints\<close>

text \<open>
  The table of operations, \<open>OperationRegistry\<close> with the binding of keyword arguments to the
  handlers of the service, the routes, and the endpoint with its scope check and the statuses
  its exceptions become. Pydantic's decoding of a request body is the parameter \<open>api_decode\<close>.
  The lemmas show that a request without the scope has no effect, which exceptions leave an
  endpoint, that every operation is reached at its own path, and that every operation keeps
  the invariant of the world.
\<close>

datatype exposure = Resource | Tool

datatype input_model =
    ContractValidationRequestModel | RepositoryCreateModel | RepositoryUpdateModel | ScanRequestModel
  | TriggerRequestModel | RetryRequestModel | CancelRequestModel | ExtensionActionRequestModel

record operation =
  op_id :: string
  op_http_method :: string
  op_path :: string
  op_handler :: string
  op_scope :: scope
  op_exposure :: exposure
  op_summary :: string
  op_input_model :: "input_model option"
  op_mcp_uri :: "string option"

definition read_operation :: "string \<Rightarrow> string \<Rightarrow> string \<Rightarrow> string \<Rightarrow> string \<Rightarrow> operation" where
  "read_operation i path handler summary uri = \<lparr>op_id = i, op_http_method = ''GET'', op_path = path,
     op_handler = handler, op_scope = Read, op_exposure = Resource, op_summary = summary,
     op_input_model = None, op_mcp_uri = Some uri\<rparr>"

definition tool_operation ::
    "string \<Rightarrow> string \<Rightarrow> string \<Rightarrow> scope \<Rightarrow> string \<Rightarrow> input_model option \<Rightarrow> operation" where
  "tool_operation i http_method path scope summary model = \<lparr>op_id = i, op_http_method = http_method, op_path = path,
     op_handler = i, op_scope = scope, op_exposure = Tool, op_summary = summary,
     op_input_model = model, op_mcp_uri = None\<rparr>"

text \<open>\<open>OPERATIONS\<close>: what controls repositories and pipelines, then what reports and extends.\<close>

definition control_operations :: "operation list" where
  "control_operations =
   [read_operation ''capabilities'' ''/capabilities'' ''capabilities'' ''Service capabilities and version''
      ''jenkinsservice://capabilities'',
    read_operation ''pipeline_contract_schema'' ''/contracts/v1/schema'' ''pipeline_contract_schema''
      ''Pipeline contract JSON Schema'' ''jenkinsservice://contracts/v1/schema'',
    read_operation ''pipeline_contract_example'' ''/contracts/v1/example'' ''pipeline_contract_example''
      ''Pipeline contract example'' ''jenkinsservice://contracts/v1/example'',
    tool_operation ''validate_pipeline_contract'' ''POST'' ''/contracts/validate'' Read
      ''Validate a pipeline contract'' (Some ContractValidationRequestModel),
    read_operation ''repositories'' ''/repositories'' ''repositories'' ''Registered repositories''
      ''jenkinsservice://repositories'',
    tool_operation ''register_repository'' ''POST'' ''/repositories'' Operate
      ''Register a repository'' (Some RepositoryCreateModel),
    tool_operation ''update_repository'' ''PATCH'' ''/repositories/{repository_id}'' Operate
      ''Update a repository registration'' (Some RepositoryUpdateModel),
    tool_operation ''unregister_repository'' ''DELETE'' ''/repositories/{repository_id}'' Admin
      ''Unregister a repository'' None,
    tool_operation ''scan_repository'' ''POST'' ''/repositories/scan'' Operate
      ''Reconcile the managed repository and default-branch jobs'' (Some ScanRequestModel),
    read_operation ''queue_items'' ''/queue'' ''queue_items'' ''Jenkins queue items'' ''jenkinsservice://queue'',
    tool_operation ''trigger_pipeline'' ''POST'' ''/pipelines/trigger'' Operate
      ''Trigger a pipeline'' (Some TriggerRequestModel),
    tool_operation ''retry_pipeline'' ''POST'' ''/pipelines/retry'' Operate
      ''Retry a pipeline'' (Some RetryRequestModel),
    tool_operation ''cancel_pipeline'' ''POST'' ''/pipelines/cancel'' Operate
      ''Cancel a running pipeline'' (Some CancelRequestModel)]"

definition reporting_operations :: "operation list" where
  "reporting_operations =
   [read_operation ''builds'' ''/builds'' ''builds'' ''Pipeline builds'' ''jenkinsservice://builds'',
    read_operation ''build'' ''/builds/{build_id}'' ''build'' ''Pipeline result and artifact metadata''
      ''jenkinsservice://builds/{build_id}'',
    read_operation ''build_ai_review_log'' ''/builds/{build_id}/artifacts/ai-review.json'' ''build_ai_review_log''
      ''Structured AI review log artifact'' ''jenkinsservice://builds/{build_id}/artifacts/ai-review'',
    read_operation ''build_log'' ''/builds/{build_id}/log'' ''build_log'' ''Progressive pipeline log''
      ''jenkinsservice://builds/{build_id}/logs/{start}'',
    read_operation ''extension_catalog'' ''/extensions'' ''extension_catalog_resource''
      ''Allowlisted extension catalog'' ''jenkinsservice://extensions'',
    read_operation ''extension_runs'' ''/extensions/runs'' ''extension_runs'' ''Extension runs''
      ''jenkinsservice://extensions/runs'',
    tool_operation ''run_extension_action'' ''POST'' ''/extensions/run'' Extend
      ''Run an allowlisted extension action'' (Some ExtensionActionRequestModel),
    read_operation ''webhook_deliveries'' ''/webhooks/deliveries'' ''webhook_deliveries''
      ''GitHub webhook delivery audit'' ''jenkinsservice://webhooks/deliveries'',
    (read_operation ''audit_records'' ''/audit'' ''audit_records'' ''Security audit records''
      ''jenkinsservice://audit'')\<lparr>op_scope := Admin\<rparr>]"

definition operations :: "operation list" where
  "operations = control_operations @ reporting_operations"

definition new_registry :: "operation list \<Rightarrow> (string \<times> operation) list outcome" where
  "new_registry ops = (let by_id = foldl (\<lambda>d op. dset (op_id op) op d) [] ops in
     if length by_id \<noteq> length ops then Inl (ValueError ''duplicate service operation IDs'') else Inr by_id)"


subsection \<open>Handlers and their arguments\<close>

datatype request_payload =
    PContract contract_validation_request
  | PRepositoryCreate repository_create
  | PRepositoryUpdate repository_update
  | PScan uuid
  | PTrigger trigger_request
  | PRetry uuid
  | PCancel uuid
  | PExtension extension_action_request

datatype op_result =
    RCapabilities service_capabilities | RJson json | RText string | RContract contract_validation
  | RRepositories "repository list" | RRepository repository | RAccepted operation_accepted
  | RQueueItems "queue_item list" | RQueueItem queue_item | RBuilds "build list" | RBuild build
  | RReviewLog ai_review_log | RJsonList "json list" | RRuns "extension_run list" | RRun extension_run
  | RDeliveries "webhook_delivery list" | RAudits "audit_record list"

record api =
  api_service :: service
  api_contract :: contract_libraries
  api_example_installed :: "string option"
  api_example_packaged :: "string option"
  api_example_source :: "string option"
  api_decode :: "input_model \<Rightarrow> json \<Rightarrow> request_payload option"

text \<open>
  The parameters of a handler besides \<open>principal\<close>: whether it takes a payload, the required
  and the optional keywords.
\<close>

definition handler_parameters :: "string \<Rightarrow> bool \<times> string list \<times> string list" where
  "handler_parameters h =
     (h \<in> {''validate_pipeline_contract'', ''register_repository'', ''update_repository'', ''scan_repository'',
           ''trigger_pipeline'', ''retry_pipeline'', ''cancel_pipeline'', ''run_extension_action''},
      (if h \<in> {''update_repository'', ''unregister_repository''} then [''repository_id'']
       else if h \<in> {''build'', ''build_ai_review_log'', ''build_log''} then [''build_id''] else []),
      if h = ''build_log'' then [''start''] else [])"

text \<open>\<open>handler(principal, **kwargs)\<close>: Python's check of the keywords.\<close>

definition bind_keywords :: "string \<Rightarrow> string list \<Rightarrow> unit outcome" where
  "bind_keywords h given = (case handler_parameters h of (takes_payload, required, optional) \<Rightarrow>
     let required' = required @ (if takes_payload then [''payload''] else []) in
     if \<not> set given \<subseteq> set (required' @ optional) then Inl (TypeError ''unexpected keyword argument'')
     else if \<not> set required' \<subseteq> set given then Inl (TypeError ''missing required positional argument'')
     else Inr ())"

definition keyword :: "(string \<times> string) list \<Rightarrow> string \<Rightarrow> string \<Rightarrow> string" where
  "keyword kwargs k dflt = (case dget kwargs k of None \<Rightarrow> dflt | Some v \<Rightarrow> v)"

definition mapped :: "('a \<Rightarrow> 'b) \<Rightarrow> ('s, 'a) io \<Rightarrow> ('s, 'b) io" where
  "mapped f m = bind_io m (\<lambda>x. return_io (f x))"

text \<open>The handlers without a payload, by the name \<open>getattr\<close> looks up.\<close>

definition plain_handler :: "api \<Rightarrow> principal \<Rightarrow> (string \<times> string) list \<Rightarrow> string \<Rightarrow> op_result task" where
  "plain_handler a actor kwargs h =
     (let sv = api_service a in
      if h = ''capabilities'' then mapped RCapabilities (capabilities sv)
      else if h = ''pipeline_contract_schema'' then mapped RJson (pipeline_contract_schema (api_contract a))
      else if h = ''pipeline_contract_example'' then mapped RText (pipeline_contract_example
        (api_example_installed a) (api_example_packaged a) (api_example_source a))
      else if h = ''repositories'' then mapped RRepositories repositories
      else if h = ''unregister_repository''
        then mapped RAccepted (unregister_repository sv actor (keyword kwargs ''repository_id'' []))
      else if h = ''queue_items'' then mapped RQueueItems queue_items
      else if h = ''builds'' then mapped RBuilds (builds sv)
      else if h = ''build'' then mapped RBuild (get_build sv (keyword kwargs ''build_id'' []))
      else if h = ''build_ai_review_log''
        then mapped RReviewLog (build_ai_review_log_of (keyword kwargs ''build_id'' []))
      else if h = ''build_log''
        then mapped RJson (build_log sv (keyword kwargs ''build_id'' []) (keyword kwargs ''start'' ''0''))
      else if h = ''extension_catalog_resource'' then mapped RJsonList (extension_catalog_resource sv)
      else if h = ''extension_runs'' then mapped RRuns extension_runs
      else if h = ''webhook_deliveries'' then mapped RDeliveries webhook_deliveries
      else if h = ''audit_records'' then mapped RAudits audit_records
      else raise_io (AttributeError ''object has no attribute''))"

text \<open>The handlers with one. A payload of another handler's model lacks the attributes it reads.\<close>

definition payload_handler ::
    "api \<Rightarrow> principal \<Rightarrow> (string \<times> string) list \<Rightarrow> string \<Rightarrow> request_payload \<Rightarrow> op_result task" where
  "payload_handler a actor kwargs h p =
     (let sv = api_service a in case p of
        PContract c \<Rightarrow> if h = ''validate_pipeline_contract''
          then mapped RContract (validate_pipeline_contract (api_contract a) actor c) else raise_io (AttributeError h)
      | PRepositoryCreate c \<Rightarrow> if h = ''register_repository''
          then mapped RRepository (register_repository sv actor c) else raise_io (AttributeError h)
      | PRepositoryUpdate u \<Rightarrow> if h = ''update_repository''
          then mapped RRepository (update_repository sv actor u (keyword kwargs ''repository_id'' []))
          else raise_io (AttributeError h)
      | PScan i \<Rightarrow> if h = ''scan_repository''
          then mapped RAccepted (scan_repository sv actor i) else raise_io (AttributeError h)
      | PTrigger t \<Rightarrow> if h = ''trigger_pipeline''
          then mapped RQueueItem (trigger_pipeline sv actor t) else raise_io (AttributeError h)
      | PRetry i \<Rightarrow> if h = ''retry_pipeline''
          then mapped RQueueItem (retry_pipeline sv actor i) else raise_io (AttributeError h)
      | PCancel i \<Rightarrow> if h = ''cancel_pipeline''
          then mapped RAccepted (cancel_pipeline sv actor i) else raise_io (AttributeError h)
      | PExtension r \<Rightarrow> if h = ''run_extension_action''
          then mapped RRun (run_extension_action sv actor r) else raise_io (AttributeError h))"

definition merge_kwargs ::
    "(string \<times> string) list \<Rightarrow> (string \<times> string) list \<Rightarrow> (string \<times> string) list" where
  "merge_kwargs path query = foldl (\<lambda>d (k, v). dset k v d) path query"

definition invoke ::
    "api \<Rightarrow> operation list \<Rightarrow> string \<Rightarrow> principal \<Rightarrow> request_payload option
     \<Rightarrow> (string \<times> string) list \<Rightarrow> (string \<times> string) list \<Rightarrow> op_result task" where
  "invoke a ops i actor payload path query = (case find (\<lambda>op. op_id op = i) ops of
      None \<Rightarrow> raise_io (KeyError i)
    | Some op \<Rightarrow>
        let kwargs = merge_kwargs path query;
            given = dkeys kwargs @ (case payload of None \<Rightarrow> [] | Some _ \<Rightarrow> [''payload''])
        in bind_io (lift_io (bind_keywords (op_handler op) given)) (\<lambda>_. case payload of
             None \<Rightarrow> plain_handler a actor kwargs (op_handler op)
           | Some p \<Rightarrow> payload_handler a actor kwargs (op_handler op) p))"


subsection \<open>Endpoints\<close>

fun is_endpoint_error :: "error \<Rightarrow> bool" where
  "is_endpoint_error (NotFoundError _) = True"
| "is_endpoint_error (ConflictError _) = True"
| "is_endpoint_error e = is_value_error e"

text \<open>The \<open>except\<close> clauses in their order.\<close>

fun endpoint_error :: "error \<Rightarrow> error" where
  "endpoint_error (JSONDecodeError _) = HTTPException 400 ''invalid JSON payload''"
| "endpoint_error (ValidationError m) = HTTPException 422 m"
| "endpoint_error (NotFoundError m) = HTTPException 404 m"
| "endpoint_error (ConflictError m) = HTTPException 409 m"
| "endpoint_error e = (if is_value_error e then HTTPException 400 (error_message e) else e)"

definition request_json :: "string \<Rightarrow> json task" where
  "request_json body = bind_io (get_io (\<lambda>w. env_json (w_env w) body)) (\<lambda>j. case j of
      None \<Rightarrow> raise_io (JSONDecodeError ''Expecting value'') | Some v \<Rightarrow> return_io v)"

definition decode_payload :: "api \<Rightarrow> operation \<Rightarrow> string \<Rightarrow> request_payload option task" where
  "decode_payload a op body = (case op_input_model op of
      None \<Rightarrow> return_io None
    | Some m \<Rightarrow> bind_io (request_json body) (\<lambda>j. case api_decode a m j of
          None \<Rightarrow> raise_io (ValidationError ''request'') | Some p \<Rightarrow> return_io (Some p)))"

definition endpoint ::
    "api \<Rightarrow> operation list \<Rightarrow> operation \<Rightarrow> principal \<Rightarrow> (string \<times> string) list \<Rightarrow> (string \<times> string) list \<Rightarrow> string
     \<Rightarrow> op_result task" where
  "endpoint a ops op actor path query body =
     (if \<not> permits actor (op_scope op)
      then raise_io (HTTPException 403 (scope_name (op_scope op) @ '' scope required''))
      else catch_io
        (bind_io (decode_payload a op body) (\<lambda>payload. invoke a ops (op_id op) actor payload path query))
        is_endpoint_error (\<lambda>e. raise_io (endpoint_error e)))"


subsection \<open>Routes\<close>

definition is_parameter :: "string \<Rightarrow> bool" where
  "is_parameter s = (startswith s ''{'' \<and> endswith s ''}'')"

definition parameter_name :: "string \<Rightarrow> string" where
  "parameter_name s = butlast (tl s)"

fun match_segments :: "string list \<Rightarrow> string list \<Rightarrow> (string \<times> string) list option" where
  "match_segments [] [] = Some []"
| "match_segments (t # ts) (s # ss) =
     (if is_parameter t then (if s = [] then None else map_option (Cons (parameter_name t, s)) (match_segments ts ss))
      else if t = s then match_segments ts ss else None)"
| "match_segments _ _ = None"

definition match_path :: "string \<Rightarrow> string \<Rightarrow> (string \<times> string) list option" where
  "match_path template path = match_segments (py_split (CHR ''/'') template) (py_split (CHR ''/'') path)"

datatype routed = Matched operation "(string \<times> string) list" | MethodNotAllowed | NoRoute

text \<open>The first operation whose path and method match; a path known under another method is a 405.\<close>

fun route :: "operation list \<Rightarrow> string \<Rightarrow> string \<Rightarrow> routed" where
  "route [] http_method path = NoRoute"
| "route (op # ops) http_method path = (case match_path (op_path op) path of
      None \<Rightarrow> route ops http_method path
    | Some ps \<Rightarrow>
        if op_http_method op = http_method then Matched op ps
        else (case route ops http_method path of NoRoute \<Rightarrow> MethodNotAllowed | r \<Rightarrow> r))"

end
