(* ===== verification/Registry_Facts.thy ===== *)
theory Registry_Facts
  imports Registry
begin

section \<open>What the endpoints promise\<close>

text \<open>
  Every operation keeps the invariant of the world when its decoded payload is valid; an
  endpoint without the scope does nothing; the exceptions that leave an endpoint; the table
  of operations and its routes; and two consequences of how keyword arguments are merged.
\<close>

subsection \<open>The invariant\<close>

definition valid_payload :: "request_payload \<Rightarrow> bool" where
  "valid_payload p = (case p of
      PRepositoryCreate c \<Rightarrow> valid_repository_create c
    | PRepositoryUpdate u \<Rightarrow> valid_repository_update u
    | PTrigger t \<Rightarrow> valid_trigger_request t
    | PExtension r \<Rightarrow> valid_extension_action_request r
    | _ \<Rightarrow> True)"

text \<open>\<open>model_validate\<close> only returns what satisfies the model's constraints.\<close>

definition decoder_ok :: "(input_model \<Rightarrow> json \<Rightarrow> request_payload option) \<Rightarrow> bool" where
  "decoder_ok d = (\<forall>m j p. d m j = Some p \<longrightarrow> valid_payload p)"

lemma keeps_mapped: "keeps I m Q \<Longrightarrow> keeps I (mapped f m) (\<lambda>_. True)"
  unfolding mapped_def by (erule keeps_bind) (rule keeps_return, simp)

lemma keeps_build_log: "keeps world_ok (build_log sv i s) (\<lambda>_. True)"
  unfolding build_log_def uuid_of_text_def
  by (intro keeps_bind [OF keeps_lift [of _ "\<lambda>_. True"]] keeps_bind [OF keeps_db [OF keeps_pg_get_build]]
      keeps_bind [OF keeps_refresh_build] keeps_option keeps_return TrueI keeps_let keeps_if keeps_raise
      keeps_bind [OF keeps_client [OF leaves_progressive_log]]; simp add: keeps_return split: prod.split)

lemma keeps_build_ai_review_log_of: "keeps world_ok (build_ai_review_log_of i) (\<lambda>_. True)"
  unfolding build_ai_review_log_of_def uuid_of_text_def
  by (intro keeps_bind [OF keeps_lift [of _ "\<lambda>_. True"]] keeps_bind [OF keeps_db [OF keeps_pg_get_build]]
      keeps_option keeps_return keeps_raise TrueI)

lemmas keeps_reading = keeps_db [OF keeps_get_any]

lemma keeps_plain_handler: "keeps world_ok (plain_handler a p kw h) (\<lambda>_. True)"
  unfolding plain_handler_def Let_def capabilities_def pipeline_contract_schema_def pipeline_contract_example_def
    repositories_def queue_items_def extension_catalog_resource_def extension_runs_def webhook_deliveries_def
    audit_records_def
  by (intro keeps_if keeps_raise keeps_mapped [OF keeps_return [of "\<lambda>_. True"]] keeps_mapped [OF keeps_reading]
      keeps_mapped [OF keeps_unregister_repository] keeps_mapped [OF keeps_builds] keeps_mapped [OF keeps_get_build]
      keeps_mapped [OF keeps_build_ai_review_log_of] keeps_mapped [OF keeps_build_log] TrueI)
    (auto intro!: keeps_mapped [of _ _ "\<lambda>_. True"] keeps_option keeps_return keeps_raise)

lemma keeps_payload_handler:
  assumes "valid_payload q"
  shows "keeps world_ok (payload_handler a p kw h q) (\<lambda>_. True)"
  using assms
  by (cases q)
    (auto simp: payload_handler_def Let_def valid_payload_def
      intro!: keeps_raise keeps_mapped [OF keeps_validate_pipeline_contract] keeps_mapped [OF keeps_register_repository]
        keeps_mapped [OF keeps_update_repository] keeps_mapped [OF keeps_scan_repository]
        keeps_mapped [OF keeps_trigger_pipeline] keeps_mapped [OF keeps_retry_pipeline]
        keeps_mapped [OF keeps_cancel_pipeline] keeps_mapped [OF keeps_run_extension_action])

lemma keeps_invoke:
  assumes "\<And>q. payload = Some q \<Longrightarrow> valid_payload q"
  shows "keeps world_ok (invoke a ops i p payload path query) (\<lambda>_. True)"
  unfolding invoke_def Let_def
  by (intro keeps_option keeps_raise keeps_bind [OF keeps_lift [of _ "\<lambda>_. True"]] keeps_plain_handler
      keeps_payload_handler assms TrueI)

lemma keeps_decode_payload:
  assumes "decoder_ok (api_decode a)"
  shows "keeps world_ok (decode_payload a op body) (\<lambda>x. \<forall>q. x = Some q \<longrightarrow> valid_payload q)"
proof -
  have json: "keeps world_ok (request_json body) (\<lambda>_. True)"
    unfolding request_json_def by (intro keeps_bind [OF keeps_get_any] keeps_option keeps_raise keeps_return TrueI)
  show ?thesis
    unfolding decode_payload_def
    by (intro keeps_option keeps_bind [OF json] keeps_return keeps_raise)
      (use assms in \<open>auto simp: decoder_ok_def\<close>)
qed

text \<open>
  Every REST operation, on any request and with any answers from outside, leaves a store
  that satisfies its constraints and holds valid records only.
\<close>

theorem endpoint_keeps_world:
  assumes "decoder_ok (api_decode a)" and "world_ok w"
  shows "world_ok (snd (endpoint a ops op p path query body w))"
proof -
  have "keeps world_ok (endpoint a ops op p path query body) (\<lambda>_. True)"
    unfolding endpoint_def
    by (intro keeps_if keeps_raise keeps_catch keeps_bind [OF keeps_decode_payload [OF assms(1)]] keeps_invoke) auto
  then show ?thesis using assms(2) by (rule keepsD)
qed


subsection \<open>Scopes and exceptions\<close>

text \<open>
  A principal without the scope of an operation gets 403 and nothing else happens: the body
  is not read, nothing is sent, the store is untouched.
\<close>

theorem endpoint_requires_scope:
  assumes "\<not> permits p (op_scope op)"
  shows "endpoint a ops op p path query body w =
    (Inl (HTTPException 403 (scope_name (op_scope op) @ '' scope required'')), w)"
  using assms by (simp add: endpoint_def run_raise)

lemma endpoint_error_status:
  "is_endpoint_error e \<Longrightarrow> endpoint_error e = HTTPException s m \<Longrightarrow> s \<in> {400, 404, 409, 422}"
  by (cases e) auto

lemma endpoint_error_unnamed: "is_endpoint_error e \<Longrightarrow> \<not> is_endpoint_error (endpoint_error e)"
  by (cases e) simp_all

lemma catch_raises:
  assumes "catch_io m h (\<lambda>e. raise_io (f e)) w = (Inl e, t)" and "\<And>e. h e \<Longrightarrow> \<not> h (f e)"
  shows "\<not> h e"
  using assms by (cases "m w") (auto simp: catch_io_def raise_io_def split: sum.splits if_splits)

text \<open>
  What leaves an endpoint is never an exception the endpoint names: a missing record, a
  conflict and every \<open>ValueError\<close> have become an HTTP status.
\<close>

theorem endpoint_errors_mapped:
  assumes "endpoint a ops op p path query body w = (Inl e, t)"
  shows "\<not> is_endpoint_error e"
proof (cases "permits p (op_scope op)")
  case False
  with assms show ?thesis by (auto simp: endpoint_def run_raise)
next
  case True
  with assms show ?thesis
    unfolding endpoint_def by (simp add: if_not_P) (erule catch_raises, rule endpoint_error_unnamed)
qed

end
