(* ===== verification/Mcp.thy ===== *)
theory Mcp
  imports Registry_Facts
begin

section \<open>mcp_server.py: the same operations over MCP\<close>

text \<open>
  The resources and tools of the MCP server: which operation each calls with which arguments,
  the exposure and scope checks before it, and the conversion of its result. FastMCP's
  decoding of a call is the constructor with its arguments; \<open>model_dump\<close> is a parameter. The
  lemmas show that the server exposes exactly the registry's operations, that a call does to
  the world what the REST endpoint of its operation does, and that it keeps the invariant.
\<close>

subsection \<open>Results\<close>

datatype model =
    MCapabilities service_capabilities | MContract contract_validation | MRepository repository
  | MAccepted operation_accepted | MQueueItem queue_item | MBuild build | MReviewLog ai_review_log
  | MRun extension_run | MDelivery webhook_delivery | MAudit audit_record

datatype py_result = PyModel model | PyList "py_result list" | PyValue json

fun py_result_of :: "op_result \<Rightarrow> py_result" where
  "py_result_of (RCapabilities c) = PyModel (MCapabilities c)"
| "py_result_of (RJson j) = PyValue j"
| "py_result_of (RText s) = PyValue (JStr s)"
| "py_result_of (RContract c) = PyModel (MContract c)"
| "py_result_of (RRepositories rs) = PyList (map (PyModel \<circ> MRepository) rs)"
| "py_result_of (RRepository r) = PyModel (MRepository r)"
| "py_result_of (RAccepted x) = PyModel (MAccepted x)"
| "py_result_of (RQueueItems qs) = PyList (map (PyModel \<circ> MQueueItem) qs)"
| "py_result_of (RQueueItem q) = PyModel (MQueueItem q)"
| "py_result_of (RBuilds bs) = PyList (map (PyModel \<circ> MBuild) bs)"
| "py_result_of (RBuild b) = PyModel (MBuild b)"
| "py_result_of (RReviewLog l) = PyModel (MReviewLog l)"
| "py_result_of (RJsonList js) = PyList (map PyValue js)"
| "py_result_of (RRuns rs) = PyList (map (PyModel \<circ> MRun) rs)"
| "py_result_of (RRun r) = PyModel (MRun r)"
| "py_result_of (RDeliveries ds) = PyList (map (PyModel \<circ> MDelivery) ds)"
| "py_result_of (RAudits xs) = PyList (map (PyModel \<circ> MAudit) xs)"

text \<open>\<open>_output\<close>: models become JSON objects, also inside lists; other values stay.\<close>

fun mcp_output :: "(model \<Rightarrow> json) \<Rightarrow> py_result \<Rightarrow> json" where
  "mcp_output model_dump (PyModel m) = model_dump m"
| "mcp_output model_dump (PyList rs) = JList (map (mcp_output model_dump) rs)"
| "mcp_output model_dump (PyValue j) = j"


subsection \<open>The guarded call\<close>

record mcp_server =
  mcp_api :: api
  mcp_operations :: "operation list"
  mcp_model_dump :: "model \<Rightarrow> json"

text \<open>\<open>registry.by_id[...]\<close>, and \<open>current_principal.get()\<close>, unset outside a request.\<close>

definition operation_by_id :: "mcp_server \<Rightarrow> string \<Rightarrow> operation outcome" where
  "operation_by_id s i = (case find (\<lambda>op. op_id op = i) (mcp_operations s) of
      None \<Rightarrow> Inl (KeyError i) | Some op \<Rightarrow> Inr op)"

definition current_principal_get :: "principal option \<Rightarrow> principal outcome" where
  "current_principal_get current = (case current of None \<Rightarrow> Inl (LookupError ''jenkinsservice_principal'') | Some p \<Rightarrow> Inr p)"

definition scope_error :: "scope \<Rightarrow> error" where
  "scope_error s = PermissionError (scope_name s @ '' scope required'')"

definition mcp_resource ::
    "mcp_server \<Rightarrow> principal option \<Rightarrow> string \<Rightarrow> (string \<times> string) list \<Rightarrow> (string \<times> string) list \<Rightarrow> json task" where
  "mcp_resource s current i path query =
     bind_io (lift_io (operation_by_id s i)) (\<lambda>op.
     if op_exposure op \<noteq> Resource then raise_io (ValueError (''operation is not a resource: '' @ i))
     else bind_io (lift_io (current_principal_get current)) (\<lambda>actor.
     if \<not> permits actor (op_scope op) then raise_io (scope_error (op_scope op))
     else bind_io (invoke (mcp_api s) (mcp_operations s) i actor None path query) (\<lambda>r.
       return_io (mcp_output (mcp_model_dump s) (py_result_of r)))))"

definition mcp_tool ::
    "mcp_server \<Rightarrow> principal option \<Rightarrow> string \<Rightarrow> request_payload option \<Rightarrow> (string \<times> string) list \<Rightarrow> json task" where
  "mcp_tool s current i payload path =
     bind_io (lift_io (operation_by_id s i)) (\<lambda>op.
     if op_exposure op \<noteq> Tool then raise_io (ValueError (''operation is not a tool: '' @ i))
     else bind_io (lift_io (current_principal_get current)) (\<lambda>actor.
     if \<not> permits actor (op_scope op) then raise_io (scope_error (op_scope op))
     else bind_io (invoke (mcp_api s) (mcp_operations s) i actor payload path []) (\<lambda>r.
       return_io (mcp_output (mcp_model_dump s) (py_result_of r)))))"


subsection \<open>Resources\<close>

datatype resource_call =
    GetCapabilities | GetContractSchema | GetContractExample | GetRepositories | GetQueueItems | GetBuilds
  | GetBuild string | GetReviewLog string | GetBuildLog string string | GetExtensions
  | GetExtensionRuns | GetDeliveries | GetAudit

fun resource_uri :: "resource_call \<Rightarrow> string" where
  "resource_uri GetCapabilities = ''jenkinsservice://capabilities''"
| "resource_uri GetContractSchema = ''jenkinsservice://contracts/v1/schema''"
| "resource_uri GetContractExample = ''jenkinsservice://contracts/v1/example''"
| "resource_uri GetRepositories = ''jenkinsservice://repositories''"
| "resource_uri GetQueueItems = ''jenkinsservice://queue''"
| "resource_uri GetBuilds = ''jenkinsservice://builds''"
| "resource_uri (GetBuild _) = ''jenkinsservice://builds/{build_id}''"
| "resource_uri (GetReviewLog _) = ''jenkinsservice://builds/{build_id}/artifacts/ai-review''"
| "resource_uri (GetBuildLog _ _) = ''jenkinsservice://builds/{build_id}/logs/{start}''"
| "resource_uri GetExtensions = ''jenkinsservice://extensions''"
| "resource_uri GetExtensionRuns = ''jenkinsservice://extensions/runs''"
| "resource_uri GetDeliveries = ''jenkinsservice://webhooks/deliveries''"
| "resource_uri GetAudit = ''jenkinsservice://audit''"

text \<open>The operation a resource reads, with its path and query arguments.\<close>

fun resource_operation :: "resource_call \<Rightarrow> string \<times> (string \<times> string) list \<times> (string \<times> string) list" where
  "resource_operation GetCapabilities = (''capabilities'', [], [])"
| "resource_operation GetContractSchema = (''pipeline_contract_schema'', [], [])"
| "resource_operation GetContractExample = (''pipeline_contract_example'', [], [])"
| "resource_operation GetRepositories = (''repositories'', [], [])"
| "resource_operation GetQueueItems = (''queue_items'', [], [])"
| "resource_operation GetBuilds = (''builds'', [], [])"
| "resource_operation (GetBuild i) = (''build'', [(''build_id'', i)], [])"
| "resource_operation (GetReviewLog i) = (''build_ai_review_log'', [(''build_id'', i)], [])"
| "resource_operation (GetBuildLog i start) = (''build_log'', [(''build_id'', i)], [(''start'', start)])"
| "resource_operation GetExtensions = (''extension_catalog'', [], [])"
| "resource_operation GetExtensionRuns = (''extension_runs'', [], [])"
| "resource_operation GetDeliveries = (''webhook_deliveries'', [], [])"
| "resource_operation GetAudit = (''audit_records'', [], [])"

definition read_resource :: "mcp_server \<Rightarrow> principal option \<Rightarrow> resource_call \<Rightarrow> json task" where
  "read_resource s current c = (case resource_operation c of
      (i, path, query) \<Rightarrow> mcp_resource s current i path query)"


subsection \<open>Tools\<close>

datatype tool_call =
    ValidateContract string contract_format
  | RegisterRepository string string string bool
  | UpdateRepository string "string option" "bool option"
  | UnregisterRepository string
  | ScanRepository uuid
  | TriggerPipeline uuid string "string option" "int option"
  | RetryPipeline uuid
  | CancelPipeline uuid
  | RunExtensionAction string string uuid string "uuid option" "jobj option"

fun tool_name :: "tool_call \<Rightarrow> string" where
  "tool_name (ValidateContract _ _) = ''validate_pipeline_contract''"
| "tool_name (RegisterRepository _ _ _ _) = ''register_repository''"
| "tool_name (UpdateRepository _ _ _) = ''update_repository''"
| "tool_name (UnregisterRepository _) = ''unregister_repository''"
| "tool_name (ScanRepository _) = ''scan_repository''"
| "tool_name (TriggerPipeline _ _ _ _) = ''trigger_pipeline''"
| "tool_name (RetryPipeline _) = ''retry_pipeline''"
| "tool_name (CancelPipeline _) = ''cancel_pipeline''"
| "tool_name (RunExtensionAction _ _ _ _ _ _) = ''run_extension_action''"

text \<open>The payload is built, and validated by its model, before any check of the call.\<close>

fun tool_payload :: "tool_call \<Rightarrow> request_payload option outcome" where
  "tool_payload (ValidateContract content format) =
     Inr (Some (PContract \<lparr>cvr_content = content, cvr_format = format\<rparr>))"
| "tool_payload (RegisterRepository owner name branch enabled) =
     map_sum id (Some \<circ> PRepositoryCreate) (validated valid_repository_create ''RepositoryCreate''
       \<lparr>repo_owner = owner, repo_name = name, repo_default_branch = branch, repo_enabled = enabled\<rparr>)"
| "tool_payload (UpdateRepository i branch enabled) =
     map_sum id (Some \<circ> PRepositoryUpdate) (validated valid_repository_update ''RepositoryUpdate''
       \<lparr>upd_default_branch = branch, upd_enabled = enabled\<rparr>)"
| "tool_payload (UnregisterRepository i) = Inr None"
| "tool_payload (ScanRepository i) = Inr (Some (PScan i))"
| "tool_payload (TriggerPipeline i sha branch pull_request) =
     map_sum id (Some \<circ> PTrigger) (validated valid_trigger_request ''TriggerRequest''
       \<lparr>trig_repository_id = i, trig_commit_sha = sha, trig_base_sha = None, trig_branch = branch,
        trig_pull_request = pull_request\<rparr>)"
| "tool_payload (RetryPipeline i) = Inr (Some (PRetry i))"
| "tool_payload (CancelPipeline i) = Inr (Some (PCancel i))"
| "tool_payload (RunExtensionAction e action r key b inputs) =
     map_sum id (Some \<circ> PExtension) (validated valid_extension_action_request ''ExtensionActionRequest''
       \<lparr>ear_extension_id = e, ear_action = action, ear_repository_id = r, ear_build_id = b,
        ear_inputs = (case inputs of None \<Rightarrow> [] | Some d \<Rightarrow> d), ear_idempotency_key = key\<rparr>)"

fun tool_path :: "tool_call \<Rightarrow> (string \<times> string) list" where
  "tool_path (UpdateRepository i _ _) = [(''repository_id'', i)]"
| "tool_path (UnregisterRepository i) = [(''repository_id'', i)]"
| "tool_path _ = []"

definition call_tool :: "mcp_server \<Rightarrow> principal option \<Rightarrow> tool_call \<Rightarrow> json task" where
  "call_tool s current c = bind_io (lift_io (tool_payload c)) (\<lambda>payload.
     mcp_tool s current (tool_name c) payload (tool_path c))"


subsection \<open>One table for both interfaces\<close>

definition every_resource :: "resource_call list" where
  "every_resource = [GetCapabilities, GetContractSchema, GetContractExample, GetRepositories, GetQueueItems,
     GetBuilds, GetBuild [], GetReviewLog [], GetBuildLog [] [], GetExtensions, GetExtensionRuns,
     GetDeliveries, GetAudit]"

lemma resource_shapes: "\<exists>r\<in>set every_resource.
    resource_uri r = resource_uri c \<and> fst (resource_operation r) = fst (resource_operation c)"
  by (cases c) (simp_all add: every_resource_def)

text \<open>
  The server's resources are the registry's read operations, under the address and in the
  order the registry gives them.
\<close>

theorem mcp_resources_match_registry:
  "map (\<lambda>c. (Some (resource_uri c), fst (resource_operation c))) every_resource
   = map (\<lambda>op. (op_mcp_uri op, op_id op)) (filter (\<lambda>op. op_exposure op = Resource) operations)"
  by code_simp

lemma tool_names_match_registry:
  "tool_name c \<in> set (map op_id (filter (\<lambda>op. op_exposure op = Tool) operations))"
proof -
  have "list_all (\<lambda>i. i \<in> set (map op_id (filter (\<lambda>op. op_exposure op = Tool) operations)))
      [''validate_pipeline_contract'', ''register_repository'', ''update_repository'', ''unregister_repository'',
       ''scan_repository'', ''trigger_pipeline'', ''retry_pipeline'', ''cancel_pipeline'', ''run_extension_action'']"
    by code_simp
  then show ?thesis by (cases c) simp_all
qed

lemma operations_found: "list_all (\<lambda>op. find (\<lambda>x. op_id x = op_id op) operations = Some op) operations"
  by code_simp

lemma find_operation: "op \<in> set operations \<Longrightarrow> find (\<lambda>x. op_id x = op_id op) operations = Some op"
  using operations_found by (simp add: list_all_iff)


subsection \<open>The same effect as the REST endpoint\<close>

text \<open>
  What an endpoint and an MCP call have in common: the world they leave, the result up to its
  conversion, and the exception, which the endpoint maps to a status. A missing scope is a 403
  on the one side and a \<open>PermissionError\<close> on the other.
\<close>

definition same_effect ::
    "(model \<Rightarrow> json) \<Rightarrow> scope \<Rightarrow> op_result outcome \<times> world \<Rightarrow> json outcome \<times> world \<Rightarrow> bool" where
  "same_effect model_dump scope rest mcp = (snd rest = snd mcp \<and> (case (fst rest, fst mcp) of
      (Inr r, Inr j) \<Rightarrow> j = mcp_output model_dump (py_result_of r)
    | (Inl e, Inl f) \<Rightarrow> e = (if is_endpoint_error f then endpoint_error f else f)
        \<or> f = scope_error scope \<and> e = HTTPException 403 (error_message f)
    | _ \<Rightarrow> False))"

lemma resources_take_no_payload:
  "op \<in> set operations \<Longrightarrow> op_exposure op = Resource \<Longrightarrow> op_input_model op = None"
proof -
  have "list_all (\<lambda>op. op_exposure op = Resource \<longrightarrow> op_input_model op = None) operations" by code_simp
  then show "op \<in> set operations \<Longrightarrow> op_exposure op = Resource \<Longrightarrow> op_input_model op = None"
    by (simp add: list_all_iff)
qed

lemma operation_by_idD:
  "operation_by_id s i = Inr op \<Longrightarrow> op \<in> set (mcp_operations s) \<and> op_id op = i"
  by (auto simp: operation_by_id_def find_Some_iff split: option.splits)

lemma same_effect_invoke:
  assumes "permits p (op_scope op)" and "decode_payload a op body w = (Inr payload, w)"
    and "snd mcp = snd (invoke a ops (op_id op) p payload path query w)"
    and "fst mcp = map_sum id (\<lambda>r. mcp_output d (py_result_of r)) (fst (invoke a ops (op_id op) p payload path query w))"
  shows "same_effect d sc (endpoint a ops op p path query body w) mcp"
proof (cases "invoke a ops (op_id op) p payload path query w")
  case (Pair r t)
  with assms show ?thesis
    by (cases r) (auto simp: same_effect_def endpoint_def run_catch run_bind run_raise)
qed

lemma scope_refused:
  "\<not> permits p (op_scope op) \<Longrightarrow>
   same_effect d (op_scope op) (endpoint a ops op p path query body w) (Inl (scope_error (op_scope op)), w)"
  by (simp add: same_effect_def endpoint_def run_raise scope_error_def)

lemma mcp_resource_effect:
  assumes "operation_by_id s i = Inr op" and "op_exposure op = Resource" and "mcp_operations s = operations"
  shows "same_effect (mcp_model_dump s) (op_scope op)
    (endpoint (mcp_api s) operations op p path query body w) (mcp_resource s (Some p) i path query w)"
proof (cases "permits p (op_scope op)")
  case True
  from operation_by_idD [OF assms(1)] assms(3) have op: "op \<in> set operations" "op_id op = i" by simp_all
  with assms(2) have none: "decode_payload (mcp_api s) op body w = (Inr None, w)"
    by (simp add: decode_payload_def resources_take_no_payload run_return)
  show ?thesis
    using assms op True
    by (intro same_effect_invoke [OF True none])
      (simp_all add: mcp_resource_def run_bind run_lift run_return current_principal_get_def split: prod.splits sum.splits)
next
  case False
  then show ?thesis
    using scope_refused [OF False] assms
    by (simp add: mcp_resource_def run_bind run_lift run_raise current_principal_get_def)
qed

lemma mcp_tool_effect:
  assumes "operation_by_id s i = Inr op" and "op_exposure op = Tool" and "mcp_operations s = operations"
    and "decode_payload (mcp_api s) op body w = (Inr payload, w)"
  shows "same_effect (mcp_model_dump s) (op_scope op)
    (endpoint (mcp_api s) operations op p path [] body w) (mcp_tool s (Some p) i payload path w)"
proof (cases "permits p (op_scope op)")
  case True
  from operation_by_idD [OF assms(1)] have "op_id op = i" by simp
  then show ?thesis
    using assms True
    by (intro same_effect_invoke [OF True assms(4)])
      (simp_all add: mcp_tool_def run_bind run_lift run_return current_principal_get_def split: prod.splits sum.splits)
next
  case False
  then show ?thesis
    using scope_refused [OF False] assms
    by (simp add: mcp_tool_def run_bind run_lift run_raise current_principal_get_def)
qed

lemma resource_call_operation:
  assumes "resource_operation c = (i, path, query)" and "operation_by_id s i = Inr op" and "mcp_operations s = operations"
  shows "op_exposure op = Resource"
proof -
  have "i \<in> set (map (\<lambda>r. fst (resource_operation r)) every_resource)"
    using resource_shapes [of c] assms(1) by force
  also have "map (\<lambda>r. fst (resource_operation r)) every_resource
      = map op_id (filter (\<lambda>op. op_exposure op = Resource) operations)"
    by code_simp
  finally obtain op' where op': "op' \<in> set operations" "op_exposure op' = Resource" "op_id op' = i" by auto
  with find_operation [OF op'(1)] assms show ?thesis by (simp add: operation_by_id_def)
qed

lemma tool_call_operation:
  assumes "operation_by_id s (tool_name c) = Inr op" and "mcp_operations s = operations"
  shows "op_exposure op = Tool"
proof -
  from tool_names_match_registry [of c] obtain op' where
    op': "op' \<in> set operations" "op_exposure op' = Tool" "op_id op' = tool_name c" by auto
  with find_operation [OF op'(1)] assms show ?thesis by (simp add: operation_by_id_def)
qed

text \<open>
  C23: Reading a resource over MCP does what a GET of its operation does: the same scope check,
  the same effect on the world, the same result and the same exception, which REST maps to a
  status.
\<close>

theorem mcp_resource_as_rest:
  assumes "mcp_operations s = operations" and "resource_operation c = (i, path, query)"
    and "operation_by_id s i = Inr op"
  shows "same_effect (mcp_model_dump s) (op_scope op)
    (endpoint (mcp_api s) operations op p path query body w) (read_resource s (Some p) c w)"
  using mcp_resource_effect [OF assms(3) resource_call_operation [OF assms(2,3,1)] assms(1)] assms(2)
  by (simp add: read_resource_def)

text \<open>
  C24: Calling a tool over MCP does what the request of its operation does whose body decodes to
  the payload the tool builds.
\<close>

theorem mcp_tool_as_rest:
  assumes "mcp_operations s = operations" and "tool_payload c = Inr payload"
    and "operation_by_id s (tool_name c) = Inr op" and "decode_payload (mcp_api s) op body w = (Inr payload, w)"
  shows "same_effect (mcp_model_dump s) (op_scope op)
    (endpoint (mcp_api s) operations op p (tool_path c) [] body w) (call_tool s (Some p) c w)"
  using mcp_tool_effect [OF assms(3) tool_call_operation [OF assms(3,1)] assms(1,4)] assms(2)
  by (simp add: call_tool_def run_bind run_lift)


subsection \<open>The invariant\<close>

lemma tool_payload_valid: "tool_payload c = Inr (Some q) \<Longrightarrow> valid_payload q"
  by (cases c) (auto simp: valid_payload_def validated_def split: if_splits)

lemma keeps_read_resource: "keeps world_ok (read_resource s current c) (\<lambda>_. True)"
  unfolding read_resource_def mcp_resource_def
  by (auto split: prod.split
      intro!: keeps_if keeps_raise keeps_return keeps_bind [OF keeps_lift [of _ "\<lambda>_. True"]] keeps_bind [OF keeps_invoke])

lemma keeps_call_tool: "keeps world_ok (call_tool s current c) (\<lambda>_. True)"
proof -
  have tool: "keeps world_ok (mcp_tool s current i payload path) (\<lambda>_. True)"
    if "\<And>q. payload = Some q \<Longrightarrow> valid_payload q" for i payload path
    unfolding mcp_tool_def using that
    by (auto intro!: keeps_if keeps_raise keeps_return keeps_bind [OF keeps_lift [of _ "\<lambda>_. True"]]
        keeps_bind [OF keeps_invoke])
  show ?thesis
    unfolding call_tool_def
    by (intro keeps_bind [OF keeps_lift [of _ "\<lambda>x. tool_payload c = Inr x"]])
      (auto intro!: tool dest: tool_payload_valid)
qed

end
