(* ===== verification/App.thy ===== *)
theory App
  imports Config Mcp
begin

section \<open>app.py: the HTTP application\<close>

text \<open>
  The application around the service: how its parts are built from the settings, the security
  middleware with the authenticator and the limiter, the two signed endpoints with their
  bounded bodies, the background tasks they queue, the routes and what becomes of exceptions.
  FastAPI, Starlette and FastMCP are the caller: a request arrives decoded, its body as the
  chunks of its stream; what they serve themselves (documentation, unknown paths) reaches
  neither the service nor the store.
\<close>

record http_in =
  in_method :: string
  in_scheme :: string
  in_path :: string
  in_headers :: "(string \<times> string) list"
  in_query :: "(string \<times> string) list"
  in_chunks :: "string list"
  in_breaks :: bool

datatype app_body =
    Detail string | StatusBody string | OperationResult op_result | CompletionAnswer bool string
  | WebhookAnswer bool string | McpAnswer "json outcome" | LibraryAnswer

record http_answer =
  ans_status :: int
  ans_body :: app_body
  ans_headers :: "(string \<times> string) list"

text \<open>A task queued behind a response, with the request identifier it runs under.\<close>

datatype background_task =
    ReviewTask build_completion string
  | DispatchTask string jobj string string

record app_state =
  st_world :: world
  st_limiter :: limiter
  st_instants :: nat
  st_tasks :: "background_task list"

type_synonym 'a in_app = "(app_state, 'a) io"

text \<open>
  The application. \<open>app_completion\<close> is \<open>BuildCompletion.model_validate_json\<close>,
  \<open>app_monotonic\<close> the monotonic clock, \<open>app_ping\<close> whether the database answers,
  \<open>app_mcp_decode\<close> the call an MCP request makes and \<open>app_library\<close> the status of whatever the
  libraries serve themselves.
\<close>

record app =
  app_settings :: settings
  app_files :: file_system
  app_api :: api
  app_authenticator :: "token_entry list option"
  app_completion :: "string \<Rightarrow> build_completion option"
  app_model_dump :: "model \<Rightarrow> json"
  app_monotonic :: "nat \<Rightarrow> rat"
  app_ping :: "world \<Rightarrow> bool"
  app_mcp_decode :: "http_in \<Rightarrow> (resource_call + tool_call) option"
  app_library :: "http_in \<Rightarrow> int"

definition app_service :: "app \<Rightarrow> service" where
  "app_service a = api_service (app_api a)"

definition on_world :: "'a task \<Rightarrow> 'a in_app" where
  "on_world m = (\<lambda>s. case m (st_world s) of (r, w) \<Rightarrow> (r, s\<lparr>st_world := w\<rparr>))"


subsection \<open>Building the parts\<close>

definition configured_secret :: "file_system \<Rightarrow> string \<Rightarrow> string outcome" where
  "configured_secret fs path = (if path_exists fs path then read_secret fs path else Inr ''unconfigured'')"

text \<open>Directories and the compiler of the redaction patterns are parameters.\<close>

definition build_service ::
    "catalog_libraries \<Rightarrow> (string \<Rightarrow> catalog_entry list option) \<Rightarrow> string \<Rightarrow> (string \<Rightarrow> re_pattern)
     \<Rightarrow> file_system \<Rightarrow> settings \<Rightarrow> service outcome" where
  "build_service lib directories source_catalog re_compile fs s =
     bind_sum (configured_secret fs (set_jenkins_token_file s)) (\<lambda>jenkins_token.
     bind_sum (configured_secret fs (set_github_write_token_file s)) (\<lambda>github_write_token.
     bind_sum (configured_secret fs (set_review_broker_token_file s)) (\<lambda>review_broker_token.
     bind_sum (catalog_from_directory lib
         (case directories ''/app/extensions'' of Some es \<Rightarrow> es
          | None \<Rightarrow> (case directories source_catalog of Some es \<Rightarrow> es | None \<Rightarrow> []))
         (set_extension_allowlist s)) (\<lambda>catalog.
     Inr \<lparr>sv_jenkins = new_jenkins_client (set_jenkins_url s) (set_jenkins_user s) jenkins_token
            (set_github_web_url s) (1 / 5),
          sv_github = new_github_client (set_github_api_url s) github_write_token,
          sv_broker = Some (new_broker_client (set_review_broker_url s) review_broker_token),
          sv_runner = \<lparr>rn_base_url = rstrip_char (CHR ''/'') (set_extension_runner_url s),
            rn_max_output_bytes = set_max_extension_output_bytes s\<rparr>,
          sv_catalog = catalog,
          sv_allowlist = set_github_allowlist s,
          sv_version = set_service_version s,
          sv_max_artifact_bytes = set_max_artifact_bytes s,
          sv_public_base_url = stripped_url (map_option url_text (set_public_base_url s)),
          sv_openai_model = set_openai_model s,
          sv_prompt_version = set_review_prompt_version s,
          sv_redact = redact (map re_compile (set_log_redaction_patterns s)),
          sv_operation_ids = map op_id operations\<rparr>))))"

definition load_authenticator :: "file_system \<Rightarrow> settings \<Rightarrow> token_entry list option outcome" where
  "load_authenticator fs s =
     (if path_exists fs (set_api_tokens_file s)
      then bind_sum (read_text fs (set_api_tokens_file s)) (\<lambda>content.
        map_sum id Some (authenticator_from_text content))
      else Inr None)"

definition initial_state :: "app \<Rightarrow> world \<Rightarrow> app_state" where
  "initial_state a w = \<lparr>st_world = w, st_limiter = new_limiter (set_rate_limit_per_minute (app_settings a)),
     st_instants = 0, st_tasks = []\<rparr>"


subsection \<open>Requests and their identifiers\<close>

definition header :: "http_in \<Rightarrow> string \<Rightarrow> string option" where
  "header req k = dget (in_headers req) k"

definition nonempty :: "string option \<Rightarrow> string option" where
  "nonempty v = (case v of None \<Rightarrow> None | Some s \<Rightarrow> if s = [] then None else Some s)"

definition update_headers ::
    "(string \<times> string) list \<Rightarrow> (string \<times> string) list \<Rightarrow> (string \<times> string) list" where
  "update_headers = foldl (\<lambda>d (k, v). dset k v d)"

definition security_headers :: "string \<Rightarrow> (string \<times> string) list" where
  "security_headers request_id = [(''X-Request-ID'', request_id), (''X-Content-Type-Options'', ''nosniff''),
     (''Referrer-Policy'', ''no-referrer'')]"

definition response_headers :: "string \<Rightarrow> (string \<times> string) list \<Rightarrow> (string \<times> string) list" where
  "response_headers request_id extra = update_headers extra (security_headers request_id)"

definition request_id_of :: "http_in \<Rightarrow> string in_app" where
  "request_id_of req = (case nonempty (header req ''x-request-id'') of
      Some i \<Rightarrow> return_io i
    | None \<Rightarrow> bind_io (on_world uuid4) (\<lambda>u. return_io (str_uuid u)))"

definition set_request_id :: "string \<Rightarrow> app_state \<Rightarrow> app_state" where
  "set_request_id i s = s\<lparr>st_world := (st_world s)\<lparr>w_request_id := i\<rparr>\<rparr>"

text \<open>\<open>current_request_id.set(...)\<close> with the \<open>reset\<close> in the \<open>finally\<close>.\<close>

definition with_request_id :: "string \<Rightarrow> 'a in_app \<Rightarrow> 'a in_app" where
  "with_request_id i m = bind_io (get_io (\<lambda>s. w_request_id (st_world s))) (\<lambda>before.
     seq_io (update_io (set_request_id i)) (finally_io m (set_request_id before)))"


subsection \<open>The security middleware\<close>

definition exempt_paths :: "string list" where
  "exempt_paths = [''/healthz'', ''/readyz'', ''/webhooks/github'', ''/internal/build-completions'']"

definition is_exempt :: "http_in \<Rightarrow> bool" where
  "is_exempt req = (in_path req \<in> set exempt_paths)"

definition refuse :: "string \<Rightarrow> int \<Rightarrow> string \<Rightarrow> (string \<times> string) list \<Rightarrow> http_answer" where
  "refuse request_id status detail extra =
     \<lparr>ans_status = status, ans_body = Detail detail, ans_headers = response_headers request_id extra\<rparr>"

definition origin_forbidden :: "settings \<Rightarrow> http_in \<Rightarrow> bool" where
  "origin_forbidden s req = (case nonempty (header req ''origin'') of
      None \<Rightarrow> False | Some origin \<Rightarrow> origin \<notin> set (set_allowed_origins s))"

definition request_scheme :: "settings \<Rightarrow> http_in \<Rightarrow> string" where
  "request_scheme s req =
     (case nonempty (if set_trust_proxy_headers s then header req ''x-forwarded-proto'' else None) of
        Some forwarded \<Rightarrow> forwarded | None \<Rightarrow> in_scheme req)"

definition allow_now :: "app \<Rightarrow> string \<Rightarrow> bool in_app" where
  "allow_now a key = (\<lambda>s.
     (case allow key (app_monotonic a (st_instants s)) (st_limiter s) of
        (ok, l) \<Rightarrow> (Inr ok, s\<lparr>st_limiter := l, st_instants := st_instants s + 1\<rparr>)))"

text \<open>The checks before \<open>call_next\<close>: the refusal, or the principal of the request.\<close>

definition check_request :: "app \<Rightarrow> http_in \<Rightarrow> string \<Rightarrow> (http_answer + principal option) in_app" where
  "check_request a req rid =
     (let s = app_settings a in
      if origin_forbidden s req then return_io (Inl (refuse rid 403 ''Origin is not allowed'' []))
      else if set_require_https s \<and> \<not> is_exempt req \<and> request_scheme s req \<noteq> ''https''
      then return_io (Inl (refuse rid 400 ''HTTPS is required'' []))
      else if is_exempt req then return_io (Inr None)
      else (case app_authenticator a of
          None \<Rightarrow> return_io (Inl (refuse rid 503 ''API authentication is not configured'' []))
        | Some entries \<Rightarrow> (case bearer_token (header req ''authorization'') of
            Inl e \<Rightarrow> return_io (Inl (refuse rid (exc_status e) (exc_detail e) (exc_headers e)))
          | Inr token \<Rightarrow> (case authenticate entries token of
              None \<Rightarrow> return_io (Inl (refuse rid 401 ''Invalid bearer token'' [(''WWW-Authenticate'', bearer_realm)]))
            | Some actor \<Rightarrow> bind_io (allow_now a (token_id actor)) (\<lambda>ok.
                if \<not> ok then return_io (Inl (refuse rid 429 ''Rate limit exceeded'' [(''Retry-After'', ''60'')]))
                else return_io (Inr (Some actor)))))))"

definition security_middleware ::
    "app \<Rightarrow> (http_in \<Rightarrow> string \<Rightarrow> principal option \<Rightarrow> http_answer in_app) \<Rightarrow> http_in \<Rightarrow> http_answer in_app" where
  "security_middleware a call_next req =
     bind_io (request_id_of req) (\<lambda>rid.
     bind_io (check_request a req rid) (\<lambda>checked. case checked of
       Inl refusal \<Rightarrow> return_io refusal
     | Inr actor \<Rightarrow>
         bind_io (with_request_id rid (call_next req rid actor)) (\<lambda>response.
         return_io (response\<lparr>ans_headers := update_headers (ans_headers response) (response_headers rid [])\<rparr>))))"


subsection \<open>The signed endpoints\<close>

definition read_body :: "int \<Rightarrow> string \<Rightarrow> http_in \<Rightarrow> string outcome" where
  "read_body limit too_large req =
     bind_sum (collect_chunks (nat limit) (HTTPException 413 too_large) [] (in_chunks req)) (\<lambda>body.
       if in_breaks req then Inl (RuntimeError ''client disconnected'') else Inr body)"

text \<open>The bounded body, the secret and the signature over the body, in the order of both endpoints.\<close>

definition signed_body ::
    "app \<Rightarrow> string \<Rightarrow> string \<Rightarrow> string \<Rightarrow> string \<Rightarrow> string \<Rightarrow> http_in \<Rightarrow> string outcome" where
  "signed_body a secret_file signature too_large unconfigured invalid req =
     bind_sum (read_body (set_max_webhook_bytes (app_settings a)) too_large req) (\<lambda>body.
     if \<not> path_exists (app_files a) secret_file then Inl (HTTPException 503 unconfigured)
     else bind_sum (read_secret (app_files a) secret_file) (\<lambda>secret.
     bind_sum (verify_hmac_signature secret body (header req signature)) (\<lambda>ok.
       if \<not> ok then Inl (HTTPException 401 invalid) else Inr body)))"

definition add_task :: "background_task \<Rightarrow> unit in_app" where
  "add_task t = update_io (\<lambda>s. s\<lparr>st_tasks := st_tasks s @ [t]\<rparr>)"

definition callback_principal :: principal where
  "callback_principal = \<lparr>token_id = ''jenkins-callback'', scopes = {Operate}\<rparr>"

text \<open>\<open>except (NotFoundError, ValueError)\<close>.\<close>

fun is_completion_error :: "error \<Rightarrow> bool" where
  "is_completion_error (NotFoundError _) = True"
| "is_completion_error e = is_value_error e"

definition completion_body :: "app \<Rightarrow> http_in \<Rightarrow> string outcome" where
  "completion_body a req = signed_body a (set_build_callback_secret_file (app_settings a))
     ''x-jenkinsservice-signature'' ''completion payload too large''
     ''completion secret is not configured'' ''invalid completion signature'' req"

definition decode_completion :: "app \<Rightarrow> http_in \<Rightarrow> build_completion outcome" where
  "decode_completion a req = bind_sum (completion_body a req) (\<lambda>body. case app_completion a body of
      None \<Rightarrow> Inl (HTTPException 422 ''invalid completion payload'') | Some c \<Rightarrow> Inr c)"

definition build_completion_endpoint :: "app \<Rightarrow> http_in \<Rightarrow> string \<Rightarrow> app_body in_app" where
  "build_completion_endpoint a req rid =
     bind_io (lift_io (decode_completion a req)) (\<lambda>c.
     bind_io (on_world now_utc) (\<lambda>now.
     if \<bar>epoch_seconds now - cmp_timestamp c\<bar> > set_build_callback_max_age_seconds (app_settings a)
     then raise_io (HTTPException 401 ''expired completion payload'')
     else
       bind_io (catch_io (on_world (complete_build (app_service a) callback_principal c)) is_completion_error
         (\<lambda>e. raise_io (HTTPException 400 (error_message e)))) (\<lambda>inserted.
       seq_io
         (case res_pull_request (cmp_result c) of
            None \<Rightarrow> bind_io (on_world (process_ai_review_with_retry (app_service a) callback_principal c None 3))
              (\<lambda>recorded. if \<not> recorded
                then raise_io (HTTPException 503 ''AI review audit recording failed; retry the completion callback'')
                else return_io ())
          | Some _ \<Rightarrow> add_task (ReviewTask c rid))
         (return_io (CompletionAnswer (\<not> inserted) (cmp_callback_id c))))))"

definition webhook_body :: "app \<Rightarrow> http_in \<Rightarrow> string outcome" where
  "webhook_body a req = signed_body a (set_github_webhook_secret_file (app_settings a))
     ''x-hub-signature-256'' ''webhook payload too large''
     ''webhook secret is not configured'' ''invalid webhook signature'' req"

text \<open>The delivery headers; \<open>json.loads\<close> is the decoder of the environment.\<close>

definition delivery_headers :: "http_in \<Rightarrow> (string \<times> string) outcome" where
  "delivery_headers req =
     (case (nonempty (header req ''x-github-delivery''), nonempty (header req ''x-github-event'')) of
        (Some i, Some event) \<Rightarrow> Inr (i, event)
      | _ \<Rightarrow> Inl (HTTPException 400 ''missing GitHub delivery headers''))"

definition github_webhook_endpoint :: "app \<Rightarrow> http_in \<Rightarrow> string \<Rightarrow> app_body in_app" where
  "github_webhook_endpoint a req rid =
     bind_io (lift_io (webhook_body a req)) (\<lambda>body.
     bind_io (lift_io (delivery_headers req)) (\<lambda>(delivery_id, event).
     bind_io (get_io (\<lambda>s. env_json (w_env (st_world s)) body)) (\<lambda>j. case j of
       None \<Rightarrow> raise_io (HTTPException 400 ''invalid JSON payload'')
     | Some v \<Rightarrow> (case v of
         JObj payload \<Rightarrow>
           bind_io (on_world (process_github_webhook (app_service a) delivery_id event payload)) (\<lambda>(delivery, inserted).
           if \<not> inserted then return_io (WebhookAnswer True delivery_id)
           else if \<not> hook_accepted delivery
           then raise_io (HTTPException 403 (case hook_reason delivery of None \<Rightarrow> [] | Some m \<Rightarrow> m))
           else seq_io (add_task (DispatchTask event payload delivery_id rid))
             (return_io (WebhookAnswer False delivery_id)))
       | _ \<Rightarrow> raise_io (HTTPException 400 ''webhook JSON must be an object'')))))"


subsection \<open>Background tasks\<close>

definition payload_repository :: "jobj \<Rightarrow> string" where
  "payload_repository payload = (case jget payload ''repository'' of
      JObj r \<Rightarrow> (case jget r ''full_name'' of JStr s \<Rightarrow> s | _ \<Rightarrow> ''unknown'')
    | _ \<Rightarrow> ''unknown'')"

definition dispatch_or_record :: "service \<Rightarrow> string \<Rightarrow> jobj \<Rightarrow> string \<Rightarrow> unit task" where
  "dispatch_or_record sv event payload delivery_id =
     catch_io (dispatch_github_webhook sv event payload) (\<lambda>_. True) (\<lambda>e.
       record_background_failure sv webhook_principal ''github_webhook_dispatch'' delivery_id e
         [(''event'', JStr event), (''repository'', JStr (payload_repository payload))])"

fun run_background :: "app \<Rightarrow> background_task \<Rightarrow> unit in_app" where
  "run_background a (ReviewTask c rid) = with_request_id rid
     (bind_io (on_world (process_ai_review_with_retry (app_service a) callback_principal c None 3)) (\<lambda>_. return_io ()))"
| "run_background a (DispatchTask event payload delivery_id rid) = with_request_id rid
     (on_world (dispatch_or_record (app_service a) event payload delivery_id))"


subsection \<open>Routes\<close>

definition answer :: "int \<Rightarrow> app_body \<Rightarrow> http_answer" where
  "answer status body = \<lparr>ans_status = status, ans_body = body, ans_headers = []\<rparr>"

definition readiness :: "app \<Rightarrow> http_answer in_app" where
  "readiness a = bind_io (get_io (\<lambda>s. app_ping a (st_world s))) (\<lambda>ready.
     return_io (answer (if ready then 200 else 503) (StatusBody (if ready then ''ready'' else ''not-ready''))))"

definition app_mcp :: "app \<Rightarrow> mcp_server" where
  "app_mcp a = \<lparr>mcp_api = app_api a, mcp_operations = operations, mcp_model_dump = app_model_dump a\<rparr>"

text \<open>The mounted MCP application: an exception of a call becomes its answer.\<close>

definition mounted :: "app \<Rightarrow> http_in \<Rightarrow> principal option \<Rightarrow> http_answer in_app" where
  "mounted a req actor = (case (if in_path req = ''/mcp'' then app_mcp_decode a req else None) of
      None \<Rightarrow> return_io (answer (app_library a req) LibraryAnswer)
    | Some call \<Rightarrow> on_world (\<lambda>w.
        (case (case call of Inl c \<Rightarrow> read_resource (app_mcp a) actor c w | Inr c \<Rightarrow> call_tool (app_mcp a) actor c w) of
           (r, w') \<Rightarrow> (Inr (answer 200 (McpAnswer r)), w'))))"

definition api_prefix :: string where
  "api_prefix = ''/api/v1''"

definition dispatch_api :: "app \<Rightarrow> http_in \<Rightarrow> principal option \<Rightarrow> http_answer in_app" where
  "dispatch_api a req actor =
     (case route operations (in_method req) (drop (length api_prefix) (in_path req)) of
        Matched op path \<Rightarrow> (case actor of
            None \<Rightarrow> raise_io (AttributeError ''principal'')
          | Some p \<Rightarrow> bind_io (on_world (endpoint (app_api a) operations op p path (in_query req) (concat (in_chunks req))))
              (\<lambda>r. return_io (answer 200 (OperationResult r))))
      | _ \<Rightarrow> mounted a req actor)"

definition handle :: "app \<Rightarrow> http_in \<Rightarrow> string \<Rightarrow> principal option \<Rightarrow> http_answer in_app" where
  "handle a req rid actor =
     (let target = (in_method req, in_path req) in
      if target = (''GET'', ''/healthz'') then return_io (answer 200 (StatusBody ''ok''))
      else if target = (''GET'', ''/readyz'') then readiness a
      else if target = (''POST'', ''/internal/build-completions'')
      then bind_io (build_completion_endpoint a req rid) (\<lambda>b. return_io (answer 202 b))
      else if target = (''POST'', ''/webhooks/github'')
      then bind_io (github_webhook_endpoint a req rid) (\<lambda>b. return_io (answer 202 b))
      else if startswith (in_path req) api_prefix then dispatch_api a req actor
      else mounted a req actor)"

text \<open>The exception handlers: an \<open>HTTPException\<close> and an \<open>UpstreamError\<close> have answers.\<close>

fun exception_answer :: "error \<Rightarrow> http_answer option" where
  "exception_answer (HTTPException status detail) = Some (answer status (Detail detail))"
| "exception_answer (UpstreamError m) = Some (answer 502 (Detail m))"
| "exception_answer e = None"

definition call_next :: "app \<Rightarrow> http_in \<Rightarrow> string \<Rightarrow> principal option \<Rightarrow> http_answer in_app" where
  "call_next a req rid actor = catch_io (handle a req rid actor) (\<lambda>e. exception_answer e \<noteq> None)
     (\<lambda>e. return_io (the (exception_answer e)))"

text \<open>Any other exception is the server's plain 500.\<close>

definition serve :: "app \<Rightarrow> http_in \<Rightarrow> app_state \<Rightarrow> http_answer \<times> app_state" where
  "serve a req s = (case security_middleware a (call_next a) req s of
      (Inl _, t) \<Rightarrow> (answer 500 LibraryAnswer, t)
    | (Inr response, t) \<Rightarrow> (response, t))"

end
