(* ===== verification/App_Facts.thy ===== *)
theory App_Facts
  imports App
begin

section \<open>What the middleware and the signed endpoints promise\<close>

text \<open>
  Frame rules for the state of the application, then: a request that does not authenticate is
  refused without an effect, the two signed endpoints act only on a body whose signature
  verifies, and every answer of the middleware carries its headers.
\<close>

subsection \<open>Frames\<close>

text \<open>What a request can do: to the tables, to the outside and to the queue of tasks.\<close>

definition effects :: "app_state \<Rightarrow> pg_store \<times> event list \<times> background_task list" where
  "effects s = (w_db (st_world s), w_events (st_world s), st_tasks s)"

lemma leaves_on_world:
  assumes "leaves g m" and "\<And>s w. g w = g (st_world s) \<Longrightarrow> f (s\<lparr>st_world := w\<rparr>) = f s"
  shows "leaves f (on_world m)"
  unfolding leaves_def on_world_def
  using assms by (auto simp: leaves_def split: prod.split) (metis snd_conv)

lemma leaves_with_request_id:
  assumes "leaves f m" and "\<And>i s. f (set_request_id i s) = f s"
  shows "leaves f (with_request_id i m)"
  unfolding with_request_id_def
  using assms by (intro leaves_bind leaves_get leaves_seq leaves_update leaves_finally)

lemma effects_request_id [simp]: "effects (set_request_id i s) = effects s"
  by (simp add: effects_def set_request_id_def)

lemma limiter_request_id [simp]: "st_limiter (set_request_id i s) = st_limiter s"
  by (simp add: set_request_id_def)

lemma effects_world:
  "(w_db w, w_events w) = (w_db (st_world s), w_events (st_world s)) \<Longrightarrow> effects (s\<lparr>st_world := w\<rparr>) = effects s"
  by (simp add: effects_def)

lemma leaves_now_effects: "leaves effects (on_world now_utc)"
  by (rule leaves_on_world [of "\<lambda>w. (w_db w, w_events w)"], simp add: leaves_def now_utc_def, rule effects_world)

lemma leaves_request_id_of: "leaves effects (request_id_of req)" "leaves st_limiter (request_id_of req)"
  "leaves st_instants (request_id_of req)"
  unfolding request_id_of_def
  by (intro leaves_option leaves_return leaves_bind leaves_on_world [of "\<lambda>w. (w_db w, w_events w)"] leaves_on_world [of id];
      simp add: leaves_def uuid4_def effects_def)+

lemma leaves_check_request: "leaves effects (check_request a req rid)"
  unfolding check_request_def Let_def
  by (intro leaves_if leaves_return leaves_option leaves_sum leaves_bind)
    (simp_all add: leaves_def allow_now_def effects_def split: prod.split)

lemma effects_middleware:
  assumes "\<And>rid actor. leaves effects (call req rid actor)"
  shows "leaves effects (security_middleware a call req)"
  unfolding security_middleware_def
  by (intro leaves_bind leaves_request_id_of leaves_check_request leaves_sum leaves_return
      leaves_with_request_id assms effects_request_id)

lemma serve_effects:
  assumes "\<And>rid actor. leaves effects (handle a req rid actor)" and "serve a req s = (ans, t)"
  shows "effects t = effects s"
proof -
  have "leaves effects (call_next a req rid actor)" for rid actor
    unfolding call_next_def by (intro leaves_catch assms(1) leaves_return)
  from effects_middleware [of "call_next a", OF this] show ?thesis
    using assms(2) by (auto simp: serve_def leaves_def split: prod.splits sum.splits) (metis snd_conv)+
qed


subsection \<open>Requests that do not authenticate\<close>

definition authenticates :: "app \<Rightarrow> http_in \<Rightarrow> principal option" where
  "authenticates a req = (case app_authenticator a of None \<Rightarrow> None | Some entries \<Rightarrow>
     (case bearer_token (header req ''authorization'') of Inl _ \<Rightarrow> None | Inr token \<Rightarrow> authenticate entries token))"

lemma check_unauthenticated:
  assumes "\<not> is_exempt req" and "authenticates a req = None"
  shows "\<exists>refusal. check_request a req rid s = (Inr (Inl refusal), s) \<and> ans_status refusal \<in> {400, 401, 403, 503}"
  using assms
  by (auto simp: check_request_def Let_def authenticates_def run_return refuse_def
      dest: bearer_token_rejects split: option.splits sum.splits)

text \<open>
  C8: A request without a known bearer token, to any path but the four exempt ones, is refused
  with 400, 401, 403 or 503; nothing is read or written, nothing is queued and no limit is
  used up.
\<close>

theorem unauthenticated_refused:
  assumes "\<not> is_exempt req" and "authenticates a req = None" and "serve a req s = (ans, t)"
  shows "ans_status ans \<in> {400, 401, 403, 503} \<and> effects t = effects s \<and> st_limiter t = st_limiter s"
proof -
  obtain r u where u: "request_id_of req s = (r, u)" by (cases "request_id_of req s")
  then obtain rid where r: "r = Inr rid"
    by (auto simp: request_id_of_def run_bind run_return on_world_def uuid4_def split: option.splits)
  from check_unauthenticated [OF assms(1,2), of rid u] obtain refusal where
    "check_request a req rid u = (Inr (Inl refusal), u)" "ans_status refusal \<in> {400, 401, 403, 503}" by blast
  with assms(3) u r have "ans = refusal \<and> t = u"
    by (simp add: serve_def security_middleware_def run_bind run_return)
  then show ?thesis
    using u \<open>ans_status refusal \<in> _\<close> leavesD [OF leaves_request_id_of(1)] leavesD [OF leaves_request_id_of(2)] by metis
qed


subsection \<open>Signatures\<close>

lemma verified_signature:
  "verify_hmac_signature secret body h = Inr True \<Longrightarrow> h = Some (''sha256='' @ hmac_hex (utf8_encode secret) body)"
  by (auto simp: verify_hmac_signature_def verify_webhook_signature_def compare_digest_str_def compare_digest_def
      webhook_signature_def split: option.splits if_splits)

text \<open>A body is signed when it is what the stream delivered and its header is the HMAC under the secret.\<close>

definition signed_request :: "app \<Rightarrow> string \<Rightarrow> string \<Rightarrow> http_in \<Rightarrow> string \<Rightarrow> bool" where
  "signed_request a secret_file h req body =
     (body = concat (in_chunks req) \<and> int (length body) \<le> max 0 (set_max_webhook_bytes (app_settings a))
      \<and> (case read_secret (app_files a) secret_file of Inl _ \<Rightarrow> False
         | Inr secret \<Rightarrow> header req h = Some (''sha256='' @ hmac_hex (utf8_encode secret) body)))"

lemma read_body_Inr:
  assumes "read_body limit e req = Inr body"
  shows "body = concat (in_chunks req) \<and> int (length body) \<le> max 0 limit"
proof -
  from assms have "collect_chunks (nat limit) (HTTPException 413 e) [] (in_chunks req) = Inr body"
    by (auto simp: read_body_def bind_sum_eq_Inr split: if_splits)
  from collect_chunks_Inr [OF this] show ?thesis by auto
qed

lemma signed_body_Inr:
  "signed_body a f h x y z req = Inr body \<Longrightarrow> signed_request a f h req body"
  unfolding signed_body_def signed_request_def
  by (auto simp: bind_sum_eq_Inr dest: read_body_Inr verified_signature split: if_splits)

lemma refused_completion:
  assumes "decode_completion a req = Inl e"
  shows "leaves effects (build_completion_endpoint a req rid)"
  by (simp add: build_completion_endpoint_def assms leaves_def run_bind run_lift)

lemma refused_webhook:
  assumes "webhook_body a req = Inl e"
  shows "leaves effects (github_webhook_endpoint a req rid)"
  by (simp add: github_webhook_endpoint_def assms leaves_def run_bind run_lift)

lemma handle_completion:
  "in_method req = ''POST'' \<Longrightarrow> in_path req = ''/internal/build-completions'' \<Longrightarrow>
   handle a req rid actor = bind_io (build_completion_endpoint a req rid) (\<lambda>b. return_io (answer 202 b))"
  by (simp add: handle_def)

lemma handle_webhook:
  "in_method req = ''POST'' \<Longrightarrow> in_path req = ''/webhooks/github'' \<Longrightarrow>
   handle a req rid actor = bind_io (github_webhook_endpoint a req rid) (\<lambda>b. return_io (answer 202 b))"
  by (simp add: handle_def)

text \<open>
  C6: A completion callback that changes the store, reaches the outside or queues a task had a
  bounded body that is signed with the callback secret and decodes to a completion.
\<close>

theorem completion_requires_signature:
  assumes "in_method req = ''POST''" and "in_path req = ''/internal/build-completions''"
    and "serve a req s = (ans, t)" and "effects t \<noteq> effects s"
  shows "\<exists>body. signed_request a (set_build_callback_secret_file (app_settings a)) ''x-jenkinsservice-signature'' req body
    \<and> app_completion a body \<noteq> None"
proof -
  obtain c where "decode_completion a req = Inr c"
  proof (cases "decode_completion a req")
    case (Inl e)
    have "leaves effects (handle a req rid actor)" for rid actor
      unfolding handle_completion [OF assms(1,2)] by (intro leaves_bind refused_completion [OF Inl] leaves_return)
    from serve_effects [OF this assms(3)] assms(4) show ?thesis by simp
  qed
  then show ?thesis
    by (auto simp: decode_completion_def completion_body_def bind_sum_eq_Inr dest!: signed_body_Inr split: option.splits)
qed

text \<open>
  C7: A GitHub delivery that changes the store, reaches the outside or queues a task had a
  bounded body that is signed with the webhook secret.
\<close>

theorem webhook_requires_signature:
  assumes "in_method req = ''POST''" and "in_path req = ''/webhooks/github''"
    and "serve a req s = (ans, t)" and "effects t \<noteq> effects s"
  shows "\<exists>body. signed_request a (set_github_webhook_secret_file (app_settings a)) ''x-hub-signature-256'' req body"
proof -
  obtain body where "webhook_body a req = Inr body"
  proof (cases "webhook_body a req")
    case (Inl e)
    have "leaves effects (handle a req rid actor)" for rid actor
      unfolding handle_webhook [OF assms(1,2)] by (intro leaves_bind refused_webhook [OF Inl] leaves_return)
    from serve_effects [OF this assms(3)] assms(4) show ?thesis by simp
  qed
  then show ?thesis unfolding webhook_body_def by (blast dest: signed_body_Inr)
qed


subsection \<open>Headers\<close>

lemma update_headers_get:
  "dget (update_headers d e) k = (case dget (rev e) k of None \<Rightarrow> dget d k | Some v \<Rightarrow> Some v)"
  by (induction e arbitrary: d) (auto simp: update_headers_def map_of_append map_add_def split: option.splits)

lemma response_headers_get:
  "dget (response_headers rid extra) ''X-Request-ID'' = Some rid
   \<and> dget (response_headers rid extra) ''X-Content-Type-Options'' = Some ''nosniff''
   \<and> dget (response_headers rid extra) ''Referrer-Policy'' = Some ''no-referrer''"
  by (simp add: response_headers_def update_headers_def security_headers_def)

lemma check_request_headers:
  "check_request a req rid s = (Inr (Inl refusal), t) \<Longrightarrow> \<exists>extra. ans_headers refusal = response_headers rid extra"
  by (auto simp: check_request_def Let_def run_return run_bind refuse_def
      split: if_splits option.splits sum.splits prod.splits)


lemma request_id_given: "nonempty (header req ''x-request-id'') = Some i \<Longrightarrow> request_id_of req s = (Inr i, s)"
  by (simp add: request_id_of_def run_return)

text \<open>
  Every answer of the middleware, a refusal or not and whatever the endpoint set, carries
  the request identifier (the caller's own when it sent one) and the two security headers.
\<close>

theorem response_headers_present:
  assumes "security_middleware a call req s = (Inr ans, t)"
  shows "\<exists>rid. dget (ans_headers ans) ''X-Request-ID'' = Some rid
    \<and> dget (ans_headers ans) ''X-Content-Type-Options'' = Some ''nosniff''
    \<and> dget (ans_headers ans) ''Referrer-Policy'' = Some ''no-referrer''
    \<and> (\<forall>i. nonempty (header req ''x-request-id'') = Some i \<longrightarrow> rid = i)"
proof -
  from assms obtain rid u where rid: "request_id_of req s = (Inr rid, u)"
    by (auto simp: security_middleware_def elim!: bind_io_InrE)
  have "dget (update_headers d (response_headers rid [])) k = Some v"
    if "dget (response_headers rid []) k = Some v" for d k v
  proof -
    have "response_headers rid [] = security_headers rid"
      by (simp add: response_headers_def update_headers_def security_headers_def)
    then have "dget (rev (response_headers rid [])) k = dget (response_headers rid []) k"
      by (simp add: security_headers_def)
    with that show ?thesis by (simp add: update_headers_get)
  qed
  with assms rid response_headers_get have "dget (ans_headers ans) ''X-Request-ID'' = Some rid
      \<and> dget (ans_headers ans) ''X-Content-Type-Options'' = Some ''nosniff''
      \<and> dget (ans_headers ans) ''Referrer-Policy'' = Some ''no-referrer''"
    by (auto simp: security_middleware_def run_bind run_return dest!: check_request_headers
        split: prod.splits sum.splits)
  moreover have "nonempty (header req ''x-request-id'') = Some i \<longrightarrow> rid = i" for i
    using rid request_id_given by auto
  ultimately show ?thesis by blast
qed

end
