(* ===== verification/Durable.thy ===== *)
theory Durable
  imports Mcp
begin

section \<open>What no operation ever takes back\<close>

text \<open>
  A property of the tables that every writing statement preserves is preserved by every
  operation of the service, whoever calls it and whatever the outside answers. The locale
  \<open>durable\<close> states the first and proves the second, once; its interpretations are the
  deliveries that are recorded, the audit records that are written and the run that owns an
  idempotency key.
\<close>

subsection \<open>Preservation\<close>

named_theorems preserve_intros \<open>preservation through the combinators\<close>

definition preserves :: "('s \<Rightarrow> bool) \<Rightarrow> ('s, 'a) io \<Rightarrow> bool" where
  "preserves I m = (\<forall>s. I s \<longrightarrow> I (snd (m s)))"

lemma preservesD: "preserves I m \<Longrightarrow> I s \<Longrightarrow> m s = (r, t) \<Longrightarrow> I t"
  by (auto simp: preserves_def dest: spec [of _ s])

lemma preserves_leaves: "leaves f m \<Longrightarrow> preserves (\<lambda>s. P (f s)) m"
  by (simp add: preserves_def leaves_def)

lemma preserves_bind [preserve_intros]:
  "preserves I m \<Longrightarrow> (\<And>x. preserves I (k x)) \<Longrightarrow> preserves I (bind_io m k)"
  unfolding preserves_def run_bind by (auto split: prod.splits sum.splits)

lemma preserves_seq [preserve_intros]: "preserves I m \<Longrightarrow> preserves I k \<Longrightarrow> preserves I (seq_io m k)"
  unfolding seq_io_def by (rule preserves_bind)

lemma preserves_catch [preserve_intros]:
  "preserves I m \<Longrightarrow> (\<And>e. preserves I (h e)) \<Longrightarrow> preserves I (catch_io m p h)"
  unfolding preserves_def run_catch by (auto split: prod.splits sum.splits)

lemma preserves_return [preserve_intros]: "preserves I (return_io x)"
  by (simp add: preserves_def run_return)

lemma preserves_raise [preserve_intros]: "preserves I (raise_io e)"
  by (simp add: preserves_def run_raise)

lemma preserves_lift [preserve_intros]: "preserves I (lift_io r)"
  by (simp add: preserves_def run_lift)

lemma preserves_get [preserve_intros]: "preserves I (get_io g)"
  by (simp add: preserves_def run_get)

lemma preserves_if [preserve_intros]: "preserves I m \<Longrightarrow> preserves I n \<Longrightarrow> preserves I (if b then m else n)"
  by simp

lemma preserves_option [preserve_intros]:
  "preserves I m \<Longrightarrow> (\<And>y. preserves I (k y)) \<Longrightarrow> preserves I (case x of None \<Rightarrow> m | Some y \<Rightarrow> k y)"
  by (cases x) auto

lemma preserves_sum [preserve_intros]:
  "(\<And>y. preserves I (h y)) \<Longrightarrow> (\<And>y. preserves I (k y)) \<Longrightarrow> preserves I (case x of Inl y \<Rightarrow> h y | Inr y \<Rightarrow> k y)"
  by (cases x) auto

lemma preserves_prod [preserve_intros]:
  "(\<And>y z. preserves I (k y z)) \<Longrightarrow> preserves I (case x of (y, z) \<Rightarrow> k y z)"
  by (cases x) auto

lemma preserves_let [preserve_intros]: "preserves I (g x) \<Longrightarrow> preserves I (let y = x in g y)"
  by simp

lemma preserves_for [preserve_intros]: "(\<And>x. preserves I (g x)) \<Longrightarrow> preserves I (for_io xs g)"
  by (induction xs) (auto intro: preserves_return preserves_seq)

lemma preserves_map [preserve_intros]: "(\<And>x. preserves I (g x)) \<Longrightarrow> preserves I (map_io g xs)"
  by (induction xs) (auto intro!: preserves_return preserves_bind)


subsection \<open>Every operation of the service\<close>

definition on_db :: "(pg_store \<Rightarrow> bool) \<Rightarrow> world \<Rightarrow> bool" where
  "on_db P w = P (w_db w)"

locale durable =
  fixes P :: "pg_store \<Rightarrow> bool"
  assumes create: "P s \<Longrightarrow> P (snd (pg_create_repository v i c u s))"
    and update: "P s \<Longrightarrow> P (snd (pg_update_repository i x n s))"
    and delete: "P s \<Longrightarrow> P (snd (pg_delete_repository i s))"
    and save_queue: "P s \<Longrightarrow> P (snd (pg_save_queue_item q s))"
    and save_build: "P s \<Longrightarrow> P (snd (pg_save_build b s))"
    and rebind: "P s \<Longrightarrow> P (snd (pg_rebind_jenkins_job i old new s))"
    and record_hook: "P s \<Longrightarrow> P (snd (pg_record_webhook_once d s))"
    and save_run: "P s \<Longrightarrow> P (snd (pg_save_extension_run r s))"
    and record_audit: "P s \<Longrightarrow> P (snd (pg_record_audit a s))"
begin

lemma quiet: "leaves w_db m \<Longrightarrow> preserves (on_db P) m"
  by (simp add: preserves_def leaves_def on_db_def)

lemma statement: "(\<And>s. P s \<Longrightarrow> P (snd (m s))) \<Longrightarrow> preserves (on_db P) (db m)"
  by (simp add: preserves_def on_db_def db_def split: prod.split) (metis snd_conv)

lemma reading: "preserves (on_db P) (db (pg_get_repository i))" "preserves (on_db P) (db (pg_get_queue_item j))"
  "preserves (on_db P) (db (pg_get_build k))" "preserves (on_db P) (db (pg_get_extension_run_by_key l))"
  "preserves (on_db P) (db (get_io f))"
  by (rule statement, simp add: pg_get_repository_def pg_get_queue_item_def pg_get_build_def
      pg_get_extension_run_by_key_def run_get split: option.splits)+

lemma writing: "preserves (on_db P) (db (pg_create_repository v i c u))" "preserves (on_db P) (db (pg_update_repository i x n))"
  "preserves (on_db P) (db (pg_delete_repository i))" "preserves (on_db P) (db (pg_save_queue_item q))"
  "preserves (on_db P) (db (pg_save_build b))" "preserves (on_db P) (db (pg_rebind_jenkins_job i old new))"
  "preserves (on_db P) (db (pg_record_webhook_once d))" "preserves (on_db P) (db (pg_save_extension_run r))"
  "preserves (on_db P) (db (pg_record_audit a))"
  by (rule statement, erule create update delete save_queue save_build rebind record_hook save_run record_audit)+

lemma drawing: "preserves (on_db P) now_utc" "preserves (on_db P) uuid4" "preserves (on_db P) (sleep d)"
  by (intro quiet world_frame)+

lemmas base = preserve_intros reading writing drawing

lemma audited: "preserves (on_db P) (audit p a t o1 d)"
  unfolding audit_def by (intro base)

lemma client_calls: "preserves (on_db P) (ensure_job c owner name d b p)" "preserves (on_db P) (delete_job c owner name)"
  "preserves (on_db P) (jenkins_scan c owner name d)" "preserves (on_db P) (jenkins_trigger c owner name s pr bs i br)"
  "preserves (on_db P) (jenkins_cancel c j n)" "preserves (on_db P) (jenkins_cancel_queue c n)"
  "preserves (on_db P) (jenkins_queue_status c n)" "preserves (on_db P) (jenkins_build_status c j n)"
  "preserves (on_db P) (jenkins_pipeline_result c j n l)" "preserves (on_db P) (jenkins_progressive_log c j n o1)"
  "preserves (on_db P) (broker_review_call bc r q bs1 hs df ctx)" "preserves (on_db P) (create_review g r q hs sm cs)"
  "preserves (on_db P) (pull_request_diff g r q bs1 hs m)" "preserves (on_db P) (execute_action g r act req al)"
  by (intro quiet world_frame)+

lemma published: "preserves (on_db P) (publish_ci_status sv p r s x st d i)"
proof -
  have attempts: "leaves w_db (publish_attempts m n k y)" if "leaves w_db m" for m n k y
    using that by (rule leaves_publish_attempts) (rule world_frame)
  have "preserves (on_db P) (publish_attempts (set_status g r s x st d u) n k y)" for g u n k y
    by (intro quiet attempts world_frame)
  then show ?thesis unfolding publish_ci_status_def by (intro base audited)
qed

lemmas steps = base audited client_calls published


text \<open>Reviews.\<close>

lemma attached: "preserves (on_db P) (attach_review_log sv run l required)"
  unfolding attach_review_log_def http_url_def by (intro steps)

lemma recorded_failure: "preserves (on_db P) (record_failure sv p c run st reason)"
  unfolding record_failure_def ai_status_def by (intro steps attached)

lemma reviewed: "preserves (on_db P) (process_ai_review sv p c pre)"
  unfolding process_ai_review_def resume_previous_def claim_run_def review_run_def skip_review_def execute_review_def
    validated_review_def publish_review_def ai_status_def
  by (auto intro!: steps attached recorded_failure split: bool.split)

lemma reviewed_with_retry: "preserves (on_db P) (process_ai_review_with_retry sv p c pre n)"
proof -
  have "preserves (on_db P) (review_attempts (process_ai_review sv p c pre) bound k m reason)" for bound k m reason
  proof (induction m arbitrary: k reason)
    case 0
    then show ?case by (simp add: preserves_return)
  next
    case (Suc m)
    show ?case unfolding review_attempts.simps by (intro steps reviewed Suc.IH)
  qed
  then show ?thesis
    unfolding process_ai_review_with_retry_def record_background_failure_def by (intro steps)
qed


text \<open>Builds.\<close>

lemma queue_set: "preserves (on_db P) (set_queue_state b st)"
  unfolding set_queue_state_def by (intro steps)

lemma triggered: "preserves (on_db P) (trigger_pipeline sv p t)"
  unfolding trigger_pipeline_def find_reusable_def reusable_native_build_def reuse_native_result_def reused_diff_def
    start_native_build_def rebind_legacy_job_def
  by (intro steps reviewed)

lemma retried: "preserves (on_db P) (retry_pipeline sv p i)"
  unfolding retry_pipeline_def by (intro steps triggered)

lemma completed: "preserves (on_db P) (complete_build sv p c)"
  unfolding complete_build_def complete_matched_def store_completion_def close_completion_def
  by (intro steps queue_set)

lemma refreshed_run: "preserves (on_db P) (refresh_run sv b)"
  unfolding refresh_run_def refresh_queue_def refresh_status_def try_upstream_def read_final_result_def
    save_with_queue_def
  by (intro steps queue_set)

lemma refreshed: "preserves (on_db P) (refresh_build sv b)"
  unfolding refresh_build_def by (intro steps refreshed_run)

lemma cancelled: "preserves (on_db P) (cancel_pipeline sv p i)"
  unfolding cancel_pipeline_def save_with_queue_def by (intro steps refreshed queue_set)


text \<open>Extensions and webhooks.\<close>

lemma performed: "preserves (on_db P) (run_and_perform sv p m r q)"
proof -
  have "preserves (on_db P) (run_extension c m act pl)" for c m act pl
    unfolding run_extension_def by (intro steps quiet [OF leaves_http(1)] quiet [OF leaves_raise_for_status])
  then show ?thesis unfolding run_and_perform_def perform_requested_def by (intro steps)
qed

lemma failed_run: "preserves (on_db P) (fail_run p r run e)"
  unfolding fail_run_def by (intro steps)

lemma extended: "preserves (on_db P) (run_extension_action sv p r)"
  unfolding run_extension_action_def execute_run_def by (intro steps performed failed_run)

lemma hooked: "preserves (on_db P) (process_github_webhook sv i ev pl)"
  unfolding process_github_webhook_def by (intro steps)

lemma dispatched: "preserves (on_db P) (dispatch_github_webhook sv ev pl)"
  unfolding dispatch_github_webhook_def by (intro steps triggered)


text \<open>The handlers, and with them both interfaces.\<close>

lemma plainly_handled: "preserves (on_db P) (plain_handler a p kw h)"
  unfolding plain_handler_def Let_def mapped_def capabilities_def pipeline_contract_schema_def
    pipeline_contract_example_def repositories_def unregister_repository_def queue_items_def builds_def get_build_def
    build_ai_review_log_of_def build_log_def extension_catalog_resource_def extension_runs_def
    webhook_deliveries_def audit_records_def uuid_of_text_def
  by (intro steps refreshed refreshed_run)

lemma handled: "preserves (on_db P) (payload_handler a p kw h q)"
  unfolding payload_handler_def mapped_def validate_pipeline_contract_def register_repository_def create_repository_def
    rebind_legacy_job_def update_repository_def uuid_of_text_def scan_repository_def Let_def
  by (cases q; simp only: request_payload.case; intro steps triggered retried cancelled extended)

lemma invoked: "preserves (on_db P) (invoke a ops i p pl path query)"
  unfolding invoke_def by (intro steps plainly_handled handled)

lemma served: "preserves (on_db P) (endpoint a ops op p path query body)"
  unfolding endpoint_def decode_payload_def request_json_def by (intro steps invoked)

lemma mcp_served: "preserves (on_db P) (read_resource s cur c)" "preserves (on_db P) (call_tool s cur t)"
  unfolding read_resource_def mcp_resource_def call_tool_def mcp_tool_def by (intro steps invoked)+

end


subsection \<open>What is durable\<close>

text \<open>A recorded delivery, a written audit record, the owner of an idempotency key.\<close>

definition audit_written :: "uuid \<Rightarrow> audit_row \<Rightarrow> pg_store \<Rightarrow> bool" where
  "audit_written i row s = (dget (pg_audit s) i = Some row)"

definition key_owned :: "string \<Rightarrow> uuid \<Rightarrow> pg_store \<Rightarrow> bool" where
  "key_owned k i s = (pg_inv s \<and> (\<exists>r. pg_run_by_key k s = Some r \<and> run_id r = i))"

lemma statements_keep_webhooks:
  "pg_webhooks (snd (pg_create_repository v i c u s)) = pg_webhooks s"
  "pg_webhooks (snd (pg_update_repository i x n s)) = pg_webhooks s"
  "pg_webhooks (snd (pg_delete_repository i s)) = pg_webhooks s"
  "pg_webhooks (snd (pg_save_queue_item q s)) = pg_webhooks s"
  "pg_webhooks (snd (pg_save_build b s)) = pg_webhooks s"
  "pg_webhooks (snd (pg_rebind_jenkins_job i old new s)) = pg_webhooks s"
  "pg_webhooks (snd (pg_save_extension_run r s)) = pg_webhooks s"
  "pg_webhooks (snd (pg_record_audit a s)) = pg_webhooks s"
  by (auto simp: pg_create_repository_def pg_update_repository_def pg_get_repository_def pg_delete_repository_def
      pg_save_queue_item_def pg_save_build_def pg_rebind_jenkins_job_def pg_save_extension_run_def pg_record_audit_def
      run_bind Let_def split: option.splits prod.splits)

interpretation hook_durable: durable "pg_hook_seen k" for k
  by unfold_locales (simp_all add: pg_hook_seen_def statements_keep_webhooks,
      auto simp: pg_record_webhook_once_def dget_snoc simp del: map_of_append split: option.splits)

lemma statements_keep_audit:
  "pg_audit (snd (pg_create_repository v i c u s)) = pg_audit s"
  "pg_audit (snd (pg_update_repository i x n s)) = pg_audit s"
  "pg_audit (snd (pg_delete_repository i s)) = pg_audit s"
  "pg_audit (snd (pg_save_queue_item q s)) = pg_audit s"
  "pg_audit (snd (pg_save_build b s)) = pg_audit s"
  "pg_audit (snd (pg_rebind_jenkins_job i old new s)) = pg_audit s"
  "pg_audit (snd (pg_save_extension_run r s)) = pg_audit s"
  "pg_audit (snd (pg_record_webhook_once d s)) = pg_audit s"
  by (auto simp: pg_create_repository_def pg_update_repository_def pg_get_repository_def pg_delete_repository_def
      pg_save_queue_item_def pg_save_build_def pg_rebind_jenkins_job_def pg_save_extension_run_def
      pg_record_webhook_once_def run_bind Let_def split: option.splits prod.splits)

interpretation audit_durable: durable "audit_written i row" for i row
  by unfold_locales (simp_all add: audit_written_def statements_keep_audit del: map_of_eq_Some_iff,
      auto simp: pg_record_audit_def dget_snoc simp del: map_of_append map_of_eq_Some_iff split: option.splits)

lemma statements_keep_runs:
  "pg_extension_runs (snd (pg_create_repository v i c u s)) = pg_extension_runs s"
  "pg_extension_runs (snd (pg_update_repository i x n s)) = pg_extension_runs s"
  "pg_extension_runs (snd (pg_delete_repository i s)) = pg_extension_runs s"
  "pg_extension_runs (snd (pg_save_queue_item q s)) = pg_extension_runs s"
  "pg_extension_runs (snd (pg_save_build b s)) = pg_extension_runs s"
  "pg_extension_runs (snd (pg_rebind_jenkins_job i old new s)) = pg_extension_runs s"
  "pg_extension_runs (snd (pg_record_audit a s)) = pg_extension_runs s"
  "pg_extension_runs (snd (pg_record_webhook_once d s)) = pg_extension_runs s"
  by (auto simp: pg_create_repository_def pg_update_repository_def pg_get_repository_def pg_delete_repository_def
      pg_save_queue_item_def pg_save_build_def pg_rebind_jenkins_job_def pg_record_audit_def
      pg_record_webhook_once_def run_bind Let_def split: option.splits prod.splits)

lemma key_owned_cong:
  "key_owned k i s \<Longrightarrow> pg_extension_runs t = pg_extension_runs s \<Longrightarrow> (pg_inv s \<Longrightarrow> pg_inv t) \<Longrightarrow>
   key_owned k i t"
  by (simp add: key_owned_def pg_run_by_key_def pg_run_row_def)

lemma key_owned_save: "key_owned k i s \<Longrightarrow> key_owned k i (snd (pg_save_extension_run r s))"
proof -
  assume owned: "key_owned k i s"
  then have inv: "pg_inv s" by (simp add: key_owned_def)
  then have inv': "pg_inv (snd (pg_save_extension_run r s))" by (rule pg_save_extension_run_inv)
  show ?thesis
  proof (cases "pg_run_by_key (run_idempotency_key r) s")
    case None
    show ?thesis
    proof (cases "pg_run_fresh (run_id r) s")
      case True
      from pg_save_run_new(2) [OF inv None True, of k] None owned inv' show ?thesis by (auto simp: key_owned_def)
    next
      case False
      with None have "snd (pg_save_extension_run r s) = s"
        by (auto simp: pg_save_extension_run_def pg_run_fresh_def pg_run_by_key_def)
      with owned show ?thesis by simp
    qed
  next
    case (Some q)
    from pg_save_run_known(2,3) [OF inv Some] Some owned inv' show ?thesis
      by (cases "run_id q = run_id r") (auto simp: key_owned_def)
  qed
qed

interpretation key_durable: durable "key_owned k i" for k i
  by unfold_locales ((erule key_owned_save) |
      (erule key_owned_cong, rule statements_keep_runs, erule pg_create_repository_inv
        pg_update_repository_inv pg_delete_repository_inv pg_save_queue_item_inv pg_save_build_inv pg_rebind_inv
        pg_record_webhook_inv pg_record_audit_inv))+

text \<open>The constraints of the tables.\<close>

interpretation inv_durable: durable pg_inv
  by unfold_locales (rule pg_create_repository_inv pg_update_repository_inv pg_delete_repository_inv
      pg_save_queue_item_inv pg_save_build_inv pg_rebind_inv pg_record_webhook_inv pg_save_extension_run_inv
      pg_record_audit_inv, assumption)+

end
