(* ===== verification/System.thy ===== *)
theory System
  imports App_Facts Durable
begin

section \<open>The running system\<close>

text \<open>
  A run of the application from a start: requests served and background tasks executed, in any
  order. The step relation keeps the sequence of requests the limiter let through. The lemmas
  show, by induction over runs, that the store always satisfies its constraints, that the
  request identifier never leaks from one request into the next, and that no token ever has
  more requests served in a minute than the limit.
\<close>

subsection \<open>Runs\<close>

text \<open>The key and the instant under which a request was let through.\<close>

definition admission :: "app \<Rightarrow> http_in \<Rightarrow> app_state \<Rightarrow> (string \<times> rat) list" where
  "admission a req s = (case check_request a req [] s of
      (Inr (Inr (Some p)), _) \<Rightarrow> [(token_id p, app_monotonic a (st_instants s))]
    | _ \<Rightarrow> [])"

inductive reaches :: "app \<Rightarrow> world \<Rightarrow> (string \<times> rat) list \<Rightarrow> app_state \<Rightarrow> bool" for a w where
  start: "reaches a w [] (initial_state a w)"
| request: "reaches a w trace s \<Longrightarrow> serve a req s = (ans, t) \<Longrightarrow> reaches a w (trace @ admission a req s) t"
| background: "reaches a w trace s \<Longrightarrow> st_tasks s = before @ job # after \<Longrightarrow>
    run_background a job (s\<lparr>st_tasks := before @ after\<rparr>) = (r, t) \<Longrightarrow> reaches a w trace t"

text \<open>What the model assumes of the decoders: they only return what the models accept.\<close>

definition decoders_ok :: "app \<Rightarrow> bool" where
  "decoders_ok a = (decoder_ok (api_decode (app_api a))
     \<and> (\<forall>b c. app_completion a b = Some c \<longrightarrow> valid_build_completion c))"


subsection \<open>The store\<close>

definition state_ok :: "app_state \<Rightarrow> bool" where
  "state_ok s = world_ok (st_world s)"

lemma state_ok_frame [simp]:
  "state_ok (set_request_id i s) = state_ok s" "state_ok (s\<lparr>st_tasks := ts\<rparr>) = state_ok s"
  "state_ok (s\<lparr>st_limiter := l, st_instants := n\<rparr>) = state_ok s"
  by (simp_all add: state_ok_def set_request_id_def world_ok_def)

lemma keeps_on_world: "keeps world_ok m Q \<Longrightarrow> keeps state_ok (on_world m) Q"
  by (auto simp: keeps_def wp_def on_world_def state_ok_def split: prod.splits sum.splits)

lemma keeps_add_task: "keeps state_ok (add_task t) (\<lambda>_. True)"
  by (simp add: keeps_def add_task_def wp_update)

lemma keeps_state_get: "keeps state_ok (get_io g) (\<lambda>_. True)"
  by (simp add: keeps_def wp_get)

lemma keeps_with_request_id: "keeps state_ok m Q \<Longrightarrow> keeps state_ok (with_request_id i m) Q"
  unfolding with_request_id_def
  by (intro keeps_bind [OF keeps_state_get] keeps_seq [of _ _ "\<lambda>_. True"] keeps_finally)
    (simp_all add: keeps_def wp_update)

lemma decode_completion_valid:
  "decoders_ok a \<Longrightarrow> decode_completion a req = Inr c \<Longrightarrow> valid_build_completion c"
  by (auto simp: decoders_ok_def decode_completion_def bind_sum_eq_Inr split: option.splits)

lemma keeps_build_completion_endpoint:
  assumes "decoders_ok a"
  shows "keeps state_ok (build_completion_endpoint a req rid) (\<lambda>_. True)"
proof -
  have decoded: "keeps state_ok (lift_io (decode_completion a req)) valid_build_completion"
    by (rule keeps_lift) (rule decode_completion_valid [OF assms])
  have completed: "keeps state_ok (catch_io (on_world (complete_build sv callback_principal c)) is_completion_error
      (\<lambda>e. raise_io (HTTPException 400 (error_message e)))) (\<lambda>_. True)" if "valid_build_completion c" for sv c
    by (intro keeps_catch keeps_on_world keeps_complete_build that keeps_raise)
  have rest: "keeps state_ok (case res_pull_request (cmp_result c) of
      None \<Rightarrow> bind_io (on_world (process_ai_review_with_retry (app_service a) callback_principal c None 3))
        (\<lambda>recorded. if \<not> recorded
          then raise_io (HTTPException 503 ''AI review audit recording failed; retry the completion callback'')
          else return_io ())
    | Some _ \<Rightarrow> add_task (ReviewTask c rid)) (\<lambda>_. True)" for c
    by (intro keeps_option keeps_add_task keeps_bind [OF keeps_on_world [OF keeps_process_ai_review_with_retry]]
        keeps_if keeps_raise keeps_return TrueI)
  show ?thesis
    unfolding build_completion_endpoint_def
    by (intro keeps_bind [OF decoded] keeps_bind [OF keeps_on_world [OF keeps_now]] keeps_if keeps_raise
        keeps_bind [OF completed] keeps_seq [OF rest] keeps_return TrueI)
qed

lemma keeps_github_webhook_endpoint: "keeps state_ok (github_webhook_endpoint a req rid) (\<lambda>_. True)"
  unfolding github_webhook_endpoint_def
  by (auto intro!: keeps_bind [OF keeps_lift [of _ "\<lambda>_. True"]] keeps_bind [OF keeps_state_get] keeps_option keeps_raise
      keeps_bind [OF keeps_on_world [OF keeps_process_github_webhook]] keeps_if keeps_return keeps_seq [OF keeps_add_task]
      split: prod.splits json.splits)

lemma keeps_mounted: "keeps state_ok (mounted a req actor) (\<lambda>_. True)"
proof -
  have "keeps state_ok (on_world (\<lambda>w. (case m w of (r, w') \<Rightarrow> (Inr (f r), w')))) (\<lambda>_. True)"
    if "keeps world_ok m (\<lambda>_. True)" for m :: "json task" and f :: "json outcome \<Rightarrow> http_answer"
    using keepsD [OF that]
    by (auto simp: keeps_def wp_def on_world_def state_ok_def split: prod.splits) (metis snd_conv)
  note answered = this [OF keeps_read_resource] this [OF keeps_call_tool]
  have "keeps state_ok (on_world (\<lambda>w. (case (case call of Inl c \<Rightarrow> read_resource (app_mcp a) actor c w
        | Inr c \<Rightarrow> call_tool (app_mcp a) actor c w) of (r, w') \<Rightarrow> (Inr (answer 200 (McpAnswer r)), w')))) (\<lambda>_. True)"
    for call
    by (cases call) (simp_all add: answered)
  then show ?thesis
    unfolding mounted_def by (intro keeps_option keeps_return TrueI)
qed

lemma keeps_endpoint: "decoder_ok (api_decode x) \<Longrightarrow> keeps world_ok (endpoint x ops op p path query body) (\<lambda>_. True)"
  unfolding endpoint_def
  by (intro keeps_if keeps_raise keeps_catch keeps_bind [OF keeps_decode_payload] keeps_invoke) auto

lemma keeps_dispatch_api:
  "decoders_ok a \<Longrightarrow> keeps state_ok (dispatch_api a req actor) (\<lambda>_. True)"
  unfolding dispatch_api_def decoders_ok_def
  by (auto intro!: keeps_mounted keeps_option keeps_raise keeps_bind [OF keeps_on_world [OF keeps_endpoint]] keeps_return
      split: routed.split)

lemma keeps_handle: "decoders_ok a \<Longrightarrow> keeps state_ok (handle a req rid actor) (\<lambda>_. True)"
  unfolding handle_def Let_def readiness_def
  by (intro keeps_if keeps_return keeps_bind [OF keeps_state_get] keeps_bind [OF keeps_build_completion_endpoint]
      keeps_bind [OF keeps_github_webhook_endpoint] keeps_dispatch_api keeps_mounted TrueI)

lemma keeps_uuid_state: "keeps state_ok (request_id_of req) (\<lambda>_. True)"
  unfolding request_id_of_def
  by (intro keeps_option keeps_return keeps_bind [OF keeps_on_world [OF keeps_uuid4]] TrueI)

lemma keeps_check_request: "keeps state_ok (check_request a req rid) (\<lambda>_. True)"
proof -
  have "keeps state_ok (allow_now a k) (\<lambda>_. True)" for k
    by (auto simp: keeps_def wp_def allow_now_def split: prod.split)
  then show ?thesis
    unfolding check_request_def Let_def
    by (auto intro!: keeps_if keeps_return keeps_option keeps_bind split: sum.split)
qed

lemma keeps_security_middleware:
  assumes "\<And>rid actor. keeps state_ok (call req rid actor) (\<lambda>_. True)"
  shows "keeps state_ok (security_middleware a call req) (\<lambda>_. True)"
proof -
  have "keeps state_ok (case checked of Inl refusal \<Rightarrow> return_io refusal
     | Inr actor \<Rightarrow> bind_io (with_request_id rid (call req rid actor)) (\<lambda>response.
         return_io (response\<lparr>ans_headers := update_headers (ans_headers response) (response_headers rid [])\<rparr>)))
     (\<lambda>_. True)" for rid and checked :: "http_answer + principal option"
    by (cases checked) (auto intro!: keeps_return keeps_bind [OF keeps_with_request_id [OF assms]])
  then show ?thesis
    unfolding security_middleware_def by (intro keeps_bind [OF keeps_uuid_state] keeps_bind [OF keeps_check_request])
qed

lemma serve_state_ok:
  assumes "decoders_ok a" and "state_ok s" and "serve a req s = (ans, t)"
  shows "state_ok t"
proof -
  have "keeps state_ok (call_next a req rid actor) (\<lambda>_. True)" for rid actor
    unfolding call_next_def by (intro keeps_catch keeps_handle assms(1) keeps_return TrueI)
  from keepsD [OF keeps_security_middleware [of "call_next a", OF this] assms(2)] assms(3)
  show ?thesis by (auto simp: serve_def split: prod.splits sum.splits) (metis snd_conv)+
qed

lemma run_background_state_ok:
  assumes "state_ok s" and "run_background a job s = (r, t)"
  shows "state_ok t"
proof -
  have dispatch: "keeps world_ok (dispatch_or_record sv ev p i) (\<lambda>_. True)" for sv ev p i
    unfolding dispatch_or_record_def record_background_failure_def
    by (intro keeps_catch keeps_dispatch_github_webhook keeps_audit)
  have "keeps state_ok (run_background a job) (\<lambda>_. True)"
    by (cases job) (auto intro!: keeps_with_request_id keeps_on_world dispatch keeps_return
        keeps_bind [OF keeps_on_world [OF keeps_process_ai_review_with_retry]])
  from keepsD [OF this assms(1)] assms(2) show ?thesis by simp
qed

text \<open>
  C1: Whatever requests arrive, in whatever order with the background tasks they queue, and
  whatever Jenkins, GitHub, the broker, the runner and OpenAI answer, the store satisfies its
  constraints and holds valid records at every moment of a run.
\<close>

theorem reachable_store_ok:
  assumes "reaches a w trace s" and "decoders_ok a" and "world_ok w"
  shows "world_ok (st_world s)"
proof -
  from assms(1) have "state_ok s"
  proof (induction rule: reaches.induct)
    case start
    then show ?case using assms(3) by (simp add: state_ok_def initial_state_def)
  next
    case (request trace s req ans t)
    then show ?case using assms(2) by (metis serve_state_ok)
  next
    case (background trace s before job after r t)
    then show ?case using run_background_state_ok [of "s\<lparr>st_tasks := before @ after\<rparr>"] by simp
  qed
  then show ?thesis by (simp add: state_ok_def)
qed



subsection \<open>The request identifier\<close>

definition current_request_id :: "app_state \<Rightarrow> string" where
  "current_request_id s = w_request_id (st_world s)"

lemma with_request_id_restores: "with_request_id i m s = (r, t) \<Longrightarrow> current_request_id t = current_request_id s"
  by (auto simp: with_request_id_def run_bind run_get run_seq run_update run_finally current_request_id_def
      set_request_id_def split: prod.splits)

lemma middleware_restores:
  "security_middleware a call req s = (r, t) \<Longrightarrow> current_request_id t = current_request_id s"
proof -
  assume run: "security_middleware a call req s = (r, t)"
  have rid: "leaves current_request_id (request_id_of req)"
    unfolding request_id_of_def
    by (intro leaves_option leaves_return leaves_bind leaves_on_world [of w_request_id])
      (simp_all add: leaves_def uuid4_def current_request_id_def)
  have check: "leaves current_request_id (check_request a req i)" for i
    unfolding check_request_def Let_def
    by (intro leaves_if leaves_return leaves_option leaves_sum leaves_bind)
      (simp_all add: leaves_def allow_now_def current_request_id_def split: prod.split)
  have body: "leaves current_request_id (with_request_id i m)" for i and m :: "http_answer in_app"
    using with_request_id_restores by (metis leaves_def surjective_pairing)
  have "leaves current_request_id (security_middleware a call req)"
    unfolding security_middleware_def
    by (intro leaves_bind rid check leaves_sum leaves_return body)
  then show ?thesis using run by (rule leavesD)
qed

lemma serve_restores: "serve a req s = (ans, t) \<Longrightarrow> current_request_id t = current_request_id s"
  by (auto simp: serve_def dest: middleware_restores split: prod.splits sum.splits)

lemma background_restores: "run_background a job s = (r, t) \<Longrightarrow> current_request_id t = current_request_id s"
  by (cases job) (auto dest: with_request_id_restores)

text \<open>
  The identifier of a request is in force while it is handled and never afterwards: between
  requests and tasks of any run it is the one the process started with.
\<close>

theorem request_id_never_leaks:
  assumes "reaches a w trace s"
  shows "w_request_id (st_world s) = w_request_id w"
proof -
  from assms have "current_request_id s = w_request_id w"
  proof (induction rule: reaches.induct)
    case start
    then show ?case by (simp add: current_request_id_def initial_state_def)
  next
    case (request trace s req ans t)
    then show ?case by (metis serve_restores)
  next
    case (background trace s before job after r t)
    then show ?case using background_restores [of a job] by (fastforce simp: current_request_id_def)
  qed
  then show ?thesis by (simp add: current_request_id_def)
qed


subsection \<open>The rate limit\<close>

definition limits :: "app_state \<Rightarrow> limiter \<times> nat" where
  "limits s = (st_limiter s, st_instants s)"

text \<open>The principal a request is counted for, when it gets as far as the limiter.\<close>

definition counted :: "app \<Rightarrow> http_in \<Rightarrow> principal option" where
  "counted a req =
     (if origin_forbidden (app_settings a) req
         \<or> set_require_https (app_settings a) \<and> \<not> is_exempt req \<and> request_scheme (app_settings a) req \<noteq> ''https''
         \<or> is_exempt req
      then None else authenticates a req)"

lemma check_request_uncounted:
  assumes "counted a req = None"
  shows "\<exists>r. check_request a req rid s = (Inr r, s) \<and> (\<forall>p. r \<noteq> Inr (Some p))"
  using assms
  by (auto simp: counted_def check_request_def Let_def authenticates_def run_return
      split: if_splits option.splits sum.splits)

lemma check_request_counted:
  assumes "counted a req = Some p" and "allow (token_id p) (app_monotonic a (st_instants s)) (st_limiter s) = (ok, l)"
  shows "check_request a req rid s = (Inr (if ok then Inr (Some p)
      else Inl (refuse rid 429 ''Rate limit exceeded'' [(''Retry-After'', ''60'')])),
    s\<lparr>st_limiter := l, st_instants := st_instants s + 1\<rparr>)"
  using assms
  by (auto simp: counted_def check_request_def Let_def authenticates_def run_return run_bind allow_now_def
      split: if_splits option.splits sum.splits prod.splits)

lemma leaves_limits_on_world: "leaves limits (on_world m)"
  by (simp add: leaves_def on_world_def limits_def split: prod.split)

lemma leaves_limits_request_id: "leaves limits m \<Longrightarrow> leaves limits (with_request_id i m)"
  by (rule leaves_with_request_id) (simp_all add: limits_def set_request_id_def)

lemma leaves_limits_add_task: "leaves limits (add_task t)"
  by (simp add: leaves_def add_task_def update_io_def limits_def)

lemma leaves_limits_handle: "leaves limits (handle a req rid actor)"
  unfolding handle_def Let_def readiness_def build_completion_endpoint_def github_webhook_endpoint_def
    dispatch_api_def mounted_def
  by (intro leaves_if leaves_return leaves_bind leaves_get leaves_lift leaves_limits_on_world leaves_raise leaves_catch
      leaves_seq leaves_option leaves_limits_add_task leaves_prod)
    (auto split: json.split routed.split intro!: leaves_return leaves_bind leaves_limits_on_world leaves_if leaves_raise
      leaves_seq leaves_limits_add_task leaves_option leaves_prod)

lemma leaves_limits_call_next: "leaves limits (call_next a req rid actor)"
  unfolding call_next_def by (intro leaves_catch leaves_limits_handle leaves_return)

lemma leaves_limits_background: "leaves limits (run_background a job)"
  by (cases job) (auto intro!: leaves_limits_request_id leaves_bind leaves_limits_on_world leaves_return)

lemma request_id_of_run:
  obtains rid u where "request_id_of req s = (Inr rid, u)" and "limits u = limits s"
proof -
  obtain r u where run: "request_id_of req s = (r, u)" by (cases "request_id_of req s")
  then obtain rid where "r = Inr rid"
    by (auto simp: request_id_of_def run_bind run_return on_world_def uuid4_def split: option.splits)
  moreover have "leaves limits (request_id_of req)"
    unfolding request_id_of_def by (intro leaves_option leaves_return leaves_bind leaves_limits_on_world)
  then have "limits u = limits s" using run by (rule leavesD)
  ultimately show ?thesis using that run by blast
qed

lemma serve_after_check:
  assumes "request_id_of req s = (Inr rid, u)" and "check_request a req rid u = (Inr checked, v)"
    and "serve a req s = (ans, t)"
  shows "limits t = limits v"
proof (cases checked)
  case (Inl refusal)
  with assms show ?thesis by (auto simp: serve_def security_middleware_def run_bind run_return)
next
  case (Inr actor)
  have "leaves limits (bind_io (with_request_id rid (call_next a req rid actor)) (\<lambda>response.
      return_io (response\<lparr>ans_headers := update_headers (ans_headers response) (response_headers rid [])\<rparr>)))"
    by (intro leaves_bind leaves_limits_request_id leaves_limits_call_next leaves_return)
  then show ?thesis
    using assms Inr
    by (auto simp: serve_def security_middleware_def run_bind [of "request_id_of req"] run_bind [of "check_request a req rid"]
        dest: leavesD split: prod.splits sum.splits)
qed

text \<open>What serving a request does to the limiter, and what it adds to the trace.\<close>

lemma serve_uncounted:
  assumes "counted a req = None" and "serve a req s = (ans, t)"
  shows "limits t = limits s \<and> admission a req s = []"
proof -
  obtain rid u where u: "request_id_of req s = (Inr rid, u)" "limits u = limits s" by (rule request_id_of_run)
  obtain r where r: "check_request a req rid u = (Inr r, u)"
    using check_request_uncounted [OF assms(1)] by blast
  obtain r' where "check_request a req [] s = (Inr r', s)" "\<forall>p. r' \<noteq> Inr (Some p)"
    using check_request_uncounted [OF assms(1)] by blast
  then have "admission a req s = []"
    by (auto simp: admission_def split: sum.splits option.splits)
  with serve_after_check [OF u(1) r assms(2)] u(2) show ?thesis by simp
qed

lemma serve_counted:
  assumes "counted a req = Some p" and "serve a req s = (ans, t)"
    and "allow (token_id p) (app_monotonic a (st_instants s)) (st_limiter s) = (ok, l)"
  shows "limits t = (l, st_instants s + 1)
    \<and> admission a req s = (if ok then [(token_id p, app_monotonic a (st_instants s))] else [])"
proof -
  obtain rid u where u: "request_id_of req s = (Inr rid, u)" "limits u = limits s" by (rule request_id_of_run)
  then have same: "st_instants u = st_instants s" "st_limiter u = st_limiter s" by (simp_all add: limits_def)
  note run = check_request_counted [OF assms(1)]
  from run [of u ok l rid] serve_after_check [OF u(1) _ assms(2)] same assms(3)
  have "limits t = (l, st_instants s + 1)" by (simp add: limits_def)
  moreover have "admission a req s = (if ok then [(token_id p, app_monotonic a (st_instants s))] else [])"
    using run [OF assms(3), of "[]"] by (simp add: admission_def)
  ultimately show ?thesis by blast
qed

definition window_ok :: "app \<Rightarrow> (string \<times> rat) list \<Rightarrow> app_state \<Rightarrow> bool" where
  "window_ok a trace s = (\<exists>now. now \<le> app_monotonic a (st_instants s)
     \<and> window_inv (new_limiter (set_rate_limit_per_minute (app_settings a))) trace (st_limiter s) now)"

lemma window_ok_serve:
  assumes "mono (app_monotonic a)" and "window_ok a trace s" and "serve a req s = (ans, t)"
  shows "window_ok a (trace @ admission a req s) t"
proof (cases "counted a req")
  case None
  with serve_uncounted [OF None assms(3)] assms(2) show ?thesis by (simp add: window_ok_def limits_def)
next
  case (Some p)
  let ?now = "app_monotonic a (st_instants s)"
  obtain ok l where allowed: "allow (token_id p) ?now (st_limiter s) = (ok, l)"
    by (cases "allow (token_id p) ?now (st_limiter s)")
  from assms(2) obtain now where now: "now \<le> ?now"
    "window_inv (new_limiter (set_rate_limit_per_minute (app_settings a))) trace (st_limiter s) now"
    by (auto simp: window_ok_def)
  have "case admit (trace, st_limiter s) (token_id p, ?now) of (acc', l') \<Rightarrow>
      window_inv (new_limiter (set_rate_limit_per_minute (app_settings a))) acc' l' ?now"
    by (rule window_inv_step [OF now(2,1)]) (simp add: new_limiter_def)
  moreover have "?now \<le> app_monotonic a (st_instants s + 1)" using assms(1) by (simp add: mono_def)
  ultimately show ?thesis
    using serve_counted [OF Some assms(3) allowed] allowed
    by (auto simp: window_ok_def limits_def admit_def split: if_splits)
qed

text \<open>
  C5: In every run, no token is served more than \<open>rate_limit_per_minute\<close> requests in any sixty
  seconds, whatever else is requested meanwhile and however the background tasks fall.
\<close>

theorem rate_limit_holds:
  assumes "reaches a w trace s" and "mono (app_monotonic a)" and "valid_settings (app_settings a)"
  shows "int (length (in_window 60 t (times_of k trace))) \<le> set_rate_limit_per_minute (app_settings a)"
proof -
  from assms(1) have "window_ok a trace s"
  proof (induction rule: reaches.induct)
    case start
    then show ?case
      by (auto simp: window_ok_def window_inv_def initial_state_def new_limiter_def times_of_def in_window_def
          bucket_of_def)
  next
    case (request trace s req ans t)
    then show ?case using window_ok_serve [OF assms(2)] by blast
  next
    case (background trace s before job after r t)
    then have "limits t = limits (s\<lparr>st_tasks := before @ after\<rparr>)"
      using leavesD [OF leaves_limits_background] by blast
    with background show ?case by (simp add: window_ok_def limits_def)
  qed
  then have "int (length (in_window 60 t (times_of k trace))) \<le> max 0 (set_rate_limit_per_minute (app_settings a))"
    by (auto simp: window_ok_def window_inv_def new_limiter_def)
  then show ?thesis using assms(3) by (simp add: valid_settings_def max_def split: if_splits)
qed



subsection \<open>What no run takes back\<close>

text \<open>\<open>later a s t\<close>: \<open>t\<close> is reached from \<open>s\<close> by serving requests and running queued tasks.\<close>

inductive later :: "app \<Rightarrow> app_state \<Rightarrow> app_state \<Rightarrow> bool" for a s where
  now: "later a s s"
| after_request: "later a s t \<Longrightarrow> serve a req t = (ans, u) \<Longrightarrow> later a s u"
| after_task: "later a s t \<Longrightarrow> st_tasks t = before @ job # after \<Longrightarrow>
    run_background a job (t\<lparr>st_tasks := before @ after\<rparr>) = (r, u) \<Longrightarrow> later a s u"

definition in_tables :: "(pg_store \<Rightarrow> bool) \<Rightarrow> app_state \<Rightarrow> bool" where
  "in_tables P s = P (w_db (st_world s))"

lemma preserves_on_world: "preserves (on_db P) m \<Longrightarrow> preserves (in_tables P) (on_world m)"
  by (auto simp: preserves_def on_db_def in_tables_def on_world_def split: prod.split)

lemma preserves_with_request_id:
  assumes "preserves (in_tables P) m"
  shows "preserves (in_tables P) (with_request_id i m)"
  unfolding preserves_def
proof (intro allI impI)
  fix s
  assume "in_tables P s"
  then have "in_tables P (set_request_id i s)" by (simp add: in_tables_def set_request_id_def)
  moreover obtain r u where run: "m (set_request_id i s) = (r, u)" by (cases "m (set_request_id i s)")
  ultimately have "in_tables P u" using assms by (blast dest: preservesD)
  with run show "in_tables P (snd (with_request_id i m s))"
    by (simp add: with_request_id_def run_bind run_get run_seq run_update run_finally in_tables_def set_request_id_def)
qed

context durable
begin

lemma handles: "preserves (in_tables P) (handle a req rid actor)"
proof -
  have mounts: "preserves (in_tables P) (mounted a req actor)"
  proof -
    have "preserves (on_db P) (\<lambda>w. case (case call of Inl c \<Rightarrow> read_resource (app_mcp a) actor c w
        | Inr c \<Rightarrow> call_tool (app_mcp a) actor c w) of (r, w') \<Rightarrow> (Inr (answer 200 (McpAnswer r)), w'))" for call
      using mcp_served [of "app_mcp a" actor]
      by (cases call) (auto simp: preserves_def split: prod.split, (metis snd_conv)+)
    then show ?thesis
      unfolding mounted_def by (intro preserve_intros preserves_on_world)
  qed
  have api: "preserves (in_tables P) (dispatch_api a req actor)"
    unfolding dispatch_api_def
    by (auto intro!: preserve_intros preserves_on_world served mounts split: routed.split)
  have add: "preserves (in_tables P) (add_task t)" for t
    by (simp add: preserves_def add_task_def run_update in_tables_def)
  have completion: "preserves (in_tables P) (build_completion_endpoint a req rid)"
    unfolding build_completion_endpoint_def
    by (intro preserve_intros preserves_on_world drawing completed reviewed_with_retry add)
  have webhook: "preserves (in_tables P) (github_webhook_endpoint a req rid)"
    unfolding github_webhook_endpoint_def
    by (auto intro!: preserve_intros preserves_on_world hooked add split: json.split)
  show ?thesis
    unfolding handle_def readiness_def Let_def by (intro preserve_intros mounts api completion webhook)
qed

lemma kept_by_serve:
  assumes "in_tables P s" and "serve a req s = (ans, t)"
  shows "in_tables P t"
proof -
  have limited: "preserves (in_tables P) (allow_now a k)" for k
    by (auto simp: preserves_def allow_now_def in_tables_def split: prod.split)
  have calls: "preserves (in_tables P) (call_next a req rid actor)" for rid actor
    unfolding call_next_def by (intro preserve_intros handles)
  have "preserves (in_tables P) (security_middleware a (call_next a) req)"
    unfolding security_middleware_def request_id_of_def check_request_def
    by (intro preserve_intros preserves_on_world drawing limited preserves_with_request_id calls)
  from preservesD [OF this assms(1)] assms(2) show ?thesis
    by (auto simp: serve_def split: prod.splits sum.splits)
qed

lemma kept_by_background:
  assumes "in_tables P s" and "run_background a job s = (r, t)"
  shows "in_tables P t"
proof -
  have "preserves (in_tables P) (run_background a job)"
    by (cases job) (auto simp: dispatch_or_record_def record_background_failure_def
        intro!: preserves_with_request_id preserve_intros preserves_on_world reviewed_with_retry dispatched audited)
  then show ?thesis using assms by (rule preservesD)
qed

lemma kept_later: "later a s t \<Longrightarrow> in_tables P s \<Longrightarrow> in_tables P t"
proof (induction rule: later.induct)
  case now
  then show ?case by simp
next
  case (after_request t req ans u)
  then show ?case using kept_by_serve by blast
next
  case (after_task t before job after r u)
  then show ?case using kept_by_background [of "t\<lparr>st_tasks := before @ after\<rparr>"] by (simp add: in_tables_def)
qed

end

text \<open>
  C10: The audit trail is append-only: whatever is requested and whatever fails, a record that
  was written is there, unchanged, in every later state.
\<close>

theorem audit_trail_append_only:
  assumes "later a s t" and "audit_written i row (w_db (st_world s))"
  shows "audit_written i row (w_db (st_world t))"
  using audit_durable.kept_later [OF assms(1)] assms(2) by (simp add: in_tables_def)

text \<open>
  C11: An idempotency key belongs to the run that first took it, for ever: in every later state
  the run under the key has the same identifier.
\<close>

theorem idempotency_key_owner:
  assumes "later a s t" and "key_owned k i (w_db (st_world s))"
  shows "key_owned k i (w_db (st_world t))"
  using key_durable.kept_later [OF assms(1)] assms(2) by (simp add: in_tables_def)


subsection \<open>Redeliveries\<close>

lemma serve_effects_at:
  assumes "\<And>rid actor u. effects u = effects s \<Longrightarrow> effects (snd (handle a req rid actor u)) = effects u"
  shows "effects (snd (serve a req s)) = effects s"
proof -
  obtain rid u where u: "request_id_of req s = (Inr rid, u)" by (rule request_id_of_run)
  then have eu: "effects u = effects s" using leavesD [OF leaves_request_id_of(1)] by blast
  obtain c v where v: "check_request a req rid u = (c, v)" by (cases "check_request a req rid u")
  then have ev: "effects v = effects s" using leavesD [OF leaves_check_request] eu by metis
  have "effects (snd (with_request_id rid (call_next a req rid actor) v)) = effects s" for actor
    using assms [of "set_request_id rid v" rid actor] ev
    by (auto simp: with_request_id_def run_bind run_get run_seq run_update run_finally call_next_def run_catch run_return
        split: prod.splits sum.splits)
  then have "effects (snd (security_middleware a (call_next a) req s)) = effects s"
    using u v ev by (auto simp: security_middleware_def run_bind run_return split: prod.splits sum.splits; metis snd_conv)
  then show ?thesis by (auto simp: serve_def split: prod.splits sum.splits)
qed

lemma duplicate_delivery:
  assumes "pg_hook_seen i (w_db (st_world u))" and "header req ''x-github-delivery'' = Some i"
  shows "effects (snd (github_webhook_endpoint a req rid u)) = effects u"
proof -
  have again: "effects (snd (on_world (process_github_webhook sv i ev p) u)) = effects u
      \<and> (\<forall>d t. on_world (process_github_webhook sv i ev p) u \<noteq> (Inr (d, True), t))" for sv ev p
    using assms(1)
    by (simp add: process_github_webhook_def Let_def run_bind run_return on_world_def now_utc_def db_def
        pg_record_webhook_once_def pg_hook_seen_def effects_def)
  have id: "delivery_headers req = Inr (d, ev) \<Longrightarrow> d = i" for d ev
    using assms(2) by (auto simp: delivery_headers_def nonempty_def split: option.splits if_splits)
  show ?thesis
    unfolding github_webhook_endpoint_def
    using again id
    by (auto simp: run_bind run_lift run_get run_raise run_return split: sum.splits prod.splits option.splits json.splits if_splits)
      (metis snd_conv)+
qed

text \<open>
  C9: A delivery is handled once: when its identifier was recorded in any earlier state, sending
  it again, with whatever content and signature, changes nothing and queues nothing.
\<close>

theorem redelivery_is_inert:
  assumes "later a s t" and "pg_hook_seen i (w_db (st_world s))" and "header req ''x-github-delivery'' = Some i"
    and "in_method req = ''POST''" and "in_path req = ''/webhooks/github''"
  shows "effects (snd (serve a req t)) = effects t"
proof (rule serve_effects_at)
  fix rid actor u
  assume u: "effects u = effects t"
  have "pg_hook_seen i (w_db (st_world t))"
    using hook_durable.kept_later [OF assms(1)] assms(2) by (simp add: in_tables_def)
  with u have "pg_hook_seen i (w_db (st_world u))" by (simp add: effects_def)
  from duplicate_delivery [OF this assms(3), of a rid] show "effects (snd (handle a req rid actor u)) = effects u"
    unfolding handle_webhook [OF assms(4,5)]
    by (cases "github_webhook_endpoint a req rid u") (auto simp: run_bind run_return split: sum.splits)
qed

end
