(* ===== verification/App_Demo.thy ===== *)
theory App_Demo
  imports System
begin

section \<open>The application on the demonstration deployment\<close>

text \<open>
  An application over the service and the world of \<open>Demo\<close>: the default settings, one secret
  for every file, one token, and decoders that know a retry request and one completion. The
  witnesses of the properties of the registry, the MCP server, the application and its runs
  evaluate the model on it.
\<close>

definition demo_api :: api where
  "demo_api = \<lparr>api_service = demo_service, api_contract = demo_contract_libraries, api_example_installed = None,
     api_example_packaged = None, api_example_source = None,
     api_decode = (\<lambda>m j. if m = RetryRequestModel then Some (PRetry 2) else None)\<rparr>"

definition demo_start :: world where
  "demo_start = demo_world demo_net (demo_db (demo_build Queued None))"

definition pull_start :: world where
  "pull_start = demo_world demo_net (demo_db (demo_build Queued (Some 5)))"

definition demo_server :: mcp_server where
  "demo_server = \<lparr>mcp_api = demo_api, mcp_operations = operations, mcp_model_dump = (\<lambda>_. JNull)\<rparr>"

definition demo_app :: app where
  "demo_app = \<lparr>app_settings = default_settings, app_files = (\<lambda>_. Some ''s3cret''), app_api = demo_api,
     app_authenticator = Some [\<lparr>te_token_id = ''ci'', te_scopes = {Operate}, te_digest = hash_token ''tok''\<rparr>],
     app_completion = (\<lambda>_. Some (demo_completion Passed (Some 5))), app_model_dump = (\<lambda>_. JNull),
     app_monotonic = rat_of_nat, app_ping = (\<lambda>_. True), app_mcp_decode = (\<lambda>_. None), app_library = (\<lambda>_. 404)\<rparr>"

definition plain_request :: "string \<Rightarrow> string \<Rightarrow> (string \<times> string) list \<Rightarrow> http_in" where
  "plain_request m path headers = \<lparr>in_method = m, in_scheme = ''https'', in_path = path, in_headers = headers,
     in_query = [], in_chunks = [''{}''], in_breaks = False\<rparr>"

definition signed_headers :: "string \<Rightarrow> (string \<times> string) list" where
  "signed_headers h = [(h, ''sha256='' @ hmac_hex (utf8_encode ''s3cret'') ''{}''), (''x-request-id'', ''r-1''),
     (''x-github-delivery'', ''d-1''), (''x-github-event'', ''push'')]"

definition completion_request :: http_in where
  "completion_request = plain_request ''POST'' ''/internal/build-completions'' (signed_headers ''x-jenkinsservice-signature'')"

definition webhook_request :: http_in where
  "webhook_request = plain_request ''POST'' ''/webhooks/github'' (signed_headers ''x-hub-signature-256'')"

definition api_request :: http_in where
  "api_request = plain_request ''GET'' ''/api/v1/repositories''
     [(''authorization'', ''Bearer tok''), (''x-request-id'', ''r-1'')]"

definition anonymous_request :: http_in where
  "anonymous_request = plain_request ''GET'' ''/api/v1/repositories'' []"

definition hook_start :: world where
  "hook_start = demo_start\<lparr>w_env := (demo_env demo_net)\<lparr>env_json := (\<lambda>_. Some (JObj []))\<rparr>\<rparr>"

lemmas app_defs = demo_api_def demo_start_def pull_start_def demo_server_def demo_app_def plain_request_def
  signed_headers_def completion_request_def webhook_request_def api_request_def anonymous_request_def

lemma demo_start_ok: "world_ok demo_start" "world_ok pull_start"
  unfolding demo_start_def pull_start_def by (rule demo_build_ok)+

lemma demo_decoder_ok: "decoder_ok (api_decode demo_api)"
  by (simp add: decoder_ok_def demo_api_def valid_payload_def)

lemma demo_decoders_ok: "decoders_ok demo_app"
proof -
  have "valid_build_completion (demo_completion Passed (Some 5))"
    by (simp add: valid_build_completion_def demo_completion_def demo_result_def valid_pipeline_result_def
        is_sha40_def is_sha40_option_def demo_sha_def valid_review_policy_def default_review_policy_def
        list_all_iff is_hex_def callback_char_def is_alnum_def is_alpha_def is_digit_def)
  then show ?thesis using demo_decoder_ok by (simp add: decoders_ok_def demo_app_def)
qed


subsection \<open>Endpoints and MCP calls\<close>

definition retry_operation :: operation where
  "retry_operation = tool_operation ''retry_pipeline'' ''POST'' ''/pipelines/retry'' Operate ''Retry a pipeline''
     (Some RetryRequestModel)"

theorem endpoint_keeps_world_witness:
  "world_ok (snd (endpoint demo_api operations retry_operation demo_actor [] [] ''{}'' demo_start))"
  by (rule endpoint_keeps_world [OF demo_decoder_ok demo_start_ok(1)])

theorem endpoint_requires_scope_witness:
  "endpoint demo_api operations (retry_operation\<lparr>op_scope := Admin\<rparr>) demo_actor [] [] ''{}'' demo_start
   = (Inl (HTTPException 403 ''admin scope required''), demo_start)"
  using endpoint_requires_scope [of demo_actor "retry_operation\<lparr>op_scope := Admin\<rparr>"]
  by (simp add: permits_def demo_actor_def)

theorem endpoint_errors_mapped_witness:
  "fst (endpoint demo_api operations retry_operation demo_actor [] [] ''{}'' demo_start)
     = Inl (HTTPException 400 ''invalid JSON payload'')
   \<and> \<not> is_endpoint_error (HTTPException 400 ''invalid JSON payload'')"
proof -
  have run: "endpoint demo_api operations retry_operation demo_actor [] [] ''{}'' demo_start
      = (Inl (HTTPException 400 ''invalid JSON payload''), demo_start)"
    by (simp add: endpoint_def retry_operation_def tool_operation_def permits_def demo_actor_def decode_payload_def
        request_json_def app_defs demo_world_def demo_env_def io_simps)
  then show ?thesis using endpoint_errors_mapped [OF run] by simp
qed

theorem mcp_resource_as_rest_witness:
  "\<exists>op. operation_by_id demo_server ''repositories'' = Inr op
    \<and> same_effect (\<lambda>_. JNull) (op_scope op) (endpoint demo_api operations op demo_actor [] [] [] demo_start)
        (read_resource demo_server (Some demo_actor) GetRepositories demo_start)"
proof -
  have "find (\<lambda>op. op_id op = ''repositories'') operations \<noteq> None" by code_simp
  then obtain op where op: "operation_by_id demo_server ''repositories'' = Inr op"
    by (auto simp: operation_by_id_def demo_server_def)
  have "mcp_operations demo_server = operations" "mcp_api demo_server = demo_api"
    "mcp_model_dump demo_server = (\<lambda>_. JNull)" by (simp_all add: demo_server_def)
  with mcp_resource_as_rest [OF this(1) resource_operation.simps(4) op, of demo_actor "[]" demo_start] op
  show ?thesis by auto
qed

theorem mcp_tool_as_rest_witness:
  "\<exists>op. operation_by_id demo_server ''unregister_repository'' = Inr op
    \<and> same_effect (\<lambda>_. JNull) (op_scope op)
        (endpoint demo_api operations op demo_actor [(''repository_id'', ''x'')] [] [] demo_start)
        (call_tool demo_server (Some demo_actor) (UnregisterRepository ''x'') demo_start)"
proof -
  have "(case find (\<lambda>op. op_id op = ''unregister_repository'') operations of None \<Rightarrow> False | Some op \<Rightarrow> op_input_model op = None)"
    by code_simp
  then obtain op where op: "operation_by_id demo_server ''unregister_repository'' = Inr op" "op_input_model op = None"
    by (auto simp: operation_by_id_def demo_server_def split: option.splits)
  have server: "mcp_operations demo_server = operations" "mcp_api demo_server = demo_api"
    "mcp_model_dump demo_server = (\<lambda>_. JNull)" by (simp_all add: demo_server_def)
  have "decode_payload (mcp_api demo_server) op [] demo_start = (Inr None, demo_start)"
    using op(2) by (simp add: decode_payload_def run_return)
  with mcp_tool_as_rest [OF server(1) tool_payload.simps(4), of _ op "[]" demo_start demo_actor] op server
  show ?thesis by auto
qed


subsection \<open>Requests\<close>

lemma signature_accepted:
  "verify_hmac_signature secret body (Some (''sha256='' @ hmac_hex (utf8_encode secret) body)) = Inr True"
  using webhook_signature_ascii [of secret body]
  by (simp add: verify_hmac_signature_def verify_webhook_signature_def compare_digest_str_def compare_digest_def
      webhook_signature_def startswith_def)

lemma demo_secret: "read_secret (app_files demo_app) f = Inr ''s3cret''"
  by (simp add: read_secret_def read_text_def bind_sum_def demo_app_def py_strip_def is_space_def)

lemma demo_signed_body:
  assumes "in_chunks req = [''{}'']" and "\<not> in_breaks req"
    and "header req h = Some (''sha256='' @ hmac_hex (utf8_encode ''s3cret'') ''{}'')"
  shows "signed_body demo_app f h x y z req = Inr ''{}''"
proof -
  have "read_body (set_max_webhook_bytes (app_settings demo_app)) x req = Inr ''{}''"
    using assms by (simp add: read_body_def demo_app_def default_settings_def bind_sum_def)
  moreover have "path_exists (app_files demo_app) f" by (simp add: path_exists_def demo_app_def)
  ultimately show ?thesis
    using signature_accepted [of "''s3cret''" "''{}''"] assms(3)
    by (simp add: signed_body_def bind_sum_def demo_secret)
qed

lemma exempt_checked:
  "is_exempt req \<Longrightarrow> header req ''origin'' = None \<Longrightarrow> check_request a req rid s = (Inr (Inr None), s)"
  by (simp add: check_request_def Let_def origin_forbidden_def nonempty_def run_return)

lemma serve_exempt:
  assumes "is_exempt req" and "header req ''origin'' = None" and "header req ''x-request-id'' = Some rid" and "rid \<noteq> []"
  shows "effects (snd (serve a req s)) = effects (snd (handle a req rid None (set_request_id rid s)))"
proof -
  have given: "request_id_of req s = (Inr rid, s)"
    using assms(3,4) by (simp add: request_id_given nonempty_def)
  obtain r u where run: "handle a req rid None (set_request_id rid s) = (r, u)"
    by (cases "handle a req rid None (set_request_id rid s)")
  have "effects (snd (security_middleware a (call_next a) req s)) = effects u"
    using exempt_checked [OF assms(1,2)] given run
    by (auto simp: security_middleware_def run_bind run_return with_request_id_def run_get run_seq run_update
        run_finally call_next_def run_catch split: sum.splits prod.splits)
  then show ?thesis using run by (auto simp: serve_def split: prod.splits sum.splits)
qed

lemma webhook_recorded:
  "effects (snd (serve demo_app webhook_request (initial_state demo_app hook_start)))
   \<noteq> effects (initial_state demo_app hook_start)"
proof -
  have body: "webhook_body demo_app webhook_request = Inr ''{}''"
    unfolding webhook_body_def
    by (rule demo_signed_body) (simp_all add: webhook_request_def plain_request_def header_def signed_headers_def)
  have target: "in_method webhook_request = ''POST''" "in_path webhook_request = ''/webhooks/github''"
    by (simp_all add: webhook_request_def plain_request_def)
  have headers: "delivery_headers webhook_request = Inr (''d-1'', ''push'')"
    by (simp add: delivery_headers_def nonempty_def header_def webhook_request_def plain_request_def signed_headers_def)
  have "effects (snd (handle demo_app webhook_request ''r-1'' None (set_request_id ''r-1'' (initial_state demo_app hook_start))))
      \<noteq> effects (initial_state demo_app hook_start)"
    unfolding handle_webhook [OF target] github_webhook_endpoint_def body headers
    by (simp add: run_bind run_lift run_get process_github_webhook_def repository_full_name_def jget_def on_world_def
        set_request_id_def initial_state_def hook_start_def demo_start_def webhook_reason_def pg_record_webhook_once_def
        effects_def demo_defs run_simps)
  then show ?thesis
    by (subst serve_exempt [of _ "''r-1''"])
      (simp_all add: is_exempt_def exempt_paths_def header_def webhook_request_def plain_request_def signed_headers_def)
qed

lemma completion_effect:
  "effects (snd (serve demo_app completion_request (initial_state demo_app pull_start)))
   \<noteq> effects (initial_state demo_app pull_start)"
proof -
  have "completion_body demo_app completion_request = Inr ''{}''"
    unfolding completion_body_def
    by (rule demo_signed_body) (simp_all add: completion_request_def plain_request_def header_def signed_headers_def)
  then have decoded: "decode_completion demo_app completion_request = Inr (demo_completion Passed (Some 5))"
    by (simp add: decode_completion_def bind_sum_def) (simp add: demo_app_def)
  have target: "in_method completion_request = ''POST''" "in_path completion_request = ''/internal/build-completions''"
    by (simp_all add: completion_request_def plain_request_def)
  have "effects (snd (handle demo_app completion_request ''r-1'' None (set_request_id ''r-1'' (initial_state demo_app pull_start))))
      \<noteq> effects (initial_state demo_app pull_start)"
    unfolding handle_completion [OF target] build_completion_endpoint_def decoded
    by (simp add: run_bind run_lift run_get on_world_def add_task_def
        set_request_id_def initial_state_def pull_start_def callback_principal_def epoch_seconds_def
        complete_build_def complete_matched_def store_completion_def close_completion_def
        same_identity_def is_terminal_def set_queue_state_def audit_def publish_ci_status_def
        completion_delivery_def numeral_3_eq_3 set_status_def github_post_def github_request_def
        build_url_def stripped_url_def completion_state_def completion_text_def
        effects_def demo_app_def demo_api_def app_service_def default_settings_def demo_defs run_simps pg_defs)
  then show ?thesis
    by (subst serve_exempt [of _ "''r-1''"])
      (simp_all add: is_exempt_def exempt_paths_def header_def completion_request_def plain_request_def signed_headers_def)
qed

theorem unauthenticated_refused_witness:
  "ans_status (fst (serve demo_app anonymous_request (initial_state demo_app demo_start))) \<in> {400, 401, 403, 503}"
proof -
  have "authenticates demo_app anonymous_request = None"
    by (simp add: authenticates_def demo_app_def header_def anonymous_request_def plain_request_def bearer_token_def
        py_partition_def)
  then show ?thesis
    using unauthenticated_refused [of anonymous_request demo_app "initial_state demo_app demo_start"]
    by (simp add: is_exempt_def exempt_paths_def anonymous_request_def plain_request_def) (metis prod.collapse)
qed

theorem completion_requires_signature_witness:
  "\<exists>body. signed_request demo_app (set_build_callback_secret_file (app_settings demo_app)) ''x-jenkinsservice-signature''
    completion_request body \<and> app_completion demo_app body \<noteq> None"
  by (rule completion_requires_signature [OF _ _ prod.collapse [symmetric] completion_effect])
    (simp_all add: completion_request_def plain_request_def)

theorem webhook_requires_signature_witness:
  "\<exists>body. signed_request demo_app (set_github_webhook_secret_file (app_settings demo_app)) ''x-hub-signature-256''
    webhook_request body"
  by (rule webhook_requires_signature [OF _ _ prod.collapse [symmetric] webhook_recorded])
    (simp_all add: webhook_request_def plain_request_def)

theorem response_headers_present_witness:
  "\<exists>ans t. security_middleware demo_app (call_next demo_app) anonymous_request (initial_state demo_app demo_start) = (Inr ans, t)
    \<and> dget (ans_headers ans) ''X-Content-Type-Options'' = Some ''nosniff''"
proof -
  let ?s = "initial_state demo_app demo_start"
  obtain rid u where "request_id_of anonymous_request ?s = (Inr rid, u)" using request_id_of_run by blast
  moreover have "\<not> is_exempt anonymous_request" "authenticates demo_app anonymous_request = None"
    by (simp_all add: is_exempt_def exempt_paths_def authenticates_def demo_app_def header_def anonymous_request_def
        plain_request_def bearer_token_def py_partition_def)
  then obtain refusal where "check_request demo_app anonymous_request rid u = (Inr (Inl refusal), u)"
    using check_unauthenticated by blast
  ultimately have run: "security_middleware demo_app (call_next demo_app) anonymous_request ?s = (Inr refusal, u)"
    by (simp add: security_middleware_def run_bind run_return)
  from response_headers_present [OF run] run show ?thesis by blast
qed


subsection \<open>Runs\<close>

lemma demo_run_reached:
  "reaches demo_app hook_start ([] @ admission demo_app webhook_request (initial_state demo_app hook_start))
     (snd (serve demo_app webhook_request (initial_state demo_app hook_start)))"
  by (rule reaches.request [OF reaches.start prod.collapse [symmetric]])

theorem reachable_store_ok_witness:
  "world_ok (st_world (snd (serve demo_app webhook_request (initial_state demo_app hook_start))))"
proof (rule reachable_store_ok [OF demo_run_reached demo_decoders_ok])
  show "world_ok hook_start"
    using demo_start_ok(1) by (simp add: hook_start_def world_ok_def env_ok_def app_defs demo_world_def demo_env_def)
qed

theorem request_id_never_leaks_witness:
  "w_request_id (st_world (snd (serve demo_app webhook_request (initial_state demo_app hook_start)))) = ''internal''"
  using request_id_never_leaks [OF demo_run_reached] by (simp add: hook_start_def demo_start_def demo_world_def)

theorem rate_limit_holds_witness:
  "int (length (in_window 60 60 (times_of ''ci'' (admission demo_app api_request (initial_state demo_app demo_start))))) \<le> 120"
proof -
  have run: "reaches demo_app demo_start ([] @ admission demo_app api_request (initial_state demo_app demo_start))
      (snd (serve demo_app api_request (initial_state demo_app demo_start)))"
    by (rule reaches.request [OF reaches.start prod.collapse [symmetric]])
  have "mono (app_monotonic demo_app)" by (simp add: demo_app_def mono_def)
  moreover have "valid_settings (app_settings demo_app)" by (simp add: demo_app_def default_settings_valid)
  ultimately show ?thesis
    using rate_limit_holds [OF run, of 60 "''ci''"] by (simp add: demo_app_def default_settings_def)
qed


subsection \<open>What runs keep\<close>

text \<open>A start whose tables hold one delivery, one audit record and one run.\<close>

definition demo_hook_row :: webhook_row where
  "demo_hook_row = \<lparr>wr_data = \<lparr>hook_delivery_id = ''d-1'', hook_event = ''push'', hook_repository = ''o/r'',
     hook_accepted = False, hook_reason = None, hook_received_at = 0\<rparr>, wr_received_at = 0\<rparr>"

definition demo_audit_row :: audit_row where
  "demo_audit_row = \<lparr>ar_actor = ''ci'', ar_action = ''retry'', ar_target = ''o/r'',
     ar_data = \<lparr>audit_id = 8, audit_actor = ''ci'', audit_action = ''retry'', audit_target = ''o/r'',
       audit_request_id = ''r-0'', audit_outcome = AuditSucceeded, audit_detail = [], audit_created_at = 0\<rparr>,
     ar_created_at = 0\<rparr>"

definition history_db :: pg_store where
  "history_db = (demo_db (demo_build Queued None))\<lparr>pg_webhooks := [(''d-1'', demo_hook_row)],
     pg_audit := [(8, demo_audit_row)],
     pg_extension_runs := [(9, \<lparr>er_idempotency_key = ''k'', er_data = demo_review_run, er_created_at = 0\<rparr>)]\<rparr>"

definition history_state :: app_state where
  "history_state = initial_state demo_app (demo_world demo_net history_db)"

definition after_request_state :: app_state where
  "after_request_state = snd (serve demo_app api_request history_state)"

lemma history_later: "later demo_app history_state after_request_state"
  unfolding after_request_state_def by (rule later.after_request [OF later.now prod.collapse [symmetric]])

lemma history_tables: "w_db (st_world history_state) = history_db"
  by (simp add: history_state_def initial_state_def demo_world_def)

theorem audit_trail_append_only_witness: "audit_written 8 demo_audit_row (w_db (st_world after_request_state))"
  by (rule audit_trail_append_only [OF history_later])
    (simp add: history_tables audit_written_def history_db_def)

lemma history_inv: "pg_inv history_db"
  by (simp add: pg_inv_def history_db_def demo_db_def filed_under_def unique_column_def pg_repository_of_def
        demo_repository_def demo_queue_item_def full_name_def demo_build_def demo_result_def demo_review_run_def
     demo_hook_row_def demo_audit_row_def)

theorem idempotency_key_owner_witness: "key_owned ''k'' 9 (w_db (st_world after_request_state))"
proof (rule idempotency_key_owner [OF history_later])
  show "key_owned ''k'' 9 (w_db (st_world history_state))"
    using history_inv
    by (simp add: history_tables key_owned_def pg_run_by_key_def pg_run_row_def) (simp add: history_db_def demo_review_run_def)
qed

theorem redelivery_is_inert_witness:
  "effects (snd (serve demo_app webhook_request after_request_state)) = effects after_request_state"
proof (rule redelivery_is_inert [OF history_later])
  show "pg_hook_seen ''d-1'' (w_db (st_world history_state))"
    by (simp add: history_tables pg_hook_seen_def) (simp add: history_db_def)
  show "header webhook_request ''x-github-delivery'' = Some ''d-1''"
    by (simp add: header_def webhook_request_def plain_request_def signed_headers_def)
  show "in_method webhook_request = ''POST''" "in_path webhook_request = ''/webhooks/github''"
    by (simp_all add: webhook_request_def plain_request_def)
qed

end
