(* ===== verification/Routes.thy ===== *)
theory Routes
  imports Registry_Facts
begin

section \<open>Routes and keyword arguments\<close>

text \<open>
  The table of operations is well formed and unambiguous: at its own address, whatever its
  parameter, every operation is the one that is found. Two consequences of how path and query
  parameters become keyword arguments of the handlers.
\<close>

subsection \<open>The table\<close>

text \<open>
  The table has no duplicate identifiers, so the registry is built and files each operation
  under its own.
\<close>

theorem registry_well_formed:
  "new_registry operations = Inr (map (\<lambda>op. (op_id op, op)) operations)"
  by code_simp


subsection \<open>Every operation is reached\<close>

abbreviation template :: "operation \<Rightarrow> string list" where
  "template op \<equiv> py_split (CHR ''/'') (op_path op)"

text \<open>The address of an operation with \<open>v\<close> for its parameters, and the parameters it binds.\<close>

definition instance_of :: "string list \<Rightarrow> string \<Rightarrow> string list" where
  "instance_of t v = map (\<lambda>s. if is_parameter s then v else s) t"

definition operation_url :: "operation \<Rightarrow> string \<Rightarrow> string" where
  "operation_url op v = py_join ''/'' (instance_of (template op) v)"

definition bound_parameters :: "operation \<Rightarrow> string \<Rightarrow> (string \<times> string) list" where
  "bound_parameters op v = map (\<lambda>s. (parameter_name s, v)) (filter is_parameter (template op))"

text \<open>Whether a template may match some instance of another one.\<close>

fun may_match :: "string list \<Rightarrow> string list \<Rightarrow> bool" where
  "may_match [] [] = True"
| "may_match (t # ts) (u # us) = ((is_parameter t \<or> is_parameter u \<or> t = u) \<and> may_match ts us)"
| "may_match _ _ = False"

fun unambiguous :: "operation list \<Rightarrow> bool" where
  "unambiguous [] = True"
| "unambiguous (op # ops) =
     (list_all (\<lambda>q. op_http_method q = op_http_method op \<longrightarrow> \<not> may_match (template op) (template q)) ops
      \<and> unambiguous ops)"

lemma operations_unambiguous: "unambiguous operations"
  by code_simp

lemma no_match: "\<not> may_match t u \<Longrightarrow> match_segments t (instance_of u v) = None"
  by (induction t u rule: may_match.induct) (auto simp: instance_of_def)

lemma match_self:
  "v \<noteq> [] \<Longrightarrow> match_segments t (instance_of t v) = Some (map (\<lambda>s. (parameter_name s, v)) (filter is_parameter t))"
  by (induction t) (auto simp: instance_of_def)

lemma split_url: "CHR ''/'' \<notin> set v \<Longrightarrow> py_split (CHR ''/'') (operation_url op v) = instance_of (template op) v"
  unfolding operation_url_def
  by (rule py_split_join) (auto simp: instance_of_def list_all_iff dest: py_split_no_sep)

lemma route_finds:
  assumes "unambiguous ops" and "op \<in> set ops" and "v \<noteq> []" and "CHR ''/'' \<notin> set v"
  shows "route ops (op_http_method op) (operation_url op v) = Matched op (bound_parameters op v)"
  using assms(1,2)
proof (induction ops)
  case Nil
  then show ?case by simp
next
  case (Cons q ops)
  show ?case
  proof (cases "q = op")
    case True
    with assms(3,4) show ?thesis by (simp add: match_path_def split_url match_self bound_parameters_def)
  next
    case False
    with Cons.prems have "op \<in> set ops" by simp
    moreover from this Cons.prems(1)
    have "op_http_method op = op_http_method q \<longrightarrow> \<not> may_match (template q) (template op)"
      by (simp add: list_all_iff)
    then have "op_http_method op = op_http_method q \<longrightarrow> match_path (op_path q) (operation_url op v) = None"
      using assms(4) by (simp add: match_path_def split_url no_match)
    ultimately show ?thesis using Cons by (auto split: option.splits)
  qed
qed




subsection \<open>Keyword arguments\<close>

text \<open>
  A query parameter with the name of a path parameter replaces it: the request acts on the
  record the query names, not on the one in the path.
\<close>

theorem query_overrides_path:
  "endpoint a ops op p [(k, v)] [(k, u)] body = endpoint a ops op p [(k, u)] [] body"
proof -
  have "merge_kwargs [(k, v)] [(k, u)] = merge_kwargs [(k, u)] []" by (simp add: merge_kwargs_def)
  then show ?thesis by (simp only: endpoint_def invoke_def)
qed

text \<open>
  A query parameter the handler has no argument for is not ignored: the handler is called
  with it, and Python's \<open>TypeError\<close> leaves the endpoint, which has no status for it.
\<close>

theorem unknown_query_parameter:
  assumes "permits p (op_scope op)" and "op_input_model op = None"
    and "find (\<lambda>x. op_id x = op_id op) ops = Some op" and "k \<notin> set (snd (snd (handler_parameters (op_handler op))))"
    and "k \<notin> set (fst (snd (handler_parameters (op_handler op))))" and "k \<noteq> ''payload''"
  shows "endpoint a ops op p path [(k, u)] body w = (Inl (TypeError ''unexpected keyword argument''), w)"
proof -
  have "k \<in> set (dkeys (merge_kwargs path [(k, u)]))"
    by (simp add: merge_kwargs_def dkeys_dset del: set_map)
  moreover obtain takes required optional where
    "handler_parameters (op_handler op) = (takes, required, optional)" by (cases "handler_parameters (op_handler op)")
  ultimately have "bind_keywords (op_handler op) (dkeys (merge_kwargs path [(k, u)])) = Inl (TypeError ''unexpected keyword argument'')"
    using assms(4-6) unfolding bind_keywords_def Let_def by auto
  with assms show ?thesis
    by (simp add: endpoint_def decode_payload_def invoke_def Let_def run_catch run_bind run_return run_lift del: map_map)
qed

theorem unknown_query_parameter_witness:
  "endpoint \<lparr>api_service = demo_service, api_contract = demo_contract_libraries, api_example_installed = None,
      api_example_packaged = None, api_example_source = None, api_decode = (\<lambda>_ _. None)\<rparr>
    operations (operations ! 4) \<lparr>token_id = ''ci'', scopes = {Read}\<rparr> [] [(''page'', ''2'')] []
    (demo_world demo_net pg_empty)
   = (Inl (TypeError ''unexpected keyword argument''), demo_world demo_net pg_empty)"
proof (rule unknown_query_parameter)
  show "op_input_model (operations ! 4) = None" by code_simp
  show "find (\<lambda>x. op_id x = op_id (operations ! 4)) operations = Some (operations ! 4)" by code_simp
  have "op_handler (operations ! 4) = ''repositories''" by code_simp
  then show "''page'' \<notin> set (snd (snd (handler_parameters (op_handler (operations ! 4)))))"
    "''page'' \<notin> set (fst (snd (handler_parameters (op_handler (operations ! 4)))))"
    by (simp_all add: handler_parameters_def)
  have "op_scope (operations ! 4) = Read" by code_simp
  then show "permits \<lparr>token_id = ''ci'', scopes = {Read}\<rparr> (op_scope (operations ! 4))" by (simp add: permits_def)
qed simp

end
