(* ===== verification/Store_Refinement.thy ===== *)
theory Store_Refinement
  imports Store_Postgres
begin

section \<open>Both stores implement one specification\<close>

text \<open>
  The \<open>Store\<close> protocol as an abstract machine on finite maps, and a functional refinement to it
  from \<open>MemoryStore\<close> and from \<open>PostgresStore\<close>. It covers the operations keyed by an identifier.
  Not covered, because the classes differ there: deleting a repository (only the tables
  cascade), rebinding a job (by column or by value), and listings (only the tables have
  \<open>LIMIT\<close>).
\<close>

record store_view =
  v_repositories :: "uuid \<Rightarrow> repository option"
  v_queue_items :: "uuid \<Rightarrow> queue_item option"
  v_builds :: "uuid \<Rightarrow> build option"
  v_webhooks :: "string \<Rightarrow> webhook_delivery option"
  v_runs :: "string \<Rightarrow> extension_run option"

datatype store_call =
    CreateRepository repository_create uuid int int
  | GetRepository uuid
  | UpdateRepositoryRow uuid repository_update int
  | SaveQueueItem queue_item
  | GetQueueItem uuid
  | SaveBuild build
  | GetBuildRow uuid
  | RecordWebhook webhook_delivery
  | SaveRun extension_run
  | GetRunByKey string

datatype store_reply =
    RepositoryReply repository | QueueReply queue_item | BuildReply build | HookReply bool
  | RunReply extension_run | MaybeRunReply "extension_run option"

abbreviation replied :: "('a \<Rightarrow> store_reply) \<Rightarrow> ('s, 'a) io \<Rightarrow> ('s, store_reply) io" where
  "replied f m \<equiv> bind_io m (\<lambda>x. return_io (f x))"

fun mem_call :: "store_call \<Rightarrow> (mem_store, store_reply) io" where
  "mem_call (CreateRepository v i c u) = replied RepositoryReply (mem_create_repository v i c u)"
| "mem_call (GetRepository i) = replied RepositoryReply (mem_get_repository i)"
| "mem_call (UpdateRepositoryRow i v now) = replied RepositoryReply (mem_update_repository i v now)"
| "mem_call (SaveQueueItem q) = replied QueueReply (mem_save_queue_item q)"
| "mem_call (GetQueueItem i) = replied QueueReply (mem_get_queue_item i)"
| "mem_call (SaveBuild b) = replied BuildReply (mem_save_build b)"
| "mem_call (GetBuildRow i) = replied BuildReply (mem_get_build i)"
| "mem_call (RecordWebhook d) = replied HookReply (mem_record_webhook_once d)"
| "mem_call (SaveRun r) = replied RunReply (mem_save_extension_run r)"
| "mem_call (GetRunByKey k) = replied MaybeRunReply (mem_get_extension_run_by_key k)"

fun pg_call :: "store_call \<Rightarrow> (pg_store, store_reply) io" where
  "pg_call (CreateRepository v i c u) = replied RepositoryReply (pg_create_repository v i c u)"
| "pg_call (GetRepository i) = replied RepositoryReply (pg_get_repository i)"
| "pg_call (UpdateRepositoryRow i v now) = replied RepositoryReply (pg_update_repository i v now)"
| "pg_call (SaveQueueItem q) = replied QueueReply (pg_save_queue_item q)"
| "pg_call (GetQueueItem i) = replied QueueReply (pg_get_queue_item i)"
| "pg_call (SaveBuild b) = replied BuildReply (pg_save_build b)"
| "pg_call (GetBuildRow i) = replied BuildReply (pg_get_build i)"
| "pg_call (RecordWebhook d) = replied HookReply (pg_record_webhook_once d)"
| "pg_call (SaveRun r) = replied RunReply (pg_save_extension_run r)"
| "pg_call (GetRunByKey k) = replied MaybeRunReply (pg_get_extension_run_by_key k)"


subsection \<open>The specification\<close>

definition name_taken :: "string \<Rightarrow> store_view \<Rightarrow> bool" where
  "name_taken name v = (\<exists>i r. v_repositories v i = Some r \<and> py_lower (full_name r) = py_lower name)"

definition fetched ::
    "string \<Rightarrow> ('a \<Rightarrow> store_reply) \<Rightarrow> uuid \<Rightarrow> 'a option \<Rightarrow> store_view \<Rightarrow> store_reply outcome \<times> store_view" where
  "fetched what f i x v = (case x of
      None \<Rightarrow> (Inl (NotFoundError (what @ '' not found: '' @ str_uuid i)), v) | Some y \<Rightarrow> (Inr (f y), v))"

fun spec_call :: "store_call \<Rightarrow> store_view \<Rightarrow> store_reply outcome \<times> store_view" where
  "spec_call (CreateRepository c i created updated) v =
     (if name_taken (full_name c) v
      then (Inl (ConflictError (''repository already registered: '' @ full_name c)), v)
      else (Inr (RepositoryReply (new_repository c i created updated)),
        v\<lparr>v_repositories := (v_repositories v)(i \<mapsto> new_repository c i created updated)\<rparr>))"
| "spec_call (GetRepository i) v = fetched ''repository'' RepositoryReply i (v_repositories v i) v"
| "spec_call (UpdateRepositoryRow i u now) v = (case v_repositories v i of
      None \<Rightarrow> (Inl (NotFoundError (''repository not found: '' @ str_uuid i)), v)
    | Some r \<Rightarrow> (let r' = (apply_update u r)\<lparr>repo_updated_at := now\<rparr>
        in (Inr (RepositoryReply r'), v\<lparr>v_repositories := (v_repositories v)(i \<mapsto> r')\<rparr>)))"
| "spec_call (SaveQueueItem q) v = (Inr (QueueReply q), v\<lparr>v_queue_items := (v_queue_items v)(queue_id q \<mapsto> q)\<rparr>)"
| "spec_call (GetQueueItem i) v = fetched ''queue item'' QueueReply i (v_queue_items v i) v"
| "spec_call (SaveBuild b) v = (Inr (BuildReply b), v\<lparr>v_builds := (v_builds v)(build_id b \<mapsto> b)\<rparr>)"
| "spec_call (GetBuildRow i) v = fetched ''build'' BuildReply i (v_builds v i) v"
| "spec_call (RecordWebhook d) v =
     (if v_webhooks v (hook_delivery_id d) = None
      then (Inr (HookReply True), v\<lparr>v_webhooks := (v_webhooks v)(hook_delivery_id d \<mapsto> d)\<rparr>)
      else (Inr (HookReply False), v))"
| "spec_call (SaveRun r) v = (case v_runs v (run_idempotency_key r) of
      Some q \<Rightarrow> if run_id q \<noteq> run_id r then (Inr (RunReply q), v)
        else (Inr (RunReply r), v\<lparr>v_runs := (v_runs v)(run_idempotency_key r \<mapsto> r)\<rparr>)
    | None \<Rightarrow> (Inr (RunReply r), v\<lparr>v_runs := (v_runs v)(run_idempotency_key r \<mapsto> r)\<rparr>))"
| "spec_call (GetRunByKey k) v = (Inr (MaybeRunReply (v_runs v k)), v)"

text \<open>
  What the service sees to before a call: identifiers it draws are new, what it stores belongs
  to a registered repository, a run it saves is new or was read under its key.
\<close>

fun proper :: "store_call \<Rightarrow> store_view \<Rightarrow> bool" where
  "proper (CreateRepository c i created updated) v = (v_repositories v i = None)"
| "proper (SaveQueueItem q) v = (v_queue_items v (queue_id q) \<noteq> None \<or> v_repositories v (queue_repository_id q) \<noteq> None)"
| "proper (SaveBuild b) v = (v_builds v (build_id b) \<noteq> None \<or> v_repositories v (build_repository_id b) \<noteq> None)"
| "proper (SaveRun r) v = (v_runs v (run_idempotency_key r) \<noteq> None
     \<or> (\<forall>k q. v_runs v k = Some q \<longrightarrow> run_id q \<noteq> run_id r))"
| "proper _ v = True"


subsection \<open>The views\<close>

definition mem_view :: "mem_store \<Rightarrow> store_view" where
  "mem_view s = \<lparr>v_repositories = map_of (mem_repositories s), v_queue_items = map_of (mem_queue_items s),
     v_builds = map_of (mem_builds s), v_webhooks = map_of (mem_webhooks s), v_runs = (\<lambda>k. mem_run_by_key k s)\<rparr>"

definition pg_view :: "pg_store \<Rightarrow> store_view" where
  "pg_view s = \<lparr>v_repositories = map_option rr_data \<circ> map_of (pg_repositories s),
     v_queue_items = map_option qr_data \<circ> map_of (pg_queue_items s),
     v_builds = map_option br_data \<circ> map_of (pg_builds s),
     v_webhooks = map_option wr_data \<circ> map_of (pg_webhooks s), v_runs = (\<lambda>k. pg_run_by_key k s)\<rparr>"

lemma list_ex_values: "distinct (dkeys d) \<Longrightarrow> list_ex P (dvalues d) = (\<exists>i r. dget d i = Some r \<and> P r)"
  by (force simp: list_ex_iff)

lemma mem_name_taken:
  assumes "mem_inv s"
  shows "name_taken n (mem_view s)
    = list_ex (\<lambda>item. py_lower (full_name item) = py_lower n) (dvalues (mem_repositories s))"
  using assms by (subst list_ex_values) (auto simp: mem_inv_def filed_under_def name_taken_def mem_view_def)

lemma pg_name_taken:
  assumes "pg_inv s"
  shows "name_taken n (pg_view s) = list_ex (\<lambda>row. rr_full_name row = py_lower n) (dvalues (pg_repositories s))"
proof -
  have column: "rr_full_name row = py_lower (full_name (rr_data row))" if "dget (pg_repositories s) i = Some row" for i row
    using assms map_of_SomeD [OF that] by (auto simp: pg_inv_def)
  have "list_ex (\<lambda>row. rr_full_name row = py_lower n) (dvalues (pg_repositories s))
      = (\<exists>i row. dget (pg_repositories s) i = Some row \<and> rr_full_name row = py_lower n)"
    by (rule list_ex_values [OF pg_inv_parts(1) [OF assms]])
  also have "\<dots> = name_taken n (pg_view s)"
    unfolding name_taken_def pg_view_def using column by (auto simp del: map_of_eq_Some_iff; metis)
  finally show ?thesis by simp
qed

lemma map_of_snoc: "dget t k = None \<Longrightarrow> map_of (t @ [(k, v)]) = (map_of t)(k \<mapsto> v)"
  by (rule ext) (auto simp: dget_snoc simp del: map_of_append split: option.splits)


subsection \<open>MemoryStore\<close>

lemma mem_view_read:
  "v_repositories (mem_view s) i = dget (mem_repositories s) i" "v_queue_items (mem_view s) i = dget (mem_queue_items s) i"
  "v_builds (mem_view s) i = dget (mem_builds s) i" "v_webhooks (mem_view s) k = dget (mem_webhooks s) k"
  "v_runs (mem_view s) k = mem_run_by_key k s"
  by (simp_all add: mem_view_def)

lemma mem_view_write:
  "mem_view (s\<lparr>mem_repositories := dset i r (mem_repositories s)\<rparr>)
    = (mem_view s)\<lparr>v_repositories := (v_repositories (mem_view s))(i \<mapsto> r)\<rparr>"
  "mem_view (s\<lparr>mem_queue_items := dset i q (mem_queue_items s)\<rparr>)
    = (mem_view s)\<lparr>v_queue_items := (v_queue_items (mem_view s))(i \<mapsto> q)\<rparr>"
  "mem_view (s\<lparr>mem_builds := dset i b (mem_builds s)\<rparr>) = (mem_view s)\<lparr>v_builds := (v_builds (mem_view s))(i \<mapsto> b)\<rparr>"
  "mem_view (s\<lparr>mem_webhooks := dset k d (mem_webhooks s)\<rparr>) = (mem_view s)\<lparr>v_webhooks := (v_webhooks (mem_view s))(k \<mapsto> d)\<rparr>"
  by (simp_all add: mem_view_def mem_run_by_key_def AList.update_conv' del: dget_dset cong: option.case_cong)

lemma mem_proper_run:
  assumes "mem_inv s" and "proper (SaveRun r) (mem_view s)"
  shows "mem_run_fresh (run_id r) s \<or> mem_run_by_key (run_idempotency_key r) s \<noteq> None"
proof (rule ccontr)
  assume *: "\<not> ?thesis"
  then obtain q where q: "dget (mem_extension_runs s) (run_id r) = Some q"
    by (auto simp: mem_run_fresh_def)
  with assms(1) have "mem_run_by_key (run_idempotency_key q) s = Some q \<and> run_id q = run_id r"
    unfolding mem_inv_def views_agree_def mem_run_by_key_def
    by (auto simp del: map_of_eq_Some_iff dest: filed_underD)
  with assms(2) * show False by (auto simp: mem_view_def)
qed

lemma mem_save_run_view:
  assumes "mem_inv s" and "proper (SaveRun r) (mem_view s)"
  shows "(case mem_save_extension_run r s of (x, t) \<Rightarrow> (map_sum id RunReply x, mem_view t)) = spec_call (SaveRun r) (mem_view s)"
proof -
  note fresh = mem_proper_run [OF assms]
  have view: "mem_view (snd (mem_save_extension_run r s))
      = (mem_view s)\<lparr>v_runs := \<lambda>k. mem_run_by_key k (snd (mem_save_extension_run r s))\<rparr>"
    by (auto simp: mem_view_def mem_save_extension_run_def Let_def split: option.splits)
  note other = mem_save_run_other [OF assms(1) _ fresh]
  show ?thesis
  proof (cases "mem_run_by_key (run_idempotency_key r) s")
    case None
    from mem_save_run_cases(1) [OF assms(1) None] None show ?thesis
      by (cases "mem_save_extension_run r s") (use view other in \<open>auto simp: fun_eq_iff mem_view_def\<close>)
  next
    case (Some q)
    with mem_save_run_cases(2,3) [OF assms(1) Some] show ?thesis
      by (cases "mem_save_extension_run r s"; cases "run_id q = run_id r")
        (use view other in \<open>auto simp: fun_eq_iff mem_view_def\<close>)
  qed
qed

text \<open>
  On proper calls \<open>MemoryStore\<close> answers as the specification does and moves to the view the
  specification moves to; \<open>PostgresStore\<close> does so too.
\<close>

lemma mem_refines_spec:
  assumes "mem_inv s" and "proper c (mem_view s)" and "mem_call c s = (r, t)"
  shows "spec_call c (mem_view s) = (r, mem_view t)"
proof (cases c)
  case (CreateRepository v i cr u)
  with assms(3) mem_name_taken [OF assms(1)] show ?thesis
    by (auto simp: mem_create_repository_def run_bind run_return Let_def new_repository_def mem_view_write split: if_splits)
next
  case (SaveRun x)
  with mem_save_run_view [OF assms(1), of x] assms(2,3) show ?thesis
    by (cases "mem_save_extension_run x s") (auto simp: run_bind run_return split: sum.splits)
qed (use assms in \<open>auto simp: mem_get_repository_def mem_update_repository_def mem_save_queue_item_def
      mem_get_queue_item_def mem_save_build_def mem_get_build_def mem_record_webhook_once_def
      mem_get_extension_run_by_key_def fetched_def io_simps Let_def mem_view_read mem_view_write
      split: option.splits if_splits\<close>)


subsection \<open>PostgresStore\<close>

lemma pg_view_read:
  "v_repositories (pg_view s) i = map_option rr_data (dget (pg_repositories s) i)"
  "v_queue_items (pg_view s) i = map_option qr_data (dget (pg_queue_items s) i)"
  "v_builds (pg_view s) i = map_option br_data (dget (pg_builds s) i)"
  "v_webhooks (pg_view s) k = map_option wr_data (dget (pg_webhooks s) k)" "v_runs (pg_view s) k = pg_run_by_key k s"
  by (simp_all add: pg_view_def)

lemma pg_run_by_key_cong: "pg_extension_runs t = pg_extension_runs s \<Longrightarrow> pg_run_by_key k t = pg_run_by_key k s"
  by (simp add: pg_run_by_key_def pg_run_row_def)

lemma column_set: "map_option f \<circ> map_of (dset k row t) = (map_option f \<circ> map_of t)(k \<mapsto> f row)"
  by (rule ext) simp

lemma column_add: "dget t k = None \<Longrightarrow> map_option f \<circ> map_of (t @ [(k, row)]) = (map_option f \<circ> map_of t)(k \<mapsto> f row)"
  by (rule ext) (simp add: map_of_snoc del: map_of_append)

lemma pg_view_repositories:
  "pg_view (s\<lparr>pg_repositories := ts\<rparr>) = (pg_view s)\<lparr>v_repositories := map_option rr_data \<circ> map_of ts\<rparr>"
  "pg_view (s\<lparr>pg_queue_items := qs\<rparr>) = (pg_view s)\<lparr>v_queue_items := map_option qr_data \<circ> map_of qs\<rparr>"
  "pg_view (s\<lparr>pg_builds := bs\<rparr>) = (pg_view s)\<lparr>v_builds := map_option br_data \<circ> map_of bs\<rparr>"
  "pg_view (s\<lparr>pg_webhooks := ws\<rparr>) = (pg_view s)\<lparr>v_webhooks := map_option wr_data \<circ> map_of ws\<rparr>"
  by (simp_all add: pg_view_def pg_run_by_key_def pg_run_row_def)

lemma pg_view_columns:
  "map_option rr_data \<circ> map_of (pg_repositories s) = v_repositories (pg_view s)"
  "map_option qr_data \<circ> map_of (pg_queue_items s) = v_queue_items (pg_view s)"
  "map_option br_data \<circ> map_of (pg_builds s) = v_builds (pg_view s)"
  "map_option wr_data \<circ> map_of (pg_webhooks s) = v_webhooks (pg_view s)"
  by (simp_all add: pg_view_def)

lemmas pg_view_write = pg_view_repositories column_set column_add pg_view_columns

lemma pg_save_run_view:
  assumes "pg_inv s" and "proper (SaveRun r) (pg_view s)"
  shows "(case pg_save_extension_run r s of (x, t) \<Rightarrow> (map_sum id RunReply x, pg_view t)) = spec_call (SaveRun r) (pg_view s)"
proof -
  have view: "pg_view (snd (pg_save_extension_run r s))
      = (pg_view s)\<lparr>v_runs := \<lambda>k. pg_run_by_key k (snd (pg_save_extension_run r s))\<rparr>"
    by (auto simp: pg_view_def pg_save_extension_run_def split: option.splits)
  show ?thesis
  proof (cases "pg_run_by_key (run_idempotency_key r) s")
    case None
    have fresh: "pg_run_fresh (run_id r) s"
    proof (rule ccontr)
      assume "\<not> ?thesis"
      then obtain row where row: "dget (pg_extension_runs s) (run_id r) = Some row"
        by (auto simp: pg_run_fresh_def)
      then have "pg_run_row (er_idempotency_key row) s = Some (run_id r, row)"
        unfolding pg_run_row_iff [OF assms(1)] by (simp add: map_of_SomeD)
      then have "pg_run_by_key (er_idempotency_key row) s = Some (er_data row)" by (simp add: pg_run_by_key_def)
      moreover have "run_id (er_data row) = run_id r" using pg_inv_idents(4) [OF assms(1) row] .
      ultimately show False using assms(2) None by (auto simp: pg_view_def)
    qed
    from pg_save_run_new [OF assms(1) None fresh] None show ?thesis
      by (cases "pg_save_extension_run r s") (use view in \<open>auto simp: fun_eq_iff pg_view_def\<close>)
  next
    case (Some q)
    with pg_save_run_known [OF assms(1) Some] show ?thesis
      by (cases "pg_save_extension_run r s"; cases "run_id q = run_id r")
        (use view in \<open>auto simp: fun_eq_iff pg_view_def\<close>)
  qed
qed

lemma pg_refines_spec:
  assumes "pg_inv s" and "proper c (pg_view s)" and "pg_call c s = (r, t)"
  shows "spec_call c (pg_view s) = (r, pg_view t)"
proof (cases c)
  case (CreateRepository v i cr u)
  with assms(2) have "dget (pg_repositories s) i = None" by (simp add: pg_view_read)
  with CreateRepository assms(3) pg_name_taken [OF assms(1)] show ?thesis
    by (auto simp: pg_create_repository_def run_bind run_return Let_def new_repository_def full_name_def
        pg_view_write simp del: map_of_append dget_dset split: if_splits)
next
  case (SaveRun x)
  with pg_save_run_view [OF assms(1), of x] assms(2,3) show ?thesis
    by (cases "pg_save_extension_run x s") (auto simp: run_bind run_return split: sum.splits)
next
  case (UpdateRepositoryRow i u now)
  with assms(3) show ?thesis
    by (auto simp: pg_update_repository_def pg_get_repository_def run_bind run_return Let_def pg_view_read pg_view_write
        simp del: map_of_append split: option.splits)
next
  case (SaveQueueItem q)
  with assms(2,3) show ?thesis
    by (auto simp: pg_save_queue_item_def run_bind run_return pg_view_read pg_view_write
        simp del: map_of_append split: option.splits)
next
  case (SaveBuild b)
  with assms(2,3) show ?thesis
    by (auto simp: pg_save_build_def run_bind run_return pg_view_read pg_view_write
        simp del: map_of_append split: option.splits)
next
  case (RecordWebhook d)
  with assms(3) show ?thesis
    by (auto simp: pg_record_webhook_once_def run_bind run_return pg_view_read pg_view_write
        simp del: map_of_append split: if_splits)
qed (use assms(3) in \<open>auto simp: pg_get_repository_def pg_get_queue_item_def pg_get_build_def
      pg_get_extension_run_by_key_def fetched_def io_simps pg_view_read split: option.splits\<close>)


subsection \<open>Sequences of calls\<close>

fun answers :: "(store_call \<Rightarrow> ('s, store_reply) io) \<Rightarrow> store_call list \<Rightarrow> 's \<Rightarrow> store_reply outcome list" where
  "answers call [] s = []"
| "answers call (c # cs) s = (case call c s of (r, t) \<Rightarrow> r # answers call cs t)"

fun all_proper :: "store_call list \<Rightarrow> store_view \<Rightarrow> bool" where
  "all_proper [] v = True"
| "all_proper (c # cs) v = (proper c v \<and> all_proper cs (snd (spec_call c v)))"

lemma mem_call_inv: "mem_inv s \<Longrightarrow> proper c (mem_view s) \<Longrightarrow> mem_call c s = (r, t) \<Longrightarrow> mem_inv t"
proof (cases c)
  case (SaveRun x)
  assume "mem_inv s" "proper c (mem_view s)" "mem_call c s = (r, t)"
  with SaveRun mem_save_run_inv [OF \<open>mem_inv s\<close> mem_proper_run] show "mem_inv t"
    by (cases "mem_save_extension_run x s") (fastforce simp: run_bind run_return split: sum.splits)
next
  case (UpdateRepositoryRow i u now)
  assume s: "mem_inv s" and "mem_call c s = (r, t)"
  moreover have "dget (mem_repositories s) i = Some x \<Longrightarrow> repo_id x = i" for x
    using s filed_underD [of repo_id "mem_repositories s" i x] unfolding mem_inv_def by blast
  ultimately show "mem_inv t"
    using UpdateRepositoryRow
    by (auto simp: mem_get_repository_def mem_update_repository_def io_simps Let_def mem_inv_def
        simp del: map_of_eq_Some_iff split: option.splits)
qed (auto simp: mem_create_repository_def mem_get_repository_def mem_save_queue_item_def
      mem_get_queue_item_def mem_save_build_def mem_get_build_def mem_record_webhook_once_def
      mem_get_extension_run_by_key_def io_simps Let_def mem_inv_def new_repository_def
      split: option.splits if_splits)

lemma pg_call_inv: "pg_inv s \<Longrightarrow> pg_call c s = (r, t) \<Longrightarrow> pg_inv t"
proof -
  have keep: "pg_inv t" if "pg_inv (snd (m s))" "replied f m s = (r, t)" for m :: "(pg_store, 'a) io" and f
    using that by (cases "m s") (auto simp: run_bind run_return split: sum.splits)
  assume s: "pg_inv s" and call: "pg_call c s = (r, t)"
  have same: "pg_inv (snd (pg_get_repository i s))" "pg_inv (snd (pg_get_queue_item i s))"
    "pg_inv (snd (pg_get_build i s))" "pg_inv (snd (pg_get_extension_run_by_key k s))" for i k
    using s by (auto simp: pg_get_repository_def pg_get_queue_item_def pg_get_build_def
        pg_get_extension_run_by_key_def run_get split: option.splits)
  show "pg_inv t"
    using call
    by (cases c) (auto elim!: keep [rotated] intro: same pg_create_repository_inv [OF s] pg_update_repository_inv [OF s]
        pg_save_queue_item_inv [OF s] pg_save_build_inv [OF s] pg_record_webhook_inv [OF s] pg_save_extension_run_inv [OF s])
qed

fun spec_answers :: "store_call list \<Rightarrow> store_view \<Rightarrow> store_reply outcome list" where
  "spec_answers [] v = []"
| "spec_answers (c # cs) v = (case spec_call c v of (r, v') \<Rightarrow> r # spec_answers cs v')"

lemma postgres_answers:
  assumes "pg_inv s" and "all_proper cs (pg_view s)"
  shows "answers pg_call cs s = spec_answers cs (pg_view s)"
  using assms
proof (induction cs arbitrary: s)
  case Nil
  then show ?case by simp
next
  case (Cons c cs)
  obtain r t where call: "pg_call c s = (r, t)" by (cases "pg_call c s")
  from pg_refines_spec [OF Cons.prems(1) _ call] pg_call_inv [OF Cons.prems(1) call] Cons.prems(2) Cons.IH [of t]
  show ?case by (simp add: call)
qed

lemma memory_answers:
  "mem_inv s \<Longrightarrow> all_proper cs (mem_view s) \<Longrightarrow> answers mem_call cs s = spec_answers cs (mem_view s)"
proof (induction cs arbitrary: s)
  case Nil
  then show ?case by simp
next
  case (Cons c cs)
  obtain r t where call: "mem_call c s = (r, t)" by (cases "mem_call c s")
  from mem_refines_spec [OF Cons.prems(1) _ call] mem_call_inv [OF Cons.prems(1) _ call] Cons.prems(2) Cons.IH [of t]
  show ?case by (simp add: call)
qed





end
