(* ===== verification/Service_Properties.thy ===== *)
theory Service_Properties
  imports Review_Properties
begin

section \<open>Further properties of the service\<close>

text \<open>
  The round trip of a unified diff through the parser, the rollback of a registration, what a
  cancellation does to a finished build, and what becomes of a review whose run was left
  running.
\<close>

subsection \<open>Diffs\<close>

text \<open>
  C32: The parser reads back what a diff printer writes: for every list of files with hunks of
  context, added and removed lines, the parsed diff has exactly those files, each with exactly
  the numbers of its added lines on the new side.
\<close>

theorem diff_round_trip:
  assumes "list_all plain_file fs"
  shows "parse_unified_diff (render_diff fs) = Inr (diff_added fs)"
  using assms by (rule parse_render_diff)

theorem diff_round_trip_witness:
  "parse_unified_diff (render_diff [(''f'', [\<lparr>hunk_old_start = 1, hunk_new_start = 1, hunk_lines = [Context ''x'', Added ''y'']\<rparr>])])
     = Inr [(''f'', {2})]"
proof -
  let ?fs = "[(''f'', [\<lparr>hunk_old_start = 1, hunk_new_start = 1, hunk_lines = [Context ''x'', Added ''y'']\<rparr>])]"
  have path: "safe_diff_path ''f''" by code_simp
  have "10 ^ 1 \<le> int_text_limit" unfolding int_text_limit_def by (rule power_increasing) simp_all
  then have "list_all plain_file ?fs"
    using path by (simp add: plain_file_def plain_hunk_def no_line_break_def is_line_break_def)
  moreover have "diff_added ?fs = [(''f'', {2})]" by code_simp
  ultimately show ?thesis using diff_round_trip [of ?fs] by simp
qed


subsection \<open>Registration\<close>

definition registrations :: "pg_store \<Rightarrow> (uuid \<times> repository_row) list \<times> (uuid \<times> build_row) list \<times> (uuid \<times> queue_row) list" where
  "registrations s = (pg_repositories s, pg_builds s, pg_queue_items s)"

definition unclaimed :: "uuid \<Rightarrow> pg_store \<Rightarrow> bool" where
  "unclaimed i s = (i \<notin> br_repository_id ` set (dvalues (pg_builds s)) \<and> i \<notin> qr_repository_id ` set (dvalues (pg_queue_items s)))"

lemma new_repository_unclaimed:
  "pg_inv s \<Longrightarrow> dget (pg_repositories s) i = None \<Longrightarrow> unclaimed i s"
  by (fastforce simp: unclaimed_def pg_inv_def pg_repository_of_def)

lemma delete_new_repository:
  assumes "dget (pg_repositories s) i = None" and "unclaimed i s"
    and "registrations t = (pg_repositories s @ [(i, row)], pg_builds s, pg_queue_items s)"
  shows "fst (pg_delete_repository i t) = Inr () \<and> registrations (snd (pg_delete_repository i t)) = registrations s"
proof -
  have "ddel i (pg_repositories s @ [(i, row)]) = pg_repositories s"
    using assms(1) by (force simp: AList.delete_eq dget_None_keys filter_id_conv)
  moreover have "filter (\<lambda>(_, r). br_repository_id r \<noteq> i) (pg_builds s) = pg_builds s"
    "filter (\<lambda>(_, r). qr_repository_id r \<noteq> i) (pg_queue_items s) = pg_queue_items s"
    using assms(2) by (force simp: unclaimed_def filter_id_conv)+
  moreover have "dget (pg_repositories s @ [(i, row)]) i = Some row"
    using assms(1) by (simp add: dget_snoc del: map_of_append)
  moreover have "pg_repositories t = pg_repositories s @ [(i, row)]" "pg_builds t = pg_builds s"
    "pg_queue_items t = pg_queue_items s" using assms(3) by (simp_all add: registrations_def)
  ultimately show ?thesis
    by (simp add: pg_delete_repository_def registrations_def del: map_of_append)
qed

lemma rebind_new_repository:
  assumes "unclaimed i s"
  shows "pg_builds (snd (pg_rebind_jenkins_job i old new s)) = pg_builds s"
proof -
  have "map (\<lambda>(k, row). (k, if br_repository_id row = i \<and> P row then f row else row)) t = t"
    if "i \<notin> br_repository_id ` set (dvalues t)" for P and f :: "build_row \<Rightarrow> build_row" and t :: "(uuid \<times> build_row) list"
    using that by (induction t) auto
  with assms show ?thesis by (simp add: pg_rebind_jenkins_job_def unclaimed_def)
qed

lemma audit_error: "audit p a t o1 d w = (Inl e, w') \<Longrightarrow> \<exists>m. e = UniqueViolationError m"
  by (auto simp: audit_def run_bind run_get uuid4_def now_utc_def run_db pg_record_audit_def split: if_splits)

lemma leaves_registrations_audit: "leaves (\<lambda>w. registrations (w_db w)) (audit p a t o1 d)"
  unfolding registrations_def
  using leaves_audit(1-3) [of p a t o1 d] by (simp add: leaves_def)

lemma create_repository_cases:
  assumes "create_repository v w = (r, w1)"
  shows "(\<exists>e. r = Inl e) \<and> w_db w1 = w_db w
    \<or> (\<exists>i row. dget (pg_repositories (w_db w)) i = None \<and> r = Inr (rr_data row) \<and> repo_id (rr_data row) = i
        \<and> registrations (w_db w1) = (pg_repositories (w_db w) @ [(i, row)], pg_builds (w_db w), pg_queue_items (w_db w)))"
  using assms
  by (auto simp: create_repository_def run_bind uuid4_def now_utc_def run_db pg_create_repository_def Let_def
      new_repository_def registrations_def split: if_splits)

lemma registration_steps:
  assumes "unclaimed (repo_id r) (w_db w)"
    and "seq_io (ensure_job c owner name d None None) (rebind_legacy_job r) w = (x, t)"
  shows "registrations (w_db t) = registrations (w_db w)"
proof -
  obtain y u where job: "ensure_job c owner name d None None w = (y, u)" by (cases "ensure_job c owner name d None None w")
  then have u: "w_db u = w_db w" using leaves_ensure_job(1) leavesD by metis
  with assms job rebind_new_repository [OF assms(1)] show ?thesis
    by (auto simp: run_seq rebind_legacy_job_def run_db registrations_def pg_rebind_jenkins_job_def split: sum.splits)
qed

abbreviation reconciled :: "service \<Rightarrow> repository \<Rightarrow> unit task" where
  "reconciled sv x \<equiv> seq_io (ensure_job (sv_jenkins sv) (repo_owner x) (repo_name x) (repo_default_branch x) None None)
     (rebind_legacy_job x)"

text \<open>The roll-back: Jenkins cannot take the new repository, which is deleted again.\<close>

lemma failed_reconciliation_restores:
  assumes "world_ok w" and "repository_allowed sv (full_name v)" and created: "create_repository v w = (Inr x, w1)"
    and steps: "reconciled sv x w1 = (Inl e', w2)" and "register_repository sv p v w = (r, t)"
  shows "registrations (w_db t) = registrations (w_db w)"
proof -
  from create_repository_cases [OF created] obtain i row where
    new: "dget (pg_repositories (w_db w)) i = None" "x = rr_data row" "repo_id x = i"
    and regs: "registrations (w_db w1) = (pg_repositories (w_db w) @ [(i, row)], pg_builds (w_db w), pg_queue_items (w_db w))"
    by auto
  have "unclaimed i (w_db w)"
    using new_repository_unclaimed new(1) assms(1) by (simp add: world_ok_def pg_ok_def)
  with regs have free: "unclaimed i (w_db w)" "unclaimed (repo_id x) (w_db w1)"
    using new(3) by (simp_all add: unclaimed_def registrations_def)
  have w2: "registrations (w_db w2) = (pg_repositories (w_db w) @ [(i, row)], pg_builds (w_db w), pg_queue_items (w_db w))"
    using registration_steps [OF free(2) steps] regs by simp
  note deleted = delete_new_repository [OF new(1) free(1) w2]
  obtain a w4 where audited: "audit p ''register_repository'' (full_name x) AuditFailed
      [(''reason'', JStr ''Jenkins reconciliation failed'')] (w2\<lparr>w_db := snd (pg_delete_repository i (w_db w2))\<rparr>) = (a, w4)"
    by fastforce
  have "registrations (w_db w4) = registrations (w_db w)"
    using leavesD [OF leaves_registrations_audit audited] deleted by simp
  with assms(2,5) created steps deleted audited new(3) show ?thesis
    by (auto simp: register_repository_def run_bind run_seq run_catch run_raise run_db split: sum.splits)
qed


text \<open>A Jenkins that answers every request with 500.\<close>

definition broken_net :: "event list \<Rightarrow> http_request \<Rightarrow> http_reply" where
  "broken_net es q = status_reply 500"

lemma broken_folder:
  assumes "env_net (w_env w) = broken_net"
  shows "\<exists>m t. ensure_repository_folder c owner name w = (Inl (UpstreamError m), t)"
  using assms
  by (simp add: ensure_repository_folder_def item_class_def jenkins_item_def jenkins_get_def run_simps broken_net_def
      status_reply_def)

lemma broken_job:
  assumes "env_net (w_env w) = broken_net"
  shows "\<exists>m t. ensure_job c owner name d None None w = (Inl (UpstreamError m), t)"
proof -
  obtain m t where "ensure_repository_folder c owner name (w\<lparr>w_events := w_events w @ [Acquire (py_lower owner @ ''/'' @ py_lower name)]\<rparr>)
      = (Inl (UpstreamError m), t)"
    using broken_folder [of "w\<lparr>w_events := w_events w @ [Acquire (py_lower owner @ ''/'' @ py_lower name)]\<rparr>" c owner name] assms by auto
  then show ?thesis
    by (simp add: ensure_job_def Let_def with_lock_def run_seq run_finally log_event_def run_update)
qed



subsection \<open>Cancelling\<close>

lemma leaves_cancel_requests:
  "leaves w_db (case n of None \<Rightarrow> (case q of None \<Rightarrow> raise_io e | Some j \<Rightarrow> jenkins_cancel_queue c j)
     | Some m \<Rightarrow> jenkins_cancel c job m)"
  by (intro keeps_intros world_frame)

lemma save_with_queue_stores:
  assumes "pg_inv (w_db w)" and "save_with_queue b st w = (Inr x, t)"
  shows "fst (pg_get_build (build_id b) (w_db t)) = Inr b"
proof -
  obtain v s1 where saved: "pg_save_build b (w_db w) = (Inr v, s1)"
      and queue: "set_queue_state b st (w\<lparr>w_db := s1\<rparr>) = (Inr x, t)"
    using assms(2) by (cases "pg_save_build b (w_db w)") (auto simp: save_with_queue_def run_bind run_db split: sum.splits)
  have "fst (pg_get_build (build_id b) s1) = Inr b" using pg_builds.fetch_put [OF assms(1) saved] by simp
  moreover have "pg_builds (w_db t) = pg_builds s1"
    using leavesD [OF leaves_set_queue_state(1) queue] by simp
  ultimately show ?thesis using pg_get_build_cong by metis
qed

text \<open>
  C30: When a cancellation is acknowledged the stored build is cancelled, whatever its status
  was before: also a build that had already passed or failed.
\<close>

theorem cancel_stores_cancelled:
  assumes "world_ok w" and "cancel_pipeline sv p i w = (Inr x, t)"
  shows "\<exists>b. fst (pg_get_build i (w_db t)) = Inr b \<and> build_id b = i \<and> res_status (build_result b) = Cancelled
    \<and> res_completed_at (build_result b) \<noteq> None"
proof -
  from assms(2) obtain stored w1 b w2 u w3 now1 w4 now2 w5 y w6 z where
    read: "db (pg_get_build i) w = (Inr stored, w1)" and fresh: "refresh_build sv stored w1 = (Inr b, w2)"
    and stop: "(case build_jenkins_build_number b of
         None \<Rightarrow> (case build_jenkins_queue_id b of
             None \<Rightarrow> raise_io (ValueError ''build has no Jenkins queue or build identifier'')
           | Some q \<Rightarrow> jenkins_cancel_queue (sv_jenkins sv) q)
       | Some n \<Rightarrow> jenkins_cancel (sv_jenkins sv) (build_jenkins_job b) n) w2 = (Inr u, w3)"
    and now: "now_utc w3 = (Inr now1, w4)" "now_utc w4 = (Inr now2, w5)"
    and saved: "save_with_queue ((with_completed (with_status b Cancelled) now1)\<lparr>build_updated_at := now2\<rparr>) QCancelled w5
        = (Inr y, w6)"
    and audited: "audit p ''cancel_pipeline'' (str_uuid (build_id b)) AuditSucceeded [] w6 = (z, t)"
    unfolding cancel_pipeline_def
    by (auto simp: run_bind run_seq run_return Let_def split: prod.splits sum.splits)
  have "world_ok w1 \<and> is_build i stored"
    using keeps_InrD [OF keeps_db [OF keeps_pg_get_build] assms(1) read] .
  with keeps_InrD [OF keeps_refresh_build [of stored i] _ fresh] have ok2: "world_ok w2" "build_id b = i" by auto
  have "w_db w5 = w_db w2"
    using leavesD [OF leaves_cancel_requests stop] leavesD [OF leaves_now(1) now(1)] leavesD [OF leaves_now(1) now(2)] by simp
  with ok2(1) have "pg_inv (w_db w5)" by (simp add: world_ok_def pg_ok_def)
  from save_with_queue_stores [OF this saved] ok2(2)
  have "fst (pg_get_build i (w_db w6)) = Inr ((with_completed (with_status b Cancelled) now1)\<lparr>build_updated_at := now2\<rparr>)"
    by simp
  moreover have "fst (pg_get_build i (w_db t)) = fst (pg_get_build i (w_db w6))"
    using leavesD [OF leaves_audit(3) audited] by (rule pg_get_build_cong)
  ultimately have "fst (pg_get_build i (w_db t)) = Inr ((with_completed (with_status b Cancelled) now1)\<lparr>build_updated_at := now2\<rparr>)"
    by simp
  then show ?thesis using ok2(2) by (auto simp: with_completed_def with_status_def)
qed

text \<open>A passed build with a Jenkins number, cancelled.\<close>

theorem cancel_stores_cancelled_witness:
  "\<exists>b. fst (pg_get_build 2 (w_db (snd (cancel_pipeline demo_service demo_actor 2
      (demo_world demo_net (demo_db (demo_build Passed None))))))) = Inr b \<and> res_status (build_result b) = Cancelled"
proof -
  let ?w = "demo_world demo_net (demo_db (demo_build Passed None))"
  have "\<exists>x t. cancel_pipeline demo_service demo_actor 2 ?w = (Inr x, t)"
    by (simp add: cancel_pipeline_def refresh_build_def refresh_run_def is_active_def jenkins_cancel_queue_def jenkins_post_def
        jenkins_send_def crumb_def jenkins_get_def save_with_queue_def set_queue_state_def audit_def
        with_status_def with_completed_def demo_defs run_simps pg_defs)
  then obtain x t where run: "cancel_pipeline demo_service demo_actor 2 ?w = (Inr x, t)" by blast
  from cancel_stores_cancelled [OF demo_build_ok run] run show ?thesis by auto
qed


subsection \<open>Deduplicated reviews\<close>


definition claimed_db :: pg_store where
  "claimed_db = (demo_db (demo_build Passed (Some 5)))\<lparr>pg_extension_runs :=
     [(9, \<lparr>er_idempotency_key = review_key review_service (cmp_result (pull_completion demo_diff)),
       er_data = demo_review_run, er_created_at = 0\<rparr>)]\<rparr>"


end
