(* ===== verification/Interleaving.thy ===== *)
theory Interleaving
  imports Durable
begin

section \<open>Calls that overlap\<close>

text \<open>
  A coroutine runs at once from one \<open>await\<close> to the next. A call is split into such sections,
  and any number of calls is interleaved, section by section, with anything else that only adds
  to what is durable. The locale \<open>claiming\<close> is the contract of calls that claim a key before
  they act, and proves that no key is claimed twice.
\<close>

subsection \<open>What others may do in between\<close>

text \<open>
  The environment is the same, identifiers are only drawn, and whatever every statement of the
  store preserves still holds.
\<close>

definition grows :: "world \<Rightarrow> world \<Rightarrow> bool" where
  "grows t u = (w_env u = w_env t \<and> w_uuids t \<le> w_uuids u \<and> (\<forall>P. durable P \<longrightarrow> P (w_db t) \<longrightarrow> P (w_db u)))"

lemma grows_refl: "grows t t"
  by (simp add: grows_def)

lemma grows_durable: "grows t u \<Longrightarrow> durable P \<Longrightarrow> P (w_db t) \<Longrightarrow> P (w_db u)"
  unfolding grows_def by blast

lemmas durable_facts = inv_durable.durable_axioms key_durable.durable_axioms hook_durable.durable_axioms

lemma grows_inv: "grows t u \<Longrightarrow> pg_inv (w_db t) \<Longrightarrow> pg_inv (w_db u)"
  and grows_owner: "grows t u \<Longrightarrow> key_owned k i (w_db t) \<Longrightarrow> key_owned k i (w_db u)"
  and grows_hook: "grows t u \<Longrightarrow> pg_hook_seen j (w_db t) \<Longrightarrow> pg_hook_seen j (w_db u)"
  by (rule grows_durable, assumption, rule durable_facts, assumption)+

text \<open>An operation every run of which grows the world.\<close>

definition drawn :: "env \<Rightarrow> nat \<Rightarrow> world \<Rightarrow> bool" where
  "drawn e n w = (w_env w = e \<and> n \<le> w_uuids w)"

definition benign :: "'a task \<Rightarrow> bool" where
  "benign m = ((\<forall>e n. preserves (drawn e n) m) \<and> (\<forall>P. durable P \<longrightarrow> preserves (on_db P) m))"

lemma benignI:
  "(\<And>e n. preserves (drawn e n) m) \<Longrightarrow> (\<And>P. durable P \<Longrightarrow> preserves (on_db P) m) \<Longrightarrow> benign m"
  by (simp add: benign_def)

lemma benign_grows: "benign m \<Longrightarrow> m t = (r, u) \<Longrightarrow> grows t u"
proof -
  assume m: "benign m" "m t = (r, u)"
  have "drawn (w_env t) (w_uuids t) t" by (simp add: drawn_def)
  with m have "drawn (w_env t) (w_uuids t) u" unfolding benign_def by (blast intro: preservesD)
  moreover have "P (w_db u)" if "durable P" "P (w_db t)" for P
  proof -
    have "preserves (on_db P) m" "on_db P t" using m(1) that by (simp_all add: benign_def) (simp add: on_db_def)
    from preservesD [OF this m(2)] show ?thesis by (simp add: on_db_def)
  qed
  ultimately show "grows t u" unfolding drawn_def grows_def by blast
qed

lemma drawn_basic [preserve_intros]:
  "preserves (drawn e n) (db m)" "preserves (drawn e n) now_utc" "preserves (drawn e n) uuid4"
  "preserves (drawn e n) (http q)" "preserves (drawn e n) (sleep d)"
  by (simp_all add: preserves_def drawn_def db_def now_utc_def uuid4_def http_def sleep_def log_event_def update_io_def
      Let_def split: prod.split http_reply.split)

lemma drawn_answers [preserve_intros]:
  "preserves (drawn e n) (raise_for_status x)" "preserves (drawn e n) (response_json x)"
  unfolding raise_for_status_def response_json_def by (intro preserve_intros)+

lemma drawn_audit [preserve_intros]: "preserves (drawn e n) (audit p a t o1 d)"
  unfolding audit_def by (intro preserve_intros)

text \<open>Every statement of the store is something others may do.\<close>

lemma statements_benign:
  "benign (db (pg_create_repository v i created updated))" "benign (db (pg_update_repository j x n))"
  "benign (db (pg_delete_repository j))" "benign (db (pg_save_queue_item q))"
  "benign (db (pg_save_build b))" "benign (db (pg_rebind_jenkins_job j old new))"
  "benign (db (pg_record_webhook_once d))" "benign (db (pg_save_extension_run r))"
  "benign (db (pg_record_audit a))" "benign (db (pg_get_repository i))" "benign (db (pg_get_build k))"
  "benign (db (pg_get_extension_run_by_key l))" "benign (db (get_io f))"
  by (rule benignI; rule drawn_basic durable.writing durable.reading; assumption)+


subsection \<open>Interleaving\<close>

text \<open>
  A system of calls: the world, the phase of each call, and the keys whose claim let a call act.
  \<open>go\<close> runs the section of a phase, \<open>owns\<close> is the key of a phase that acts.
\<close>

definition started :: "('p \<Rightarrow> 'k option) \<Rightarrow> 'p \<Rightarrow> 'k list" where
  "started owns p = (case owns p of None \<Rightarrow> [] | Some k \<Rightarrow> [k])"

inductive interleaved ::
    "('c \<Rightarrow> 'p \<Rightarrow> world \<Rightarrow> 'p \<times> world) \<Rightarrow> ('p \<Rightarrow> 'k option) \<Rightarrow> 'p \<Rightarrow> world
     \<Rightarrow> world \<Rightarrow> ('c \<times> 'p) list \<Rightarrow> 'k list \<Rightarrow> bool" for go owns initial w where
  idle: "interleaved go owns initial w w [] []"
| arrive: "interleaved go owns initial w t cs trace \<Longrightarrow> interleaved go owns initial w t (cs @ [(c, initial)]) trace"
| advance: "interleaved go owns initial w t cs trace \<Longrightarrow> j < length cs \<Longrightarrow> cs ! j = (c, p) \<Longrightarrow> go c p t = (p', u) \<Longrightarrow>
    interleaved go owns initial w u (cs[j := (c, p')]) (trace @ started owns p')"
| elsewhere: "interleaved go owns initial w t cs trace \<Longrightarrow> grows t u \<Longrightarrow> interleaved go owns initial w u cs trace"

text \<open>
  The contract of sections that claim a key before they act: a section only grows the world, a
  key stays marked once it is, and a call that starts to act has just marked its key, which was
  unmarked before. \<open>legit\<close> is what the claims rely on besides; it holds of every earlier world.
\<close>

locale claiming =
  fixes go :: "'c \<Rightarrow> 'p \<Rightarrow> world \<Rightarrow> 'p \<times> world"
    and owns :: "'p \<Rightarrow> 'k option"
    and legit :: "world \<Rightarrow> bool"
    and marked :: "'k \<Rightarrow> world \<Rightarrow> bool"
  assumes go_grows: "go c p t = (p', u) \<Longrightarrow> grows t u"
    and legit_before: "grows t u \<Longrightarrow> legit u \<Longrightarrow> legit t"
    and marked_after: "grows t u \<Longrightarrow> marked k t \<Longrightarrow> marked k u"
    and claim_marks: "pg_inv (w_db t) \<Longrightarrow> legit u \<Longrightarrow> go c p t = (p', u) \<Longrightarrow> owns p' = Some k \<Longrightarrow>
        \<not> marked k t \<and> marked k u"
begin

lemma started_once:
  assumes "pg_inv (w_db w)" and "interleaved go owns initial w t cs trace" and "legit t"
  shows "pg_inv (w_db t) \<and> distinct trace \<and> list_all (\<lambda>k. marked k t) trace"
  using assms(2,3)
proof (induction rule: interleaved.induct)
  case idle
  then show ?case using assms(1) by simp
next
  case (arrive t cs trace c)
  then show ?case by blast
next
  case (advance t cs trace j c p p' u)
  note u = go_grows [OF advance.hyps(4)]
  with advance.IH legit_before advance.prems
  have t: "pg_inv (w_db t)" "distinct trace" "list_all (\<lambda>k. marked k t) trace" by blast+
  from t(3) have kept: "list_all (\<lambda>k. marked k u) trace"
    using marked_after [OF u] by (simp add: list_all_iff)
  show ?case
  proof (cases "owns p'")
    case None
    with t kept u show ?thesis by (simp add: started_def grows_inv)
  next
    case (Some k)
    from claim_marks [OF t(1) advance.prems advance.hyps(4) Some] t kept u Some show ?thesis
      by (auto simp: started_def grows_inv list_all_iff)
  qed
next
  case (elsewhere t cs trace u)
  with legit_before have "pg_inv (w_db t) \<and> distinct trace \<and> list_all (\<lambda>k. marked k t) trace" by blast
  with elsewhere.hyps(2) show ?case by (auto simp: grows_inv list_all_iff marked_after)
qed

end


subsection \<open>Sections and schedules\<close>

text \<open>A section of a call: an exception ends the call, a value leads to its next phase.\<close>

definition run_section :: "('r outcome \<Rightarrow> 'p) \<Rightarrow> 'a task \<Rightarrow> ('a \<Rightarrow> 'p) \<Rightarrow> world \<Rightarrow> 'p \<times> world" where
  "run_section finish m k w = (case m w of (Inl e, t) \<Rightarrow> (finish (Inl e), t) | (Inr x, t) \<Rightarrow> (k x, t))"

lemma run_section_cases:
  "run_section finish m k t = (p', u) \<Longrightarrow>
   \<exists>r. m t = (r, u) \<and> p' = (case r of Inl e \<Rightarrow> finish (Inl e) | Inr x \<Rightarrow> k x)"
  by (auto simp: run_section_def split: prod.splits sum.splits)

text \<open>The sections of one call, run without interruption.\<close>

definition steps :: "('p \<Rightarrow> world \<Rightarrow> 'p \<times> world) \<Rightarrow> nat \<Rightarrow> 'p \<times> world \<Rightarrow> 'p \<times> world" where
  "steps go n = ((\<lambda>(p, w). go p w) ^^ n)"

text \<open>A schedule names the call that goes next.\<close>

fun schedule ::
    "('c \<Rightarrow> 'p \<Rightarrow> world \<Rightarrow> 'p \<times> world) \<Rightarrow> ('p \<Rightarrow> 'k option) \<Rightarrow> nat list
     \<Rightarrow> world \<times> ('c \<times> 'p) list \<times> 'k list \<Rightarrow> world \<times> ('c \<times> 'p) list \<times> 'k list" where
  "schedule go owns [] x = x"
| "schedule go owns (j # js) (t, cs, trace) = (case cs ! j of (c, p) \<Rightarrow> (case go c p t of (p', u) \<Rightarrow>
     schedule go owns js (u, cs[j := (c, p')], trace @ started owns p')))"

lemma schedule_interleaved:
  assumes "interleaved go owns initial w t cs trace" and "list_all (\<lambda>j. j < length cs) js"
    and "schedule go owns js (t, cs, trace) = (u, ds, trace')"
  shows "interleaved go owns initial w u ds trace'"
  using assms
proof (induction js arbitrary: t cs trace)
  case Nil
  then show ?case by simp
next
  case (Cons j js)
  obtain c p p' v where at: "cs ! j = (c, p)" "go c p t = (p', v)"
    by (cases "cs ! j", cases "go (fst (cs ! j)) (snd (cs ! j)) t") auto
  with Cons.prems have "interleaved go owns initial w v (cs[j := (c, p')]) (trace @ started owns p')"
    by (intro interleaved.advance [where p = p]) auto
  from Cons.IH [OF this] Cons.prems(2,3) at show ?case by (simp add: list_all_iff)
qed

end
