(* ===== verification/Concurrency.thy ===== *)
theory Concurrency
  imports Interleaving Extension_Properties Review_Properties
begin

section \<open>Overlapping extension actions, callbacks, webhooks and reviews\<close>

text \<open>
  Four operations claim a key before they act: an extension action its idempotency key, a
  completion callback and a webhook their delivery, an AI review the key of its commits. Each is
  split here at the awaits around its claim; run without interruption, the sections are the
  operation of \<open>Service_Extensions\<close>, \<open>Service_Builds\<close> and \<open>Service_Review\<close>. An idempotency key
  starts at most one extension run and a delivery is accepted at most once; a review's key can
  start two.
\<close>

subsection \<open>Extension actions\<close>

datatype ext_phase =
    ExtLookup
  | ExtRepository
  | ExtClaim repository
  | ExtRun extension_manifest repository extension_run
  | ExtStore repository extension_run extension_output
  | ExtEnd "extension_run outcome"

type_synonym ext_call = "principal \<times> extension_action_request"

definition ext_claim ::
    "service \<Rightarrow> extension_action_request \<Rightarrow> repository
     \<Rightarrow> (extension_manifest \<times> extension_run \<times> extension_run) task" where
  "ext_claim sv p r =
     bind_io (lift_io (catalog_get (sv_catalog sv) (ear_extension_id p))) (\<lambda>m.
     bind_io (lift_io (image_digest (man_image m))) (\<lambda>digest.
     bind_io uuid4 (\<lambda>i. bind_io now_utc (\<lambda>created.
     let run = new_extension_run m digest r p i created in
     bind_io (db (pg_save_extension_run run)) (\<lambda>stored. return_io (m, run, stored))))))"

definition ext_store :: "principal \<Rightarrow> repository \<Rightarrow> extension_run \<Rightarrow> extension_output \<Rightarrow> extension_run task" where
  "ext_store a r run out =
     bind_io now_utc (\<lambda>t.
     let run' = run\<lparr>run_output := Some out, run_status := RunSucceeded, run_completed_at := Some t\<rparr> in
     seq_io (catch_io (db (pg_save_extension_run run')) (\<lambda>_. True) (fail_run a r run')) (
     seq_io (audit a ''run_extension_action'' (full_name r) AuditSucceeded [])
       (return_io run')))"

fun ext_step :: "service \<Rightarrow> ext_call \<Rightarrow> ext_phase \<Rightarrow> world \<Rightarrow> ext_phase \<times> world" where
  "ext_step sv (a, p) ExtLookup = run_section ExtEnd (db (pg_get_extension_run_by_key (ear_idempotency_key p)))
     (\<lambda>previous. case previous of Some run \<Rightarrow> ExtEnd (Inr run) | None \<Rightarrow> ExtRepository)"
| "ext_step sv (a, p) ExtRepository = run_section ExtEnd (db (pg_get_repository (ear_repository_id p))) ExtClaim"
| "ext_step sv (a, p) (ExtClaim r) = run_section ExtEnd (ext_claim sv p r)
     (\<lambda>(m, run, stored). if run_id stored \<noteq> run_id run then ExtEnd (Inr stored) else ExtRun m r run)"
| "ext_step sv (a, p) (ExtRun m r run) =
     run_section ExtEnd (catch_io (run_and_perform sv a m r p) (\<lambda>_. True) (fail_run a r run)) (ExtStore r run)"
| "ext_step sv (a, p) (ExtStore r run out) = run_section ExtEnd (ext_store a r run out) (\<lambda>x. ExtEnd (Inr x))"
| "ext_step sv (a, p) (ExtEnd x) = Pair (ExtEnd x)"

fun ext_owner :: "ext_phase \<Rightarrow> string option" where
  "ext_owner (ExtRun m r run) = Some (run_idempotency_key run)"
| "ext_owner _ = None"

fun_cases ext_ownerE: "ext_owner p = Some k"

text \<open>The sections of a call, run without interruption, are the operation.\<close>

lemma ext_call_alone:
  "steps (ext_step sv (a, p)) 5 (ExtLookup, w) =
     (case run_extension_action sv a p w of (r, t) \<Rightarrow> (ExtEnd r, t))"
  by (simp add: steps_def numeral_eq_Suc funpow_swap1 run_section_def ext_claim_def ext_store_def run_extension_action_def
      execute_run_def run_bind run_return run_lift run_seq run_catch Let_def new_extension_run_def
      split: prod.split sum.split option.split)


text \<open>Each section only grows the world.\<close>

lemma drawn_perform: "preserves (drawn e n) (run_and_perform sv a m r p)"
  unfolding run_and_perform_def perform_requested_def run_extension_def execute_action_def github_post_def
  by (intro preserve_intros)

lemma drawn_fail [preserve_intros]: "preserves (drawn e n) (fail_run a r run x)"
  unfolding fail_run_def by (intro preserve_intros)

lemma benign_ext:
  "benign (ext_claim sv p r)" "benign (catch_io (run_and_perform sv a m r p) c (fail_run a r run))"
  "benign (ext_store a r run out)"
proof -
  show "benign (ext_claim sv p r)"
    unfolding ext_claim_def
    by (rule benignI; intro preserve_intros durable.writing durable.drawing)
  show "benign (catch_io (run_and_perform sv a m r p) c (fail_run a r run))"
    by (rule benignI; intro preserve_intros drawn_perform durable.performed durable.failed_run)
  show "benign (ext_store a r run out)"
    unfolding ext_store_def
    by (rule benignI; intro preserve_intros durable.writing durable.drawing durable.audited durable.failed_run)
qed

lemma ext_step_grows: "ext_step sv c p t = (p', u) \<Longrightarrow> grows t u"
  by (cases "(sv, c, p)" rule: ext_step.cases)
    (auto intro: grows_refl dest!: run_section_cases benign_grows [OF statements_benign(12)]
      benign_grows [OF statements_benign(10)] benign_grows [OF benign_ext(1)] benign_grows [OF benign_ext(2)]
      benign_grows [OF benign_ext(3)])


text \<open>The claim.\<close>

lemma claimed_key:
  assumes "pg_inv s" and "pg_save_extension_run r s = (Inr q, s')" and "run_id q = run_id r"
  shows "key_owned (run_idempotency_key r) (run_id r) s'"
    and "key_owned (run_idempotency_key r) i' s \<Longrightarrow> i' = run_id r"
proof -
  have inv: "pg_inv s'" using pg_save_extension_run_inv [OF assms(1), of r] assms(2) by simp
  show "key_owned (run_idempotency_key r) (run_id r) s'"
  proof (cases "pg_run_by_key (run_idempotency_key r) s")
    case None
    with assms(2) have "pg_run_fresh (run_id r) s"
      by (auto simp: pg_save_extension_run_def pg_run_by_key_def pg_run_fresh_def split: if_splits)
    from pg_save_run_new(2) [OF assms(1) None this, of "run_idempotency_key r"] inv assms(2)
    show ?thesis by (simp add: key_owned_def)
  next
    case (Some x)
    with pg_save_run_known(3) [OF assms(1) Some] assms(2,3) have "run_id x = run_id r" by auto
    from pg_save_run_known(2) [OF assms(1) Some this, of "run_idempotency_key r"] inv assms(2)
    show ?thesis by (simp add: key_owned_def)
  qed
  assume "key_owned (run_idempotency_key r) i' s"
  then obtain x where x: "pg_run_by_key (run_idempotency_key r) s = Some x" "run_id x = i'"
    by (auto simp: key_owned_def)
  with pg_save_run_known(3) [OF assms(1) x(1)] assms(2,3) show "i' = run_id r" by auto
qed

lemma ext_claim_run:
  assumes "ext_claim sv p r t = (Inr (m, run, stored), u)"
  shows "\<exists>s'. pg_save_extension_run run (w_db t) = (Inr stored, s') \<and> w_db u = s'
    \<and> run_id run = env_uuid (w_env t) (w_uuids t) \<and> w_uuids u = w_uuids t + 1"
  using assms
  by (auto simp: ext_claim_def run_bind run_lift run_return run_db uuid4_def now_utc_def Let_def new_extension_run_def
      prod_eq_iff split: sum.splits)

lemma ext_owner_claims:
  assumes "ext_step sv c p t = (p', u)" and "ext_owner p' = Some k"
  shows "\<exists>r m run stored. ext_claim sv (snd c) r t = (Inr (m, run, stored), u) \<and> run_id stored = run_id run
    \<and> k = run_idempotency_key run"
  using assms by (cases "(sv, c, p)" rule: ext_step.cases)
    (auto elim!: ext_ownerE dest!: run_section_cases split: sum.splits option.splits if_splits, metis)

text \<open>
  No identifier was drawn twice, and a key is marked when a drawn identifier owns it: an
  identifier that is only drawn now is not the owner's.
\<close>

definition distinct_draws :: "world \<Rightarrow> bool" where
  "distinct_draws t = inj_on (env_uuid (w_env t)) {..<w_uuids t}"

definition key_taken :: "string \<Rightarrow> world \<Rightarrow> bool" where
  "key_taken k t = (\<exists>n<w_uuids t. key_owned k (env_uuid (w_env t) n) (w_db t))"

interpretation ext: claiming "ext_step sv" ext_owner distinct_draws key_taken for sv
proof
  show "ext_step sv c p t = (p', u) \<Longrightarrow> grows t u" for c p t p' u by (rule ext_step_grows)
  show "grows t u \<Longrightarrow> distinct_draws u \<Longrightarrow> distinct_draws t" for t u
    by (auto simp: grows_def distinct_draws_def intro: inj_on_subset)
  show "key_taken k u" if g: "grows t u" and "key_taken k t" for t u k
  proof -
    from that(2) obtain n where "n < w_uuids t" "key_owned k (env_uuid (w_env t) n) (w_db t)"
      unfolding key_taken_def by blast
    with grows_owner [OF g] g show ?thesis unfolding key_taken_def by (force simp: grows_def)
  qed
next
  fix c p t p' u k
  assume t: "pg_inv (w_db t)" and u: "distinct_draws u" and go: "ext_step sv c p t = (p', u)" "ext_owner p' = Some k"
  obtain r m run stored where claim: "ext_claim sv (snd c) r t = (Inr (m, run, stored), u)"
      "run_id stored = run_id run" "k = run_idempotency_key run"
    using ext_owner_claims [OF go] by blast
  from ext_claim_run [OF claim(1)] have drawn: "run_id run = env_uuid (w_env t) (w_uuids t)" "w_uuids u = w_uuids t + 1"
    and save: "pg_save_extension_run run (w_db t) = (Inr stored, w_db u)" by auto
  have env: "w_env u = w_env t" using ext_step_grows [OF go(1)] by (simp add: grows_def)
  note owned = claimed_key [OF t save claim(2), folded claim(3)]
  have "\<not> key_taken k t"
  proof
    assume "key_taken k t"
    then obtain n where "n < w_uuids t" "env_uuid (w_env t) n = run_id run" by (auto simp: key_taken_def dest: owned(2))
    with inj_onD [OF u [unfolded distinct_draws_def], of n "w_uuids t"] drawn env show False by auto
  qed
  with owned(1) drawn env show "\<not> key_taken k t \<and> key_taken k u" by (auto simp: key_taken_def)
qed

text \<open>
  C16: However any number of calls of extension actions overlap, with each other and with any
  other statements on the store, no idempotency key ever starts two runs, as long as no
  identifier is drawn twice.
\<close>

theorem extension_key_starts_once:
  assumes "interleaved (ext_step sv) ext_owner ExtLookup w t cs trace" and "world_ok w" and "distinct_draws t"
  shows "distinct trace"
  using ext.started_once [OF _ assms(1,3)] assms(2) by (simp add: world_ok_def pg_ok_def)


subsection \<open>Completion callbacks\<close>

datatype cb_phase =
    CbLoad
  | CbLookup build int
  | CbSave build webhook_delivery
  | CbPublish build webhook_delivery
  | CbRecord build webhook_delivery
  | CbClose build webhook_delivery
  | CbEnd "bool outcome"

type_synonym cb_call = "principal \<times> build_completion"

definition cb_check :: "build_completion \<Rightarrow> build task" where
  "cb_check c = bind_io (db (pg_get_build (cmp_build_id c))) (\<lambda>build.
     if \<not> same_identity build (cmp_result c)
     then raise_io (ValueError ''build completion identity does not match the queued build'')
     else if \<not> is_terminal (res_status (cmp_result c))
     then raise_io (ValueError ''build completion must contain a terminal result'')
     else return_io build)"

definition cb_save :: "build_completion \<Rightarrow> build \<Rightarrow> build task" where
  "cb_save c build = bind_io now_utc (\<lambda>now.
     let build' = build\<lparr>build_result := cmp_result c, build_review_policy := Some (cmp_review c),
           build_updated_at := now\<rparr> in
     bind_io (db (pg_save_build build')) (\<lambda>_. return_io build'))"

definition cb_publish :: "service \<Rightarrow> principal \<Rightarrow> build_completion \<Rightarrow> build \<Rightarrow> unit task" where
  "cb_publish sv a c build =
     bind_io (publish_ci_status sv a (res_repository (cmp_result c)) (res_commit_sha (cmp_result c))
       ''jenkinsservice/native-ci'' (completion_state (cmp_result c)) (completion_text (cmp_result c)) (build_id build))
       (\<lambda>published. if \<not> published
         then raise_io (UpstreamError ''native CI status publication failed after bounded retries'') else return_io ())"

fun cb_step :: "service \<Rightarrow> cb_call \<Rightarrow> cb_phase \<Rightarrow> world \<Rightarrow> cb_phase \<times> world" where
  "cb_step sv (a, c) CbLoad = run_section CbEnd (bind_io (cb_check c) (\<lambda>build. bind_io now_utc (\<lambda>received.
     return_io (build, received)))) (\<lambda>(build, received). CbLookup build received)"
| "cb_step sv (a, c) (CbLookup build received) = run_section CbEnd (db (get_io pg_list_webhooks))
     (\<lambda>known. if list_ex (\<lambda>item. hook_delivery_id item = completion_delivery_id c) known then CbEnd (Inr False)
       else CbSave build (completion_delivery c received))"
| "cb_step sv (a, c) (CbSave build d) = run_section CbEnd (cb_save c build) (\<lambda>build'. CbPublish build' d)"
| "cb_step sv (a, c) (CbPublish build d) = run_section CbEnd (cb_publish sv a c build) (\<lambda>_. CbRecord build d)"
| "cb_step sv (a, c) (CbRecord build d) = run_section CbEnd (db (pg_record_webhook_once d))
     (\<lambda>fresh. if \<not> fresh then CbEnd (Inr False) else CbClose build d)"
| "cb_step sv (a, c) (CbClose build d) = run_section CbEnd (close_completion a c build) (\<lambda>x. CbEnd (Inr x))"
| "cb_step sv (a, c) (CbEnd x) = Pair (CbEnd x)"

text \<open>A call that closes its build has recorded its delivery.\<close>

fun cb_owner :: "cb_phase \<Rightarrow> string option" where
  "cb_owner (CbClose build d) = Some (hook_delivery_id d)"
| "cb_owner _ = None"

fun_cases cb_ownerE: "cb_owner p = Some k"

lemma cb_call_alone:
  "steps (cb_step sv (a, c)) 6 (CbLoad, w) = (case complete_build sv a c w of (r, t) \<Rightarrow> (CbEnd r, t))"
  by (simp add: steps_def numeral_eq_Suc funpow_swap1 run_section_def cb_check_def cb_save_def cb_publish_def
      complete_build_def complete_matched_def store_completion_def run_bind run_return run_raise Let_def
      split: prod.split sum.split)

lemma drawn_publish [preserve_intros]: "preserves (drawn e n) (publish_ci_status sv p r s x st d i)"
proof -
  have attempts: "preserves (drawn e n) (publish_attempts m k y z)" if "preserves (drawn e n) m" for m k y z
  proof (induction y arbitrary: k z)
    case 0
    then show ?case by (simp add: preserves_return)
  next
    case (Suc y)
    then show ?case unfolding publish_attempts.simps by (intro preserve_intros that) simp
  qed
  have "preserves (drawn e n) (set_status g r s x st d u)" for g u
    unfolding set_status_def github_post_def by (intro preserve_intros)
  then show ?thesis
    unfolding publish_ci_status_def by (intro preserve_intros attempts)
qed

lemma benign_cb:
  "benign (bind_io (cb_check c) (\<lambda>build. bind_io now_utc (\<lambda>received. return_io (build, received))))"
  "benign (cb_save c b)" "benign (cb_publish sv a c b)" "benign (close_completion a c b)"
  unfolding cb_check_def cb_save_def cb_publish_def close_completion_def set_queue_state_def
  by (rule benignI; intro preserve_intros durable.writing durable.reading durable.drawing durable.audited durable.published;
      assumption?)+

lemma cb_step_grows: "cb_step sv c p t = (p', u) \<Longrightarrow> grows t u"
  by (cases "(sv, c, p)" rule: cb_step.cases)
    (auto intro: grows_refl dest!: run_section_cases benign_grows [OF statements_benign(7)]
      benign_grows [OF statements_benign(13)] benign_grows [OF benign_cb(1)] benign_grows [OF benign_cb(2)]
      benign_grows [OF benign_cb(3)] benign_grows [OF benign_cb(4)])

lemma cb_owner_records:
  assumes "cb_step sv c p t = (p', u)" and "cb_owner p' = Some k"
  shows "\<exists>d. hook_delivery_id d = k \<and> pg_record_webhook_once d (w_db t) = (Inr True, w_db u)"
  using assms by (cases "(sv, c, p)" rule: cb_step.cases)
    (auto elim!: cb_ownerE dest!: run_section_cases simp: db_def split: sum.splits if_splits prod.splits, blast)

interpretation cb: claiming "cb_step sv" cb_owner "\<lambda>_. True" "\<lambda>k t. pg_hook_seen k (w_db t)" for sv
proof
  fix c p t p' u k
  assume go: "cb_step sv c p t = (p', u)" "cb_owner p' = Some k"
  from cb_owner_records [OF go] obtain d where "hook_delivery_id d = k"
    "pg_record_webhook_once d (w_db t) = (Inr True, w_db u)" by blast
  with accepted_delivery [of d "w_db t" "w_db u"] show "\<not> pg_hook_seen k (w_db t) \<and> pg_hook_seen k (w_db u)" by simp
qed (auto intro: cb_step_grows grows_hook)

text \<open>
  C17: However any number of completion callbacks overlap, no delivery is accepted by two of
  them, although both may look it up before either records it.
\<close>

theorem callback_accepted_once:
  assumes "interleaved (cb_step sv) cb_owner CbLoad w t cs trace" and "world_ok w"
  shows "distinct trace"
  using cb.started_once [OF _ assms(1) TrueI] assms(2) by (simp add: world_ok_def pg_ok_def)


subsection \<open>Webhook deliveries\<close>

text \<open>
  A delivery is recorded and, when it is new and accepted, its dispatch is queued and answered.
  What the background task then does is among what happens elsewhere.
\<close>

datatype hook_phase =
    HookRecord
  | HookQueue webhook_delivery
  | HookEnd "bool outcome"

type_synonym hook_call = "string \<times> string \<times> jobj"

fun hook_step :: "service \<Rightarrow> hook_call \<Rightarrow> hook_phase \<Rightarrow> world \<Rightarrow> hook_phase \<times> world" where
  "hook_step sv (i, event, payload) HookRecord = run_section HookEnd (process_github_webhook sv i event payload)
     (\<lambda>(delivery, inserted). if \<not> inserted then HookEnd (Inr False)
       else if \<not> hook_accepted delivery
       then HookEnd (Inl (HTTPException 403 (case hook_reason delivery of None \<Rightarrow> [] | Some m \<Rightarrow> m)))
       else HookQueue delivery)"
| "hook_step sv c (HookQueue d) = Pair (HookEnd (Inr True))"
| "hook_step sv c (HookEnd x) = Pair (HookEnd x)"

fun hook_owner :: "hook_phase \<Rightarrow> string option" where
  "hook_owner (HookQueue d) = Some (hook_delivery_id d)"
| "hook_owner _ = None"

fun_cases hook_ownerE: "hook_owner p = Some k"

lemma benign_hook: "benign (process_github_webhook sv i event payload)"
proof (rule benignI)
  show "preserves (drawn e n) (process_github_webhook sv i event payload)" for e n
    unfolding process_github_webhook_def by (intro preserve_intros)
qed (rule durable.hooked)

lemma hook_step_grows: "hook_step sv c p t = (p', u) \<Longrightarrow> grows t u"
  by (cases "(sv, c, p)" rule: hook_step.cases)
    (auto intro: grows_refl dest!: run_section_cases benign_grows [OF benign_hook])

lemma hook_owner_records:
  assumes "hook_step sv c p t = (p', u)" and "hook_owner p' = Some k"
  shows "\<exists>d. hook_delivery_id d = k \<and> pg_record_webhook_once d (w_db t) = (Inr True, w_db u)"
  using assms by (cases "(sv, c, p)" rule: hook_step.cases)
    (auto elim!: hook_ownerE dest!: run_section_cases simp: process_github_webhook_def run_bind now_utc_def db_def run_return
      Let_def split: sum.splits if_splits prod.splits, rule exI, rule conjI [rotated], assumption, simp)

interpretation hook: claiming "hook_step sv" hook_owner "\<lambda>_. True" "\<lambda>k t. pg_hook_seen k (w_db t)" for sv
proof
  fix c p t p' u k
  assume go: "hook_step sv c p t = (p', u)" "hook_owner p' = Some k"
  from hook_owner_records [OF go] obtain d where "hook_delivery_id d = k"
    "pg_record_webhook_once d (w_db t) = (Inr True, w_db u)" by blast
  with accepted_delivery [of d "w_db t" "w_db u"] show "\<not> pg_hook_seen k (w_db t) \<and> pg_hook_seen k (w_db u)" by simp
qed (auto intro: hook_step_grows grows_hook)

text \<open>However deliveries of webhooks overlap, no delivery is queued for dispatch twice.\<close>

theorem delivery_queued_once:
  assumes "interleaved (hook_step sv) hook_owner HookRecord w t cs trace" and "world_ok w"
  shows "distinct trace"
  using hook.started_once [OF _ assms(1) TrueI] assms(2) by (simp add: world_ok_def pg_ok_def)


subsection \<open>Reviews\<close>

datatype rev_phase =
    RevLookup
  | RevKnown extension_run
  | RevClaim
  | RevRun extension_run int
  | RevEnd "unit outcome"

type_synonym rev_call = "principal \<times> build_completion \<times> string option"

fun rev_step :: "service \<Rightarrow> rev_call \<Rightarrow> rev_phase \<Rightarrow> world \<Rightarrow> rev_phase \<times> world" where
  "rev_step sv (a, c, pre) RevLookup = run_section RevEnd (db (pg_get_extension_run_by_key (review_key sv (cmp_result c))))
     (\<lambda>previous. case previous of Some run \<Rightarrow> RevKnown run | None \<Rightarrow> RevClaim)"
| "rev_step sv (a, c, pre) (RevKnown run) = run_section RevEnd (resume_previous sv a c run)
     (\<lambda>r. case r of None \<Rightarrow> RevEnd (Inr ()) | Some run' \<Rightarrow> RevRun run' (run_created_at run))"
| "rev_step sv (a, c, pre) RevClaim = run_section RevEnd (bind_io now_utc (claim_run sv c))
     (\<lambda>r. case r of None \<Rightarrow> RevEnd (Inr ()) | Some (run, began) \<Rightarrow> RevRun run began)"
| "rev_step sv (a, c, pre) (RevRun run began) = run_section RevEnd (review_run sv a c pre run began) (\<lambda>x. RevEnd (Inr x))"
| "rev_step sv (a, c, pre) (RevEnd x) = Pair (RevEnd x)"

fun rev_owner :: "rev_phase \<Rightarrow> string option" where
  "rev_owner (RevRun run began) = Some (run_idempotency_key run)"
| "rev_owner _ = None"

lemma rev_call_alone:
  "steps (rev_step sv (a, c, pre)) 3 (RevLookup, w) =
     (case process_ai_review sv a c pre w of (r, t) \<Rightarrow> (RevEnd r, t))"
  by (simp add: steps_def numeral_eq_Suc funpow_swap1 run_section_def process_ai_review_def run_bind run_return
      split: prod.split sum.split option.split)

text \<open>The claim of a key nobody holds, and of one that a running review holds.\<close>

definition review_run_of :: "service \<Rightarrow> build_completion \<Rightarrow> uuid \<Rightarrow> int \<Rightarrow> extension_run" where
  "review_run_of sv c i created = \<lparr>run_id = i, run_extension_id = ''openai-review'', run_image_digest = sv_openai_model sv,
     run_action = sv_prompt_version sv, run_target = review_target (cmp_result c),
     run_idempotency_key = review_key sv (cmp_result c), run_status = RunRunning,
     run_output = None, run_created_at = created, run_completed_at = None\<rparr>"

lemma claim_free_key:
  assumes "pg_inv (w_db w)" and "pg_run_by_key (review_key sv (cmp_result c)) (w_db w) = None"
    and "pg_run_fresh (env_uuid (w_env w) (w_uuids w)) (w_db w)"
  shows "\<exists>run began t. bind_io now_utc (claim_run sv c) w = (Inr (Some (run, began)), t)
    \<and> pg_run_by_key (review_key sv (cmp_result c)) (w_db t) = Some run \<and> pg_inv (w_db t) \<and> w_env t = w_env w
    \<and> w_uuids t = w_uuids w + 1 \<and> run_id run = env_uuid (w_env w) (w_uuids w)
    \<and> run_status run = RunRunning \<and> run_review_log run = None \<and> run_idempotency_key run = review_key sv (cmp_result c)"
proof -
  define run where "run = review_run_of sv c (env_uuid (w_env w) (w_uuids w)) (env_time (w_env w) (w_ticks w + 1))"
  have free: "pg_run_by_key (run_idempotency_key run) (w_db w) = None" "pg_run_fresh (run_id run) (w_db w)"
    using assms(2,3) by (simp_all add: run_def review_run_of_def)
  obtain s where saved: "pg_save_extension_run run (w_db w) = (Inr run, s)"
      "pg_run_by_key (run_idempotency_key run) s = Some run" "pg_inv s"
    using pg_save_run_new [OF assms(1) free] pg_save_extension_run_inv [OF assms(1), of run]
    by (cases "pg_save_extension_run run (w_db w)") auto
  have "bind_io now_utc (claim_run sv c) w = (Inr (Some (run, env_time (w_env w) (w_ticks w))),
      w\<lparr>w_ticks := w_ticks w + 2, w_uuids := w_uuids w + 1, w_db := s\<rparr>)"
    using saved(1) by (simp add: claim_run_def run_bind run_return run_db now_utc_def uuid4_def Let_def
        run_def review_run_of_def)
  with saved show ?thesis by (auto simp: run_def review_run_of_def run_review_log_def)
qed

lemma claim_held_key:
  assumes "pg_inv (w_db w)" and "pg_run_by_key (review_key sv (cmp_result c)) (w_db w) = Some run"
    and "run_status run = RunRunning" and "run_review_log run = None" and "run_id run \<noteq> env_uuid (w_env w) (w_uuids w)"
  shows "\<exists>t. bind_io now_utc (claim_run sv c) w = (Inr (Some (run, run_created_at run)), t)"
proof -
  define new where "new = review_run_of sv c (env_uuid (w_env w) (w_uuids w)) (env_time (w_env w) (w_ticks w + 1))"
  have "pg_save_extension_run new (w_db w) = (Inr run, w_db w)"
    using pg_save_run_known(3) [OF assms(1), of new run] assms(2,5) by (simp add: new_def review_run_of_def)
  then show ?thesis
    using assms(3,4,5) by (simp add: claim_run_def run_bind run_return run_db now_utc_def uuid4_def Let_def
        new_def review_run_of_def)
qed

text \<open>
  C21: Two overlapping reviews with one key, say of two builds of the same commits, can both look
  the key up before either has claimed it. Then both go on to review: the loser of the claim
  takes the winner's run, which is still running, for its own.
\<close>

theorem overlapping_reviews_both_run:
  assumes "world_ok w" and "review_key sv (cmp_result d) = review_key sv (cmp_result c)"
    and "pg_run_by_key (review_key sv (cmp_result c)) (w_db w) = None"
    and "pg_run_fresh (env_uuid (w_env w) (w_uuids w)) (w_db w)"
    and "env_uuid (w_env w) (w_uuids w) \<noteq> env_uuid (w_env w) (w_uuids w + 1)"
  shows "\<exists>t run began. interleaved (rev_step sv) rev_owner RevLookup w t
      [((a, c, None), RevRun run began), ((b, d, None), RevRun run (run_created_at run))]
      [review_key sv (cmp_result c), review_key sv (cmp_result c)]"
proof -
  let ?k = "review_key sv (cmp_result c)"
  have inv: "pg_inv (w_db w)" using assms(1) by (simp add: world_ok_def pg_ok_def)
  have two: "interleaved (rev_step sv) rev_owner RevLookup w w [((a, c, None), RevLookup), ((b, d, None), RevLookup)] []"
    using interleaved.arrive [OF interleaved.arrive [OF interleaved.idle]] by fastforce
  from claim_free_key [OF inv assms(3,4)] obtain run began u where
    won: "bind_io now_utc (claim_run sv c) w = (Inr (Some (run, began)), u)"
    and held: "pg_run_by_key ?k (w_db u) = Some run" "pg_inv (w_db u)" "run_status run = RunRunning"
      "run_review_log run = None" "run_idempotency_key run = ?k"
    and ids: "w_env u = w_env w" "w_uuids u = w_uuids w + 1" "run_id run = env_uuid (w_env w) (w_uuids w)"
    by blast
  have "run_id run \<noteq> env_uuid (w_env u) (w_uuids u)" using assms(5) ids by simp
  from claim_held_key [of u sv d run, unfolded assms(2), OF held(2,1,3,4) this] obtain t where
    lost: "bind_io now_utc (claim_run sv d) u = (Inr (Some (run, run_created_at run)), t)" by blast
  have look: "rev_step sv (x, y, None) RevLookup w = (RevClaim, w)"
    if "review_key sv (cmp_result y) = ?k" for x y
    using that assms(3) by (simp add: run_section_def pg_get_extension_run_by_key_def run_db run_get)
  have "schedule (rev_step sv) rev_owner [0, 1, 0, 1] (w, [((a, c, None), RevLookup), ((b, d, None), RevLookup)], [])
      = (t, [((a, c, None), RevRun run began), ((b, d, None), RevRun run (run_created_at run))],
         [?k, ?k])"
    using look [OF refl] look [OF assms(2)] won lost held(5)
    by (simp add: started_def run_section_def del: rev_step.simps(1))
  from schedule_interleaved [OF two _ this] show ?thesis by auto
qed


subsection \<open>Two overlapping calls\<close>

definition ext_calls :: "(ext_call \<times> ext_phase) list" where
  "ext_calls = [((demo_actor, ext_request), ExtLookup), ((webhook_principal, ext_request), ExtLookup)]"

text \<open>Both look the key up before either claims it.\<close>

definition ext_race :: "world \<times> (ext_call \<times> ext_phase) list \<times> string list" where
  "ext_race = schedule (ext_step ext_service) ext_owner [0, 1, 0, 1, 0, 1] (ext_world, ext_calls, [])"

lemma ext_race_run: "\<exists>t run r. ext_race = (t, [((demo_actor, ext_request), ExtRun demo_manifest r run),
    ((webhook_principal, ext_request), ExtEnd (Inr run))], [''key-0001'']) \<and> w_uuids t = 2 \<and> w_env t = w_env ext_world"
  by (simp add: ext_race_def ext_calls_def run_section_def ext_claim_def started_def ext_service_def ext_request_def
      ext_world_def demo_manifest_def new_extension_run_def catalog_get_def image_digest_def rsplit_last_def
      pg_get_extension_run_by_key_def pg_run_by_key_def pg_run_row_def pg_save_extension_run_def
      demo_defs run_simps pg_defs)

theorem extension_key_starts_once_witness:
  "\<exists>t cs trace. ext_race = (t, cs, trace) \<and> trace \<noteq> [] \<and> distinct trace"
proof -
  from ext_race_run obtain t cs where run: "ext_race = (t, cs, [''key-0001''])" "w_uuids t = 2"
    "w_env t = w_env ext_world" by blast
  have "interleaved (ext_step ext_service) ext_owner ExtLookup ext_world ext_world ext_calls []"
    using interleaved.arrive [OF interleaved.arrive [OF interleaved.idle]]
    unfolding ext_calls_def by fastforce
  from schedule_interleaved [OF this, of "[0, 1, 0, 1, 0, 1]", folded ext_race_def, OF _ run(1)]
  have reached: "interleaved (ext_step ext_service) ext_owner ExtLookup ext_world t cs [''key-0001'']"
    by (simp add: ext_calls_def)
  have "distinct_draws t"
    by (auto simp: distinct_draws_def inj_on_def run(2,3) less_2_cases_iff ext_world_def demo_env_def)
  from extension_key_starts_once [OF reached ext_world_ok this] run(1) show ?thesis by blast
qed

text \<open>Two deliveries of one callback: both look it up, both store and publish, one is accepted.\<close>

definition cb_start :: world where
  "cb_start = demo_world demo_net (demo_db (demo_build Queued None))"

definition cb_calls :: "(cb_call \<times> cb_phase) list" where
  "cb_calls = [((demo_actor, demo_completion Passed None), CbLoad), ((demo_actor, demo_completion Passed None), CbLoad)]"

definition cb_race :: "world \<times> (cb_call \<times> cb_phase) list \<times> string list" where
  "cb_race = schedule (cb_step demo_service) cb_owner [0, 1, 0, 1, 0, 1, 0, 1, 0, 1] (cb_start, cb_calls, [])"

lemma cb_race_run: "\<exists>t b d. cb_race = (t, [((demo_actor, demo_completion Passed None), CbClose b d),
    ((demo_actor, demo_completion Passed None), CbEnd (Inr False))], [completion_delivery_id (demo_completion Passed None)])"
  by (simp add: cb_race_def cb_calls_def cb_start_def run_section_def cb_check_def cb_save_def cb_publish_def started_def
      same_identity_def is_terminal_def audit_def publish_ci_status_def completion_delivery_def numeral_3_eq_3 set_status_def
      github_post_def github_request_def build_url_def stripped_url_def completion_state_def completion_text_def
      demo_defs run_simps pg_defs)

theorem callback_accepted_once_witness:
  "\<exists>t cs trace. cb_race = (t, cs, trace) \<and> trace \<noteq> [] \<and> distinct trace"
proof -
  from cb_race_run obtain t cs where
    run: "cb_race = (t, cs, [completion_delivery_id (demo_completion Passed None)])" by blast
  have "interleaved (cb_step demo_service) cb_owner CbLoad cb_start cb_start cb_calls []"
    using interleaved.arrive [OF interleaved.arrive [OF interleaved.idle]] unfolding cb_calls_def by fastforce
  from schedule_interleaved [OF this, of "[0, 1, 0, 1, 0, 1, 0, 1, 0, 1]", folded cb_race_def, OF _ run]
  have reached: "interleaved (cb_step demo_service) cb_owner CbLoad cb_start t cs [completion_delivery_id (demo_completion Passed None)]"
    by (simp add: cb_calls_def)
  have "world_ok cb_start" by (simp add: cb_start_def demo_build_ok)
  from callback_accepted_once [OF reached this] run show ?thesis by blast
qed

definition race_world :: world where
  "race_world = demo_world demo_net (demo_db (demo_build Passed (Some 5)))"

theorem overlapping_reviews_both_run_witness:
  "\<exists>t run began. interleaved (rev_step review_service) rev_owner RevLookup race_world t
     [((demo_actor, pull_completion demo_diff, None), RevRun run began),
      ((demo_actor, (pull_completion demo_diff)\<lparr>cmp_build_id := 5\<rparr>, None), RevRun run (run_created_at run))]
     [review_key review_service (cmp_result (pull_completion demo_diff)),
      review_key review_service (cmp_result (pull_completion demo_diff))]"
  by (rule overlapping_reviews_both_run)
    (simp_all add: race_world_def demo_build_ok, simp_all add: demo_world_def demo_db_def pg_run_by_key_def pg_run_row_def
      pg_run_fresh_def demo_env_def)

end
