(* ===== verification/Protocols.thy ===== *)
theory Protocols
  imports Review_Broker Extension_Runner
begin

section \<open>The service with its broker and its runner\<close>

text \<open>
  Two clients of the service talk to processes of the same package: \<open>ReviewBrokerClient\<close> to the
  review broker and \<open>RunnerClient\<close> to the extension runner. Here each client meets the model of
  its server. The framework between them (routing, decoding a request model, encoding a
  response model, the status of an \<open>HTTPException\<close>) is described by hypotheses: what a reply
  shows of the server's result. The lemmas show which exceptions the servers can raise, that a
  client returns exactly what its server computed, and that the service's own checks of a
  review accept every answer of a broker with the same model and prompt.
\<close>

subsection \<open>The exceptions of a review\<close>

text \<open>
  Of the diff parser: its own error, and the \<open>ValueError\<close> of \<open>int\<close> on a number with more digits
  than Python converts.
\<close>

lemma parse_line_error:
  assumes "parse_line l s = Inl e"
  shows "(\<exists>m. e = DiffValidationError m) \<or> (\<exists>m. e = ValueError m)"
proof -
  have count: "py_int_digits d = Inl e \<Longrightarrow> \<exists>m. e = ValueError m" for d
    by (auto simp: py_int_digits_def Let_def split: if_splits)
  have header: "parse_header l s = Inl e \<Longrightarrow> ?thesis"
    by (auto simp: parse_header_def finish_hunk_def count_value_def bind_sum_def dest!: count
        split: sum.splits if_splits option.splits)
  have body: "parse_body l s = Inl e \<Longrightarrow> ?thesis"
    by (auto simp: parse_body_def bind_sum_def Let_def split: sum.splits if_splits option.splits)
  have path: "right_side_path h = Inl e \<Longrightarrow> ?thesis" for h
    by (auto simp: right_side_path_def Let_def split: if_splits)
  from assms show ?thesis
    by (auto simp: parse_line_def bind_sum_def finish_hunk_def split: if_splits sum.splits
        dest: header body path)
qed

lemma parse_diff_error:
  assumes "parse_unified_diff d = Inl e"
  shows "(\<exists>m. e = DiffValidationError m) \<or> (\<exists>m. e = ValueError m)"
proof -
  have lines: "parse_lines ls s = Inl e \<Longrightarrow> ?thesis" for ls s
    by (induction ls arbitrary: s) (auto simp: bind_sum_def split: sum.splits dest: parse_line_error)
  with assms show ?thesis
    by (auto simp: parse_unified_diff_def bind_sum_def finish_hunk_def split: sum.splits if_splits)
qed

text \<open>One attempt raises only what the loop handles.\<close>

lemma raises_openai_attempt: "raises (\<lambda>e. is_fatal_response e \<or> is_retried e) (openai_attempt cfg k parsed body)"
  unfolding openai_attempt_def response_bytes_def json_loads_def review_of_text_def
  by (intro raises_intros)
    (auto simp: extract_output_text_def validate_result_def Let_def split: json.splits if_splits
      dest!: validate_findings_error)

fun is_failed_review :: "error \<Rightarrow> bool" where
  "is_failed_review (OpenAIReviewError _) = True"
| "is_failed_review _ = False"

fun_cases failed_reviewE: "is_failed_review e"
fun_cases review_errorE: "is_review_error e"

lemma raises_openai_attempts:
  assumes "raises (\<lambda>e. is_fatal_response e \<or> is_retried e) once"
  shows "raises is_failed_review (openai_attempts cfg once n left)"
proof (induction left arbitrary: n)
  case 0
  then show ?case by (simp add: raises_raise)
next
  case (Suc left)
  then show ?case
    unfolding openai_attempts.simps sleep_def log_event_def
    by (intro raises_catch [OF assms] raises_intros) auto
qed

definition huge_number :: "string \<Rightarrow> error \<Rightarrow> bool" where
  "huge_number diff e = (parse_unified_diff diff = Inl e \<and> (\<exists>m. e = ValueError m))"

lemma raises_openai_review: "raises (\<lambda>e. is_review_error e \<or> huge_number d e) (openai_review cfg k d x)"
  unfolding openai_review_def bounded_utf8_def
  by (intro raises_intros raises_weaken [OF raises_openai_attempts [OF raises_openai_attempt]])
    (auto simp: huge_number_def elim: failed_reviewE dest: parse_diff_error)


definition broker_failure :: "broker_app \<Rightarrow> (string \<times> string) option \<Rightarrow> broker_request \<Rightarrow> error \<Rightarrow> bool" where
  "broker_failure app credentials q e =
     ((\<exists>status m. e = HTTPException status m \<and> status \<in> {401, 422, 502})
      \<or> (\<exists>m. e = TypeError m) \<and> (\<exists>scheme v. credentials = Some (scheme, v) \<and> \<not> (is_ascii v \<and> is_ascii (ba_token app)))
      \<or> huge_number (bq_diff q) e)"

lemma raises_broker_endpoint: "raises (broker_failure app credentials q) (broker_endpoint app credentials q)"
proof -
  have "raises (broker_failure app credentials q) (lift_io (broker_authenticate app credentials))"
    by (rule raises_lift) (auto simp: broker_failure_def broker_authenticate_def compare_digest_str_def Let_def bind_sum_def
        split: option.splits prod.splits if_splits)
  moreover have "raises (broker_failure app credentials q)
      (catch_io (openai_review (ba_config app) (ba_api_key app) (bq_diff q) (bq_relevant_context q))
        is_review_error (\<lambda>e. raise_io (broker_error e)))"
    by (rule raises_catch [OF raises_openai_review])
      (auto simp: broker_failure_def elim!: review_errorE intro: raises_raise)
  ultimately show ?thesis
    unfolding broker_endpoint_def by (intro raises_bind raises_return)
qed




subsection \<open>A client and its server\<close>

text \<open>The status the framework gives an exception that leaves an endpoint.\<close>

fun raised_status :: "error \<Rightarrow> int" where
  "raised_status (HTTPException status _) = status"
| "raised_status _ = 500"

text \<open>
  What a complete answer of a server shows of the endpoint's result: the value in the body of a
  200, or the status of the exception.
\<close>

definition shown_by :: "('a \<Rightarrow> http_response \<Rightarrow> bool) \<Rightarrow> 'a outcome \<Rightarrow> http_response \<Rightarrow> bool" where
  "shown_by body result response = (\<not> resp_breaks response \<and> (case result of
      Inr v \<Rightarrow> resp_status response = 200 \<and> body v response
    | Inl e \<Rightarrow> resp_status response = raised_status e))"

text \<open>
  A client that makes one exchange: the request of a call, what it reads in a 200 and what it
  raises for an error status.
\<close>

locale remote_call =
  fixes call :: "'q \<Rightarrow> 'a task"
    and request_of :: "'q \<Rightarrow> http_request"
    and asks :: "'q \<Rightarrow> bool"
    and reads :: "env \<Rightarrow> http_response \<Rightarrow> 'a outcome"
    and refusal :: "int \<Rightarrow> error"
  assumes call_sends: "asks q \<Longrightarrow> w_events (snd (call q w)) = w_events w @ [Request (request_of q)]"
    and call_keeps: "w_db (snd (call q w)) = w_db w"
    and call_reads: "asks q \<Longrightarrow> env_net (w_env w) (w_events w) (request_of q) = Reply response \<Longrightarrow>
      \<not> resp_breaks response \<Longrightarrow> resp_status response = 200 \<Longrightarrow> fst (call q w) = reads (w_env w) response"
    and call_refused: "asks q \<Longrightarrow> env_net (w_env w) (w_events w) (request_of q) = Reply response \<Longrightarrow>
      \<not> resp_breaks response \<Longrightarrow> 400 \<le> resp_status response \<Longrightarrow>
      fst (call q w) = Inl (refusal (resp_status response))"
begin

lemma call_composes:
  assumes "asks q" and "env_net (w_env w) (w_events w) (request_of q) = Reply response"
    and "shown_by body result response"
    and "\<And>e. result = Inl e \<Longrightarrow> 400 \<le> raised_status e"
    and "\<And>v. result = Inr v \<Longrightarrow> body v response \<Longrightarrow> reads (w_env w) response = f v"
  shows "fst (call q w) = (case result of Inr v \<Rightarrow> f v | Inl e \<Rightarrow> Inl (refusal (raised_status e)))"
proof (cases result)
  case (Inl e)
  with call_refused [OF assms(1,2)] assms(3) assms(4) [OF Inl] show ?thesis by (simp add: shown_by_def)
next
  case (Inr v)
  with call_reads [OF assms(1,2)] assms(3) assms(5) [OF Inr] show ?thesis by (simp add: shown_by_def)
qed

end


subsection \<open>The broker behind its client\<close>

text \<open>Outside: the parsed \<open>Authorization\<close> header and the decoded request model.\<close>

record broker_libraries =
  bl_credentials :: "(string \<times> string) list \<Rightarrow> (string \<times> string) option"
  bl_request :: "json \<Rightarrow> broker_request option"

text \<open>The dependency runs before the endpoint sees a body that does not decode.\<close>

definition broker_serve :: "broker_libraries \<Rightarrow> broker_app \<Rightarrow> http_request \<Rightarrow> broker_review task" where
  "broker_serve lib app request =
     (let credentials = bl_credentials lib (req_headers request) in
      case (case req_body request of JsonBody j \<Rightarrow> bl_request lib j | _ \<Rightarrow> None) of
        Some q \<Rightarrow> broker_endpoint app credentials q
      | None \<Rightarrow> seq_io (lift_io (broker_authenticate app credentials))
          (raise_io (HTTPException 422 ''request validation'')))"

text \<open>\<open>ReviewBrokerResponse\<close> as JSON.\<close>

definition review_json :: "review_result \<Rightarrow> json" where
  "review_json r = JObj [(''summary'', JStr (rev_summary r)),
     (''findings'', JList (map (JObj \<circ> finding_json) (rev_findings r)))]"

definition broker_response_json :: "broker_review \<Rightarrow> json" where
  "broker_response_json v = JObj [(''model'', JStr (br_model v)), (''prompt_version'', JStr (br_prompt_version v)),
     (''blocking'', JBool (br_blocking v)), (''review'', review_json (br_review v))]"

text \<open>The request model a JSON body of the client describes.\<close>

definition request_json :: "broker_request \<Rightarrow> json" where
  "request_json q = JObj [(''repository'', JStr (bq_repository q)), (''pull_request'', JInt (bq_pull_request q)),
     (''base_sha'', JStr (bq_base_sha q)), (''head_sha'', JStr (bq_head_sha q)), (''diff'', JStr (bq_diff q)),
     (''relevant_context'', JStr (bq_relevant_context q))]"

definition posted :: "string \<Rightarrow> int \<Rightarrow> string \<Rightarrow> string \<Rightarrow> string \<Rightarrow> string \<Rightarrow> broker_request" where
  "posted r n bs hs d x = \<lparr>bq_repository = r, bq_pull_request = n, bq_base_sha = py_lower bs, bq_head_sha = py_lower hs,
     bq_diff = d, bq_relevant_context = x\<rparr>"

lemma broker_body_posted: "broker_body r n bs hs d x = request_json (posted r n bs hs d x)"
  by (simp add: broker_body_def request_json_def posted_def)

text \<open>The decoders invert the encoders on what the models accept.\<close>

definition decodes_requests :: "broker_libraries \<Rightarrow> bool" where
  "decodes_requests lib = (\<forall>q. bl_request lib (request_json q) = (if valid_broker_request q then Some q else None))"

definition decodes_reviews :: "env \<Rightarrow> bool" where
  "decodes_reviews e = (\<forall>r. valid_review_result r \<longrightarrow> env_review_result e (review_json r) = Some r)"

lemma broker_serve_error:
  assumes "broker_serve lib app request w = (Inl e, t)"
  shows "raised_status e \<in> {401, 422, 500, 502}"
proof (cases "case req_body request of JsonBody j \<Rightarrow> bl_request lib j | _ \<Rightarrow> None")
  case None
  with assms show ?thesis
    by (auto simp: broker_serve_def Let_def run_seq run_lift run_raise broker_authenticate_def compare_digest_str_def
        bind_sum_def split: sum.splits option.splits prod.splits if_splits)
next
  case (Some q)
  with assms have "broker_endpoint app (bl_credentials lib (req_headers request)) q w = (Inl e, t)"
    by (simp add: broker_serve_def Let_def)
  note raisesD [OF raises_broker_endpoint this]
  then show ?thesis by (auto simp: broker_failure_def huge_number_def)
qed

lemma broker_endpoint_valid:
  assumes "world_ok w" and "broker_endpoint app credentials q w = (Inr v, t)"
  shows "valid_review_result (br_review v)"
proof -
  from assms(2) obtain r where "openai_review (ba_config app) (ba_api_key app) (bq_diff q) (bq_relevant_context q) w = (Inr r, t)"
    "br_review v = r"
    by (auto simp: broker_endpoint_def run_bind run_lift run_catch run_return run_raise
        split: sum.splits prod.splits if_splits)
  with openai_review_validated [OF assms(1)] show ?thesis by blast
qed

lemma broker_serve_valid:
  assumes "world_ok w" and "broker_serve lib app request w = (Inr v, t)"
  shows "valid_review_result (br_review v)"
proof (cases "case req_body request of JsonBody j \<Rightarrow> bl_request lib j | _ \<Rightarrow> None")
  case None
  with assms show ?thesis by (simp add: broker_serve_def Let_def run_seq run_lift run_raise split: sum.splits)
next
  case (Some q)
  with assms(2) have "broker_endpoint app (bl_credentials lib (req_headers request)) q w = (Inr v, t)"
    by (simp add: broker_serve_def Let_def)
  from broker_endpoint_valid [OF assms(1) this] show ?thesis .
qed

lemma read_own_response:
  assumes "decodes_reviews e" and "valid_review_result (br_review v)"
  shows "read_broker_review e (broker_response_json v) = Inr v"
  using assms
  by (simp add: read_broker_review_def broker_response_json_def py_str_def decodes_reviews_def)

type_synonym broker_call = "string \<times> int \<times> string \<times> string \<times> string \<times> string"

fun call_broker :: "broker_client \<Rightarrow> broker_call \<Rightarrow> broker_review task" where
  "call_broker c (r, n, bs, hs, d, x) = broker_review_call c r n bs hs d x"

fun broker_call_request :: "broker_client \<Rightarrow> broker_call \<Rightarrow> http_request" where
  "broker_call_request c (r, n, bs, hs, d, x) = review_call_request c (broker_body r n bs hs d x)"

definition read_broker_answer :: "env \<Rightarrow> http_response \<Rightarrow> broker_review outcome" where
  "read_broker_answer e response = (case resp_json response of
      None \<Rightarrow> Inl (UpstreamError ''review broker returned no valid review'')
    | Some j \<Rightarrow> (case read_broker_review e j of
        Inl err \<Rightarrow> Inl (if is_shape_error err then UpstreamError ''review broker returned no valid review'' else err)
      | Inr v \<Rightarrow> Inr v))"

interpretation broker: remote_call "call_broker c" "broker_call_request c" "\<lambda>_. True" read_broker_answer
    "\<lambda>_. UpstreamError ''review broker returned no valid review''" for c
proof (unfold_locales, goal_cases)
  case (1 q w)
  show ?case
    by (cases q) (simp add: broker_review_call_def review_call_request_def run_catch run_bind run_seq run_raise run_get run_lift
        http_def raise_for_status_def response_json_def run_return Let_def
        split: http_reply.split sum.split option.split prod.split)
next
  case (2 q w)
  show ?case using leaves_broker_review_call(1) by (cases q) (simp add: leaves_def)
next
  case (3 q w response)
  then show ?case
    by (cases q) (simp add: broker_review_call_def review_call_request_def run_catch run_bind run_seq run_raise run_get run_lift
        http_def raise_for_status_def response_json_def run_return Let_def read_broker_answer_def
        split: sum.split option.split prod.split)
next
  case (4 q w response)
  then show ?case
    by (cases q) (simp add: broker_review_call_def review_call_request_def run_catch run_bind run_seq run_raise run_get run_lift
        http_def raise_for_status_def response_json_def run_return Let_def)
qed

text \<open>The body a reply of the broker carries.\<close>

definition broker_shows :: "broker_review \<Rightarrow> http_response \<Rightarrow> bool" where
  "broker_shows v response = (resp_json response = Some (broker_response_json v))"

text \<open>The service gets exactly what the broker computed, or its one error.\<close>

lemma broker_call_composes:
  assumes "world_ok b" and "decodes_reviews (w_env w)"
    and "env_net (w_env w) (w_events w) (broker_call_request c q) = Reply response"
    and "shown_by broker_shows (fst (broker_serve lib app (broker_call_request c q) b)) response"
  shows "fst (call_broker c q w) = (case fst (broker_serve lib app (broker_call_request c q) b) of
      Inr v \<Rightarrow> Inr v | Inl e \<Rightarrow> Inl (UpstreamError ''review broker returned no valid review''))"
proof (rule broker.call_composes [OF TrueI assms(3,4)])
  show "400 \<le> raised_status e" if "fst (broker_serve lib app (broker_call_request c q) b) = Inl e" for e
    using that broker_serve_error [of lib app "broker_call_request c q" b e]
    by (cases "broker_serve lib app (broker_call_request c q) b") auto
next
  show "read_broker_answer (w_env w) response = Inr v"
    if "fst (broker_serve lib app (broker_call_request c q) b) = Inr v" "broker_shows v response" for v
    using that(2) read_own_response [OF assms(2) broker_serve_valid [OF assms(1) prod.collapse [symmetric, of "broker_serve lib app (broker_call_request c q) b", unfolded that(1)]]]
    by (simp add: read_broker_answer_def broker_shows_def)
qed

text \<open>A lower-case commit of the request, and a repository that fits the broker's pattern.\<close>

lemma lower_hex_char: "is_hex c \<Longrightarrow> is_lower_hex (py_lower_char c)"
  by (auto simp: is_hex_def is_lower_hex_def py_lower_char_def Let_def of_char_of)

lemma lower_sha: "is_sha40 s \<Longrightarrow> is_lower_sha40 (py_lower s)"
  by (auto simp: is_sha40_def is_lower_sha40_def py_lower_def list_all_iff lower_hex_char)

lemma repository_part_plain: "valid_repo_part s \<Longrightarrow> CHR ''/'' \<notin> set s"
  by (auto simp: valid_repo_part_def list_all_iff name_char_def is_alnum_def is_digit_def is_alpha_def)

lemma posted_valid:
  assumes "valid_repository_create r" and "length (full_name r) \<le> 200" and "1 \<le> n"
    and "is_sha40 bs" and "is_sha40 hs" and "d \<noteq> []"
  shows "valid_broker_request (posted (full_name r) n bs hs d x)"
proof -
  have "py_split (CHR ''/'') (full_name r) = [repo_owner r, repo_name r]"
    using assms(1) py_split_join [of "[repo_owner r, repo_name r]" "CHR ''/''"]
    by (simp add: full_name_def valid_repository_create_def repository_part_plain)
  then show ?thesis
    using assms by (simp add: valid_broker_request_def valid_broker_repository_def posted_def lower_sha
        valid_repository_create_def)
qed

text \<open>
  C18: With a broker of the same model and prompt behind it, a review of a registered repository
  is what the broker's OpenAI client returned for the same diff, unless the diff is over the
  policy's limit or does not parse: the service's own checks of model, prompt and locations
  refuse nothing the broker answers, and every failure of the broker is one \<open>UpstreamError\<close>.
\<close>

theorem validated_review_is_the_brokers:
  assumes "env_net (w_env w) (w_events w) asked = Reply response"
    and "asked = broker_call_request c (full_name r, n, bs, res_commit_sha (cmp_result k), d, [])"
    and "res_repository (cmp_result k) = full_name r"
    and "shown_by broker_shows (fst (broker_serve lib app asked b)) response"
    and "world_ok b" and "decodes_requests lib" and "decodes_reviews (w_env w)"
    and "broker_authenticate app (bl_credentials lib (bc_headers c)) = Inr ()"
    and "rc_model (ba_config app) = sv_openai_model sv" and "rc_prompt_version (ba_config app) = sv_prompt_version sv"
    and "valid_repository_create r" and "length (full_name r) \<le> 200" and "1 \<le> n"
    and "is_sha40 bs" and "is_sha40 (res_commit_sha (cmp_result k))" and "d \<noteq> []"
  shows "fst (validated_review sv c k n bs d w) =
    (if int (length (utf8_encode d)) > rp_max_diff_bytes (cmp_review k)
     then Inl (DiffValidationError ''trusted review diff exceeds configured byte limit'')
     else case parse_unified_diff d of Inl e \<Rightarrow> Inl e
       | Inr _ \<Rightarrow> (case fst (openai_review (ba_config app) (ba_api_key app) d [] b) of
           Inl _ \<Rightarrow> Inl (UpstreamError ''review broker returned no valid review'')
         | Inr v \<Rightarrow> Inr \<lparr>br_model = sv_openai_model sv, br_prompt_version = sv_prompt_version sv,
             br_blocking = has_critical_findings v, br_review = v\<rparr>))"
proof -
  let ?q = "(full_name r, n, bs, res_commit_sha (cmp_result k), d, [])"
  let ?review = "openai_review (ba_config app) (ba_api_key app) d [] b"
  have "broker_serve lib app asked b = broker_endpoint app (bl_credentials lib (bc_headers c))
      (posted (full_name r) n bs (res_commit_sha (cmp_result k)) d []) b"
    using assms(6) posted_valid [OF assms(11,12,13,14,15,16)]
    by (simp add: broker_serve_def assms(2) review_call_request_def broker_body_posted decodes_requests_def)
  then have served: "fst (broker_serve lib app asked b) = (case fst ?review of
      Inl e \<Rightarrow> Inl (if is_review_error e then broker_error e else e)
    | Inr v \<Rightarrow> Inr \<lparr>br_model = sv_openai_model sv, br_prompt_version = sv_prompt_version sv,
        br_blocking = has_critical_findings v, br_review = v\<rparr>)"
    using assms(8,9,10)
    by (simp add: broker_endpoint_def posted_def run_bind run_lift run_catch run_return run_raise
        split: sum.split prod.split)
  have call: "fst (broker_review_call c (full_name r) n bs (res_commit_sha (cmp_result k)) d [] w) =
      (case fst ?review of Inl _ \<Rightarrow> Inl (UpstreamError ''review broker returned no valid review'')
       | Inr v \<Rightarrow> Inr \<lparr>br_model = sv_openai_model sv, br_prompt_version = sv_prompt_version sv,
           br_blocking = has_critical_findings v, br_review = v\<rparr>)"
    using broker_call_composes [OF assms(5,7), of c ?q response lib app] assms(1,2,4) served
    by (simp split: sum.splits)
  have checked: "validate_result parsed v = Inr ()"
    if "fst ?review = Inr v" "parse_unified_diff d = Inr parsed" for v parsed
    using openai_review_validated [OF assms(5) prod.collapse [symmetric, of ?review, unfolded that(1)]] that(2)
    by (simp add: validate_result_Inr)
  show ?thesis
    using call checked
    by (auto simp: validated_review_def assms(3) run_raise run_bind run_lift run_seq run_return
        split: sum.splits prod.splits) 
qed


subsection \<open>The runner behind its client\<close>

definition run_json :: "run_request \<Rightarrow> json" where
  "run_json q = JObj [(''manifest'', manifest_json (rr_manifest q)), (''action'', JStr (rr_action q)),
     (''payload'', JObj (rr_payload q))]"

text \<open>The endpoint behind the decoder of \<open>RunRequest\<close>.\<close>

definition runner_serve ::
    "(json \<Rightarrow> run_request option) \<Rightarrow> runner_libraries \<Rightarrow> extension_catalog \<Rightarrow> int \<Rightarrow> http_request
     \<Rightarrow> extension_output runner" where
  "runner_serve decode lib catalog limit request =
     (case (case req_body request of JsonBody j \<Rightarrow> decode j | _ \<Rightarrow> None) of
        Some q \<Rightarrow> run_endpoint lib catalog limit q
      | None \<Rightarrow> raise_io (HTTPException 422 ''request validation''))"

definition decodes_runs :: "(json \<Rightarrow> run_request option) \<Rightarrow> bool" where
  "decodes_runs decode = (\<forall>q. valid_extension_manifest (rr_manifest q) \<longrightarrow> decode (run_json q) = Some q)"

text \<open>\<open>text\<close> is what the framework writes for an output; the client's decoder reads it back.\<close>

definition output_shows :: "(extension_output \<Rightarrow> string) \<Rightarrow> extension_output \<Rightarrow> http_response \<Rightarrow> bool" where
  "output_shows printed v response = (concat (resp_chunks response) = printed v)"

definition decodes_outputs :: "env \<Rightarrow> runner_libraries \<Rightarrow> (extension_output \<Rightarrow> string) \<Rightarrow> bool" where
  "decodes_outputs e lib printed = (\<forall>j v. rl_output lib j = Some v \<longrightarrow> env_extension_output e (printed v) = Some v)"

lemma validate_request_error: "validate_request c q = Inl e \<Longrightarrow> raised_status e \<in> {400, 403, 422}"
  by (auto simp: validate_request_def catalog_get_def validate_input_def catalog_validate_def bind_sum_def
      split: option.splits if_splits sum.splits list.splits)

lemma conclude_error:
  assumes "conclude lib c i n p es = (Inl e, fs)"
  shows "raised_status e \<in> {422, 500, 502, 504}"
proof -
  have parsed: "parse_output lib c i out = Inl x \<Longrightarrow> is_value_error x" for out x
    by (auto simp: parse_output_def validate_output_def catalog_validate_def catalog_get_def bind_sum_def
        split: option.splits sum.splits list.splits)
  have com: "communicate_bounded p n = Inl x \<Longrightarrow> x \<noteq> TimeoutError [] \<Longrightarrow> x \<noteq> OutputLimitExceededError [] \<Longrightarrow>
      raised_status x = 500" for x
    using communicate_error [of p n x] by auto
  from assms show ?thesis
    by (auto simp: conclude_cases dest: parsed com split: sum.splits prod.splits if_splits)
qed

text \<open>A call of the runner that fails is an error status, whatever the process does.\<close>

lemma run_endpoint_error:
  "run_endpoint lib c n q es = (Inl e, fs) \<Longrightarrow> raised_status e \<in> {400, 403, 422, 500, 502, 504}"
  using validate_request_error [of c q e] conclude_error
  by (auto simp: run_endpoint_def run_bind run_lift run_seq runner_log_def run_update Let_def split: sum.splits)

lemma run_endpoint_decoded:
  assumes "run_endpoint lib c n q es = (Inr v, fs)"
  shows "\<exists>j. rl_output lib j = Some v"
  using assms
  by (auto simp: run_endpoint_def run_bind run_lift run_seq runner_log_def run_update Let_def conclude_cases
      parse_output_def bind_sum_def split: sum.splits prod.splits if_splits option.splits)

type_synonym runner_call = "extension_manifest \<times> string \<times> jobj"

fun call_runner :: "runner_client \<Rightarrow> runner_call \<Rightarrow> extension_output task" where
  "call_runner c (m, a, payload) = run_extension c m a (JObj payload)"

fun runner_call_request :: "runner_client \<Rightarrow> runner_call \<Rightarrow> http_request" where
  "runner_call_request c (m, a, payload) = \<lparr>req_method = POST, req_url = rn_base_url c @ ''/internal/v1/run'',
     req_headers = [], req_params = [], req_auth = None,
     req_body = JsonBody (run_json \<lparr>rr_manifest = m, rr_action = a, rr_payload = payload\<rparr>)\<rparr>"

definition declared :: "runner_call \<Rightarrow> bool" where
  "declared = (\<lambda>(m, a, payload). a \<in> set (man_actions m))"

definition read_runner_answer :: "runner_client \<Rightarrow> env \<Rightarrow> http_response \<Rightarrow> extension_output outcome" where
  "read_runner_answer c e response =
     (let content = concat (resp_chunks response) in
      if int (length content) > rn_max_output_bytes c
      then Inl (ValueError ''extension output exceeds configured limit'')
      else case env_extension_output e content of
          None \<Rightarrow> Inl (ValueError ''extension returned invalid output'') | Some x \<Rightarrow> Inr x)"

lemmas run_call = run_extension_def run_json_def declared_def run_catch run_bind run_seq run_raise run_get run_return
  raise_for_status_def Let_def

interpretation runner: remote_call "call_runner c" "runner_call_request c" declared "read_runner_answer c"
    "\<lambda>status. HTTPError (str_int status)" for c
proof (unfold_locales, goal_cases)
  case (1 q w)
  then show ?case
    by (cases q) (simp add: run_call http_def split: http_reply.split option.split)
next
  case (2 q w)
  show ?case
    by (cases q) (simp add: run_call http_def split: http_reply.split option.split)
next
  case (3 q w response)
  then show ?case
    by (cases q) (simp add: run_call http_def read_runner_answer_def split: option.split)
next
  case (4 q w response)
  then show ?case by (cases q) (simp add: run_call http_def)
qed

text \<open>
  C19: A call of the service's runner client returns the output the runner's endpoint checked, or
  the runner's status as an \<open>HTTPError\<close>; only an output whose printed form exceeds the client's
  own limit is refused.
\<close>

theorem runner_call_is_the_endpoint:
  assumes "env_net (w_env w) (w_events w) (runner_call_request c (m, a, payload)) = Reply response"
    and "shown_by (output_shows printed)
      (fst (runner_serve decode lib catalog limit (runner_call_request c (m, a, payload)) es)) response"
    and "decodes_runs decode" and "decodes_outputs (w_env w) lib printed"
    and "valid_extension_manifest m" and "a \<in> set (man_actions m)"
  shows "fst (run_extension c m a (JObj payload) w) =
    (case fst (run_endpoint lib catalog limit \<lparr>rr_manifest = m, rr_action = a, rr_payload = payload\<rparr> es) of
       Inr v \<Rightarrow> if int (length (printed v)) > rn_max_output_bytes c
         then Inl (ValueError ''extension output exceeds configured limit'') else Inr v
     | Inl e \<Rightarrow> Inl (HTTPError (str_int (raised_status e))))"
proof -
  let ?q = "\<lparr>rr_manifest = m, rr_action = a, rr_payload = payload\<rparr>"
  let ?run = "run_endpoint lib catalog limit ?q es"
  have served: "runner_serve decode lib catalog limit (runner_call_request c (m, a, payload)) es = ?run"
    using assms(3,5) by (simp add: runner_serve_def decodes_runs_def)
  have "declared (m, a, payload)" using assms(6) by (simp add: declared_def)
  then have "fst (call_runner c (m, a, payload) w) = (case fst ?run of
       Inr v \<Rightarrow> if int (length (printed v)) > rn_max_output_bytes c
         then Inl (ValueError ''extension output exceeds configured limit'') else Inr v
     | Inl e \<Rightarrow> Inl (HTTPError (str_int (raised_status e))))"
  proof (rule runner.call_composes [OF _ assms(1,2) [unfolded served]])
    show "400 \<le> raised_status e" if "fst ?run = Inl e" for e
      using run_endpoint_error [OF prod.collapse [symmetric, of ?run, unfolded that]] by auto
  next
    fix v
    assume v: "fst ?run = Inr v" and body: "output_shows printed v response"
    from run_endpoint_decoded [OF prod.collapse [symmetric, of ?run, unfolded v]] assms(4)
    have "env_extension_output (w_env w) (printed v) = Some v" by (auto simp: decodes_outputs_def)
    with body show "read_runner_answer c (w_env w) response =
        (if int (length (printed v)) > rn_max_output_bytes c
         then Inl (ValueError ''extension output exceeds configured limit'') else Inr v)"
      by (simp add: read_runner_answer_def output_shows_def Let_def)
  qed
  then show ?thesis by simp
qed


subsection \<open>A broker behind a client\<close>

text \<open>Decoders with the two laws, to show that they can hold.\<close>

definition severity_of :: "string \<Rightarrow> severity option" where
  "severity_of s = (if s = ''critical'' then Some Critical else if s = ''high'' then Some High
     else if s = ''medium'' then Some Medium else if s = ''low'' then Some Low else None)"

lemma severity_of_name: "severity_of (severity_name s) = Some s"
  by (cases s) (simp_all add: severity_of_def)

definition finding_of :: "json \<Rightarrow> review_finding option" where
  "finding_of j = (case j of
      JObj [(_, JStr s), (_, JStr title), (_, JStr body), (_, JStr path), (_, JInt line)] \<Rightarrow>
        map_option (\<lambda>s. \<lparr>find_severity = s, find_title = title, find_body = body, find_path = path, find_line = line\<rparr>)
          (severity_of s)
    | _ \<Rightarrow> None)"

definition review_of :: "json \<Rightarrow> review_result option" where
  "review_of j = (case j of
      JObj [(_, JStr summary), (_, JList findings)] \<Rightarrow>
        if None \<in> set (map finding_of findings) then None
        else let r = \<lparr>rev_summary = summary, rev_findings = map (the \<circ> finding_of) findings\<rparr> in
          if valid_review_result r then Some r else None
    | _ \<Rightarrow> None)"

lemma review_of_json: "valid_review_result r \<Longrightarrow> review_of (review_json r) = Some r"
proof -
  have "finding_of (JObj (finding_json f)) = Some f" for f
    by (simp add: finding_of_def finding_json_def severity_of_name)
  then show "valid_review_result r \<Longrightarrow> review_of (review_json r) = Some r"
    by (cases r) (auto simp: review_of_def review_json_def comp_def Let_def)
qed

definition broker_request_of :: "json \<Rightarrow> broker_request option" where
  "broker_request_of j = (case j of
      JObj [(_, JStr r), (_, JInt n), (_, JStr bs), (_, JStr hs), (_, JStr d), (_, JStr x)] \<Rightarrow>
        let q = \<lparr>bq_repository = r, bq_pull_request = n, bq_base_sha = bs, bq_head_sha = hs, bq_diff = d,
          bq_relevant_context = x\<rparr> in if valid_broker_request q then Some q else None
    | _ \<Rightarrow> None)"

definition demo_libraries :: broker_libraries where
  "demo_libraries = \<lparr>bl_credentials = (\<lambda>_. Some (''bearer'', ''token'')), bl_request = broker_request_of\<rparr>"

lemma demo_decodes: "decodes_requests demo_libraries"
proof -
  have "broker_request_of (request_json q) = (if valid_broker_request q then Some q else None)" for q
    by (cases q) (simp add: broker_request_of_def request_json_def)
  then show ?thesis by (simp add: decodes_requests_def demo_libraries_def)
qed

definition demo_broker_client :: broker_client where
  "demo_broker_client = new_broker_client ''http://b'' ''token''"

definition demo_ask :: http_request where
  "demo_ask = broker_call_request demo_broker_client (''o/r'', 5, demo_sha, demo_sha, demo_diff, [])"

definition demo_broker_result :: "broker_review outcome" where
  "demo_broker_result = fst (broker_serve demo_libraries demo_broker demo_ask broker_world)"

definition broker_reply :: "broker_review outcome \<Rightarrow> http_response" where
  "broker_reply result = \<lparr>resp_status = (case result of Inl e \<Rightarrow> raised_status e | Inr _ \<Rightarrow> 200), resp_headers = [],
     resp_text = [], resp_json = (case result of Inl _ \<Rightarrow> None | Inr v \<Rightarrow> Some (broker_response_json v)),
     resp_chunks = [], resp_breaks = False\<rparr>"

lemma broker_reply_shows: "shown_by broker_shows result (broker_reply result)"
  by (cases result) (simp_all add: shown_by_def broker_shows_def broker_reply_def)

definition beside_broker :: world where
  "beside_broker = (review_world (\<lambda>_ _. Reply (broker_reply demo_broker_result)) (demo_db (demo_build Queued None)))
     \<lparr>w_env := (demo_env (\<lambda>_ _. Reply (broker_reply demo_broker_result)))\<lparr>env_review_result := review_of\<rparr>\<rparr>"

lemma demo_ask_served: "fst (openai_review (ba_config demo_broker) (ba_api_key demo_broker) demo_diff [] broker_world) =
    Inr \<lparr>rev_summary = ''s'', rev_findings = [demo_finding]\<rparr>"
  using demo_openai_review by (auto simp: demo_broker_def)

theorem validated_review_is_the_brokers_witness:
  "fst (validated_review (review_service\<lparr>sv_openai_model := ''gpt-5.6-terra''\<rparr>) demo_broker_client (pull_completion demo_diff) 5
     demo_sha demo_diff beside_broker) =
   Inr \<lparr>br_model = ''gpt-5.6-terra'', br_prompt_version = ''v1'', br_blocking = True,
     br_review = \<lparr>rev_summary = ''s'', rev_findings = [demo_finding]\<rparr>\<rparr>"
proof -
  have config: "rc_model (ba_config demo_broker) = ''gpt-5.6-terra''" "rc_prompt_version (ba_config demo_broker) = ''v1''"
    by (simp_all add: demo_broker_def default_review_config_def)
  have sha: "is_sha40 demo_sha" by code_simp
  have small: "\<not> rp_max_diff_bytes (cmp_review (pull_completion demo_diff)) < int (length (utf8_encode demo_diff))"
    using demo_diff_small by (simp add: pull_completion_def demo_completion_def default_review_policy_def)
  have name: "full_name demo_repository = ''o/r''" by (simp add: full_name_def demo_repository_def)
  have "safe_branch ''main''" by code_simp
  then have repo: "valid_repository_create demo_repository"
    by (simp add: valid_repository_create_def demo_repository_def valid_repo_part_def name_char_def
        is_alnum_def is_alpha_def)
  have shown: "shown_by broker_shows (fst (broker_serve demo_libraries demo_broker demo_ask broker_world))
      (broker_reply demo_broker_result)"
    unfolding demo_broker_result_def by (rule broker_reply_shows)
  have diff: "demo_diff \<noteq> []" by (simp add: demo_diff_def)
  have result: "res_repository (cmp_result (pull_completion demo_diff)) = ''o/r''"
    "res_commit_sha (cmp_result (pull_completion demo_diff)) = demo_sha"
    by (simp_all add: pull_completion_def pull_result_def demo_result_def)
  show ?thesis
    using small demo_ask_served config
    by (subst validated_review_is_the_brokers [where asked = demo_ask and r = demo_repository and lib = demo_libraries
          and app = demo_broker and b = broker_world and response = "broker_reply demo_broker_result"])
      (simp_all add: name result repo sha demo_decodes broker_world_ok shown diff,
       simp_all add: beside_broker_def demo_env_def demo_ask_def decodes_reviews_def review_of_json demo_libraries_def
        broker_token_accepted review_service_def demo_service_def demo_diff_parses has_critical_findings_def demo_finding_def)
qed


subsection \<open>A runner behind a client\<close>

definition strings_of :: "json \<Rightarrow> string list option" where
  "strings_of j = (case j of
      JList js \<Rightarrow> if None \<in> set (map as_str js) then None else Some (map (the \<circ> as_str) js) | _ \<Rightarrow> None)"

lemma strings_of_map [simp]: "strings_of (JList (map JStr ss)) = Some ss"
  by (auto simp: strings_of_def comp_def)

definition manifest_of :: "json \<Rightarrow> extension_manifest option" where
  "manifest_of j = (case j of
      JObj [_, (_, JStr i), (_, JStr img), (_, contracts), (_, actions), (_, JStr input), (_, JStr output), (_, github),
        (_, secrets), _, (_, JInt timeout), (_, JInt memory), (_, JFloat cpus)] \<Rightarrow>
        Option.bind (strings_of contracts) (\<lambda>contracts. Option.bind (strings_of actions) (\<lambda>actions.
        Option.bind (strings_of github) (\<lambda>github. Option.bind (strings_of secrets) (\<lambda>secrets.
          Some \<lparr>man_id = i, man_image = img, man_compatible_contracts = contracts, man_actions = actions,
            man_input_schema = input, man_output_schema = output, man_github_actions = github,
            man_required_secrets = secrets, man_timeout_seconds = timeout, man_memory_mb = memory, man_cpus = cpus\<rparr>))))
    | _ \<Rightarrow> None)"

lemma manifest_of_json: "manifest_of (manifest_json m) = Some m"
  by (cases m) (simp add: manifest_of_def manifest_json_def)

definition run_request_of :: "json \<Rightarrow> run_request option" where
  "run_request_of j = (case j of
      JObj [(_, manifest), (_, JStr action), (_, JObj payload)] \<Rightarrow>
        map_option (\<lambda>m. \<lparr>rr_manifest = m, rr_action = action, rr_payload = payload\<rparr>) (manifest_of manifest)
    | _ \<Rightarrow> None)"

lemma demo_decodes_runs: "decodes_runs run_request_of"
proof -
  have "run_request_of (run_json q) = Some q" for q
    by (cases q) (simp add: run_request_of_def run_json_def manifest_of_json)
  then show ?thesis by (simp add: decodes_runs_def)
qed

definition pinned_manifest :: extension_manifest where
  "pinned_manifest = demo_manifest\<lparr>man_image := ''r@sha256:'' @ replicate 64 (CHR ''0'')\<rparr>"

lemma pinned_manifest_valid: "valid_extension_manifest pinned_manifest"
  by code_simp

definition pinned_catalog :: extension_catalog where
  "pinned_catalog = \<lparr>cat_manifests = [(''lint'', pinned_manifest)], cat_schema_errors = (\<lambda>_ _ _. [])\<rparr>"

definition demo_run_reply :: http_response where
  "demo_run_reply = \<lparr>resp_status = 200, resp_headers = [], resp_text = [], resp_json = None,
     resp_chunks = [''{}''], resp_breaks = False\<rparr>"

definition beside_runner :: world where
  "beside_runner = ext_world\<lparr>w_env := (w_env ext_world)\<lparr>env_net := (\<lambda>_ _. Reply demo_run_reply)\<rparr>\<rparr>"

lemma pinned_run: "fst (run_endpoint demo_runner pinned_catalog 1000
    \<lparr>rr_manifest = pinned_manifest, rr_action = ''run'', rr_payload = []\<rparr> []) = Inr empty_extension_output"
  by (simp add: run_endpoint_def validate_request_def catalog_get_def pinned_catalog_def pinned_manifest_def
      demo_manifest_def validate_input_def catalog_validate_def run_bind run_lift run_seq runner_log_def run_update
      Let_def conclude_cases demo_runner_def communicate_bounded_def parse_output_def validate_output_def)

theorem runner_call_is_the_endpoint_witness:
  "fst (run_extension (sv_runner ext_service) pinned_manifest ''run'' (JObj []) beside_runner) = Inr empty_extension_output"
proof -
  let ?ask = "runner_call_request (sv_runner ext_service) (pinned_manifest, ''run'', [])"
  have served: "fst (runner_serve run_request_of demo_runner pinned_catalog 1000 ?ask []) = Inr empty_extension_output"
    using demo_decodes_runs pinned_manifest_valid pinned_run by (simp add: runner_serve_def decodes_runs_def)
  have action: "''run'' \<in> set (man_actions pinned_manifest)"
    by (simp add: pinned_manifest_def demo_manifest_def)
  have reply: "env_net (w_env beside_runner) (w_events beside_runner) ?ask = Reply demo_run_reply"
    by (simp add: beside_runner_def ext_world_def demo_world_def demo_env_def)
  have shown: "shown_by (output_shows (\<lambda>_. ''{}''))
      (fst (runner_serve run_request_of demo_runner pinned_catalog 1000 ?ask [])) demo_run_reply"
    unfolding served by (simp add: shown_by_def output_shows_def demo_run_reply_def)
  have decode: "decodes_outputs (w_env beside_runner) demo_runner (\<lambda>_. ''{}'')"
    by (simp add: decodes_outputs_def beside_runner_def ext_world_def demo_world_def demo_env_def demo_runner_def)
  show ?thesis
    using runner_call_is_the_endpoint [OF reply shown demo_decodes_runs decode pinned_manifest_valid action] pinned_run
    by (simp add: ext_service_def demo_service_def)
qed

end
