(* ===== verification/Lifecycle.thy ===== *)
theory Lifecycle
  imports Py_Base
begin

section \<open>What is opened and closed\<close>

text \<open>
  The connection pool of \<open>PostgresStore\<close>, the HTTP clients that each peer's class owns or is
  given, and the lifespan hooks of the application and of the broker that open and close them.
  Every opening and closing may fail; the failures are an argument. The lemmas show that
  requests are only served while the store is connected, what is closed when the application
  ends, in which order, and what stays open when a closing fails.
\<close>

subsection \<open>State\<close>

datatype peer = JenkinsPeer | GitHubPeer | BrokerPeer | RunnerPeer | OpenAIPeer

text \<open>
  The pool of the store, by its number; how many were created; the pools and the HTTP clients
  that were closed, in order.
\<close>

record runtime =
  rt_pool :: "nat option"
  rt_created :: nat
  rt_closed_pools :: "nat list"
  rt_closed_clients :: "peer list"

text \<open>
  Outside: what \<open>create_pool\<close>, the closing of a pool, \<open>fetchval\<close>, the closing of a client and
  the two ends of the MCP session manager raise, if they do.
\<close>

record outside =
  out_create_pool :: "nat \<Rightarrow> error option"
  out_close_pool :: "nat \<Rightarrow> error option"
  out_fetchval :: "nat \<Rightarrow> bool outcome"
  out_aclose :: "peer \<Rightarrow> error option"
  out_session_enter :: "error option"
  out_session_exit :: "error option"

definition raise_if :: "error option \<Rightarrow> ('s, unit) io" where
  "raise_if x = (case x of None \<Rightarrow> return_io () | Some e \<Rightarrow> raise_io e)"

text \<open>\<open>try: m / finally: f\<close> where \<open>f\<close> may raise too; then its exception replaces what \<open>m\<close> did.\<close>

definition try_finally :: "('s, 'a) io \<Rightarrow> ('s, unit) io \<Rightarrow> ('s, 'a) io" where
  "try_finally m f = (\<lambda>s. case m s of (r, t) \<Rightarrow> (case f t of
      (Inl e, u) \<Rightarrow> (Inl e, u) | (Inr _, u) \<Rightarrow> (r, u)))"


subsection \<open>The store\<close>

definition pool_in_use :: "(runtime, nat) io" where
  "pool_in_use = bind_io (get_io rt_pool) (\<lambda>p. case p of
      None \<Rightarrow> raise_io (RuntimeError ''PostgreSQL store is not connected'') | Some n \<Rightarrow> return_io n)"

definition store_connect :: "outside \<Rightarrow> (runtime, unit) io" where
  "store_connect out = bind_io (get_io rt_created) (\<lambda>n.
     seq_io (raise_if (out_create_pool out n))
       (update_io (\<lambda>s. s\<lparr>rt_pool := Some n, rt_created := n + 1\<rparr>)))"

definition store_close :: "outside \<Rightarrow> (runtime, unit) io" where
  "store_close out = bind_io (get_io rt_pool) (\<lambda>p. case p of
      None \<Rightarrow> return_io ()
    | Some n \<Rightarrow> seq_io (raise_if (out_close_pool out n))
        (update_io (\<lambda>s. s\<lparr>rt_pool := None, rt_closed_pools := rt_closed_pools s @ [n]\<rparr>)))"

text \<open>\<open>except (asyncpg.PostgresError, OSError)\<close>; Python's \<open>TimeoutError\<close> is an \<open>OSError\<close>.\<close>

fun is_ping_error :: "error \<Rightarrow> bool" where
  "is_ping_error (UniqueViolationError _) = True"
| "is_ping_error (ForeignKeyViolationError _) = True"
| "is_ping_error (OSError _) = True"
| "is_ping_error (PermissionError _) = True"
| "is_ping_error (TimeoutError _) = True"
| "is_ping_error _ = False"

definition store_ping :: "outside \<Rightarrow> (runtime, bool) io" where
  "store_ping out = catch_io (bind_io pool_in_use (\<lambda>n. lift_io (out_fetchval out n)))
     is_ping_error (\<lambda>_. return_io False)"

text \<open>The memory store has nothing to open.\<close>

definition mem_connect :: "('s, unit) io" where
  "mem_connect = return_io ()"

definition mem_close :: "('s, unit) io" where
  "mem_close = return_io ()"

definition mem_ping :: "('s, bool) io" where
  "mem_ping = return_io True"


subsection \<open>Clients and lifespans\<close>

text \<open>A client that was given to the class is its caller's to close.\<close>

definition client_close :: "outside \<Rightarrow> peer \<Rightarrow> bool \<Rightarrow> (runtime, unit) io" where
  "client_close out p owned = (if owned
     then seq_io (raise_if (out_aclose out p)) (update_io (\<lambda>s. s\<lparr>rt_closed_clients := rt_closed_clients s @ [p]\<rparr>))
     else return_io ())"

text \<open>
  What \<open>create_app\<close> was given: a store of its own (then it is a \<open>PostgresStore\<close>), or another one,
  and which clients their classes own; no broker means none is configured.
\<close>

record app_parts =
  part_owns_store :: bool
  part_memory_store :: bool
  part_jenkins :: bool
  part_github :: bool
  part_broker :: "bool option"
  part_runner :: bool

definition connect_store :: "outside \<Rightarrow> app_parts \<Rightarrow> (runtime, unit) io" where
  "connect_store out a = (if part_memory_store a then mem_connect else store_connect out)"

definition session_run :: "outside \<Rightarrow> (runtime, unit) io \<Rightarrow> (runtime, unit) io" where
  "session_run out body = seq_io (raise_if (out_session_enter out))
     (try_finally body (raise_if (out_session_exit out)))"

definition lifespan_cleanup :: "outside \<Rightarrow> app_parts \<Rightarrow> (runtime, unit) io" where
  "lifespan_cleanup out a =
     seq_io (if part_owns_store a then store_close out else return_io ()) (
     seq_io (client_close out JenkinsPeer (part_jenkins a)) (
     seq_io (client_close out GitHubPeer (part_github a)) (
     seq_io (case part_broker a of None \<Rightarrow> return_io () | Some owned \<Rightarrow> client_close out BrokerPeer owned)
       (client_close out RunnerPeer (part_runner a)))))"

text \<open>\<open>body\<close> is everything between the two halves of the hook: the serving of requests.\<close>

definition app_lifespan :: "outside \<Rightarrow> app_parts \<Rightarrow> (runtime, unit) io \<Rightarrow> (runtime, unit) io" where
  "app_lifespan out a body = seq_io (connect_store out a)
     (try_finally (session_run out body) (lifespan_cleanup out a))"

text \<open>The broker's hook closes its client after the body, the runner's does nothing.\<close>

definition broker_lifespan :: "outside \<Rightarrow> bool \<Rightarrow> (runtime, unit) io \<Rightarrow> (runtime, unit) io" where
  "broker_lifespan out owned body = seq_io body (client_close out OpenAIPeer owned)"

definition runner_lifespan :: "(runtime, unit) io \<Rightarrow> (runtime, unit) io" where
  "runner_lifespan body = body"


subsection \<open>What holds while and after it runs\<close>

lemmas run_parts = run_bind run_seq run_get run_return run_raise run_update raise_if_def

lemma connect_states:
  "store_connect out s = (case out_create_pool out (rt_created s) of
      Some e \<Rightarrow> (Inl e, s) | None \<Rightarrow> (Inr (), s\<lparr>rt_pool := Some (rt_created s), rt_created := rt_created s + 1\<rparr>))"
  by (simp add: store_connect_def run_parts split: option.split)

text \<open>A connected store has a pool to use; without one, a ping does not answer but raises.\<close>

lemma connected_in_use: "rt_pool s = Some n \<Longrightarrow> pool_in_use s = (Inr n, s)"
  by (simp add: pool_in_use_def run_parts)

lemma ping_unconnected: "rt_pool s = None \<Longrightarrow>
   store_ping out s = (Inl (RuntimeError ''PostgreSQL store is not connected''), s)"
  by (simp add: store_ping_def pool_in_use_def run_parts run_catch)

lemma ping_answers:
  assumes "rt_pool s = Some n"
  shows "store_ping out s = (case out_fetchval out n of
      Inr b \<Rightarrow> (Inr b, s) | Inl e \<Rightarrow> if is_ping_error e then (Inr False, s) else (Inl e, s))"
  by (simp add: store_ping_def connected_in_use [OF assms] run_bind run_lift run_catch run_return split: sum.split)

text \<open>
  Requests are served only while the store is connected: two bodies that agree on the states
  with a pool make the same application.
\<close>

theorem served_while_connected:
  assumes "\<not> part_memory_store a" and "\<And>s. rt_pool s \<noteq> None \<Longrightarrow> body s = body' s"
  shows "app_lifespan out a body s = app_lifespan out a body' s"
proof (cases "out_create_pool out (rt_created s)")
  case None
  let ?t = "s\<lparr>rt_pool := Some (rt_created s), rt_created := rt_created s + 1\<rparr>"
  have "session_run out body ?t = session_run out body' ?t"
    using assms(2) [of ?t] by (simp add: session_run_def run_parts try_finally_def split: option.split)
  then show ?thesis
    using assms(1) None by (simp add: app_lifespan_def connect_store_def connect_states run_seq try_finally_def)
next
  case (Some e)
  then show ?thesis using assms(1) by (simp add: app_lifespan_def connect_store_def connect_states run_seq)
qed

text \<open>The clients the application owns, in the order it closes them; the first that fails ends it.\<close>

definition owned_clients :: "app_parts \<Rightarrow> peer list" where
  "owned_clients a = filter (\<lambda>p. case p of
      JenkinsPeer \<Rightarrow> part_jenkins a | GitHubPeer \<Rightarrow> part_github a
    | BrokerPeer \<Rightarrow> part_broker a = Some True | RunnerPeer \<Rightarrow> part_runner a | OpenAIPeer \<Rightarrow> False)
     [JenkinsPeer, GitHubPeer, BrokerPeer, RunnerPeer]"

definition closes :: "outside \<Rightarrow> peer \<Rightarrow> bool" where
  "closes out p = (out_aclose out p = None)"

definition clients_closed :: "outside \<Rightarrow> app_parts \<Rightarrow> runtime \<Rightarrow> runtime" where
  "clients_closed out a s = s\<lparr>rt_closed_clients := rt_closed_clients s @ takeWhile (closes out) (owned_clients a)\<rparr>"

lemma cleanup_clients:
  "snd (seq_io (client_close out JenkinsPeer (part_jenkins a)) (
     seq_io (client_close out GitHubPeer (part_github a)) (
     seq_io (case part_broker a of None \<Rightarrow> return_io () | Some owned \<Rightarrow> client_close out BrokerPeer owned)
       (client_close out RunnerPeer (part_runner a)))) s) = clients_closed out a s"
  by (simp add: clients_closed_def owned_clients_def client_close_def closes_def run_parts split: option.split)

text \<open>
  Whatever the body does and whether it raises, an application that owns its store closes
  the pool it opened, and then the clients it owns in their fixed order up to the first that
  fails to close. When closing the pool fails, the pool stays and no client is closed.
\<close>

theorem lifespan_closes:
  assumes "part_owns_store a" and "\<not> part_memory_store a" and "out_create_pool out (rt_created s) = None"
    and body: "leaves rt_pool body" "leaves rt_closed_pools body" "leaves rt_closed_clients body"
  shows "\<exists>t. snd (app_lifespan out a body s) = t
    \<and> (case out_close_pool out (rt_created s) of
        None \<Rightarrow> rt_pool t = None \<and> rt_closed_pools t = rt_closed_pools s @ [rt_created s]
          \<and> rt_closed_clients t = rt_closed_clients s @ takeWhile (closes out) (owned_clients a)
      | Some e \<Rightarrow> fst (app_lifespan out a body s) = Inl e \<and> rt_pool t = Some (rt_created s)
          \<and> rt_closed_pools t = rt_closed_pools s \<and> rt_closed_clients t = rt_closed_clients s)"
proof -
  let ?n = "rt_created s" and ?u = "s\<lparr>rt_pool := Some (rt_created s), rt_created := rt_created s + 1\<rparr>"
  have run: "leaves f (session_run out body)" if "leaves f body" for f :: "runtime \<Rightarrow> 'x"
    using that unfolding leaves_def session_run_def try_finally_def
    by (auto simp: run_parts split: option.split prod.split sum.split) (metis snd_conv)+
  obtain r v where v: "session_run out body ?u = (r, v)" by fastforce
  have same: "rt_pool v = Some ?n" "rt_closed_pools v = rt_closed_pools s" "rt_closed_clients v = rt_closed_clients s"
    using leavesD [OF run [OF body(1)] v] leavesD [OF run [OF body(2)] v] leavesD [OF run [OF body(3)] v] by simp_all
  have app: "app_lifespan out a body s = (case lifespan_cleanup out a v of
      (Inl e, w) \<Rightarrow> (Inl e, w) | (Inr _, w) \<Rightarrow> (r, w))"
    using assms(2,3) by (simp add: app_lifespan_def connect_store_def connect_states run_seq try_finally_def v [simplified])
  show ?thesis
  proof (cases "out_close_pool out ?n")
    case (Some e)
    then have "lifespan_cleanup out a v = (Inl e, v)"
      using assms(1) same(1) by (simp add: lifespan_cleanup_def store_close_def run_parts)
    with Some same app show ?thesis by simp
  next
    case None
    let ?w = "v\<lparr>rt_pool := None, rt_closed_pools := rt_closed_pools v @ [?n]\<rparr>"
    have "snd (lifespan_cleanup out a v) = clients_closed out a ?w"
      using cleanup_clients [of out a ?w] None assms(1) same(1)
      by (simp add: lifespan_cleanup_def store_close_def run_seq [of "if _ then _ else _"] run_parts(1) run_get run_parts)
    moreover have "snd (app_lifespan out a body s) = snd (lifespan_cleanup out a v)"
      unfolding app by (simp split: prod.split sum.split)
    ultimately show ?thesis using None same by (simp add: clients_closed_def)
  qed
qed

end
