(* ===== verification/Review_Recorded.thy ===== *)
theory Review_Recorded
  imports Durable Extension_Properties Review_Properties
begin

section \<open>A review that starts is recorded\<close>

text \<open>
  Whichever of its three endings a new review takes (skipped, failed, published), when
  \<open>process_ai_review\<close> returns its run has settled with a log, the build carries the same log,
  and a failed review has failed the build. The endings are reached with the run still owning
  the key of the review, which the locale \<open>durable\<close> provides, and all of them finish with
  \<open>_attach_review_log\<close> and an audit record.
\<close>

subsection \<open>What holds when an operation returns\<close>

text \<open>\<open>ensures I Q m\<close>: started where \<open>I\<close> holds, a run of \<open>m\<close> that returns a value ends where \<open>Q\<close> holds.\<close>

named_theorems ensure_intros \<open>postconditions through the combinators\<close>

definition ensures :: "('s \<Rightarrow> bool) \<Rightarrow> ('s \<Rightarrow> bool) \<Rightarrow> ('s, 'a) io \<Rightarrow> bool" where
  "ensures I Q m = (\<forall>s x t. I s \<longrightarrow> m s = (Inr x, t) \<longrightarrow> Q t)"

lemma ensuresD: "ensures I Q m \<Longrightarrow> I s \<Longrightarrow> m s = (Inr x, t) \<Longrightarrow> Q t"
  unfolding ensures_def by blast

lemma ensures_bind:
  assumes "preserves I m" and "\<And>x. ensures I Q (k x)"
  shows "ensures I Q (bind_io m k)"
  unfolding ensures_def
proof (intro allI impI)
  fix s y t
  assume "I s" and run: "bind_io m k s = (Inr y, t)"
  from run obtain x u where "m s = (Inr x, u)" and "k x u = (Inr y, t)" by (rule bind_io_InrE)
  with assms \<open>I s\<close> show "Q t" by (blast intro: ensuresD preservesD)
qed

lemma ensures_lift: "(\<And>x. r = Inr x \<Longrightarrow> ensures I Q (k x)) \<Longrightarrow> ensures I Q (bind_io (lift_io r) k)"
  by (auto simp: ensures_def run_bind run_lift split: sum.splits)

lemma ensures_catch:
  assumes "preserves I m" and "ensures I Q m" and "\<And>e. ensures I Q (h e)"
  shows "ensures I Q (catch_io m p h)"
  unfolding ensures_def
proof (intro allI impI)
  fix s y t
  assume s: "I s" and run: "catch_io m p h s = (Inr y, t)"
  obtain r u where m: "m s = (r, u)" by (cases "m s")
  from preservesD [OF assms(1) s m] ensuresD [OF assms(2) s] ensuresD [OF assms(3)] m run show "Q t"
    by (auto simp: run_catch split: sum.splits if_splits)
qed

lemma ensures_last: "ensures I Q m \<Longrightarrow> (\<And>t u r. Q t \<Longrightarrow> k t = (r, u) \<Longrightarrow> Q u) \<Longrightarrow> ensures I Q (seq_io m k)"
  unfolding ensures_def by (blast elim: seq_io_InrE)


subsection \<open>The record of a review\<close>

definition outcome_settles :: "review_outcome \<Rightarrow> run_status \<Rightarrow> bool" where
  "outcome_settles o1 st = (case o1 of
      OutcomeSkipped \<Rightarrow> st = RunSkipped
    | OutcomePassed \<Rightarrow> st = RunSucceeded
    | OutcomeFailed \<Rightarrow> st = RunSucceeded \<or> st = RunFailed)"

definition review_recorded :: "string \<Rightarrow> uuid \<Rightarrow> pg_store \<Rightarrow> bool" where
  "review_recorded key i s = (\<exists>r l b. pg_run_by_key key s = Some r \<and> run_review_log r = Some l
     \<and> log_review_run_id l = run_id r \<and> outcome_settles (log_outcome l) (run_status r)
     \<and> fst (pg_get_build i s) = Inr b \<and> build_ai_review_log b = Some (l\<lparr>log_build_id := i\<rparr>)
     \<and> (log_outcome l = OutcomeFailed \<longrightarrow> res_status (build_result b) = Failed))"

lemma review_recorded_cong:
  "core s = core t \<Longrightarrow> review_recorded key i s = review_recorded key i t"
  using core_fields(3,5) [of s t] pg_get_build_cong [of s t i]
  by (simp add: review_recorded_def pg_run_by_key_def pg_run_row_def)

lemma make_review_log_Inr:
  "make_review_log sv c run oc sm fs acts why t u = Inr l \<Longrightarrow>
   log_build_id l = cmp_build_id c \<and> log_review_run_id l = run_id run \<and> log_outcome l = oc"
  by (auto simp: make_review_log_def validated_def split: if_splits)

text \<open>Attaching the log of a finished run, which it has already or gets with this.\<close>

definition with_log :: "ai_review_log \<Rightarrow> extension_run \<Rightarrow> extension_run" where
  "with_log l run = (let out = (case run_output run of None \<Rightarrow> empty_extension_output | Some x \<Rightarrow> x) in
     if out_review_log out = None then run\<lparr>run_output := Some (out\<lparr>out_review_log := Some l\<rparr>)\<rparr> else run)"

lemma with_log_fields [simp]:
  "run_id (with_log l run) = run_id run" "run_idempotency_key (with_log l run) = run_idempotency_key run"
  "run_status (with_log l run) = run_status run"
  by (simp_all add: with_log_def Let_def)

lemma run_review_log_with_log:
  "run_review_log (with_log l run) = (case run_review_log run of None \<Rightarrow> Some l | Some x \<Rightarrow> Some x)"
  by (auto simp: with_log_def run_review_log_def empty_extension_output_def Let_def split: option.splits)

lemma owned_run_saved:
  assumes "key_owned (run_idempotency_key r) (run_id r) s"
  shows "fst (pg_save_extension_run r s) = Inr r"
    and "pg_run_by_key (run_idempotency_key r) (snd (pg_save_extension_run r s)) = Some r"
  using assms pg_save_run_known(1,2) by (auto simp: key_owned_def)

lemma saved_build_fetched:
  assumes "db (pg_save_build b) w = (Inr b', t)"
  shows "fst (pg_get_build (build_id b) (w_db t)) = Inr b" and "pg_extension_runs (w_db t) = pg_extension_runs (w_db w)"
proof -
  from run_db_Inr [OF assms] have save: "pg_save_build b (w_db w) = (Inr b', w_db t)" .
  then have storable: "pg_build_storable b (w_db w)" by (subst (asm) pg_save_build_cases) (simp split: if_splits)
  from pg_save_build_fetch [OF this, of "build_id b"] save
  show "fst (pg_get_build (build_id b) (w_db t)) = Inr b" by simp
  from statements_keep_runs(5) [of b "w_db w"] save
  show "pg_extension_runs (w_db t) = pg_extension_runs (w_db w)" by simp
qed

lemma reviewed_status: "res_status (result_with_review run l required a r) =
    (if required \<and> log_outcome l = OutcomeFailed then Failed else res_status r)"
  by (simp add: result_with_review_def)

lemma leaves_http_url: "leaves f (http_url u)"
  unfolding http_url_def by (intro leaves_option leaves_return leaves_bind leaves_get leaves_raise)

lemma attach_records:
  assumes "run_idempotency_key run = key" and "log_build_id l = i"
    and "run_review_log (with_log l run) = Some l0" and "l0\<lparr>log_build_id := i\<rparr> = l"
    and "log_review_run_id l = run_id run" and "outcome_settles (log_outcome l) (run_status run)"
    and "log_outcome l = OutcomeFailed \<Longrightarrow> required"
  shows "ensures (on_db (key_owned key (run_id run))) (on_db (review_recorded key i))
    (attach_review_log sv run l required)"
  unfolding ensures_def
proof (intro allI impI)
  fix w x t
  assume "on_db (key_owned key (run_id run)) w" and run: "attach_review_log sv run l required w = (Inr x, t)"
  then have owned: "key_owned key (run_id run) (w_db w)" by (simp add: on_db_def)
  from run obtain r0 w1 b w2 content w3 url w4 now w5 b' w6 where
    saved: "db (pg_save_extension_run (with_log l run)) w = (Inr r0, w1)"
    and got: "db (pg_get_build (log_build_id l)) w1 = (Inr b, w2)"
    and steps: "get_io (\<lambda>w. review_log_bytes (w_env w) l) w2 = (Inr content, w3)"
      "http_url (build_url sv (build_id b) ''/artifacts/ai-review.json'') w3 = (Inr url, w4)"
      "now_utc w4 = (Inr now, w5)"
    and put: "db (pg_save_build (b\<lparr>build_ai_review_log := Some l,
         build_result := result_with_review run l required (review_artifact content url) (build_result b),
         build_updated_at := now\<rparr>)) w5 = (Inr b', w6)" and last: "return_io () w6 = (Inr x, t)"
    unfolding attach_review_log_def Let_def with_log_def [unfolded Let_def, symmetric]
    by (elim bind_io_InrE) (rule that)
  note b = run_pg_get_build [OF got]
  have "w_db w5 = w_db w1"
    using steps b leavesD [OF leaves_http_url steps(2), of w_db] by (auto simp: run_get now_utc_def)
  moreover have w1: "w_db w1 = snd (pg_save_extension_run (with_log l run) (w_db w))" using run_db_Inr [OF saved] by simp
  moreover have "key_owned key (run_id run) (w_db w1)" unfolding w1 by (rule key_owned_save [OF owned])
  then have "build_id b = log_build_id l"
    using b pg_inv_idents(3) by (auto simp: key_owned_def pg_get_build_def split: option.splits)
  moreover have "pg_run_by_key key (w_db w1) = Some (with_log l run)"
    using owned_run_saved(2) [of "with_log l run" "w_db w"] owned assms(1) w1 by simp
  moreover have "log_outcome l0 = log_outcome l" "log_review_run_id l0 = log_review_run_id l"
    unfolding assms(4) [symmetric] by simp_all
  ultimately show "on_db (review_recorded key i) t"
    using saved_build_fetched [OF put] last assms(2-7)
    by (auto simp: on_db_def review_recorded_def run_return pg_run_by_key_def pg_run_row_def reviewed_status)
qed


subsection \<open>The three endings\<close>

text \<open>A run under its key, and the record it is to leave on its build.\<close>

definition owns_key :: "extension_run \<Rightarrow> world \<Rightarrow> bool" where
  "owns_key run = on_db (key_owned (run_idempotency_key run) (run_id run))"

definition recorded :: "extension_run \<Rightarrow> build_completion \<Rightarrow> world \<Rightarrow> bool" where
  "recorded run c = on_db (review_recorded (run_idempotency_key run) (cmp_build_id c))"

text \<open>The last two steps of an ending: its log is attached, its audit record written.\<close>

lemma ending_records:
  assumes "make_review_log sv c (finish_run run st out fin) oc sm fs acts why t u = Inr l"
    and out: "out_review_log out = None" and "outcome_settles oc st" and "oc = OutcomeFailed \<Longrightarrow> required"
  shows "ensures (owns_key run) (recorded run c)
    (seq_io (attach_review_log sv (finish_run run st out fin) l required) (audit p a x o1 d))"
proof (rule ensures_last)
  let ?run = "finish_run run st out fin"
  have logged: "run_review_log (with_log l ?run) = Some l"
    by (simp add: run_review_log_with_log) (simp add: run_review_log_def finish_run_def out)
  show "ensures (owns_key run) (recorded run c) (attach_review_log sv (finish_run run st out fin) l required)"
    using attach_records [of ?run "run_idempotency_key run" l "cmp_build_id c" l required sv]
      make_review_log_Inr [OF assms(1)] assms(3,4) logged
    by (simp add: owns_key_def recorded_def finish_run_def)
  fix w r u
  assume before: "recorded run c w" and "audit p a x o1 d w = (r, u)"
  then have "core (w_db u) = core (w_db w)" by (intro leavesD [OF leaves_core_audit])
  from before review_recorded_cong [OF this] show "recorded run c u" by (simp add: recorded_def on_db_def)
qed

lemma owns_durable:
  "preserves (owns_key run) now_utc" "preserves (owns_key run) (get_io g)" "preserves (owns_key run) (lift_io z)"
  "preserves (owns_key run) (ai_status sv p c st d)"
  "preserves (owns_key run) (create_review gh rp q hs sm cs)"
  "preserves (owns_key run) (validated_review sv b c q bs df)"
  "preserves (owns_key run) (record_failure sv p c r started why)"
  "preserves (owns_key run) (attach_review_log sv r l required)" "preserves (owns_key run) (audit p a x o1 det)"
  unfolding owns_key_def ai_status_def validated_review_def
  by (intro key_durable.steps key_durable.recorded_failure key_durable.attached)+

lemma skip_records: "ensures (owns_key run) (recorded run c) (skip_review sv p c run started)"
  unfolding skip_review_def Let_def
  by (rule ensures_bind [OF owns_durable(1) ensures_lift], erule ending_records)
    (simp_all add: empty_extension_output_def outcome_settles_def)

lemma failure_records: "ensures (owns_key run) (recorded run c) (record_failure sv p c run started why)"
  unfolding record_failure_def Let_def
  by (rule ensures_bind [OF owns_durable(4) ensures_bind [OF owns_durable(1) ensures_lift]], erule ending_records)
    (simp_all add: empty_extension_output_def outcome_settles_def)

lemma publish_records: "ensures (owns_key run) (recorded run c) (publish_review sv p c run started q r)"
  unfolding publish_review_def Let_def
  by (rule ensures_bind [OF owns_durable(5)] ensures_bind [OF owns_durable(3)] ensures_bind [OF owns_durable(4)]
        ensures_bind [OF owns_durable(1)] ensures_bind [OF owns_durable(2)] ensures_lift)+
    (erule ending_records, auto simp: review_outputs_def outcome_settles_def)

lemma publish_durable: "preserves (owns_key run) (publish_review sv p c r started q v)"
  unfolding publish_review_def Let_def by (intro preserve_intros owns_durable)

lemma run_records: "ensures (owns_key run) (recorded run c) (review_run sv p c pre run started)"
proof -
  have "ensures (owns_key run) (recorded run c) (execute_review sv p c pre run started q)" for q
    unfolding execute_review_def
    by (rule ensures_bind [OF owns_durable(4)])
      (auto split: option.split intro!: failure_records ensures_catch ensures_bind publish_records
        preserves_bind owns_durable publish_durable)
  then show ?thesis
    unfolding review_run_def by (auto split: option.split bool.split intro: skip_records)
qed


subsection \<open>From a free key to the record\<close>

lemma free_key_saved:
  assumes "pg_inv s" and "pg_run_by_key (run_idempotency_key r) s = None" and "pg_save_extension_run r s = (Inr x, t)"
  shows "x = r" and "key_owned (run_idempotency_key r) (run_id r) t"
proof -
  from assms(2,3) have "pg_run_fresh (run_id r) s"
    by (auto simp: pg_save_extension_run_def pg_run_by_key_def pg_run_fresh_def split: if_splits)
  note new = pg_save_run_new [OF assms(1,2) this]
  from new(1) assms(3) show "x = r" by simp
  from new(2) [of "run_idempotency_key r"] pg_save_extension_run_inv [OF assms(1), of r] assms(3)
  show "key_owned (run_idempotency_key r) (run_id r) t" by (simp add: key_owned_def)
qed

lemma free_key_claimed:
  assumes "pg_inv (w_db w)" and "pg_run_by_key (review_key sv (cmp_result c)) (w_db w) = None"
    and "claim_run sv c started w = (Inr claimed, t)"
  obtains run where "claimed = Some (run, started)" and "owns_key run t"
    and "run_idempotency_key run = review_key sv (cmp_result c)"
proof -
  from assms(3) obtain i w1 now w2 stored w3 run where draws: "uuid4 w = (Inr i, w1)" "now_utc w1 = (Inr now, w2)"
    and run: "run_id run = i" "run_idempotency_key run = review_key sv (cmp_result c)"
    and save: "db (pg_save_extension_run run) w2 = (Inr stored, w3)"
    and rest: "return_io (if run_id stored \<noteq> i then
             (if run_status stored \<noteq> RunRunning \<or> run_review_log stored \<noteq> None then None
              else Some (stored, run_created_at stored))
           else Some (run, started)) w3 = (Inr claimed, t)"
    unfolding claim_run_def Let_def by (elim bind_io_InrE) (rule that; simp)
  have "w_db w2 = w_db w" using draws by (auto simp: uuid4_def now_utc_def)
  with assms(1,2) run(2) have "pg_inv (w_db w2)" "pg_run_by_key (run_idempotency_key run) (w_db w2) = None" by simp_all
  from free_key_saved [OF this run_db_Inr [OF save]] have "stored = run" "owns_key run w3"
    by (simp_all add: owns_key_def on_db_def)
  with rest run show thesis by (intro that [of run]) (auto simp: run_return)
qed

lemma free_key_recorded:
  assumes inv: "pg_inv (w_db w)" and "pg_run_by_key (review_key sv (cmp_result c)) (w_db w) = None"
    and "process_ai_review sv p c pre w = (Inr (), t)"
  shows "review_recorded (review_key sv (cmp_result c)) (cmp_build_id c) (w_db t)"
proof -
  have "db (pg_get_extension_run_by_key (review_key sv (cmp_result c))) w = (Inr None, w)"
    using assms(2) by (simp add: run_db pg_get_extension_run_by_key_def run_get)
  with assms(3) obtain started w1 claimed w2 where now: "now_utc w = (Inr started, w1)"
    and claim: "claim_run sv c started w1 = (Inr claimed, w2)"
    and rest: "(case claimed of None \<Rightarrow> return_io ()
         | Some (run, started') \<Rightarrow> review_run sv p c pre run started') w2 = (Inr (), t)"
    unfolding process_ai_review_def by (auto simp: run_bind split: prod.splits sum.splits)
  have "w_db w1 = w_db w" using now by (auto simp: now_utc_def)
  with inv assms(2) have free: "pg_inv (w_db w1)" "pg_run_by_key (review_key sv (cmp_result c)) (w_db w1) = None"
    by simp_all
  from free claim obtain run where run: "claimed = Some (run, started)" "owns_key run w2"
      "run_idempotency_key run = review_key sv (cmp_result c)"
    by (rule free_key_claimed)
  with rest have "review_run sv p c pre run started w2 = (Inr (), t)" by simp
  from ensuresD [OF run_records run(2) this] run(3) show ?thesis by (simp add: recorded_def on_db_def)
qed

text \<open>
  C15: A review whose key no run holds, when \<open>process_ai_review\<close> returns, is on record: the run
  under the key has settled with a log that fits its status (skipped, succeeded, failed), the
  build carries that same log, and where the log says failed the result of the build is failed.
  What is left running is left so by an exception only.
\<close>

theorem fresh_review_recorded:
  assumes "world_ok w" and "pg_run_by_key (review_key sv (cmp_result c)) (w_db w) = None"
    and "process_ai_review sv p c pre w = (Inr (), t)"
  shows "review_recorded (review_key sv (cmp_result c)) (cmp_build_id c) (w_db t)"
  using assms(1) by (intro free_key_recorded [OF _ assms(2,3)]) (simp add: world_ok_def pg_ok_def)

text \<open>A pull request in a deployment without a broker: its review fails, and with it the build.\<close>

definition unreviewed_world :: world where
  "unreviewed_world = review_world review_net (demo_db (demo_build Passed (Some 5)))"

text \<open>Its steps return: the log is attached to the stored build, the audit record has a fresh identifier.\<close>

lemma attach_returns:
  assumes "owns_key run w" and "fst (pg_get_build (log_build_id l) (w_db w)) = Inr b" and "sv_public_base_url sv = None"
  shows "\<exists>t. attach_review_log sv run l q w = (Inr (), t) \<and> pg_audit (w_db t) = pg_audit (w_db w)
    \<and> w_env t = w_env w \<and> w_uuids t = w_uuids w"
proof -
  have save: "fst (pg_save_extension_run r (w_db w)) = Inr r"
    if "run_id r = run_id run" "run_idempotency_key r = run_idempotency_key run" for r
    using owned_run_saved(1) [of r "w_db w"] that assms(1) by (simp add: owns_key_def on_db_def)
  have kept: "pg_builds (snd (pg_save_extension_run r s)) = pg_builds s"
    "pg_audit (snd (pg_save_extension_run r s)) = pg_audit s" for r s
    by (simp_all add: pg_save_extension_run_def split: option.splits)
  from assms(2) obtain row where row: "dget (pg_builds (w_db w)) (log_build_id l) = Some row" "b = br_data row"
    by (auto simp: pg_get_build_def split: option.splits)
  have id: "build_id b = log_build_id l"
    using row pg_inv_idents(3) assms(1) by (auto simp: owns_key_def on_db_def key_owned_def)
  have put: "pg_save_build x s = (Inr x, s\<lparr>pg_builds := pg_builds (snd (pg_save_build x s))\<rparr>)"
    if "build_id x = log_build_id l" "pg_builds s = pg_builds (w_db w)" for x s
    using that row by (subst pg_save_build_cases) (simp add: pg_build_storable_def)
  have put_audit: "pg_audit (snd (pg_save_build x s)) = pg_audit s" for x s by (subst pg_save_build_cases) simp
  have put_ok: "fst (pg_save_build x s) = Inr x"
    if "build_id x = log_build_id l" "pg_builds s = pg_builds (w_db w)" for x s
    using put [OF that] by (metis fst_conv)
  show ?thesis
    using assms(3) row id
    unfolding attach_review_log_def Let_def http_url_def build_url_def stripped_url_def
    by (simp add: io_simps save now_utc_def pg_get_build_def kept put_ok put_audit)
qed

lemma audit_returns: "dget (pg_audit (w_db w)) (env_uuid (w_env w) (w_uuids w)) = None \<Longrightarrow> \<exists>t. audit p a x o1 d w = (Inr (), t)"
  by (simp add: audit_def io_simps uuid4_def now_utc_def pg_record_audit_def)

lemma failure_logged:
  assumes "valid_pipeline_result (cmp_result c)" and "positive_option (res_pull_request (cmp_result c))"
    and "length why \<le> 2000"
  shows "\<exists>l. make_review_log sv c run OutcomeFailed
        ''AI review did not complete, so no GitHub pull-request review was published.'' []
        [review_action GithubPullRequestReview NotPerformed
           ''No validated AI review result was available to publish.'' None,
         review_action GithubCommitStatus Performed ''Published the failed AI-review status.'' None]
        (Some why) started completed = Inr l"
  using assms
  by (simp add: make_review_log_def validated_def valid_ai_review_log_def valid_ai_review_action_def
      valid_pipeline_result_def review_action_def)

lemma failure_returns:
  assumes "env_net (w_env w) = review_net" and "owns_key run w" and "valid_pipeline_result (cmp_result c)"
    and "positive_option (res_pull_request (cmp_result c))"
    and "fst (pg_get_build (cmp_build_id c) (w_db w)) = Inr b" and "pg_audit (w_db w) = []"
    and "sv_public_base_url sv = None"
  shows "\<exists>t. record_failure sv p c run started why w = (Inr (), t)"
proof -
  let ?why = "take 2000 (sv_redact sv why)"
  obtain w1 where published: "ai_status sv p c ''failure'' ''AI review did not complete'' w = (Inr True, w1)"
    and w1: "w_db w1 = w_db w"
    using publish_answered [OF assms(1)] by (simp add: ai_status_def)
  obtain now w2 where now: "now_utc w1 = (Inr now, w2)" and w2: "w_db w2 = w_db w" using w1 by (simp add: now_utc_def)
  let ?run = "finish_run run RunFailed empty_extension_output now"
  obtain l where log: "make_review_log sv c ?run OutcomeFailed
        ''AI review did not complete, so no GitHub pull-request review was published.'' []
        [review_action GithubPullRequestReview NotPerformed
           ''No validated AI review result was available to publish.'' None,
         review_action GithubCommitStatus Performed ''Published the failed AI-review status.'' None]
        (Some ?why) started now = Inr l"
    using failure_logged [OF assms(3,4), of ?why sv ?run started now] by auto
  have "owns_key ?run w2" "fst (pg_get_build (log_build_id l) (w_db w2)) = Inr b"
    using assms(2,5) w2 make_review_log_Inr [OF log] by (simp_all add: owns_key_def on_db_def finish_run_def)
  from attach_returns [OF this assms(7)] obtain w3 where
    attached: "attach_review_log sv ?run l True w2 = (Inr (), w3)" and w3: "pg_audit (w_db w3) = []"
    using w2 assms(6) by auto
  from audit_returns [of w3] w3 show ?thesis
    by (simp add: record_failure_def Let_def run_bind run_seq run_lift published now log attached)
qed

lemma unreviewed_ends: "\<exists>t. process_ai_review demo_service demo_actor (pull_completion demo_diff) None unreviewed_world = (Inr (), t)"
proof -
  let ?c = "pull_completion demo_diff" and ?sv = demo_service
  have c: "rp_enabled (cmp_review ?c)" "res_pull_request (cmp_result ?c) = Some 5" "cmp_build_id ?c = 2"
    "sv_broker ?sv = None" "sv_public_base_url ?sv = None"
    by (simp_all add: pull_completion_def pull_result_def demo_completion_def demo_result_def default_review_policy_def
        demo_service_def)
  have w: "env_net (w_env unreviewed_world) = review_net"
    "w_db unreviewed_world = demo_db (demo_build Passed (Some 5))"
    by (simp_all add: unreviewed_world_def review_world_def demo_env_def)
  have inv: "pg_inv (w_db unreviewed_world)"
    using demo_build_ok [of review_net Passed "Some 5"] by (simp add: w world_ok_def pg_ok_def demo_world_def)
  obtain started w1 where now: "now_utc unreviewed_world = (Inr started, w1)" and w1: "w_db w1 = w_db unreviewed_world"
      "w_env w1 = w_env unreviewed_world"
    by (simp add: now_utc_def)
  have free: "pg_run_by_key k (w_db unreviewed_world) = None" for k
    by (simp add: w demo_db_def pg_run_by_key_def pg_run_row_def)
  obtain x w2 where claim: "claim_run ?sv ?c started w1 = (Inr x, w2)" "w_env w2 = w_env w1"
      "pg_builds (w_db w2) = pg_builds (w_db w1)" "pg_audit (w_db w2) = pg_audit (w_db w1)"
    by (simp add: claim_run_def io_simps uuid4_def now_utc_def Let_def w w1 demo_db_def
        pg_save_extension_run_def pg_run_row_def)
  from free_key_claimed [OF _ _ claim(1)] inv free w1 obtain run where run: "x = Some (run, started)" "owns_key run w2"
    by metis
  obtain w3 where pending: "ai_status ?sv demo_actor ?c ''pending'' ''Critical-only AI review is running'' w2 = (Inr True, w3)"
    and w3: "w_db w3 = w_db w2" "w_env w3 = w_env w2"
    using publish_answered [of w2] claim(2) w1 w(1) by (simp add: ai_status_def)
  have "\<exists>t. record_failure ?sv demo_actor ?c run started why w3 = (Inr (), t)" for why
  proof (rule failure_returns)
    show "env_net (w_env w3) = review_net" "owns_key run w3" "pg_audit (w_db w3) = []" "sv_public_base_url ?sv = None"
      using w w1 w3 claim run c by (simp_all add: owns_key_def on_db_def demo_db_def)
    show "valid_pipeline_result (cmp_result ?c)"
      by (simp add: pull_completion_def pull_result_def demo_result_def valid_pipeline_result_def is_sha40_def
          is_sha40_option_def demo_sha_def is_hex_def list_all_iff)
    show "fst (pg_get_build (cmp_build_id ?c) (w_db w3)) = Inr (demo_build Passed (Some 5))"
      using w w1 w3 claim c by (simp add: pg_get_build_def demo_db_def)
    show "positive_option (res_pull_request (cmp_result ?c))" by (simp add: c positive_option_def)
  qed
  moreover have "db (pg_get_extension_run_by_key k) unreviewed_world = (Inr None, unreviewed_world)" for k
    by (simp add: run_db pg_get_extension_run_by_key_def run_get free)
  ultimately show ?thesis
    by (simp add: process_ai_review_def review_run_def execute_review_def run_bind now claim(1) run(1) c pending
        split: option.split)
qed

theorem fresh_review_recorded_witness:
  "\<exists>t. process_ai_review demo_service demo_actor (pull_completion demo_diff) None unreviewed_world = (Inr (), t)
    \<and> review_recorded (review_key demo_service (cmp_result (pull_completion demo_diff))) 2 (w_db t)"
proof -
  have "world_ok unreviewed_world"
    using demo_build_ok [of review_net Passed "Some 5"]
    by (simp add: world_ok_def unreviewed_world_def review_world_def demo_world_def env_ok_def demo_env_def
        clean_review_def valid_review_result_def)
  moreover have "pg_run_by_key k (w_db unreviewed_world) = None" for k
    by (simp add: unreviewed_world_def review_world_def demo_db_def pg_run_by_key_def pg_run_row_def)
  moreover have "cmp_build_id (pull_completion demo_diff) = 2" by (simp add: pull_completion_def demo_completion_def)
  ultimately show ?thesis using unreviewed_ends fresh_review_recorded by metis
qed

subsection \<open>The key of a review is open to extension actions\<close>

text \<open>
  Both operations draw their keys from one column, and a request may choose any key of 8 to 200
  characters: \<open>ai-review:\<close> and a digest is one.
\<close>

lemma review_key_length: "length (review_key sv r) = 74"
  by (simp add: review_key_def)

lemma previous_success: "run_status run = RunSucceeded \<Longrightarrow> \<not> run_blocking run \<Longrightarrow> previous_state run = ''success''"
  by (simp add: previous_state_def)

text \<open>
  C22: An extension action may take the key of a review first: the request is a valid one, and
  when its run has succeeded, with no log and nothing marked blocking, the review of that pull
  request consists of publishing the status \<open>success\<close>. No broker is asked.
\<close>

theorem extension_key_preempts_review:
  assumes "world_ok w" and "ear_idempotency_key q = review_key sv (cmp_result c)"
    and "registered (ear_idempotency_key q) w = None" and "run_extension_action sv' a q w = (Inr run, t)"
    and "run_status run = RunSucceeded" and "run_review_log run = None" and "\<not> run_blocking run"
    and "review_applies c"
  shows "valid_extension_action_request q \<and> process_ai_review sv p c pre t =
    bind_io (ai_status sv p c ''success'' ''Deduplicated critical-only AI review'') (\<lambda>_. return_io ()) t"
proof
  show "valid_extension_action_request q"
    by (simp add: valid_extension_action_request_def assms(2) review_key_length)
  from run_extension_action_settles [OF assms(1,3), of sv' a] assms(4)
  have "registered (review_key sv (cmp_result c)) t = Some run"
    by (simp add: wp_def delivered_def flip: assms(2))
  with assms(5-8) show "process_ai_review sv p c pre t =
      bind_io (ai_status sv p c ''success'' ''Deduplicated critical-only AI review'') (\<lambda>_. return_io ()) t"
    by (simp add: process_ai_review_def resume_previous_def run_bind run_seq run_return run_db run_get
        pg_get_extension_run_by_key_def previous_success split: sum.splits prod.splits)
qed

definition squatting_request :: "service \<Rightarrow> build_completion \<Rightarrow> extension_action_request" where
  "squatting_request sv c = ext_request\<lparr>ear_idempotency_key := review_key sv (cmp_result c)\<rparr>"

lemma squatting_succeeds:
  "\<exists>run. fst (run_extension_action ext_service demo_actor (squatting_request sv c) ext_world) = Inr run
    \<and> run_status run = RunSucceeded \<and> run_review_log run = None \<and> \<not> run_blocking run"
  by (simp add: squatting_request_def run_extension_action_def execute_run_def run_and_perform_def run_extension_def
      fail_run_def ext_service_def ext_request_def ext_world_def demo_manifest_def new_extension_run_def catalog_get_def
      image_digest_def rsplit_last_def validate_output_def catalog_validate_def empty_extension_output_def
      audit_def pg_get_extension_run_by_key_def pg_run_by_key_def pg_run_row_def pg_save_extension_run_def
      run_review_log_def run_blocking_def demo_defs run_simps pg_defs)

theorem extension_key_preempts_review_witness:
  "\<exists>run t. run_extension_action ext_service demo_actor (squatting_request ext_service (pull_completion demo_diff))
      ext_world = (Inr run, t)
    \<and> process_ai_review ext_service demo_actor (pull_completion demo_diff) None t =
      bind_io (ai_status ext_service demo_actor (pull_completion demo_diff) ''success''
        ''Deduplicated critical-only AI review'') (\<lambda>_. return_io ()) t"
proof -
  let ?c = "pull_completion demo_diff"
  obtain run t where run: "run_extension_action ext_service demo_actor (squatting_request ext_service ?c) ext_world = (Inr run, t)"
      "run_status run = RunSucceeded" "run_review_log run = None" "\<not> run_blocking run"
    using squatting_succeeds [of ext_service ?c] by (metis prod.collapse)
  have key: "ear_idempotency_key (squatting_request ext_service ?c) = review_key ext_service (cmp_result ?c)"
    by (simp add: squatting_request_def)
  have "registered (ear_idempotency_key (squatting_request ext_service ?c)) ext_world = None" "review_applies ?c"
    by (simp_all add: ext_world_def demo_world_def demo_db_def pg_run_by_key_def pg_run_row_def
        review_applies_def pull_completion_def pull_result_def demo_completion_def demo_result_def default_review_policy_def)
  from extension_key_preempts_review [OF ext_world_ok key this(1) run this(2)] run(1) show ?thesis by blast
qed

end
