(* ===== verification/Review_Callback.thy ===== *)
theory Review_Callback
  imports Review_Recorded App_Demo
begin

section \<open>An accepted callback has its review on record\<close>

text \<open>
  For a build outside a pull request the callback endpoint reviews before it answers, in up to
  three attempts, and answers 503 when none succeeds. Any attempt may stop half-way and the
  next one resumes, and builds of one commit share a key. Under a key that only such reviews
  have used, the run is always one of two shapes, and an answer means that the build carries
  its log.
\<close>

subsection \<open>Runs of reviews that do not apply\<close>

definition skip_shape :: "extension_run \<Rightarrow> bool" where
  "skip_shape r =
     (case run_review_log r of
        None \<Rightarrow> run_status r = RunRunning \<and> run_output r = None
      | Some l \<Rightarrow> run_status r = RunSkipped \<and> log_review_run_id l = run_id r \<and> log_outcome l = OutcomeSkipped)"

definition skip_only :: "string \<Rightarrow> pg_store \<Rightarrow> bool" where
  "skip_only k s = (pg_inv s \<and> (\<forall>r. pg_run_by_key k s = Some r \<longrightarrow> skip_shape r))"

lemma saved_run_lookup:
  assumes "pg_inv s"
  shows "pg_run_by_key k (snd (pg_save_extension_run r s)) = pg_run_by_key k s
    \<or> run_idempotency_key r = k \<and> pg_run_by_key k (snd (pg_save_extension_run r s)) = Some r"
proof (cases "pg_run_by_key (run_idempotency_key r) s")
  case None
  show ?thesis
  proof (cases "pg_run_fresh (run_id r) s")
    case True
    from pg_save_run_new(2) [OF assms None True, of k] show ?thesis by simp
  next
    case False
    with None show ?thesis by (auto simp: pg_save_extension_run_def pg_run_fresh_def pg_run_by_key_def)
  qed
next
  case (Some q)
  from pg_save_run_known(2) [OF assms Some, of k] pg_save_run_known(3) [OF assms Some] show ?thesis
    by (cases "run_id q = run_id r") auto
qed

lemma skip_only_saved:
  assumes "run_idempotency_key r = k \<Longrightarrow> skip_shape r"
  shows "preserves (on_db (skip_only k)) (db (pg_save_extension_run r))"
proof -
  have "skip_only k (snd (pg_save_extension_run r s))" if "skip_only k s" for s
    using saved_run_lookup [of s k r] that assms pg_save_extension_run_inv [of s r] by (auto simp: skip_only_def)
  then show ?thesis by (simp add: preserves_def on_db_def run_db)
qed

lemma skip_only_cong:
  "pg_extension_runs t = pg_extension_runs s \<Longrightarrow> (pg_inv s \<Longrightarrow> pg_inv t) \<Longrightarrow> skip_only k s \<Longrightarrow> skip_only k t"
  by (simp add: skip_only_def pg_run_by_key_def pg_run_row_def)

lemma skip_only_statement:
  assumes "\<And>s. pg_extension_runs (snd (m s)) = pg_extension_runs s" and "\<And>s. pg_inv s \<Longrightarrow> pg_inv (snd (m s))"
  shows "preserves (on_db (skip_only k)) (db m)"
  by (simp add: preserves_def on_db_def run_db skip_only_cong [OF assms(1,2)])

lemma skip_only_quiet: "leaves w_db m \<Longrightarrow> preserves (on_db (skip_only k)) m"
  by (simp add: preserves_def leaves_def on_db_def)

lemma skip_only_steps:
  "preserves (on_db (skip_only k)) now_utc" "preserves (on_db (skip_only k)) uuid4" "preserves (on_db (skip_only k)) (sleep d)"
  "preserves (on_db (skip_only k)) (http_url u)" "preserves (on_db (skip_only k)) (db (pg_get_build i))"
  "preserves (on_db (skip_only k)) (db (pg_get_extension_run_by_key l))"
  "preserves (on_db (skip_only k)) (db (pg_save_build b))" "preserves (on_db (skip_only k)) (db (pg_record_audit row))"
  by (rule skip_only_quiet, rule world_frame leaves_http_url)+
    (rule skip_only_statement, simp_all add: statements_keep_runs pg_save_build_inv pg_record_audit_inv
      pg_get_build_def pg_get_extension_run_by_key_def run_get split: option.splits)+

lemma skip_only_audit: "preserves (on_db (skip_only k)) (audit p a x o1 det)"
  unfolding audit_def by (intro preserve_intros skip_only_steps)


subsection \<open>A review that does not apply\<close>

lemma skip_only_attach:
  assumes "skip_shape (with_log l run)"
  shows "preserves (on_db (skip_only k)) (attach_review_log sv run l q)"
  unfolding attach_review_log_def Let_def with_log_def [unfolded Let_def, symmetric]
  by (intro preserve_intros skip_only_steps skip_only_saved assms)

lemma finished_shape:
  assumes "make_review_log sv c (finish_run run RunSkipped empty_extension_output fin) OutcomeSkipped sm fs acts why t u = Inr l"
  shows "skip_shape (with_log l (finish_run run RunSkipped empty_extension_output fin))"
  using make_review_log_Inr [OF assms]
  by (simp add: skip_shape_def run_review_log_with_log)
    (simp add: run_review_log_def finish_run_def empty_extension_output_def)

lemma preserves_lift_bind: "(\<And>x. r = Inr x \<Longrightarrow> preserves I (k x)) \<Longrightarrow> preserves I (bind_io (lift_io r) k)"
  by (cases r) (auto simp: preserves_def run_bind run_lift)

lemma skip_only_skip: "preserves (on_db (skip_only k)) (skip_review sv p c run started)"
  unfolding skip_review_def Let_def
  by (intro preserves_bind preserves_lift_bind preserves_seq skip_only_steps skip_only_audit skip_only_attach
      finished_shape) assumption

lemma skip_only_claim: "preserves (on_db (skip_only k)) (claim_run sv c started)"
  unfolding claim_run_def Let_def
  by (intro preserve_intros skip_only_steps skip_only_saved) (simp add: skip_shape_def run_review_log_def)

lemma review_run_skips: "\<not> review_applies c \<Longrightarrow> review_run sv p c pre run started = skip_review sv p c run started"
  by (auto simp: review_applies_def review_run_def split: option.split bool.split)

text \<open>An earlier run: one that has its log gives it to this build, one that was cut off is taken up.\<close>

lemma resume_skipped:
  assumes "skip_shape run" and "run_review_log run = Some l" and "\<not> review_applies c"
  shows "resume_previous sv p c run =
      seq_io (attach_review_log sv run (l\<lparr>log_build_id := cmp_build_id c\<rparr>) False) (return_io None)"
    and "preserves (on_db (skip_only k)) (resume_previous sv p c run)"
proof -
  show eq: "resume_previous sv p c run =
      seq_io (attach_review_log sv run (l\<lparr>log_build_id := cmp_build_id c\<rparr>) False) (return_io None)"
    using assms by (simp add: resume_previous_def skip_shape_def)
  have "with_log m run = run" for m
    using assms(2) by (auto simp: with_log_def run_review_log_def split: option.splits)
  then show "preserves (on_db (skip_only k)) (resume_previous sv p c run)"
    unfolding eq by (intro preserves_seq preserves_return skip_only_attach) (simp add: assms(1))
qed

lemma resume_cut_off:
  assumes "skip_shape run" and "run_review_log run = None" and "\<not> review_applies c"
  shows "resume_previous sv p c run = return_io (Some run)"
  using assms by (simp add: resume_previous_def skip_shape_def seq_io_def bind_io_def return_io_def)

text \<open>One attempt, from its lookup.\<close>

lemma process_found:
  assumes "pg_run_by_key (review_key sv (cmp_result c)) (w_db w) = Some run"
  shows "process_ai_review sv p c pre w =
    bind_io (resume_previous sv p c run) (\<lambda>next. case next of None \<Rightarrow> return_io ()
      | Some run' \<Rightarrow> review_run sv p c pre run' (run_created_at run)) w"
  using assms by (simp add: process_ai_review_def run_bind [of "db m" for m] run_db pg_get_extension_run_by_key_def run_get)

lemma process_free:
  assumes "pg_run_by_key (review_key sv (cmp_result c)) (w_db w) = None"
  shows "process_ai_review sv p c pre w =
    bind_io now_utc (\<lambda>started. bind_io (claim_run sv c started) (\<lambda>next. case next of None \<Rightarrow> return_io ()
      | Some (run, started') \<Rightarrow> review_run sv p c pre run started')) w"
  using assms by (simp add: process_ai_review_def run_bind [of "db m" for m] run_db pg_get_extension_run_by_key_def run_get)

lemma found_owned:
  assumes "pg_inv (w_db w)" and "pg_run_by_key k (w_db w) = Some run"
  shows "run_idempotency_key run = k" and "owns_key run w"
proof -
  from assms(2) obtain i row where "pg_run_row k (w_db w) = Some (i, row)" "run = er_data row"
    by (auto simp: pg_run_by_key_def)
  with pg_run_row_dget [OF assms(1)] pg_run_column [OF assms(1)] show "run_idempotency_key run = k" by metis
  with assms show "owns_key run w" by (auto simp: owns_key_def on_db_def key_owned_def)
qed

lemma skip_only_process:
  assumes "\<not> review_applies c"
  shows "preserves (on_db (skip_only (review_key sv (cmp_result c)))) (process_ai_review sv p c pre)"
  unfolding preserves_def
proof (intro allI impI)
  let ?I = "on_db (skip_only (review_key sv (cmp_result c)))"
  fix w
  assume w: "?I w"
  have go: "preserves ?I (review_run sv p c pre run started)" for run started
    unfolding review_run_skips [OF assms] by (rule skip_only_skip)
  show "?I (snd (process_ai_review sv p c pre w))"
  proof (cases "pg_run_by_key (review_key sv (cmp_result c)) (w_db w)")
    case None
    have "preserves ?I (bind_io now_utc (\<lambda>started. bind_io (claim_run sv c started) (\<lambda>next. case next of
        None \<Rightarrow> return_io () | Some (run, started') \<Rightarrow> review_run sv p c pre run started')))"
      by (intro preserve_intros skip_only_steps skip_only_claim go)
    with w show ?thesis unfolding process_free [OF None] preserves_def by blast
  next
    case (Some run)
    with w have shape: "skip_shape run" by (simp add: on_db_def skip_only_def)
    have "preserves ?I (resume_previous sv p c run)"
      by (cases "run_review_log run")
        (simp_all add: resume_cut_off [OF shape _ assms] preserves_return resume_skipped(2) [OF shape _ assms])
    then have "preserves ?I (bind_io (resume_previous sv p c run) (\<lambda>next. case next of None \<Rightarrow> return_io ()
        | Some run' \<Rightarrow> review_run sv p c pre run' (run_created_at run)))"
      by (intro preserve_intros go)
    with w show ?thesis unfolding process_found [OF Some] preserves_def by blast
  qed
qed

text \<open>An attempt that returns has left its record, resumed or not.\<close>

lemma resumed_records:
  assumes "skip_shape run" and "run_review_log run = Some l" and "run_idempotency_key run = k"
  shows "ensures (owns_key run) (on_db (review_recorded k i))
    (attach_review_log sv run (l\<lparr>log_build_id := i\<rparr>) False)"
  using attach_records [of run k "l\<lparr>log_build_id := i\<rparr>" i l False sv] assms
  by (simp add: owns_key_def run_review_log_with_log skip_shape_def outcome_settles_def)

lemma skip_process_records:
  assumes "\<not> review_applies c" and "on_db (skip_only (review_key sv (cmp_result c))) w"
    and "process_ai_review sv p c pre w = (Inr (), t)"
  shows "on_db (review_recorded (review_key sv (cmp_result c)) (cmp_build_id c)) t"
proof (cases "pg_run_by_key (review_key sv (cmp_result c)) (w_db w)")
  case None
  with assms show ?thesis by (auto simp: on_db_def skip_only_def intro: free_key_recorded)
next
  case (Some run)
  from assms(2) have inv: "pg_inv (w_db w)" and shape: "skip_shape run" using Some by (simp_all add: on_db_def skip_only_def)
  note own = found_owned [OF inv Some]
  show ?thesis
  proof (cases "run_review_log run")
    case None
    with assms(3) have "review_run sv p c pre run (run_created_at run) w = (Inr (), t)"
      by (simp add: process_found [OF Some] resume_cut_off [OF shape _ assms(1)] run_bind run_return)
    from ensuresD [OF run_records own(2) this] show ?thesis by (simp add: recorded_def own(1))
  next
    case (Some l)
    with assms(3) have "seq_io (attach_review_log sv run (l\<lparr>log_build_id := cmp_build_id c\<rparr>) False) (return_io None) w
        = (Inr (None :: extension_run option), t)"
      by (auto simp: process_found [OF \<open>pg_run_by_key _ _ = Some run\<close>] resume_skipped(1) [OF shape _ assms(1)]
          run_bind run_seq run_return split: prod.splits sum.splits)
    then show ?thesis
      using ensuresD [OF resumed_records [OF shape Some own(1)] own(2)] by (auto simp: run_return elim!: seq_io_InrE)
  qed
qed


subsection \<open>The attempts and the answer\<close>

lemma attempts_ensure:
  assumes keep: "preserves I m" and give: "ensures I Q m" and pause: "\<And>d. preserves I (sleep d)"
  shows "I w \<Longrightarrow> review_attempts m b k n reason w = (Inr None, t) \<Longrightarrow> n = 0 \<and> reason = None \<or> Q t"
proof (induction n arbitrary: k reason w)
  case 0
  then show ?case by (simp add: run_return)
next
  case (Suc n)
  obtain r u where m: "m w = (r, u)" by (cases "m w")
  note u = preservesD [OF keep Suc.prems(1) m]
  show ?case
  proof (cases r)
    case (Inr x)
    with Suc.prems(2) m ensuresD [OF give Suc.prems(1)] show ?thesis by (simp add: run_bind run_catch run_return)
  next
    case (Inl e)
    with Suc.prems(2) m have "seq_io (if k + 1 < b then sleep (1 / 4 * 2 ^ k) else return_io ())
        (review_attempts m b (k + 1) n (Some e)) u = (Inr None, t)"
      by (simp add: run_bind run_catch run_return)
    then obtain x v where "(if k + 1 < b then sleep (1 / 4 * 2 ^ k) else return_io ()) u = (Inr x, v)"
      and rest: "review_attempts m b (k + 1) n (Some e) v = (Inr None, t)" by (rule seq_io_InrE)
    with u have "I v" by (auto simp: run_return split: if_splits dest: preservesD [OF pause])
    from Suc.IH [OF this rest] show ?thesis by simp
  qed
qed

lemma retry_records:
  assumes "\<not> review_applies c" and "on_db (skip_only (review_key sv (cmp_result c))) w"
    and "process_ai_review_with_retry sv p c pre n w = (Inr True, t)"
  shows "on_db (review_recorded (review_key sv (cmp_result c)) (cmp_build_id c)) t"
proof -
  let ?I = "on_db (skip_only (review_key sv (cmp_result c)))"
    and ?Q = "on_db (review_recorded (review_key sv (cmp_result c)) (cmp_build_id c))"
  have "ensures ?I ?Q (process_ai_review sv p c pre)"
    unfolding ensures_def using skip_process_records [OF assms(1)] by auto
  note tried = attempts_ensure [OF skip_only_process [OF assms(1)] this skip_only_steps(3) assms(2)]
  from assms(3) obtain r u where "review_attempts (process_ai_review sv p c pre) n 0 n None w = (Inr r, u)"
    and rest: "(case r of None \<Rightarrow> return_io (0 < n)
       | Some e \<Rightarrow> seq_io (record_background_failure sv p ''ai_review_background'' (str_uuid (cmp_build_id c)) e
           [(''attempts'', JInt (int n))]) (return_io False)) u = (Inr True, t)"
    unfolding process_ai_review_with_retry_def by (rule bind_io_InrE)
  moreover from rest have "r = None" by (auto simp: run_return elim!: seq_io_InrE split: option.splits)
  ultimately show ?thesis using tried [of n 0 n None u] by (auto simp: run_return)
qed

text \<open>Recording the completion itself leaves the runs alone.\<close>

lemma skip_only_completed: "preserves (on_db (skip_only k)) (complete_build sv p c)"
proof -
  have published: "preserves (on_db (skip_only k)) (publish_ci_status sv p r s x st d i)" for r s x st d i
    using leaves_publish(5) [of sv p r s x st d i] inv_durable.published [of sv p r s x st d i]
    by (simp add: preserves_def leaves_def on_db_def skip_only_def pg_run_by_key_def pg_run_row_def)
  have tables: "preserves (on_db (skip_only k)) (db (pg_record_webhook_once h))"
    "preserves (on_db (skip_only k)) (db (pg_save_queue_item q))" "preserves (on_db (skip_only k)) (db (pg_get_queue_item i))"
    "preserves (on_db (skip_only k)) (db (get_io f))" for h q i f
    by (rule skip_only_statement, simp_all add: statements_keep_runs pg_record_webhook_inv pg_save_queue_item_inv
        pg_get_queue_item_def run_get split: option.splits)+
  have queued: "preserves (on_db (skip_only k)) (set_queue_state b st)" for b st
    unfolding set_queue_state_def by (intro preserve_intros tables)
  show ?thesis
    unfolding complete_build_def complete_matched_def store_completion_def close_completion_def
    by (intro preserve_intros skip_only_steps skip_only_audit published tables queued)
qed

lemma run_on_world: "on_world m s = (Inr x, t) \<Longrightarrow> m (st_world s) = (Inr x, st_world t)"
  by (auto simp: on_world_def split: prod.splits)


text \<open>A branch build of the demonstration repository: its callback arrives and is answered.\<close>

definition branch_app :: app where
  "branch_app = demo_app\<lparr>app_completion := (\<lambda>_. Some (demo_completion Passed None))\<rparr>"

lemma skip_logged:
  assumes "valid_pipeline_result (cmp_result c)" and "res_pull_request (cmp_result c) = None"
    and "1 \<le> length why" and "length why \<le> 500"
  shows "\<exists>l. make_review_log sv c run OutcomeSkipped (why @ '' No GitHub review or AI-review status was published.'') []
       [review_action GithubPullRequestReview NotPerformed why None,
        review_action GithubCommitStatus NotPerformed
          ''A skipped review is not represented as a successful commit status.'' None]
       None started fin = Inr l"
  using assms
  by (simp add: make_review_log_def validated_def valid_ai_review_log_def valid_ai_review_action_def
      valid_pipeline_result_def review_action_def positive_option_def)

lemma skip_returns:
  assumes "owns_key run w" and "fst (pg_get_build (cmp_build_id c) (w_db w)) = Inr b" and "sv_public_base_url sv = None"
    and "valid_pipeline_result (cmp_result c)" and "res_pull_request (cmp_result c) = None"
    and "dget (pg_audit (w_db w)) (env_uuid (w_env w) (w_uuids w)) = None"
  shows "\<exists>t. skip_review sv p c run started w = (Inr (), t)"
proof -
  obtain now w1 where now: "now_utc w = (Inr now, w1)"
    and w1: "w_db w1 = w_db w" "w_env w1 = w_env w" "w_uuids w1 = w_uuids w" by (simp add: now_utc_def)
  let ?run = "finish_run run RunSkipped empty_extension_output now"
    and ?why = "if \<not> rp_enabled (cmp_review c) then ''AI review was disabled by the trusted pipeline policy.''
           else ''AI review applies only to pull-request builds.''"
  have why: "1 \<le> length ?why" "length ?why \<le> 500" by simp_all
  obtain l where log: "make_review_log sv c ?run OutcomeSkipped
       (?why @ '' No GitHub review or AI-review status was published.'') []
       [review_action GithubPullRequestReview NotPerformed ?why None,
        review_action GithubCommitStatus NotPerformed
          ''A skipped review is not represented as a successful commit status.'' None]
       None started now = Inr l"
    using skip_logged [OF assms(4,5), of ?why sv ?run started now] why by blast
  have "owns_key ?run w1" "fst (pg_get_build (log_build_id l) (w_db w1)) = Inr b"
    using assms(1,2) w1 make_review_log_Inr [OF log] by (simp_all add: owns_key_def on_db_def finish_run_def)
  from attach_returns [OF this assms(3)] obtain w2 where "attach_review_log sv ?run l False w1 = (Inr (), w2)"
    and "dget (pg_audit (w_db w2)) (env_uuid (w_env w2) (w_uuids w2)) = None" using w1 assms(6) by metis
  with audit_returns [of w2] show ?thesis
    by (auto simp: skip_review_def Let_def run_bind run_seq run_lift now log)
qed

lemma branch_completes:
  "\<exists>w. complete_build (app_service branch_app) callback_principal (demo_completion Passed None)
      (demo_start\<lparr>w_ticks := Suc 0\<rparr>) = (Inr True, w)
    \<and> pg_extension_runs (w_db w) = [] \<and> dkeys (pg_audit (w_db w)) = [10] \<and> w_uuids w = 1
    \<and> w_env w = demo_env demo_net \<and> (\<exists>b. fst (pg_get_build 2 (w_db w)) = Inr b)"
  by (simp add: demo_start_def callback_principal_def
        complete_build_def complete_matched_def store_completion_def close_completion_def
        same_identity_def is_terminal_def set_queue_state_def audit_def publish_ci_status_def
        completion_delivery_def numeral_3_eq_3 set_status_def github_post_def github_request_def
        build_url_def stripped_url_def completion_state_def completion_text_def branch_app_def
        demo_app_def demo_api_def app_service_def default_settings_def demo_defs run_simps pg_defs)

lemma free_skip_returns:
  assumes "pg_inv (w_db w)" and "pg_extension_runs (w_db w) = []" and "sv_public_base_url sv = None"
    and "fst (pg_get_build (cmp_build_id c) (w_db w)) = Inr b"
    and "valid_pipeline_result (cmp_result c)" and "res_pull_request (cmp_result c) = None"
    and "dget (pg_audit (w_db w)) (env_uuid (w_env w) (Suc (w_uuids w))) = None"
  shows "\<exists>t. process_ai_review sv p c pre w = (Inr (), t)"
proof -
  have free: "pg_run_by_key k (w_db w) = None" for k by (simp add: assms(2) pg_run_by_key_def pg_run_row_def)
  obtain started w1 where now: "now_utc w = (Inr started, w1)"
    and w1: "w_db w1 = w_db w" "w_env w1 = w_env w" "w_uuids w1 = w_uuids w" by (simp add: now_utc_def)
  obtain x w2 where claim: "claim_run sv c started w1 = (Inr x, w2)" "w_env w2 = w_env w" "w_uuids w2 = Suc (w_uuids w)"
      "pg_builds (w_db w2) = pg_builds (w_db w)" "pg_audit (w_db w2) = pg_audit (w_db w)"
    using w1 assms(2) by (simp add: claim_run_def io_simps uuid4_def now_utc_def Let_def pg_save_extension_run_def
        pg_run_row_def)
  from free_key_claimed [OF _ _ claim(1)] assms(1) free w1 obtain run where run: "x = Some (run, started)" "owns_key run w2"
    by metis
  have "fst (pg_get_build (cmp_build_id c) (w_db w2)) = Inr b" using pg_get_build_cong [OF claim(4)] assms(4) by simp
  from skip_returns [OF run(2) this assms(3,5,6)] assms(7) claim
  obtain t where "skip_review sv p c run started w2 = (Inr (), t)" by auto
  then have "review_run sv p c pre run started w2 = (Inr (), t)"
    using assms(6) by (simp add: review_run_skips review_applies_def)
  then show ?thesis by (simp add: process_free [OF free] run_bind now claim(1) run(1))
qed

lemma first_attempt_returns:
  "process_ai_review sv p c pre w = (Inr (), t) \<Longrightarrow> process_ai_review_with_retry sv p c pre 3 w = (Inr True, t)"
  by (simp add: process_ai_review_with_retry_def numeral_3_eq_3 run_bind run_catch run_return)

lemma branch_decoded: "decode_completion branch_app completion_request = Inr (demo_completion Passed None)"
proof -
  have "app_files branch_app = app_files demo_app" "app_settings branch_app = app_settings demo_app"
    by (simp_all add: branch_app_def)
  then have "completion_body branch_app completion_request = completion_body demo_app completion_request"
    by (simp add: completion_body_def signed_body_def cong: if_cong)
  also have "\<dots> = Inr ''{}''"
    unfolding completion_body_def
    by (rule demo_signed_body) (simp_all add: completion_request_def plain_request_def header_def signed_headers_def)
  finally show ?thesis by (simp add: decode_completion_def bind_sum_def) (simp add: branch_app_def)
qed

lemma branch_answered:
  "\<exists>x t. build_completion_endpoint branch_app completion_request ''r-1'' (initial_state branch_app demo_start) = (Inr x, t)"
proof -
  let ?c = "demo_completion Passed None" and ?sv = "app_service branch_app"
  from branch_completes obtain w b where done1: "complete_build ?sv callback_principal ?c (demo_start\<lparr>w_ticks := Suc 0\<rparr>) = (Inr True, w)"
    and w: "pg_extension_runs (w_db w) = []" "dkeys (pg_audit (w_db w)) = [10]" "w_uuids w = 1"
      "w_env w = demo_env demo_net" "fst (pg_get_build 2 (w_db w)) = Inr b"
    by (elim exE conjE) (rule that)
  have valid: "valid_build_completion ?c"
    by (simp add: valid_build_completion_def demo_completion_def demo_result_def valid_pipeline_result_def
        is_sha40_def is_sha40_option_def demo_sha_def valid_review_policy_def default_review_policy_def
        list_all_iff is_hex_def callback_char_def is_alnum_def is_alpha_def is_digit_def)
  have "world_ok (demo_start\<lparr>w_ticks := Suc 0\<rparr>)" using demo_start_ok(1) by (simp add: world_ok_def)
  from keepsD [OF keeps_complete_build [OF valid] this] done1 have "pg_inv (w_db w)"
    by (metis snd_conv world_ok_def pg_ok_def)
  moreover have "sv_public_base_url ?sv = None" by (simp add: branch_app_def demo_app_def demo_api_def demo_service_def app_service_def)
  moreover have "dget (pg_audit (w_db w)) (env_uuid (w_env w) (Suc (w_uuids w))) = None"
    using w by (simp add: dget_None_keys demo_env_def)
  moreover have "valid_pipeline_result (cmp_result ?c)" using valid by (simp add: valid_build_completion_def)
  moreover have "cmp_build_id ?c = 2" "res_pull_request (cmp_result ?c) = None"
    by (simp_all add: demo_completion_def demo_result_def)
  ultimately obtain t where "process_ai_review ?sv callback_principal ?c None w = (Inr (), t)"
    using free_skip_returns [of w ?sv ?c b] w(1,5) by auto
  note done2 = first_attempt_returns [OF this]
  have now: "now_utc demo_start = (Inr 0, demo_start\<lparr>w_ticks := Suc 0\<rparr>)"
    by (simp add: now_utc_def demo_start_def demo_world_def demo_env_def)
  have "\<bar>epoch_seconds 0 - cmp_timestamp ?c\<bar> \<le> set_build_callback_max_age_seconds (app_settings branch_app)"
    by (simp add: epoch_seconds_def demo_completion_def branch_app_def demo_app_def default_settings_def)
  moreover have "res_pull_request (cmp_result ?c) = None" by (simp add: demo_completion_def demo_result_def)
  ultimately show ?thesis
    by (simp add: build_completion_endpoint_def branch_decoded run_bind run_lift run_seq run_catch run_return on_world_def
        initial_state_def now done1 done2)
qed


end
