(* ===== verification/Spec2Isabelle.thy ===== *)
theory Spec2Isabelle
  imports Review_Broker Extension_Runner App_Demo Routes Store_Refinement Service_Properties Concurrency Protocols
    Lifecycle Review_Callback
begin

text \<open>
  A model of the JenkinsService control plane (\<open>src/src/jenkins_service/\<close>) and what its
  operations promise.

  The program. An HTTP application (\<open>app.py\<close>) authenticates and limits requests and serves a
  table of operations (\<open>registry.py\<close>) over REST and over MCP (\<open>mcp_server.py\<close>), and two signed
  endpoints: the completion callback of Jenkins and the webhook of GitHub (\<open>webhook.py\<close>). All of
  them call one service (\<open>service.py\<close>), which keeps repositories, builds, queue items,
  deliveries, extension runs and audit records in a store (\<open>store.py\<close>) and talks to Jenkins,
  GitHub, the review broker (\<open>clients.py\<close>) and the extension runner (\<open>extensions.py\<close>). The broker
  (\<open>review_broker.py\<close>, \<open>review.py\<close>) and the runner (\<open>extension_runner.py\<close>) are separate
  processes of the same package.

  How it is modelled. An operation is a function from a state to an error or a value and the
  next state: \<open>Py_Base\<close> defines this type \<open>io\<close>, its combinators (raise, catch, finally) and
  four ways to reason about it: \<open>keeps\<close> (an invariant and what the result satisfies),
  \<open>leaves\<close> (a part of the state no run changes), \<open>emits\<close> (what a run sends) and \<open>raises\<close>
  (the exceptions that leave it). Exceptions are
  the datatype \<open>error\<close>, classified by the predicates an \<open>except\<close> clause tests. The state of the
  service is \<open>world\<close> (\<open>World\<close>): the tables, the list of everything sent, and an environment
  that answers: a reply may depend on all that was sent before, so every behaviour of the
  peers is an environment. The clock is a function of the number of readings, identifiers of
  the number of draws.

  The theories, from the bottom up:
  \<^item> \<open>Py_Base\<close>, \<open>Py_Data\<close>, \<open>Py_Hash\<close>: effects; strings, integers, UTF-8, Base64 and JSON as
    Python treats them; SHA-256 and HMAC on 32-bit words.
  \<^item> \<open>Models\<close>: the records and validators of \<open>models.py\<close>.
  \<^item> \<open>Store_Spec\<close>: the contracts of a store as locales (\<open>keyed_table\<close>, \<open>once_log\<close>,
    \<open>run_registry\<close>, \<open>service_store\<close>). \<open>Store_Memory\<close> and \<open>Store_Postgres\<close> define the two stores
    and interpret the contracts on them; \<open>Store_Refinement\<close> gives the specification both
    refine, on finite maps, and their agreement.
  \<^item> \<open>Review_Diff\<close>, \<open>Review_Client\<close>, \<open>Review_Broker\<close>: \<open>review.py\<close> and \<open>review_broker.py\<close>.
  \<^item> \<open>Clients\<close>, \<open>Client_Facts\<close>: \<open>clients.py\<close>.
  \<^item> \<open>Service_Core\<close>, \<open>Service_Review\<close>, \<open>Service_Builds\<close>, \<open>Service_Extensions\<close> and their \<open>_Facts\<close>:
    \<open>service.py\<close>. \<open>Completion\<close>, \<open>Review_Properties\<close>, \<open>Extension_Properties\<close>,
    \<open>Service_Properties\<close>: its properties.
  \<^item> \<open>Security\<close>, \<open>Contract\<close>, \<open>Config\<close>, \<open>Webhook\<close>, \<open>Extension_Runner\<close>: the files of these names,
    with the reference extension.
  \<^item> \<open>Registry\<close>, \<open>Registry_Facts\<close>, \<open>Routes\<close>, \<open>Mcp\<close>: the table of operations and its two
    transports. \<open>App\<close>, \<open>App_Facts\<close>: the application.
  \<^item> \<open>Durable\<close>: the locale of table predicates every statement preserves; whatever satisfies
    it is preserved by every operation. \<open>System\<close>: runs of the whole application.
  \<^item> \<open>Interleaving\<close>, \<open>Concurrency\<close>: calls split at their awaits and interleaved. The locale
    \<open>claiming\<close> is the contract of a call that claims a key before it acts; extension actions,
    completion callbacks and webhook deliveries interpret it.
  \<^item> \<open>Protocols\<close>: the two clients of the service against the models of their servers, the
    broker and the runner. The locale \<open>remote_call\<close> is the contract of a client that makes one
    exchange; both clients interpret it.
  \<^item> \<open>Review_Recorded\<close>, \<open>Review_Callback\<close>: a review from a free key to its record on the build
    (\<open>ensures\<close>: what holds when an operation returns), resumed attempts, and the answer of the
    callback endpoint; the key of a review taken by an extension action.
  \<^item> \<open>Lifecycle\<close>: the connection pool, the owned HTTP clients and the lifespan hooks.
  \<^item> \<open>Demo\<close>, \<open>App_Demo\<close>: a deployment on which the witnesses evaluate the model.

  What is shown. Of whole runs: the store stays consistent, the limiter's bound, audit records
  and idempotency keys are never taken back, a delivery acts once. Of requests: what may have
  an effect without a token or a signature. Of the service: the effect of a completion, what
  a review may send and when it may report success, that a review which returns is on record
  and that an answered callback means so, extension actions once and within their
  manifest, rollback of a registration, cancellation. Of calls that overlap: an idempotency key
  starts one run and a delivery is accepted once, while two reviews with one key can both run,
  and an extension action can take the key of a review and so decide it.
  Of the service with its broker and runner: a client returns what its server computed, and the
  service's checks accept every review of a broker with its configuration. Of the transports: REST and MCP do the
  same. Of the stores: both refine one specification. Of the pure parts: the diff parser
  inverts a diff printer, token files are read back, the contract rules are exactly the stated
  ones.

  Bounds and fuel. Loops of the code with a fixed number of attempts (\<open>publish_attempts\<close>,
  \<open>await_migration\<close>, \<open>create_folder\<close>, \<open>review_attempts\<close>, \<open>openai_attempts\<close>) recurse on that number,
  so the number is the code's and no result is lost. Text to integer conversion has Python's
  limit of 4300 digits. Everything else is structural or proved to terminate.

  What code outside the repository does is an argument with only what its documentation says:
  JSON and YAML parsing, JSON schema validation, regular expressions, pydantic's decoding of
  request bodies (of which only validity of the result is assumed: \<open>decoders_ok\<close>), FastMCP's
  transport, Docker. \<open>py_lower\<close> and \<open>py_upper\<close> change ASCII letters only. Timestamps are whole
  microseconds.

  What the framework does between a client and a server of this package (routing, decoding a
  request model, printing a response model, the status of an \<open>HTTPException\<close>) is a hypothesis on
  the reply: \<open>shown_by\<close>, \<open>decodes_requests\<close>, \<open>decodes_reviews\<close>, \<open>decodes_runs\<close>, \<open>decodes_outputs\<close>.

  Not modelled. In \<open>System\<close> the handling of one request runs to its end before the next begins,
  except that background tasks run at any later moment; \<open>Concurrency\<close> interleaves the four
  operations that claim a key, at the awaits around the claim, with arbitrary other changes to
  the tables that the statements of the store could make. The bounded retries of a status and the
  exchanges inside an extension's run are one section there. The \<open>uvicorn\<close> entry points only
  start a server. The Groovy library, containers and scripts are not Python.
\<close>

end
